(* ===== verification/Prelude.thy ===== *)
theory Prelude
  imports Main "HOL-Library.Sublist" "HOL-Library.Word"
begin

text \<open>
  Shared vocabulary of the Locksmith development: the result type, the byte
  strings and the string operations of the Rust standard library that the
  sources use, HTTP header lists, and the row operations of the SQLite tables.

  A Rust \<open>String\<close> is modelled by its sequence of bytes (\<open>string\<close>, one
  \<open>char\<close> per byte).  The operations below are the ASCII ones: header values,
  token strings, tool names and URLs reach the code as ASCII.
\<close>

named_theorems table_simps \<open>unfolding of the row operations of a table\<close>
named_theorems inv_intros \<open>preservation lemmas for the table invariants\<close>
named_theorems strip_simps \<open>membership in stripped and rebuilt header lists\<close>

type_synonym ('e, 'a) result = "'e + 'a"
type_synonym headers = "(string \<times> string) list"
type_synonym bytes = "8 word list"
type_synonym unix_secs = int

section \<open>Definitions\<close>

subsection \<open>JSON values\<close>

text \<open>
  \<open>serde_json::Value\<close>.  Integer numbers are integers, any other number is
  kept as its literal.  An object is the list of its members.
\<close>

datatype json =
    JNull
  | JBool bool
  | JNum int
  | JReal string
  | JStr string
  | JArr "json list"
  | JObj "(string \<times> json) list"

definition obj_get :: "string \<Rightarrow> (string \<times> json) list \<Rightarrow> json option" where
  "obj_get k m = map_of m k"

definition obj_remove :: "string \<Rightarrow> (string \<times> json) list \<Rightarrow> (string \<times> json) list" where
  "obj_remove k m = filter (\<lambda>e. fst e \<noteq> k) m"

definition obj_insert :: "string \<Rightarrow> json \<Rightarrow> (string \<times> json) list \<Rightarrow> (string \<times> json) list" where
  "obj_insert k v m = (k, v) # obj_remove k m"

definition json_get :: "string \<Rightarrow> json \<Rightarrow> json option" where
  "json_get k j = (case j of JObj m \<Rightarrow> obj_get k m | _ \<Rightarrow> None)"

definition json_str :: "json \<Rightarrow> string option" where
  "json_str j = (case j of JStr s \<Rightarrow> Some s | _ \<Rightarrow> None)"

definition opt_str :: "string option \<Rightarrow> json" where
  "opt_str s = (case s of None \<Rightarrow> JNull | Some x \<Rightarrow> JStr x)"

subsection \<open>Clock\<close>

text \<open>One clock reading in milliseconds since the epoch; \<open>unix_now\<close> is its seconds.\<close>

definition secs_of :: "int \<Rightarrow> int" where
  "secs_of clk = clk div 1000"

subsection \<open>Unsigned 64-bit arithmetic and decimal numerals\<close>

definition sat_add64 :: "nat \<Rightarrow> nat \<Rightarrow> nat" where
  "sat_add64 a b = min (a + b) (2 ^ 64 - 1)"

fun digits :: "nat \<Rightarrow> string" where
  "digits n = (if n < 10 then [char_of (48 + n)]
               else digits (n div 10) @ [char_of (48 + n mod 10)])"

declare digits.simps [simp del]

definition show_int :: "int \<Rightarrow> string" where
  "show_int i = (if i < 0 then CHR ''-'' # digits (nat (- i)) else digits (nat i))"

definition pad_zero :: "nat \<Rightarrow> string \<Rightarrow> string" where
  "pad_zero w s = replicate (w - length s) (CHR ''0'') @ s"

subsection \<open>Strings\<close>

definition ascii_lower :: "char \<Rightarrow> char" where
  "ascii_lower c = (let n = of_char c :: nat in
     if 65 \<le> n \<and> n \<le> 90 then char_of (n + 32) else c)"

definition is_alnum :: "char \<Rightarrow> bool" where
  "is_alnum c = (let n = of_char c :: nat in
     (48 \<le> n \<and> n \<le> 57) \<or> (65 \<le> n \<and> n \<le> 90) \<or> (97 \<le> n \<and> n \<le> 122))"

definition to_lower :: "string \<Rightarrow> string" where
  "to_lower s = map ascii_lower s"

definition eq_ignore_ascii_case :: "string \<Rightarrow> string \<Rightarrow> bool" where
  "eq_ignore_ascii_case a b = (to_lower a = to_lower b)"

definition is_ws :: "char \<Rightarrow> bool" where
  "is_ws c = (let n = of_char c :: nat in (9 \<le> n \<and> n \<le> 13) \<or> n = 32)"

definition is_ctl :: "char \<Rightarrow> bool" where
  "is_ctl c = (let n = of_char c :: nat in n < 32 \<or> n = 127)"

definition trim_start :: "string \<Rightarrow> string" where
  "trim_start s = dropWhile is_ws s"

definition trim_end :: "string \<Rightarrow> string" where
  "trim_end s = rev (dropWhile is_ws (rev s))"

definition trim :: "string \<Rightarrow> string" where
  "trim s = trim_end (trim_start s)"

definition trim_end_matches :: "char \<Rightarrow> string \<Rightarrow> string" where
  "trim_end_matches c s = rev (dropWhile (\<lambda>x. x = c) (rev s))"

definition starts_with :: "string \<Rightarrow> string \<Rightarrow> bool" where
  "starts_with p s = (take (length p) s = p)"

definition ends_with :: "string \<Rightarrow> string \<Rightarrow> bool" where
  "ends_with q s = starts_with (rev q) (rev s)"

definition strip_prefix :: "string \<Rightarrow> string \<Rightarrow> string option" where
  "strip_prefix p s = (if starts_with p s then Some (drop (length p) s) else None)"

fun find_sub :: "string \<Rightarrow> string \<Rightarrow> nat option" where
  "find_sub p [] = (if p = [] then Some 0 else None)"
| "find_sub p (c # s) =
     (if starts_with p (c # s) then Some 0 else map_option Suc (find_sub p s))"

definition contains_str :: "string \<Rightarrow> string \<Rightarrow> bool" where
  "contains_str p s = (find_sub p s \<noteq> None)"

fun split_once :: "char \<Rightarrow> string \<Rightarrow> (string \<times> string) option" where
  "split_once c [] = None"
| "split_once c (x # xs) =
     (if x = c then Some ([], xs)
      else map_option (\<lambda>(a, b). (x # a, b)) (split_once c xs))"

fun split_on :: "char \<Rightarrow> string \<Rightarrow> string list" where
  "split_on c [] = [[]]"
| "split_on c (x # xs) =
     (if x = c then [] # split_on c xs
      else (case split_on c xs of [] \<Rightarrow> [[x]] | p # ps \<Rightarrow> (x # p) # ps))"

text \<open>\<open>str::lines\<close>: no final empty line, and a carriage return before the line feed is dropped.\<close>

definition text_lines :: "string \<Rightarrow> string list" where
  "text_lines s =
     (let ps = split_on (CHR 0x0A) s;
          qs = (if last ps = [] then butlast ps else ps)
      in map (\<lambda>l. if l \<noteq> [] \<and> last l = CHR 0x0D then butlast l else l) qs)"

fun join_str :: "string \<Rightarrow> string list \<Rightarrow> string" where
  "join_str sep [] = []"
| "join_str sep [x] = x"
| "join_str sep (x # xs) = x @ sep @ join_str sep xs"

subsection \<open>Header maps\<close>

text \<open>
  The \<open>http\<close> crate stores header names in lower case and keeps repeated
  headers; \<open>hdr_get\<close> returns the first value, \<open>hdr_insert\<close> replaces every
  value of the name and \<open>hdr_append\<close> adds one.
\<close>

definition hdr_get :: "string \<Rightarrow> headers \<Rightarrow> string option" where
  "hdr_get n hs = map_option snd (List.find (\<lambda>h. fst h = n) hs)"

definition hdr_remove :: "string \<Rightarrow> headers \<Rightarrow> headers" where
  "hdr_remove n hs = filter (\<lambda>h. fst h \<noteq> n) hs"

definition hdr_insert :: "string \<Rightarrow> string \<Rightarrow> headers \<Rightarrow> headers" where
  "hdr_insert n v hs = hdr_remove n hs @ [(n, v)]"

definition hdr_append :: "string \<Rightarrow> string \<Rightarrow> headers \<Rightarrow> headers" where
  "hdr_append n v hs = hs @ [(n, v)]"

subsection \<open>Table rows\<close>

text \<open>\<open>UPDATE t SET .. WHERE p\<close> and the number of rows it affects.\<close>

definition update_where :: "('r \<Rightarrow> bool) \<Rightarrow> ('r \<Rightarrow> 'r) \<Rightarrow> 'r list \<Rightarrow> 'r list" where
  "update_where p f rows = map (\<lambda>r. if p r then f r else r) rows"

definition rows_affected :: "('r \<Rightarrow> bool) \<Rightarrow> 'r list \<Rightarrow> nat" where
  "rows_affected p rows = length (filter p rows)"

definition next_rowid :: "int list \<Rightarrow> int" where
  "next_rowid ids = foldr max ids 0 + 1"

section \<open>Lemmas\<close>

subsection \<open>String operations\<close>

lemma split_once_SomeI:
  assumes "c \<notin> set a"
  shows "split_once c (a @ c # b) = Some (a, b)"
  using assms by (induction a) auto

lemma split_once_SomeD:
  assumes "split_once c s = Some (a, b)"
  shows "s = a @ c # b \<and> c \<notin> set a"
  using assms
  by (induction s arbitrary: a b) (auto split: if_splits)

lemma split_once_iff:
  "split_once c s = Some (a, b) \<longleftrightarrow> s = a @ c # b \<and> c \<notin> set a"
  using split_once_SomeD split_once_SomeI by blast

lemma split_once_None_iff:
  "split_once c s = None \<longleftrightarrow> c \<notin> set s"
  by (induction s) (auto split: if_splits)

lemma starts_with_iff_prefix:
  "starts_with p s \<longleftrightarrow> prefix p s"
  unfolding starts_with_def
  by (metis append_eq_conv_conj append_take_drop_id prefix_def)

lemma starts_with_append [simp]: "starts_with p (p @ s)"
  by (simp add: starts_with_def)

lemma strip_prefix_append [simp]: "strip_prefix p (p @ s) = Some s"
  by (simp add: strip_prefix_def)

lemma strip_prefix_SomeD:
  assumes "strip_prefix p s = Some r"
  shows "s = p @ r"
  using assms
  by (auto simp: strip_prefix_def starts_with_def split: if_splits)
     (metis append_take_drop_id)

lemma strip_prefix_iff: "strip_prefix p s = Some r \<longleftrightarrow> s = p @ r"
  using strip_prefix_SomeD by auto

lemma ends_with_iff_suffix: "ends_with q s \<longleftrightarrow> suffix q s"
  by (simp add: ends_with_def starts_with_iff_prefix suffix_to_prefix)

lemma contains_str_iff: "contains_str p s \<longleftrightarrow> (\<exists>a b. s = a @ p @ b)"
proof (induction s)
  case Nil
  show ?case by (simp add: contains_str_def)
next
  case (Cons c s)
  have "contains_str p (c # s) \<longleftrightarrow> starts_with p (c # s) \<or> contains_str p s"
    by (simp add: contains_str_def)
  also have "\<dots> \<longleftrightarrow> (\<exists>a b. c # s = a @ p @ b)"
    unfolding Cons.IH starts_with_iff_prefix prefix_def
    by (metis append_Cons append_Nil list.exhaust list.inject)
  finally show ?case .
qed

lemma split_on_not_Nil [simp]: "split_on c s \<noteq> []"
  by (induction s) (auto split: list.splits)

lemma concat_split_on_set:
  "p \<in> set (split_on c s) \<Longrightarrow> c \<notin> set p"
  by (induction s arbitrary: p) (auto split: list.splits if_splits)

lemma split_on_length: "length (split_on c s) = Suc (count_list s c)"
  by (induction s) (auto split: list.splits)

lemma split_on_none: "c \<notin> set a \<Longrightarrow> split_on c a = [a]"
  by (induction a) auto

lemma split_on_append: "split_on c (a @ c # b) = split_on c a @ split_on c b"
  by (induction a) (auto split: list.splits)

lemma split_on_seg: "c \<notin> set a \<Longrightarrow> split_on c (a @ c # b) = a # split_on c b"
  by (simp add: split_on_append split_on_none)

lemma is_ws_lower [simp]: "is_ws (ascii_lower c) = is_ws c"
  by (auto simp: is_ws_def ascii_lower_def Let_def)

lemma trim_to_lower: "trim (to_lower s) = to_lower (trim s)"
  by (simp add: trim_def trim_start_def trim_end_def to_lower_def dropWhile_map rev_map comp_def)

lemma trim_end_start:
  "dropWhile is_ws (trim_end (dropWhile is_ws s)) = trim_end (dropWhile is_ws s)"
proof (cases "dropWhile is_ws s")
  case (Cons c t)
  then have "\<not> is_ws c" using hd_dropWhile [of is_ws s] by simp
  then have "trim_end (c # t) = c # trim_end t"
    by (simp add: trim_end_def dropWhile_append)
  with Cons \<open>\<not> is_ws c\<close> show ?thesis by simp
next
  case Nil
  show ?thesis unfolding Nil by (simp add: trim_end_def)
qed

lemma trim_idem [simp]: "trim (trim s) = trim s"
proof -
  have "trim_end (trim_end x) = trim_end x" for x by (simp add: trim_end_def)
  then show ?thesis using trim_end_start [of s] by (simp add: trim_def trim_start_def)
qed

lemma to_lower_idem [simp]: "to_lower (to_lower s) = to_lower s"
  by (induction s) (auto simp: to_lower_def ascii_lower_def Let_def)

lemma eq_ignore_case_refl [simp]: "eq_ignore_ascii_case a a"
  by (simp add: eq_ignore_ascii_case_def)

lemma trim_end_matches_no_trailing:
  "trim_end_matches c s \<noteq> [] \<Longrightarrow> last (trim_end_matches c s) \<noteq> c"
  using hd_dropWhile [of "\<lambda>x. x = c" "rev s"]
  by (auto simp: trim_end_matches_def last_rev)

subsection \<open>JSON objects\<close>

lemma obj_get_insert_same [simp]: "obj_get k (obj_insert k v m) = Some v"
  by (simp add: obj_get_def obj_insert_def)

lemma obj_get_remove_same [simp]: "obj_get k (obj_remove k m) = None"
  by (auto simp: obj_get_def obj_remove_def map_of_eq_None_iff)

lemma obj_get_remove_other: "k \<noteq> j \<Longrightarrow> obj_get k (obj_remove j m) = obj_get k m"
  by (induction m) (auto simp: obj_get_def obj_remove_def)

lemma obj_get_insert_other: "k \<noteq> j \<Longrightarrow> obj_get k (obj_insert j v m) = obj_get k m"
  using obj_get_remove_other [of k j m]
  by (simp add: obj_get_def obj_insert_def)

subsection \<open>Header maps\<close>

lemma hdr_remove_set [strip_simps]:
  "(n, v) \<in> set (hdr_remove m hs) \<longleftrightarrow> (n, v) \<in> set hs \<and> n \<noteq> m"
  by (auto simp: hdr_remove_def)

lemma hdr_insert_set [strip_simps]:
  "(n, v) \<in> set (hdr_insert m w hs) \<longleftrightarrow>
   (n = m \<and> v = w) \<or> ((n, v) \<in> set hs \<and> n \<noteq> m)"
  by (auto simp: hdr_insert_def strip_simps)

lemma hdr_append_set [strip_simps]:
  "(n, v) \<in> set (hdr_append m w hs) \<longleftrightarrow> (n = m \<and> v = w) \<or> (n, v) \<in> set hs"
  by (auto simp: hdr_append_def)

lemma find_append:
  "List.find p (xs @ ys) =
   (case List.find p xs of Some x \<Rightarrow> Some x | None \<Rightarrow> List.find p ys)"
  by (induction xs) auto

lemma hdr_get_insert [simp]:
  "hdr_get n (hdr_insert n v hs) = Some v"
proof -
  have "List.find (\<lambda>h. fst h = n) (hdr_remove n hs) = None"
    by (auto simp: find_None_iff hdr_remove_def)
  then show ?thesis by (simp add: hdr_get_def hdr_insert_def find_append)
qed

subsection \<open>Table rows\<close>

lemma find_update_where_other [table_simps]:
  assumes "\<And>r. p r \<Longrightarrow> \<not> q r" "\<And>r. p r \<Longrightarrow> \<not> q (f r)"
  shows "List.find q (update_where p f rows) = List.find q rows"
  using assms by (induction rows) (auto simp: update_where_def)

lemma find_update_where_same:
  assumes "\<And>r. q (f r) = q r"
  shows "List.find q (update_where p f rows) =
         map_option (\<lambda>r. if p r then f r else r) (List.find q rows)"
  using assms by (induction rows) (auto simp: update_where_def)

lemma map_update_where_frame [table_simps]:
  assumes "\<And>r. p r \<Longrightarrow> g (f r) = g r"
  shows "map g (update_where p f rows) = map g rows"
  using assms by (simp add: update_where_def)

lemma set_update_where [table_simps]:
  "set (update_where p f rows) = {if p r then f r else r | r. r \<in> set rows}"
  by (auto simp: update_where_def)

lemma length_update_where [simp]: "length (update_where p f rows) = length rows"
  by (simp add: update_where_def)

lemma rows_affected_0_iff [table_simps]:
  "rows_affected p rows = 0 \<longleftrightarrow> (\<forall>r \<in> set rows. \<not> p r)"
  by (auto simp: rows_affected_def filter_empty_conv)

lemma update_where_none:
  assumes "\<forall>r \<in> set rows. \<not> p r"
  shows "update_where p f rows = rows"
  using assms by (induction rows) (auto simp: update_where_def)

lemma find_Some_in_set:
  "List.find p xs = Some x \<Longrightarrow> x \<in> set xs \<and> p x"
  by (auto simp: find_Some_iff)

lemma find_distinct_key:
  assumes "distinct (map k rows)" "r \<in> set rows" "k r = v"
  shows "List.find (\<lambda>x. k x = v) rows = Some r"
  using assms
proof (induction rows)
  case (Cons a rows)
  then show ?case by (cases "k a = v") force+
qed simp

lemma next_rowid_fresh: "i \<in> set ids \<Longrightarrow> i < next_rowid ids"
proof -
  have "\<forall>i \<in> set ids. i \<le> foldr max ids 0" for ids :: "int list"
    by (induction ids) (auto simp: le_max_iff_disj)
  then show "i \<in> set ids \<Longrightarrow> i < next_rowid ids"
    by (simp add: next_rowid_def zle_add1_eq_le)
qed

end
