(* ===== verification/Token.thy ===== *)
theory Token
  imports Prelude
begin

text \<open>
  The structured bearer tokens of \<open>src/token.rs\<close>: the three namespaces, the
  wire format \<open><prefix>_<public_id>.<secret>\<close> and its parser.  The base64 codec
  is a third-party crate: the operations take it as a parameter, the locale
  \<open>base64url\<close> states the part of RFC 4648 the code relies on, and the codec of
  that RFC (section 5, without padding) is shown to meet the contract.
\<close>

section \<open>Definitions\<close>

datatype TokenNamespace = Agent | Operator | Bootstrap

datatype PublicId = PublicId (as_str: string)

datatype Secret = Secret (expose: string)

record StructuredToken =
  tk_namespace :: TokenNamespace
  tk_public_id :: PublicId
  tk_secret :: Secret

datatype ParseError = UnknownNamespace | MissingSeparator | InvalidLength | InvalidEncoding

fun ns_prefix :: "TokenNamespace \<Rightarrow> string" where
  "ns_prefix Agent = ''lk''"
| "ns_prefix Operator = ''lkop''"
| "ns_prefix Bootstrap = ''lkbt''"

definition from_prefix :: "string \<Rightarrow> TokenNamespace option" where
  "from_prefix s =
     (if s = ''lk'' then Some Agent
      else if s = ''lkop'' then Some Operator
      else if s = ''lkbt'' then Some Bootstrap
      else None)"

definition generate :: "(bytes \<Rightarrow> string) \<Rightarrow> TokenNamespace \<Rightarrow> bytes \<Rightarrow> bytes \<Rightarrow> StructuredToken" where
  "generate enc ns id_bytes secret_bytes =
     \<lparr> tk_namespace = ns, tk_public_id = PublicId (enc id_bytes), tk_secret = Secret (enc secret_bytes) \<rparr>"

definition wire_format :: "StructuredToken \<Rightarrow> string" where
  "wire_format t =
     ns_prefix (tk_namespace t) @ ''_'' @ as_str (tk_public_id t) @ ''.'' @ expose (tk_secret t)"

definition PUBLIC_ID_LEN :: nat where "PUBLIC_ID_LEN = 22"

definition SECRET_LEN :: nat where "SECRET_LEN = 43"

definition parse ::
  "(string \<Rightarrow> bytes option) \<Rightarrow> string \<Rightarrow> (ParseError, TokenNamespace \<times> PublicId \<times> Secret) result" where
  "parse dec input =
     (case split_once (CHR ''_'') input of
        None \<Rightarrow> Inl UnknownNamespace
      | Some (prefix_part, rest) \<Rightarrow>
          (case from_prefix prefix_part of
             None \<Rightarrow> Inl UnknownNamespace
           | Some ns \<Rightarrow>
               (case split_once (CHR ''.'') rest of
                  None \<Rightarrow> Inl MissingSeparator
                | Some (public_id_str, secret_str) \<Rightarrow>
                    if length public_id_str \<noteq> PUBLIC_ID_LEN \<or> length secret_str \<noteq> SECRET_LEN
                    then Inl InvalidLength
                    else if dec public_id_str = None \<or> dec secret_str = None
                    then Inl InvalidEncoding
                    else Inr (ns, PublicId public_id_str, Secret secret_str))))"

subsection \<open>The base64 codec\<close>

definition b64url_alphabet :: string where
  "b64url_alphabet =
     ''ABCDEFGHIJKLMNOPQRSTUVWXYZabcdefghijklmnopqrstuvwxyz0123456789-_''"

definition b64url_char :: "nat \<Rightarrow> char" where
  "b64url_char i = b64url_alphabet ! i"

fun index_of :: "'a \<Rightarrow> 'a list \<Rightarrow> nat option" where
  "index_of x [] = None"
| "index_of x (y # ys) = (if x = y then Some 0 else map_option Suc (index_of x ys))"

fun sextets :: "bytes \<Rightarrow> nat list" where
  "sextets [] = []"
| "sextets [a] = [unat a div 4, unat a mod 4 * 16]"
| "sextets [a, b] =
     [unat a div 4, unat a mod 4 * 16 + unat b div 16, unat b mod 16 * 4]"
| "sextets (a # b # c # r) =
     [unat a div 4, unat a mod 4 * 16 + unat b div 16,
      unat b mod 16 * 4 + unat c div 64, unat c mod 64] @ sextets r"

fun octets :: "nat list \<Rightarrow> bytes option" where
  "octets [] = Some []"
| "octets [x] = None"
| "octets [x, y] =
     (if y mod 16 = 0 then Some [of_nat (x * 4 + y div 16)] else None)"
| "octets [x, y, z] =
     (if z mod 4 = 0
      then Some [of_nat (x * 4 + y div 16), of_nat (y mod 16 * 16 + z div 4)]
      else None)"
| "octets (x # y # z # w # r) =
     map_option (\<lambda>bs. of_nat (x * 4 + y div 16) # of_nat (y mod 16 * 16 + z div 4)
                      # of_nat (z mod 4 * 64 + w) # bs) (octets r)"

fun seq_opt :: "'a option list \<Rightarrow> 'a list option" where
  "seq_opt [] = Some []"
| "seq_opt (None # xs) = None"
| "seq_opt (Some x # xs) = map_option (Cons x) (seq_opt xs)"

definition b64url_encode :: "bytes \<Rightarrow> string" where
  "b64url_encode bs = map b64url_char (sextets bs)"

definition b64url_decode :: "string \<Rightarrow> bytes option" where
  "b64url_decode s =
     Option.bind (seq_opt (map (\<lambda>c. index_of c b64url_alphabet) s)) octets"

section \<open>The codec contract\<close>

lemma from_prefix_iff: "from_prefix s = Some ns \<longleftrightarrow> s = ns_prefix ns"
  by (cases ns) (auto simp: from_prefix_def)

lemma from_prefix_ns_prefix [simp]: "from_prefix (ns_prefix ns) = Some ns"
  by (simp add: from_prefix_iff)

locale base64url =
  fixes enc :: "bytes \<Rightarrow> string" and dec :: "string \<Rightarrow> bytes option"
  assumes dec_enc: "dec (enc bs) = Some bs"
    and enc_length: "length (enc bs) = (4 * length bs + 2) div 3"
    and enc_alphabet: "set (enc bs) \<subseteq> set b64url_alphabet"
begin

lemma enc_inj: "enc bs = enc bs' \<Longrightarrow> bs = bs'"
  by (metis dec_enc option.inject)

lemma no_dot: "CHR ''.'' \<notin> set (enc bs)"
  using enc_alphabet [of bs] by (auto simp: b64url_alphabet_def)

lemma parse_generated:
  assumes "length id_bytes = 16" "length secret_bytes = 32"
  shows "parse dec (wire_format (generate enc ns id_bytes secret_bytes)) =
         Inr (ns, PublicId (enc id_bytes), Secret (enc secret_bytes))"
proof -
  let ?rest = "enc id_bytes @ CHR ''.'' # enc secret_bytes"
  have "split_once (CHR ''_'') (ns_prefix ns @ CHR ''_'' # ?rest) = Some (ns_prefix ns, ?rest)"
    by (rule split_once_SomeI) (cases ns; simp)
  moreover have "split_once (CHR ''.'') ?rest = Some (enc id_bytes, enc secret_bytes)"
    by (rule split_once_SomeI) (rule no_dot)
  ultimately show ?thesis
    using assms
    by (simp add: parse_def wire_format_def generate_def enc_length dec_enc
                  PUBLIC_ID_LEN_def SECRET_LEN_def)
qed

end

section \<open>RFC 4648 meets the contract\<close>

lemma b64url_alphabet_length: "length b64url_alphabet = 64"
  by (simp add: b64url_alphabet_def)

lemma b64url_alphabet_distinct: "distinct b64url_alphabet"
  by (simp add: b64url_alphabet_def)

lemma index_of_nth:
  "distinct xs \<Longrightarrow> i < length xs \<Longrightarrow> index_of (xs ! i) xs = Some i"
  by (induction xs arbitrary: i) (auto simp: nth_Cons split: nat.splits)

lemma index_of_b64url_char:
  "i < 64 \<Longrightarrow> index_of (b64url_char i) b64url_alphabet = Some i"
  by (simp add: b64url_char_def index_of_nth b64url_alphabet_length b64url_alphabet_distinct)

lemma unat_byte_bound: "unat (a :: 8 word) < 256"
  using unsigned_less [of a] by simp

lemma sextets_bound: "\<forall>x \<in> set (sextets bs). x < 64"
proof (induction bs rule: sextets.induct)
  case (2 a)
  then show ?case using unat_byte_bound [of a] by auto
next
  case (3 a b)
  then show ?case using unat_byte_bound [of a] unat_byte_bound [of b] by auto
next
  case (4 a b c r)
  then show ?case
    using unat_byte_bound [of a] unat_byte_bound [of b] unat_byte_bound [of c] by auto
qed simp

lemma sextets_length: "length (sextets bs) = (4 * length bs + 2) div 3"
  by (induction bs rule: sextets.induct) auto

lemma of_nat_unat_eq: "n = unat (a :: 8 word) \<Longrightarrow> of_nat n = a"
  by simp

lemma octets_sextets: "octets (sextets bs) = Some bs"
proof (induction bs rule: sextets.induct)
  case (2 a)
  then show ?case by (auto intro!: of_nat_unat_eq)
next
  case (3 a b)
  then show ?case
    using unat_byte_bound [of b] by (auto intro!: of_nat_unat_eq)
next
  case (4 a b c r)
  then show ?case
    using unat_byte_bound [of b] unat_byte_bound [of c]
    by (auto intro!: of_nat_unat_eq)
qed simp

lemma seq_opt_map_Some:
  "\<forall>x \<in> set xs. f x = Some (g x) \<Longrightarrow> seq_opt (map f xs) = Some (map g xs)"
  by (induction xs) auto

lemma b64url_roundtrip: "b64url_decode (b64url_encode bs) = Some bs"
proof -
  have "seq_opt (map (\<lambda>c. index_of c b64url_alphabet) (map b64url_char (sextets bs))) =
        Some (map (\<lambda>x. x) (sextets bs))"
    using sextets_bound [of bs]
    unfolding map_map by (intro seq_opt_map_Some) (auto simp: index_of_b64url_char)
  then show ?thesis
    by (simp add: b64url_decode_def b64url_encode_def octets_sextets)
qed

interpretation rfc4648: base64url b64url_encode b64url_decode
proof
  fix bs :: bytes
  show "b64url_decode (b64url_encode bs) = Some bs" by (rule b64url_roundtrip)
  show "length (b64url_encode bs) = (4 * length bs + 2) div 3"
    by (simp add: b64url_encode_def sextets_length)
  show "set (b64url_encode bs) \<subseteq> set b64url_alphabet"
    using sextets_bound [of bs]
    by (auto simp: b64url_encode_def b64url_char_def b64url_alphabet_length)
qed

section \<open>Tokens\<close>

lemma parse_Inr_iff:
  "parse dec s = Inr (ns, pid, sec) \<longleftrightarrow>
     s = wire_format \<lparr> tk_namespace = ns, tk_public_id = pid, tk_secret = sec \<rparr> \<and>
     length (as_str pid) = 22 \<and> length (expose sec) = 43 \<and>
     CHR ''.'' \<notin> set (as_str pid) \<and>
     dec (as_str pid) \<noteq> None \<and> dec (expose sec) \<noteq> None"
proof
  assume "parse dec s = Inr (ns, pid, sec)"
  then show "s = wire_format \<lparr> tk_namespace = ns, tk_public_id = pid, tk_secret = sec \<rparr> \<and>
     length (as_str pid) = 22 \<and> length (expose sec) = 43 \<and>
     CHR ''.'' \<notin> set (as_str pid) \<and>
     dec (as_str pid) \<noteq> None \<and> dec (expose sec) \<noteq> None"
    by (auto simp: parse_def split_once_iff from_prefix_iff wire_format_def
                   PUBLIC_ID_LEN_def SECRET_LEN_def
             split: option.splits if_splits)
next
  assume a: "s = wire_format \<lparr> tk_namespace = ns, tk_public_id = pid, tk_secret = sec \<rparr> \<and>
     length (as_str pid) = 22 \<and> length (expose sec) = 43 \<and>
     CHR ''.'' \<notin> set (as_str pid) \<and>
     dec (as_str pid) \<noteq> None \<and> dec (expose sec) \<noteq> None"
  then have "split_once (CHR ''_'') s = Some (ns_prefix ns, as_str pid @ ''.'' @ expose sec)"
    by (cases ns) (auto simp: split_once_iff wire_format_def)
  moreover have "split_once (CHR ''.'') (as_str pid @ ''.'' @ expose sec) =
                 Some (as_str pid, expose sec)"
    using a by (simp add: split_once_iff)
  ultimately show "parse dec s = Inr (ns, pid, sec)"
    using a by (simp add: parse_def from_prefix_iff PUBLIC_ID_LEN_def SECRET_LEN_def)
qed

section \<open>Properties\<close>

text \<open>
  Property C35: a freshly generated token of any namespace, printed in its wire
  format, parses back to the same namespace, public id and secret.
\<close>

theorem token_roundtrip:
  assumes "base64url enc dec" "length id_bytes = 16" "length secret_bytes = 32"
  shows "parse dec (wire_format (generate enc ns id_bytes secret_bytes)) =
         Inr (ns, PublicId (enc id_bytes), Secret (enc secret_bytes))"
  using assms by (rule base64url.parse_generated)

theorem token_roundtrip_witness:
  "parse b64url_decode (wire_format (generate b64url_encode Operator (replicate 16 0) (replicate 32 255))) =
   Inr (Operator, PublicId (b64url_encode (replicate 16 0)), Secret (b64url_encode (replicate 32 255)))"
  by (rule token_roundtrip [OF rfc4648.base64url_axioms]) simp_all

text \<open>
  The parser accepts exactly the wire formats of a 22-character
  public id without a dot and a 43-character secret that both decode; in
  particular an accepted string determines its namespace, id and secret, and
  is determined by them.
\<close>

theorem token_parse_exact:
  "parse dec s = Inr (ns, pid, sec) \<longleftrightarrow>
     s = wire_format \<lparr> tk_namespace = ns, tk_public_id = pid, tk_secret = sec \<rparr> \<and>
     length (as_str pid) = 22 \<and> length (expose sec) = 43 \<and>
     CHR ''.'' \<notin> set (as_str pid) \<and>
     dec (as_str pid) \<noteq> None \<and> dec (expose sec) \<noteq> None"
  by (rule parse_Inr_iff)

end
