(* ===== verification/Crypto.thy ===== *)
theory Crypto
  imports Token
begin

text \<open>
  The cryptographic primitives the program calls, as one record of functions:
  the base64 codec, Argon2id (\<open>src/argon2_helper.rs\<close>), SHA-256 and AES-256-GCM
  (\<open>src/oauth/sealing.rs\<close>).  All of them are third-party crates; \<open>argon2_ok\<close>
  and \<open>aead_ok\<close> name what the code relies on.  Randomness drawn from the
  operating system is an argument of the operations that draw it.
\<close>

section \<open>Definitions\<close>

record Crypto =
  cr_b64 :: "bytes \<Rightarrow> string"
  cr_unb64 :: "string \<Rightarrow> bytes option"
  cr_argon2 :: "bytes \<Rightarrow> string \<Rightarrow> string option"
  cr_argon2_check :: "string \<Rightarrow> string \<Rightarrow> bool option"
  cr_sha256_hex :: "string \<Rightarrow> string"
  cr_aead_seal :: "bytes \<Rightarrow> bytes \<Rightarrow> string \<Rightarrow> string"
  cr_aead_open :: "bytes \<Rightarrow> bytes \<Rightarrow> string \<Rightarrow> string option"

record Entropy =
  en_id :: bytes
  en_secret :: bytes
  en_salt :: bytes

definition entropy_ok :: "Entropy \<Rightarrow> bool" where
  "entropy_ok en \<longleftrightarrow> length (en_id en) = 16 \<and> length (en_secret en) = 32"

datatype HashError = HashError

definition argon2_hash :: "Crypto \<Rightarrow> bytes \<Rightarrow> string \<Rightarrow> (HashError, string) result" where
  "argon2_hash cr salt s =
     (case cr_argon2 cr salt s of None \<Rightarrow> Inl HashError | Some h \<Rightarrow> Inr h)"

definition argon2_verify :: "Crypto \<Rightarrow> string \<Rightarrow> string \<Rightarrow> (HashError, bool) result" where
  "argon2_verify cr stored s =
     (case cr_argon2_check cr stored s of None \<Rightarrow> Inl HashError | Some b \<Rightarrow> Inr b)"

text \<open>
  Hashing succeeds, the hash verifies the secret it was made from, and (the
  idealisation of a password hash) no other secret.
\<close>

definition argon2_ok :: "Crypto \<Rightarrow> bool" where
  "argon2_ok cr \<longleftrightarrow>
     (\<forall>salt s. \<exists>h. cr_argon2 cr salt s = Some h) \<and>
     (\<forall>salt s h s'. cr_argon2 cr salt s = Some h \<longrightarrow> cr_argon2_check cr h s' = Some (s = s'))"

definition b64_ok :: "Crypto \<Rightarrow> bool" where
  "b64_ok cr \<longleftrightarrow> base64url (cr_b64 cr) (cr_unb64 cr)"

text \<open>Opening what was sealed under the same key and nonce returns the plaintext.\<close>

definition aead_ok :: "Crypto \<Rightarrow> bool" where
  "aead_ok cr \<longleftrightarrow>
     (\<forall>k n p. cr_aead_open cr k n (cr_aead_seal cr k n p) = Some p)"

text \<open>An executable instance, used to evaluate the model on concrete inputs.\<close>

definition sample_crypto :: Crypto where
  "sample_crypto =
     \<lparr> cr_b64 = b64url_encode, cr_unb64 = b64url_decode,
       cr_argon2 = (\<lambda>salt s. Some (''$argon2id$'' @ s)),
       cr_argon2_check = (\<lambda>h s. if starts_with ''$argon2id$'' h
                                 then Some (drop 10 h = s) else None),
       cr_sha256_hex = (\<lambda>s. ''sha256:'' @ s),
       cr_aead_seal = (\<lambda>k n p. rev p),
       cr_aead_open = (\<lambda>k n c. Some (rev c)) \<rparr>"

definition sample_entropy :: Entropy where
  "sample_entropy = \<lparr> en_id = replicate 16 7, en_secret = replicate 32 9, en_salt = replicate 16 1 \<rparr>"

section \<open>Lemmas\<close>

lemma argon2_hash_ok:
  assumes "argon2_ok cr"
  obtains h where "argon2_hash cr salt s = Inr h"
    and "\<And>s'. argon2_verify cr h s' = Inr (s = s')"
proof -
  from assms obtain h where h: "cr_argon2 cr salt s = Some h"
    unfolding argon2_ok_def by blast
  moreover from assms h have "cr_argon2_check cr h s' = Some (s = s')" for s'
    unfolding argon2_ok_def by blast
  ultimately show ?thesis
    by (intro that [of h]) (simp_all add: argon2_hash_def argon2_verify_def)
qed

lemma argon2_hash_verify:
  assumes "argon2_ok cr" "argon2_hash cr salt s = Inr h"
  shows "argon2_verify cr h s' = Inr (s = s')"
  using assms argon2_hash_ok [OF assms(1), of salt s]
  by (metis sum.inject(2))

lemma sample_crypto_argon2: "argon2_ok sample_crypto"
  by (auto simp: argon2_ok_def sample_crypto_def starts_with_def)

lemma sample_crypto_b64: "b64_ok sample_crypto"
  by (simp add: b64_ok_def sample_crypto_def rfc4648.base64url_axioms)

lemma sample_crypto_aead: "aead_ok sample_crypto"
  by (simp add: aead_ok_def sample_crypto_def)

lemma sample_entropy_ok: "entropy_ok sample_entropy"
  by (simp add: entropy_ok_def sample_entropy_def)

lemmas sample_ok = sample_crypto_argon2 sample_crypto_b64 sample_crypto_aead sample_entropy_ok

lemma parse_generated_entropy:
  assumes "b64_ok cr" "entropy_ok en"
  shows "parse (cr_unb64 cr) (wire_format (generate (cr_b64 cr) ns (en_id en) (en_secret en))) =
         Inr (ns, PublicId (cr_b64 cr (en_id en)), Secret (cr_b64 cr (en_secret en)))"
  using assms
  by (simp add: b64_ok_def entropy_ok_def base64url.parse_generated)

end
