(* ===== verification/Audit_Event.thy ===== *)
theory Audit_Event
  imports Prelude
begin

text \<open>
  The audit event of \<open>src/repo/audit.rs\<close>, shared by the sink, the repository
  and every component that records a decision.
\<close>

datatype EventClass = Proxy | Operator | Security

datatype Decision = Allowed | Denied | Error

fun event_class_str :: "EventClass \<Rightarrow> string" where
  "event_class_str Proxy = ''proxy''"
| "event_class_str Operator = ''operator''"
| "event_class_str Security = ''security''"

fun decision_str :: "Decision \<Rightarrow> string" where
  "decision_str Allowed = ''allowed''"
| "decision_str Denied = ''denied''"
| "decision_str Error = ''error''"

record AuditEvent =
  ev_ts_ms :: int
  ev_class :: EventClass
  ev_event :: string
  ev_agent_public_id :: "string option"
  ev_agent_name :: "string option"
  ev_operator_name :: "string option"
  ev_tool :: "string option"
  ev_upstream_host :: "string option"
  ev_method :: "string option"
  ev_path :: "string option"
  ev_status :: "16 word option"
  ev_latency_ms :: "64 word option"
  ev_decision :: Decision
  ev_auth_method :: "string option"
  ev_origin_ip :: "string option"
  ev_details :: "json option"

definition default_event :: AuditEvent where
  "default_event =
     \<lparr> ev_ts_ms = 0, ev_class = Proxy, ev_event = [], ev_agent_public_id = None,
       ev_agent_name = None, ev_operator_name = None, ev_tool = None,
       ev_upstream_host = None, ev_method = None, ev_path = None, ev_status = None,
       ev_latency_ms = None, ev_decision = Allowed, ev_auth_method = None,
       ev_origin_ip = None, ev_details = None \<rparr>"

end
