(* ===== verification/Audit_Sink.thy ===== *)
theory Audit_Sink
  imports Audit_Event
begin

text \<open>
  The JSONL mirror of the audit table, \<open>src/audit_sink.rs\<close>: daily and
  size-capped rotation, pruning, and the civil date of a Unix time.  The
  directory that holds the files is part of the state.  Every file-system call
  can fail: its outcome is an argument of the operation, as is the serialiser
  of \<open>serde_json\<close>.
\<close>

section \<open>Definitions\<close>

record JsonlSinkConfig =
  jc_parent :: string
  jc_stem :: string
  jc_max_bytes :: nat
  jc_keep_files :: nat

record DirFile =
  df_name :: string
  df_content :: string
  df_mtime :: int

record SinkState =
  sk_file :: "string option"
  sk_written :: nat
  sk_today :: string
  sk_dir :: "DirFile list"

text \<open>The outcomes of the file-system calls of one append.\<close>

record SinkIo =
  io_open_ok :: "string \<Rightarrow> bool"
  io_write_short :: "nat option"
  io_read_dir_ok :: bool
  io_remove_ok :: "string \<Rightarrow> bool"

definition ymd_from_unix_secs :: "int \<Rightarrow> int \<times> int \<times> int" where
  "ymd_from_unix_secs secs =
     (let days = secs div 86400;
          z = days + 719468;
          era = (if z \<ge> 0 then z div 146097 else - (- (z - 146096) div 146097));
          doe = z - era * 146097;
          yoe = (doe - doe div 1460 + doe div 36524 - doe div 146096) div 365;
          y = yoe + era * 400;
          doy = doe - (365 * yoe + yoe div 4 - yoe div 100);
          mp = (5 * doy + 2) div 153;
          d = doy - (153 * mp + 2) div 5 + 1;
          m = (if mp < 10 then mp + 3 else mp - 9);
          year = y + (if m \<le> 2 then 1 else 0)
      in (year, m, d))"

definition utc_date :: "int \<Rightarrow> string" where
  "utc_date secs =
     (case ymd_from_unix_secs secs of (y, m, d) \<Rightarrow>
        pad_zero 4 (show_int y) @ ''-'' @ pad_zero 2 (show_int m) @ ''-'' @ pad_zero 2 (show_int d))"

definition serialize :: "(json \<Rightarrow> string) \<Rightarrow> AuditEvent \<Rightarrow> string" where
  "serialize to_json e =
     to_json (JObj
       [(''ts_ms'', JNum (ev_ts_ms e)),
        (''event_class'', JStr (event_class_str (ev_class e))),
        (''event'', JStr (ev_event e)),
        (''agent_public_id'', opt_str (ev_agent_public_id e)),
        (''operator_name'', opt_str (ev_operator_name e)),
        (''tool'', opt_str (ev_tool e)),
        (''upstream_host'', opt_str (ev_upstream_host e)),
        (''method'', opt_str (ev_method e)),
        (''path'', opt_str (ev_path e)),
        (''status'', case ev_status e of None \<Rightarrow> JNull | Some s \<Rightarrow> JNum (uint s)),
        (''latency_ms'', case ev_latency_ms e of None \<Rightarrow> JNull | Some l \<Rightarrow> JNum (uint l)),
        (''decision'', JStr (decision_str (ev_decision e))),
        (''auth_method'', opt_str (ev_auth_method e)),
        (''origin_ip'', opt_str (ev_origin_ip e)),
        (''details'', case ev_details e of None \<Rightarrow> JNull | Some d \<Rightarrow> d)])
     @ [CHR 0x0A]"

definition file_exists :: "string \<Rightarrow> DirFile list \<Rightarrow> bool" where
  "file_exists n dir = list_ex (\<lambda>f. df_name f = n) dir"

definition active_path :: "JsonlSinkConfig \<Rightarrow> string \<Rightarrow> string" where
  "active_path cfg today = jc_stem cfg @ ''.'' @ today"

text \<open>The overflow indexes \<open>1..=10_000\<close>, first free one wins, else the primary name.\<close>

definition overflow_name :: "string \<Rightarrow> nat \<Rightarrow> string" where
  "overflow_name primary i = primary @ ''.'' @ digits i"

fun first_free :: "string \<Rightarrow> DirFile list \<Rightarrow> nat \<Rightarrow> nat \<Rightarrow> string option" where
  "first_free primary dir i 0 = None"
| "first_free primary dir i (Suc k) =
     (if file_exists (overflow_name primary i) dir
      then first_free primary dir (Suc i) k
      else Some (overflow_name primary i))"

definition next_target :: "JsonlSinkConfig \<Rightarrow> string \<Rightarrow> DirFile list \<Rightarrow> string" where
  "next_target cfg today dir =
     (let primary = active_path cfg today in
      if \<not> file_exists primary dir then primary
      else (case first_free primary dir 1 10000 of Some c \<Rightarrow> c | None \<Rightarrow> primary))"

definition open_append :: "int \<Rightarrow> string \<Rightarrow> DirFile list \<Rightarrow> DirFile list" where
  "open_append now n dir =
     (if file_exists n dir then dir
      else dir @ [\<lparr> df_name = n, df_content = [], df_mtime = now \<rparr>])"

definition file_len :: "string \<Rightarrow> DirFile list \<Rightarrow> nat" where
  "file_len n dir =
     (case List.find (\<lambda>f. df_name f = n) dir of None \<Rightarrow> 0 | Some f \<Rightarrow> length (df_content f))"

definition prune_oldest :: "SinkIo \<Rightarrow> JsonlSinkConfig \<Rightarrow> DirFile list \<Rightarrow> DirFile list" where
  "prune_oldest io cfg dir =
     (if jc_keep_files cfg = 0 \<or> jc_parent cfg = [] \<or> \<not> io_read_dir_ok io then dir
      else
        let files = filter (\<lambda>f. starts_with (jc_stem cfg) (df_name f)) dir in
        if length files \<le> jc_keep_files cfg then dir
        else
          let sorted_files = sort_key df_mtime files;
              doomed = map df_name (take (length files - jc_keep_files cfg) sorted_files)
          in filter (\<lambda>f. \<not> (df_name f \<in> set doomed \<and> io_remove_ok io (df_name f))) dir)"

definition rotate_to :: "SinkIo \<Rightarrow> int \<Rightarrow> JsonlSinkConfig \<Rightarrow> string \<Rightarrow> SinkState \<Rightarrow> SinkState" where
  "rotate_to io now cfg today st =
     (let candidate = next_target cfg today (sk_dir st);
          st1 = st\<lparr> sk_file := None, sk_written := 0, sk_today := today \<rparr>;
          st2 = (if io_open_ok io candidate
                 then let dir = open_append now candidate (sk_dir st1)
                      in st1\<lparr> sk_file := Some candidate, sk_written := file_len candidate dir,
                              sk_dir := dir \<rparr>
                 else st1)
      in st2\<lparr> sk_dir := prune_oldest io cfg (sk_dir st2) \<rparr>)"

text \<open>
  Opening the sink at startup; \<open>mkdir\<close> and \<open>stat\<close> say whether creating the
  parent directory and reading the file's metadata succeed.
\<close>

definition sink_new :: "SinkIo \<Rightarrow> bool \<Rightarrow> bool \<Rightarrow> int \<Rightarrow> JsonlSinkConfig \<Rightarrow> DirFile list \<Rightarrow> SinkState option" where
  "sink_new io mkdir stat now cfg dir =
     (let today = utc_date now;
          active = active_path cfg today in
      if jc_parent cfg \<noteq> [] \<and> \<not> mkdir \<or> \<not> io_open_ok io active \<or> \<not> stat then None
      else let dir' = open_append now active dir
           in Some \<lparr> sk_file = Some active, sk_written = file_len active dir', sk_today = today, sk_dir = dir' \<rparr>)"

definition write_bytes :: "int \<Rightarrow> string \<Rightarrow> string \<Rightarrow> DirFile list \<Rightarrow> DirFile list" where
  "write_bytes now n line dir =
     update_where (\<lambda>f. df_name f = n)
       (\<lambda>f. f\<lparr> df_content := df_content f @ line, df_mtime := now \<rparr>) dir"

definition sink_append ::
  "SinkIo \<Rightarrow> (json \<Rightarrow> string) \<Rightarrow> int \<Rightarrow> JsonlSinkConfig \<Rightarrow> AuditEvent \<Rightarrow> SinkState \<Rightarrow> SinkState" where
  "sink_append io to_json now cfg e st =
     (let line = serialize to_json e;
          today = utc_date now;
          st1 = (if today \<noteq> sk_today st then rotate_to io now cfg today st else st);
          would_be = sat_add64 (sk_written st1) (length line);
          st2 = (if would_be > jc_max_bytes cfg \<and> sk_written st1 > 0
                 then rotate_to io now cfg today st1 else st1)
      in case sk_file st2 of
           None \<Rightarrow> st2
         | Some n \<Rightarrow>
             (case io_write_short io of
                Some k \<Rightarrow> st2\<lparr> sk_file := None,
                               sk_dir := write_bytes now n (take k line) (sk_dir st2) \<rparr>
              | None \<Rightarrow> st2\<lparr> sk_written := sat_add64 (sk_written st2) (length line),
                             sk_dir := write_bytes now n line (sk_dir st2) \<rparr>))"

end
