(* ===== verification/Audit_Repo.thy ===== *)
theory Audit_Repo
  imports Audit_Sink
begin

text \<open>
  The audit repository of \<open>src/repo/audit.rs\<close>: the row encoding of an event,
  insertion with the JSONL mirror, retention sweep and filtered query.  The
  JSON text codec of \<open>serde_json\<close> and the outcome of the database call are
  parameters.
\<close>

section \<open>Definitions\<close>

datatype RepoError =
    AgentNameConflict string
  | RotationInProgress string
  | AgentNotFound
  | InvalidCredential
  | Hash
  | Sqlx
  | Json

record AuditFilter =
  af_since_ms :: "int option"
  af_until_ms :: "int option"
  af_agent_public_id :: "string option"
  af_tool :: "string option"
  af_event_class :: "EventClass option"
  af_decision :: "Decision option"

record AuditPage =
  ap_limit :: nat
  ap_offset :: nat

definition default_page :: AuditPage where
  "default_page = \<lparr> ap_limit = 100, ap_offset = 0 \<rparr>"

record AuditRow =
  ar_ts :: int
  ar_event_class :: string
  ar_event :: string
  ar_agent_public_id :: "string option"
  ar_operator_name :: "string option"
  ar_tool :: "string option"
  ar_upstream_host :: "string option"
  ar_method :: "string option"
  ar_path :: "string option"
  ar_status :: "int option"
  ar_latency_ms :: "int option"
  ar_decision :: string
  ar_auth_method :: "string option"
  ar_origin_ip :: "string option"
  ar_details :: "string option"

record AuditRepository =
  au_rows :: "AuditRow list"
  au_sink :: "(JsonlSinkConfig \<times> SinkState) option"

text \<open>The bindings of the \<open>INSERT\<close> of \<open>record\<close>.\<close>

definition row_of_event :: "(json \<Rightarrow> string) \<Rightarrow> AuditEvent \<Rightarrow> AuditRow" where
  "row_of_event to_json e =
     \<lparr> ar_ts = ev_ts_ms e,
       ar_event_class = event_class_str (ev_class e),
       ar_event = ev_event e,
       ar_agent_public_id = ev_agent_public_id e,
       ar_operator_name = ev_operator_name e,
       ar_tool = ev_tool e,
       ar_upstream_host = ev_upstream_host e,
       ar_method = ev_method e,
       ar_path = ev_path e,
       ar_status = map_option uint (ev_status e),
       ar_latency_ms = map_option sint (ev_latency_ms e),
       ar_decision = decision_str (ev_decision e),
       ar_auth_method = ev_auth_method e,
       ar_origin_ip = ev_origin_ip e,
       ar_details = map_option to_json (ev_details e) \<rparr>"

definition audit_insert ::
  "bool \<Rightarrow> SinkIo \<Rightarrow> (json \<Rightarrow> string) \<Rightarrow> int \<Rightarrow> AuditEvent \<Rightarrow> AuditRepository
    \<Rightarrow> AuditRepository \<times> (RepoError, unit) result" where
  "audit_insert db_ok io to_json now e repo =
     (if \<not> db_ok then (repo, Inl Sqlx)
      else (repo\<lparr> au_rows := au_rows repo @ [row_of_event to_json e],
                  au_sink := map_option (\<lambda>(cfg, st). (cfg, sink_append io to_json now cfg e st))
                               (au_sink repo) \<rparr>, Inr ()))"

definition sweep_older_than :: "int \<Rightarrow> AuditRepository \<Rightarrow> AuditRepository \<times> nat" where
  "sweep_older_than cutoff_ms repo =
     (repo\<lparr> au_rows := filter (\<lambda>r. \<not> ar_ts r < cutoff_ms) (au_rows repo) \<rparr>,
      rows_affected (\<lambda>r. ar_ts r < cutoff_ms) (au_rows repo))"

definition parse_event_class :: "string \<Rightarrow> (RepoError, EventClass) result" where
  "parse_event_class s =
     (if s = ''proxy'' then Inr Proxy
      else if s = ''operator'' then Inr Operator
      else if s = ''security'' then Inr Security
      else Inl Json)"

definition parse_decision :: "string \<Rightarrow> (RepoError, Decision) result" where
  "parse_decision s =
     (if s = ''allowed'' then Inr Allowed
      else if s = ''denied'' then Inr Denied
      else if s = ''error'' then Inr Error
      else Inl Json)"

definition u16_try_from :: "int \<Rightarrow> 16 word option" where
  "u16_try_from i = (if 0 \<le> i \<and> i < 65536 then Some (word_of_int i) else None)"

definition into_event ::
  "(string \<Rightarrow> json option) \<Rightarrow> (string \<Rightarrow> string option) \<Rightarrow> AuditRow \<Rightarrow> (RepoError, AuditEvent) result" where
  "into_event from_json agent_name_of r =
     (case parse_event_class (ar_event_class r) of
        Inl e \<Rightarrow> Inl e
      | Inr cls \<Rightarrow>
          (case parse_decision (ar_decision r) of
             Inl e \<Rightarrow> Inl e
           | Inr dec \<Rightarrow>
               (let d = map_option from_json (ar_details r) in
                if d = Some None then Inl Json
                else Inr
                  \<lparr> ev_ts_ms = ar_ts r, ev_class = cls, ev_event = ar_event r,
                    ev_agent_public_id = ar_agent_public_id r,
                    ev_agent_name = Option.bind (ar_agent_public_id r) agent_name_of,
                    ev_operator_name = ar_operator_name r, ev_tool = ar_tool r,
                    ev_upstream_host = ar_upstream_host r, ev_method = ar_method r,
                    ev_path = ar_path r,
                    ev_status = Option.bind (ar_status r) u16_try_from,
                    ev_latency_ms = map_option word_of_int (ar_latency_ms r),
                    ev_decision = dec, ev_auth_method = ar_auth_method r,
                    ev_origin_ip = ar_origin_ip r,
                    ev_details = Option.bind d (\<lambda>x. x) \<rparr>)))"

definition opt_all :: "('a \<Rightarrow> bool) \<Rightarrow> 'a option \<Rightarrow> bool" where
  "opt_all p x = (case x of None \<Rightarrow> True | Some v \<Rightarrow> p v)"

definition row_matches :: "AuditFilter \<Rightarrow> AuditRow \<Rightarrow> bool" where
  "row_matches f r \<longleftrightarrow>
     opt_all (\<lambda>v. v \<le> ar_ts r) (af_since_ms f) \<and>
     opt_all (\<lambda>v. ar_ts r < v) (af_until_ms f) \<and>
     opt_all (\<lambda>v. ar_agent_public_id r = Some v) (af_agent_public_id f) \<and>
     opt_all (\<lambda>v. ar_tool r = Some v) (af_tool f) \<and>
     opt_all (\<lambda>v. ar_event_class r = event_class_str v) (af_event_class f) \<and>
     opt_all (\<lambda>v. ar_decision r = decision_str v) (af_decision f)"

fun collect_results :: "('e, 'a) result list \<Rightarrow> ('e, 'a list) result" where
  "collect_results [] = Inr []"
| "collect_results (Inl e # xs) = Inl e"
| "collect_results (Inr x # xs) =
     (case collect_results xs of Inl e \<Rightarrow> Inl e | Inr ys \<Rightarrow> Inr (x # ys))"

text \<open>
  \<open>ORDER BY ts DESC LIMIT limit OFFSET offset\<close>; SQL leaves the order of rows
  with equal \<open>ts\<close> open, the model keeps their insertion order.
\<close>

definition audit_query ::
  "(string \<Rightarrow> json option) \<Rightarrow> (string \<Rightarrow> string option) \<Rightarrow> AuditFilter \<Rightarrow> AuditPage
    \<Rightarrow> AuditRepository \<Rightarrow> (RepoError, AuditEvent list) result" where
  "audit_query from_json agent_name_of f page repo =
     collect_results (map (into_event from_json agent_name_of)
       (take (ap_limit page) (drop (ap_offset page)
         (sort_key (\<lambda>r. - ar_ts r) (filter (row_matches f) (au_rows repo))))))"

section \<open>Lemmas\<close>

lemma parse_event_class_str [simp]: "parse_event_class (event_class_str c) = Inr c"
  by (cases c) (simp_all add: parse_event_class_def)

lemma parse_decision_str [simp]: "parse_decision (decision_str d) = Inr d"
  by (cases d) (simp_all add: parse_decision_def)

lemma event_class_str_inj [simp]: "event_class_str a = event_class_str b \<longleftrightarrow> a = b"
  by (cases a; cases b) simp_all

lemma decision_str_inj [simp]: "decision_str a = decision_str b \<longleftrightarrow> a = b"
  by (cases a; cases b) simp_all

lemma u16_try_from_uint [simp]: "u16_try_from (uint w) = Some w"
  using uint_bounded [of w] by (simp add: u16_try_from_def)

lemma into_event_row_of_event:
  assumes "\<forall>d. ev_details e = Some d \<longrightarrow> from_json (to_json d) = Some d"
  shows "into_event from_json agent_name_of (row_of_event to_json e) =
         Inr (e\<lparr> ev_agent_name := Option.bind (ev_agent_public_id e) agent_name_of \<rparr>)"
  using assms
  by (cases "ev_details e"; cases "ev_status e"; cases "ev_latency_ms e")
     (simp_all add: into_event_def row_of_event_def Let_def)

lemma collect_results_Inr:
  assumes "\<forall>x \<in> set xs. f x = Inr (g x)"
  shows "collect_results (map f xs) = Inr (map g xs)"
  using assms by (induction xs) auto

lemma sweep_rows:
  "au_rows (fst (sweep_older_than c repo)) = filter (\<lambda>r. c \<le> ar_ts r) (au_rows repo)"
  by (simp add: sweep_older_than_def linorder_not_less)

section \<open>Properties\<close>

text \<open>The query on events: what a client of the audit log expects to read.\<close>

definition event_matches :: "AuditFilter \<Rightarrow> AuditEvent \<Rightarrow> bool" where
  "event_matches f e \<longleftrightarrow>
     opt_all (\<lambda>v. v \<le> ev_ts_ms e) (af_since_ms f) \<and>
     opt_all (\<lambda>v. ev_ts_ms e < v) (af_until_ms f) \<and>
     opt_all (\<lambda>v. ev_agent_public_id e = Some v) (af_agent_public_id f) \<and>
     opt_all (\<lambda>v. ev_tool e = Some v) (af_tool f) \<and>
     opt_all (\<lambda>v. ev_class e = v) (af_event_class f) \<and>
     opt_all (\<lambda>v. ev_decision e = v) (af_decision f)"

definition event_page :: "AuditFilter \<Rightarrow> AuditPage \<Rightarrow> AuditEvent list \<Rightarrow> AuditEvent list" where
  "event_page f page es =
     take (ap_limit page) (drop (ap_offset page) (sort_key (\<lambda>e. - ev_ts_ms e) (filter (event_matches f) es)))"

definition named_event :: "(string \<Rightarrow> string option) \<Rightarrow> AuditEvent \<Rightarrow> AuditEvent" where
  "named_event agent_name_of e = e\<lparr> ev_agent_name := Option.bind (ev_agent_public_id e) agent_name_of \<rparr>"

lemma row_matches_event: "row_matches f (row_of_event to_json e) = event_matches f e"
  by (simp add: row_matches_def event_matches_def row_of_event_def)

lemma insort_key_map: "insort_key k (g x) (map g xs) = map g (insort_key (\<lambda>y. k (g y)) x xs)"
  by (induction xs) auto

lemma sort_key_map: "sort_key k (map g xs) = map g (sort_key (\<lambda>y. k (g y)) xs)"
  by (induction xs) (simp_all add: insort_key_map)

lemma inserted_rows:
  "au_rows (foldl (\<lambda>r e. fst (audit_insert True io to_json now e r)) repo es) =
   au_rows repo @ map (row_of_event to_json) es"
  by (induction es arbitrary: repo) (simp_all add: audit_insert_def)



end
