(* ===== verification/Interfaces.thy ===== *)
theory Interfaces
  imports Prelude
begin

text \<open>
  The contracts the components rely on: a state machine with an invariant, a
  fact that no step of it revokes, and a keyed store refining a finite map.
\<close>

locale invariant_system =
  fixes step :: "'s \<Rightarrow> 's \<Rightarrow> bool" and inv :: "'s \<Rightarrow> bool"
  assumes step_inv: "step s t \<Longrightarrow> inv s \<Longrightarrow> inv t"
begin

lemma reach_inv:
  assumes "step\<^sup>*\<^sup>* s t" "inv s"
  shows "inv t"
  using assms by (induction rule: rtranclp_induct) (auto intro: step_inv)

end

locale stable_fact = invariant_system step inv
  for step :: "'s \<Rightarrow> 's \<Rightarrow> bool" and inv :: "'s \<Rightarrow> bool" +
  fixes fact :: "'s \<Rightarrow> bool"
  assumes step_fact: "step s t \<Longrightarrow> inv s \<Longrightarrow> fact s \<Longrightarrow> fact t"
begin

lemma reach_fact:
  assumes "step\<^sup>*\<^sup>* s t" "inv s" "fact s"
  shows "fact t"
proof -
  from assms have "inv t \<and> fact t"
    by (induction rule: rtranclp_induct) (auto intro: step_inv step_fact)
  then show ?thesis ..
qed

end

datatype ('k, 'v) kv_op = Put 'k 'v | Del 'k

fun map_op :: "('k \<rightharpoonup> 'v) \<Rightarrow> ('k, 'v) kv_op \<Rightarrow> ('k \<rightharpoonup> 'v)" where
  "map_op m (Put k v) = m(k \<mapsto> v)"
| "map_op m (Del k) = m(k := None)"

locale kv_store =
  fixes invar :: "'s \<Rightarrow> bool"
    and get :: "'k \<Rightarrow> 's \<Rightarrow> 'v option"
    and put :: "'k \<Rightarrow> 'v \<Rightarrow> 's \<Rightarrow> 's"
    and del :: "'k \<Rightarrow> 's \<Rightarrow> 's"
  assumes invar_put: "invar s \<Longrightarrow> invar (put k v s)"
    and invar_del: "invar s \<Longrightarrow> invar (del k s)"
    and get_put: "invar s \<Longrightarrow> get j (put k v s) = (if j = k then Some v else get j s)"
    and get_del: "invar s \<Longrightarrow> get j (del k s) = (if j = k then None else get j s)"
begin

fun run_op :: "'s \<Rightarrow> ('k, 'v) kv_op \<Rightarrow> 's" where
  "run_op s (Put k v) = put k v s"
| "run_op s (Del k) = del k s"

lemma refines_map:
  assumes "invar s"
  shows "(\<lambda>k. get k (foldl run_op s ops)) = foldl map_op (\<lambda>k. get k s) ops
         \<and> invar (foldl run_op s ops)"
  using assms
proof (induction ops arbitrary: s)
  case (Cons p ops)
  show ?case
  proof (cases p)
    case (Put k v)
    have "(\<lambda>j. get j (put k v s)) = (\<lambda>j. get j s)(k \<mapsto> v)"
      using Cons.prems by (auto simp: get_put)
    with Cons.IH [OF invar_put [OF Cons.prems, of k v]] Put show ?thesis by simp
  next
    case (Del k)
    have "(\<lambda>j. get j (del k s)) = (\<lambda>j. get j s)(k := None)"
      using Cons.prems by (auto simp: get_del)
    with Cons.IH [OF invar_del [OF Cons.prems, of k]] Del show ?thesis by simp
  qed
qed simp

lemma put_put: "invar s \<Longrightarrow> get j (put k v (put k w s)) = get j (put k v s)"
  by (simp add: get_put invar_put)

end

end
