(* ===== verification/Agent_Repo.thy ===== *)
theory Agent_Repo
  imports Crypto Audit_Repo Interfaces
begin

text \<open>
  The agent repository of \<open>src/repo/agent.rs\<close> over the \<open>agents\<close> table: row
  ids are assigned by \<open>AUTOINCREMENT\<close>, \<open>public_id\<close> and \<open>name\<close> are \<open>UNIQUE\<close>.
  JSON columns hold their decoded values.  \<open>rotate\<close> is split into the read
  that verifies the presented secret and the guarded update, because two
  rotations can interleave between the two statements.
\<close>

section \<open>Definitions\<close>

record AgentRecord =
  ag_id :: int
  ag_public_id :: string
  ag_name :: string
  ag_description :: "string option"
  ag_secret_hash :: string
  ag_tool_allowlist :: "string list option"
  ag_tool_denylist :: "string list option"
  ag_metadata :: "json option"
  ag_cert_identity :: "string option"
  ag_registered_at :: int
  ag_last_used_at :: "int option"
  ag_expires_at :: "int option"
  ag_revoked_at :: "int option"

record AgentTable =
  at_rows :: "AgentRecord list"
  at_last_id :: int

definition empty_agents :: AgentTable where
  "empty_agents = \<lparr> at_rows = [], at_last_id = 0 \<rparr>"

definition is_active :: "AgentRecord \<Rightarrow> bool" where
  "is_active r = (ag_revoked_at r = None)"

definition agent_create ::
  "Crypto \<Rightarrow> Entropy \<Rightarrow> int \<Rightarrow> string \<Rightarrow> string option \<Rightarrow> string list option \<Rightarrow> string list option
    \<Rightarrow> json option \<Rightarrow> int option \<Rightarrow> AgentTable
    \<Rightarrow> AgentTable \<times> (RepoError, string \<times> string) result" where
  "agent_create cr en now name descr allowlist denylist metadata expires_at t =
     (let token = generate (cr_b64 cr) TokenNamespace.Agent (en_id en) (en_secret en);
          sec = expose (tk_secret token);
          pid = as_str (tk_public_id token)
      in case argon2_hash cr (en_salt en) sec of
           Inl _ \<Rightarrow> (t, Inl Hash)
         | Inr secret_hash \<Rightarrow>
             if list_ex (\<lambda>r. ag_public_id r = pid \<or> ag_name r = name) (at_rows t)
             then (t, Inl (AgentNameConflict name))
             else
               (\<lparr> at_rows = at_rows t @
                    [\<lparr> ag_id = at_last_id t + 1, ag_public_id = pid, ag_name = name,
                       ag_description = descr, ag_secret_hash = secret_hash,
                       ag_tool_allowlist = allowlist, ag_tool_denylist = denylist,
                       ag_metadata = metadata, ag_cert_identity = None,
                       ag_registered_at = now, ag_last_used_at = None,
                       ag_expires_at = expires_at, ag_revoked_at = None \<rparr>],
                  at_last_id = at_last_id t + 1 \<rparr>,
                Inr (pid, sec)))"

definition get_active_by_public_id :: "string \<Rightarrow> AgentTable \<Rightarrow> AgentRecord option" where
  "get_active_by_public_id pid t =
     List.find (\<lambda>r. ag_public_id r = pid \<and> ag_revoked_at r = None) (at_rows t)"

definition get_by_name :: "string \<Rightarrow> AgentTable \<Rightarrow> AgentRecord option" where
  "get_by_name name t = List.find (\<lambda>r. ag_name r = name) (at_rows t)"

definition get_by_cert_identity :: "string \<Rightarrow> AgentTable \<Rightarrow> AgentRecord option" where
  "get_by_cert_identity ident t =
     List.find (\<lambda>r. ag_cert_identity r = Some ident \<and> ag_revoked_at r = None) (at_rows t)"

definition agent_list :: "bool \<Rightarrow> AgentTable \<Rightarrow> AgentRecord list" where
  "agent_list include_revoked t =
     sort_key (\<lambda>r. - ag_registered_at r)
       (if include_revoked then at_rows t
        else filter (\<lambda>r. ag_revoked_at r = None) (at_rows t))"

text \<open>The \<open>UPDATE .. WHERE\<close> shared by the mutators, with its zero-rows error.\<close>

definition agent_update ::
  "(AgentRecord \<Rightarrow> bool) \<Rightarrow> (AgentRecord \<Rightarrow> AgentRecord) \<Rightarrow> RepoError \<Rightarrow> AgentTable
    \<Rightarrow> AgentTable \<times> (RepoError, unit) result" where
  "agent_update p f err t =
     (t\<lparr> at_rows := update_where p f (at_rows t) \<rparr>,
      if rows_affected p (at_rows t) = 0 then Inl err else Inr ())"

definition agent_set_cert_identity ::
  "string \<Rightarrow> string option \<Rightarrow> AgentTable \<Rightarrow> AgentTable \<times> (RepoError, unit) result" where
  "agent_set_cert_identity pid cert =
     agent_update (\<lambda>r. ag_public_id r = pid) (\<lambda>r. r\<lparr> ag_cert_identity := cert \<rparr>) AgentNotFound"

definition agent_revoke :: "int \<Rightarrow> string \<Rightarrow> AgentTable \<Rightarrow> AgentTable \<times> (RepoError, unit) result" where
  "agent_revoke now pid =
     agent_update (\<lambda>r. ag_public_id r = pid) (\<lambda>r. r\<lparr> ag_revoked_at := Some now \<rparr>) AgentNotFound"

definition rotate_read ::
  "Crypto \<Rightarrow> string \<Rightarrow> string \<Rightarrow> AgentTable \<Rightarrow> (RepoError, string) result" where
  "rotate_read cr pid current_secret t =
     (case get_active_by_public_id pid t of
        None \<Rightarrow> Inl InvalidCredential
      | Some r \<Rightarrow>
          (case argon2_verify cr (ag_secret_hash r) current_secret of
             Inl _ \<Rightarrow> Inl Hash
           | Inr False \<Rightarrow> Inl InvalidCredential
           | Inr True \<Rightarrow> Inr (ag_secret_hash r)))"

definition rotate_commit ::
  "string \<Rightarrow> string \<Rightarrow> string \<Rightarrow> AgentTable \<Rightarrow> AgentTable \<times> (RepoError, unit) result" where
  "rotate_commit pid current_hash new_hash =
     agent_update
       (\<lambda>r. ag_public_id r = pid \<and> ag_secret_hash r = current_hash \<and> ag_revoked_at r = None)
       (\<lambda>r. r\<lparr> ag_secret_hash := new_hash \<rparr>) (RotationInProgress pid)"

definition agent_rotate ::
  "Crypto \<Rightarrow> Entropy \<Rightarrow> string \<Rightarrow> string \<Rightarrow> AgentTable
    \<Rightarrow> AgentTable \<times> (RepoError, string) result" where
  "agent_rotate cr en pid current_secret t =
     (case rotate_read cr pid current_secret t of
        Inl e \<Rightarrow> (t, Inl e)
      | Inr current_hash \<Rightarrow>
          (let new_secret = expose (tk_secret
                 (generate (cr_b64 cr) TokenNamespace.Agent (en_id en) (en_secret en)))
           in case argon2_hash cr (en_salt en) new_secret of
                Inl _ \<Rightarrow> (t, Inl Hash)
              | Inr new_hash \<Rightarrow>
                  (case rotate_commit pid current_hash new_hash t of
                     (t', Inl e) \<Rightarrow> (t', Inl e)
                   | (t', Inr _) \<Rightarrow> (t', Inr new_secret))))"

definition touch_last_used :: "int \<Rightarrow> string \<Rightarrow> AgentTable \<Rightarrow> AgentTable" where
  "touch_last_used now pid t =
     t\<lparr> at_rows := update_where (\<lambda>r. ag_public_id r = pid)
                     (\<lambda>r. r\<lparr> ag_last_used_at := Some now \<rparr>) (at_rows t) \<rparr>"

definition set_opt :: "'a option \<Rightarrow> 'a \<Rightarrow> 'a" where
  "set_opt new old = (case new of None \<Rightarrow> old | Some v \<Rightarrow> v)"

definition update_policy ::
  "string \<Rightarrow> string list option option \<Rightarrow> string list option option \<Rightarrow> json option option
    \<Rightarrow> int option option \<Rightarrow> AgentTable \<Rightarrow> AgentTable \<times> (RepoError, unit) result" where
  "update_policy pid allowlist denylist metadata expires_at t =
     (if allowlist = None \<and> denylist = None \<and> metadata = None \<and> expires_at = None
      then (t, Inr ())
      else agent_update (\<lambda>r. ag_public_id r = pid)
             (\<lambda>r. r\<lparr> ag_tool_allowlist := set_opt allowlist (ag_tool_allowlist r),
                     ag_tool_denylist := set_opt denylist (ag_tool_denylist r),
                     ag_metadata := set_opt metadata (ag_metadata r),
                     ag_expires_at := set_opt expires_at (ag_expires_at r) \<rparr>)
             AgentNotFound t)"

text \<open>\<open>LEFT JOIN agents\<close> of the audit query.\<close>

definition agent_name_of :: "AgentTable \<Rightarrow> string \<Rightarrow> string option" where
  "agent_name_of t pid = map_option ag_name (List.find (\<lambda>r. ag_public_id r = pid) (at_rows t))"

subsection \<open>The statements that reach the table\<close>

inductive agent_step :: "AgentTable \<Rightarrow> AgentTable \<Rightarrow> bool" where
  create: "agent_step t (fst (agent_create cr en now name descr al dl md ex t))"
| set_cert: "agent_step t (fst (agent_set_cert_identity pid cert t))"
| revoke: "agent_step t (fst (agent_revoke now pid t))"
| commit: "agent_step t (fst (rotate_commit pid h h' t))"
| touch: "agent_step t (touch_last_used now pid t)"
| policy: "agent_step t (fst (update_policy pid al' dl' md' ex' t))"

definition agents_inv :: "AgentTable \<Rightarrow> bool" where
  "agents_inv t \<longleftrightarrow>
     distinct (map ag_public_id (at_rows t)) \<and>
     distinct (map ag_name (at_rows t)) \<and>
     distinct (map ag_id (at_rows t)) \<and>
     (\<forall>r \<in> set (at_rows t). ag_id r \<le> at_last_id t)"

definition revoked :: "string \<Rightarrow> AgentTable \<Rightarrow> bool" where
  "revoked pid t \<longleftrightarrow> (\<exists>r \<in> set (at_rows t). ag_public_id r = pid \<and> ag_revoked_at r \<noteq> None)"

section \<open>Lemmas\<close>

lemmas agent_update_defs =
  agent_set_cert_identity_def agent_revoke_def rotate_commit_def update_policy_def

inductive_cases agent_stepE: "agent_step t t'"

subsection \<open>The table invariant\<close>

lemma agents_inv_update [inv_intros]:
  assumes "agents_inv t"
    and "\<And>r. ag_public_id (f r) = ag_public_id r" "\<And>r. ag_name (f r) = ag_name r"
    and "\<And>r. ag_id (f r) = ag_id r"
  shows "agents_inv (t\<lparr> at_rows := update_where p f (at_rows t) \<rparr>)"
  using assms
  by (auto simp: agents_inv_def table_simps)

lemma agents_inv_agent_update [inv_intros]:
  assumes "agents_inv t"
    and "\<And>r. ag_public_id (f r) = ag_public_id r" "\<And>r. ag_name (f r) = ag_name r"
    and "\<And>r. ag_id (f r) = ag_id r"
  shows "agents_inv (fst (agent_update p f err t))"
  using assms by (simp add: agent_update_def agents_inv_update)

lemma agents_inv_create [inv_intros]:
  assumes "agents_inv t"
  shows "agents_inv (fst (agent_create cr en now name descr al dl md ex t))"
  using assms
  by (auto simp: agent_create_def agents_inv_def Let_def list_ex_iff split: sum.splits)

lemma agents_inv_step:
  assumes "agent_step t t'" "agents_inv t"
  shows "agents_inv t'"
  using assms(1)
  by cases (use assms(2) in \<open>simp_all add: agent_update_defs touch_last_used_def inv_intros\<close>)

interpretation agents: invariant_system agent_step agents_inv
  by unfold_locales (rule agents_inv_step)

lemma agents_inv_empty [simp]: "agents_inv empty_agents"
  by (simp add: agents_inv_def empty_agents_def)

subsection \<open>Revocation\<close>

lemma revoked_update:
  assumes "revoked pid t"
    and "\<And>r. ag_public_id (f r) = ag_public_id r"
    and "\<And>r. ag_revoked_at r \<noteq> None \<Longrightarrow> ag_revoked_at (f r) \<noteq> None"
  shows "revoked pid (t\<lparr> at_rows := update_where p f (at_rows t) \<rparr>)"
proof -
  from assms(1) obtain r where r: "r \<in> set (at_rows t)" "ag_public_id r = pid" "ag_revoked_at r \<noteq> None"
    by (auto simp: revoked_def)
  then have "(if p r then f r else r) \<in> set (update_where p f (at_rows t))"
    by (auto simp: update_where_def)
  with r assms(2,3) show ?thesis
    by (auto simp: revoked_def intro!: bexI [of _ "if p r then f r else r"])
qed

lemma revoked_step:
  assumes "agent_step t t'" "revoked pid t"
  shows "revoked pid t'"
  using assms(1)
proof cases
  case (create cr en now name descr al dl md ex)
  with assms(2) show ?thesis
    by (auto simp: agent_create_def revoked_def Let_def split: sum.splits)
qed (use assms(2) in \<open>simp_all add: agent_update_defs agent_update_def touch_last_used_def revoked_update\<close>)

interpretation agent_revocation: stable_fact agent_step agents_inv "revoked pid" for pid
  by unfold_locales (rule revoked_step)

lemma get_active_revoked:
  assumes "agents_inv t" "revoked pid t"
  shows "get_active_by_public_id pid t = None"
proof -
  from assms(2) obtain r where r: "r \<in> set (at_rows t)" "ag_public_id r = pid" "ag_revoked_at r \<noteq> None"
    by (auto simp: revoked_def)
  have "q = r" if "q \<in> set (at_rows t)" "ag_public_id q = pid" for q
    using that r assms(1) by (auto simp: agents_inv_def distinct_map inj_on_def)
  with r(3) show ?thesis
    by (auto simp: get_active_by_public_id_def find_None_iff)
qed

lemma revoke_revokes:
  assumes "agent_revoke now pid t = (t', Inr ())"
  shows "revoked pid t'"
proof -
  from assms obtain r where "r \<in> set (at_rows t)" "ag_public_id r = pid"
    by (auto simp: agent_revoke_def agent_update_def rows_affected_def filter_empty_conv
             split: if_splits)
  moreover from assms have "at_rows t' = update_where (\<lambda>r. ag_public_id r = pid)
      (\<lambda>r. r\<lparr> ag_revoked_at := Some now \<rparr>) (at_rows t)"
    by (auto simp: agent_revoke_def agent_update_def)
  ultimately show ?thesis
    unfolding revoked_def
    by (intro bexI [of _ "r\<lparr> ag_revoked_at := Some now \<rparr>"])
       (auto simp: update_where_def intro!: rev_image_eqI [of r])
qed

subsection \<open>Creation and rotation\<close>

lemma agent_create_InrD:
  assumes "agent_create cr en now name descr al dl md ex t = (t', Inr (pid, sec))"
  obtains h r where "argon2_hash cr (en_salt en) sec = Inr h"
    and "pid = cr_b64 cr (en_id en)" "sec = cr_b64 cr (en_secret en)"
    and "r = \<lparr> ag_id = at_last_id t + 1, ag_public_id = pid, ag_name = name,
               ag_description = descr, ag_secret_hash = h, ag_tool_allowlist = al,
               ag_tool_denylist = dl, ag_metadata = md, ag_cert_identity = None,
               ag_registered_at = now, ag_last_used_at = None, ag_expires_at = ex,
               ag_revoked_at = None \<rparr>"
    and "t' = \<lparr> at_rows = at_rows t @ [r], at_last_id = at_last_id t + 1 \<rparr>"
    and "\<forall>q \<in> set (at_rows t). ag_public_id q \<noteq> pid \<and> ag_name q \<noteq> name"
  using assms
  by (auto simp: agent_create_def Let_def generate_def list_ex_iff
           split: sum.splits if_splits)

lemma agent_create_lookup:
  assumes "agent_create cr en now name descr al dl md ex t = (t', Inr (pid, sec))"
  shows "\<exists>r. get_active_by_public_id pid t' = Some r \<and> get_by_name name t' = Some r \<and>
             argon2_hash cr (en_salt en) sec = Inr (ag_secret_hash r) \<and>
             ag_public_id r = pid \<and> ag_name r = name \<and> ag_tool_allowlist r = al \<and>
             ag_tool_denylist r = dl \<and> ag_expires_at r = ex \<and> ag_id r = at_last_id t'"
  using assms
proof (rule agent_create_InrD)
  fix h r
  assume h: "argon2_hash cr (en_salt en) sec = Inr h"
    and r: "r = \<lparr> ag_id = at_last_id t + 1, ag_public_id = pid, ag_name = name,
               ag_description = descr, ag_secret_hash = h, ag_tool_allowlist = al,
               ag_tool_denylist = dl, ag_metadata = md, ag_cert_identity = None,
               ag_registered_at = now, ag_last_used_at = None, ag_expires_at = ex,
               ag_revoked_at = None \<rparr>"
    and t': "t' = \<lparr> at_rows = at_rows t @ [r], at_last_id = at_last_id t + 1 \<rparr>"
    and fresh: "\<forall>q \<in> set (at_rows t). ag_public_id q \<noteq> pid \<and> ag_name q \<noteq> name"
  have "List.find (\<lambda>q. ag_public_id q = pid \<and> ag_revoked_at q = None) (at_rows t) = None"
       "List.find (\<lambda>q. ag_name q = name) (at_rows t) = None"
    using fresh by (auto simp: find_None_iff)
  then show ?thesis
    by (simp add: get_active_by_public_id_def get_by_name_def t' find_append) (simp add: r h)
qed

lemma rotate_commit_get:
  assumes "agents_inv t" "rotate_commit pid h h' t = (t', Inr ())"
  shows "\<exists>r. get_active_by_public_id pid t = Some r \<and> ag_secret_hash r = h \<and>
             get_active_by_public_id pid t' = Some (r\<lparr> ag_secret_hash := h' \<rparr>)"
proof -
  from assms(2) obtain r where r: "r \<in> set (at_rows t)" "ag_public_id r = pid"
      "ag_secret_hash r = h" "ag_revoked_at r = None"
    by (auto simp: rotate_commit_def agent_update_def rows_affected_def filter_empty_conv
             split: if_splits)
  have uniq: "q = r" if "q \<in> set (at_rows t)" "ag_public_id q = pid" for q
    using that r assms(1) by (auto simp: agents_inv_def distinct_map inj_on_def)
  have get: "get_active_by_public_id pid t = Some r"
  proof (cases "get_active_by_public_id pid t")
    case None
    with r show ?thesis by (auto simp: get_active_by_public_id_def find_None_iff)
  next
    case (Some q)
    then have "q \<in> set (at_rows t) \<and> ag_public_id q = pid"
      using find_Some_in_set [of _ "at_rows t" q] by (fastforce simp: get_active_by_public_id_def)
    with uniq Some show ?thesis by simp
  qed
  have t': "at_rows t' = update_where (\<lambda>q. ag_public_id q = pid \<and> ag_secret_hash q = h \<and> ag_revoked_at q = None)
       (\<lambda>q. q\<lparr> ag_secret_hash := h' \<rparr>) (at_rows t)"
    using assms(2) by (auto simp: rotate_commit_def agent_update_def)
  have "get_active_by_public_id pid t' = Some (r\<lparr> ag_secret_hash := h' \<rparr>)"
    using get r unfolding get_active_by_public_id_def t'
    by (subst find_update_where_same) simp_all
  with get r(3) show ?thesis by blast
qed

lemma rotate_commit_stale:
  assumes "agents_inv t" "get_active_by_public_id pid t = Some r" "ag_secret_hash r \<noteq> h"
  shows "rotate_commit pid h h' t = (t, Inl (RotationInProgress pid))"
proof -
  have r: "r \<in> set (at_rows t)" "ag_public_id r = pid"
    using assms(2) find_Some_in_set [of _ "at_rows t" r]
    by (fastforce simp: get_active_by_public_id_def)+
  have "q = r" if "q \<in> set (at_rows t)" "ag_public_id q = pid" for q
    using that r assms(1) by (auto simp: agents_inv_def distinct_map inj_on_def)
  then have none: "\<forall>q \<in> set (at_rows t). \<not> (ag_public_id q = pid \<and> ag_secret_hash q = h \<and> ag_revoked_at q = None)"
    using assms(3) by blast
  then show ?thesis
    by (simp add: rotate_commit_def agent_update_def update_where_none rows_affected_def
                  filter_empty_conv)
qed

subsection \<open>Properties\<close>

text \<open>
  Of two rotations that both verified the secret against the same
  stored hash, the second to commit is refused with a conflict and changes
  nothing, so the secret handed out by the first stays the valid one.
\<close>

theorem first_rotation_wins:
  assumes "agents_inv t" "rotate_commit pid h h1 t = (t1, Inr ())" "h1 \<noteq> h"
  shows "rotate_commit pid h h2 t1 = (t1, Inl (RotationInProgress pid)) \<and>
         map_option ag_secret_hash (get_active_by_public_id pid t1) = Some h1"
proof -
  from rotate_commit_get [OF assms(1,2)] obtain r where
    r: "get_active_by_public_id pid t1 = Some (r\<lparr> ag_secret_hash := h1 \<rparr>)" by blast
  have "agents_inv t1"
    using agents_inv_step [OF agent_step.commit assms(1), of pid h h1] assms(2) by simp
  from rotate_commit_stale [OF this r] assms(3) r show ?thesis by simp
qed

definition sample_agent_row :: AgentRecord where
  "sample_agent_row =
     \<lparr> ag_id = 1, ag_public_id = ''a'', ag_name = ''bot'', ag_description = None,
       ag_secret_hash = ''old'', ag_tool_allowlist = None, ag_tool_denylist = None, ag_metadata = None,
       ag_cert_identity = Some ''bot.local'', ag_registered_at = 0, ag_last_used_at = None,
       ag_expires_at = Some 10, ag_revoked_at = None \<rparr>"

definition sample_agent_table :: AgentTable where
  "sample_agent_table = \<lparr> at_rows = [sample_agent_row], at_last_id = 1 \<rparr>"

theorem first_rotation_wins_witness:
  "let t1 = fst (rotate_commit ''a'' ''old'' ''new1'' sample_agent_table) in
   rotate_commit ''a'' ''old'' ''new2'' t1 = (t1, Inl (RotationInProgress ''a''))"
proof -
  have inv: "agents_inv sample_agent_table"
    by (simp add: agents_inv_def sample_agent_table_def sample_agent_row_def)
  have ok: "rotate_commit ''a'' ''old'' ''new1'' sample_agent_table =
        (fst (rotate_commit ''a'' ''old'' ''new1'' sample_agent_table), Inr ())"
    by (simp add: rotate_commit_def agent_update_def rows_affected_def sample_agent_table_def
                  sample_agent_row_def)
  from first_rotation_wins [OF inv ok] show ?thesis by (simp add: Let_def)
qed

end
