(* ===== verification/Bootstrap_Repo.thy ===== *)
theory Bootstrap_Repo
  imports Agent_Repo
begin

text \<open>
  The bootstrap-token repository of \<open>src/repo/bootstrap.rs\<close>.  \<open>consume\<close> is the
  read that validates the token followed by the guarded update; the two are
  separate statements, so other statements can run in between.
\<close>

section \<open>Definitions\<close>

datatype BootstrapStatus = Active | Used | Revoked | Expired | Unknown

record BootstrapScope =
  sc_tool_allowlist :: "string list option"
  sc_expires_at :: "int option"
  sc_single_use :: bool

record BootstrapTokenRecord =
  bt_id :: int
  bt_public_id :: string
  bt_secret_hash :: string
  bt_scope :: BootstrapScope
  bt_created_by :: string
  bt_created_at :: int
  bt_expires_at :: "int option"
  bt_used_at :: "int option"
  bt_used_by_agent_id :: "int option"
  bt_revoked_at :: "int option"

record BootstrapTable =
  bs_rows :: "BootstrapTokenRecord list"
  bs_last_id :: int

definition empty_bootstrap :: BootstrapTable where
  "empty_bootstrap = \<lparr> bs_rows = [], bs_last_id = 0 \<rparr>"

definition bt_find :: "string \<Rightarrow> BootstrapTable \<Rightarrow> BootstrapTokenRecord option" where
  "bt_find pid t = List.find (\<lambda>r. bt_public_id r = pid) (bs_rows t)"

definition mint ::
  "Crypto \<Rightarrow> Entropy \<Rightarrow> int \<Rightarrow> BootstrapScope \<Rightarrow> string \<Rightarrow> BootstrapTable
    \<Rightarrow> BootstrapTable \<times> (RepoError, string \<times> string) result" where
  "mint cr en now scope created_by t =
     (let token = generate (cr_b64 cr) TokenNamespace.Bootstrap (en_id en) (en_secret en);
          sec = expose (tk_secret token);
          pid = as_str (tk_public_id token)
      in case argon2_hash cr (en_salt en) sec of
           Inl _ \<Rightarrow> (t, Inl Hash)
         | Inr secret_hash \<Rightarrow>
             if list_ex (\<lambda>r. bt_public_id r = pid) (bs_rows t) then (t, Inl Sqlx)
             else
               (\<lparr> bs_rows = bs_rows t @
                    [\<lparr> bt_id = bs_last_id t + 1, bt_public_id = pid,
                       bt_secret_hash = secret_hash, bt_scope = scope,
                       bt_created_by = created_by, bt_created_at = now,
                       bt_expires_at = sc_expires_at scope, bt_used_at = None,
                       bt_used_by_agent_id = None, bt_revoked_at = None \<rparr>],
                  bs_last_id = bs_last_id t + 1 \<rparr>,
                Inr (pid, sec)))"

definition is_past :: "int \<Rightarrow> int option \<Rightarrow> bool" where
  "is_past now e = (case e of None \<Rightarrow> False | Some x \<Rightarrow> x < now)"

definition diagnose :: "int \<Rightarrow> string \<Rightarrow> BootstrapTable \<Rightarrow> BootstrapStatus" where
  "diagnose now pid t =
     (case bt_find pid t of
        None \<Rightarrow> Unknown
      | Some r \<Rightarrow>
          if bt_revoked_at r \<noteq> None then Revoked
          else if bt_used_at r \<noteq> None then Used
          else if is_past now (bt_expires_at r) then Expired
          else Active)"

definition preview_scope :: "int \<Rightarrow> string \<Rightarrow> BootstrapTable \<Rightarrow> (RepoError, BootstrapScope) result" where
  "preview_scope now pid t =
     (case bt_find pid t of
        None \<Rightarrow> Inl InvalidCredential
      | Some r \<Rightarrow>
          if bt_used_at r \<noteq> None \<or> bt_revoked_at r \<noteq> None then Inl InvalidCredential
          else if is_past now (bt_expires_at r) then Inl InvalidCredential
          else Inr (bt_scope r))"

definition bt_list :: "BootstrapTable \<Rightarrow> BootstrapTokenRecord list" where
  "bt_list t = sort_key (\<lambda>r. - bt_created_at r) (bs_rows t)"

definition bt_revoke :: "int \<Rightarrow> string \<Rightarrow> BootstrapTable \<Rightarrow> BootstrapTable \<times> (RepoError, unit) result" where
  "bt_revoke now pid t =
     (t\<lparr> bs_rows := update_where (\<lambda>r. bt_public_id r = pid)
                      (\<lambda>r. r\<lparr> bt_revoked_at := Some now \<rparr>) (bs_rows t) \<rparr>,
      if rows_affected (\<lambda>r. bt_public_id r = pid) (bs_rows t) = 0
      then Inl AgentNotFound else Inr ())"

definition consume_read ::
  "Crypto \<Rightarrow> int \<Rightarrow> string \<Rightarrow> string \<Rightarrow> BootstrapTable \<Rightarrow> (RepoError, BootstrapScope) result" where
  "consume_read cr now pid sec t =
     (case bt_find pid t of
        None \<Rightarrow> Inl InvalidCredential
      | Some r \<Rightarrow>
          if bt_used_at r \<noteq> None \<or> bt_revoked_at r \<noteq> None then Inl InvalidCredential
          else if is_past now (bt_expires_at r) then Inl InvalidCredential
          else (case argon2_verify cr (bt_secret_hash r) sec of
                  Inl _ \<Rightarrow> Inl Hash
                | Inr False \<Rightarrow> Inl InvalidCredential
                | Inr True \<Rightarrow> Inr (bt_scope r)))"

definition consume_mark ::
  "int \<Rightarrow> string \<Rightarrow> int \<Rightarrow> BootstrapScope \<Rightarrow> BootstrapTable
    \<Rightarrow> BootstrapTable \<times> (RepoError, BootstrapScope) result" where
  "consume_mark now pid agent_id scope t =
     (if sc_single_use scope then
        (let p = (\<lambda>r. bt_public_id r = pid \<and> bt_used_at r = None) in
         (t\<lparr> bs_rows := update_where p
                (\<lambda>r. r\<lparr> bt_used_at := Some now, bt_used_by_agent_id := Some agent_id \<rparr>) (bs_rows t) \<rparr>,
          if rows_affected p (bs_rows t) = 0 then Inl InvalidCredential else Inr scope))
      else
        (t\<lparr> bs_rows := update_where (\<lambda>r. bt_public_id r = pid)
               (\<lambda>r. r\<lparr> bt_used_by_agent_id := Some agent_id \<rparr>) (bs_rows t) \<rparr>,
         Inr scope))"

definition consume ::
  "Crypto \<Rightarrow> int \<Rightarrow> string \<Rightarrow> string \<Rightarrow> int \<Rightarrow> BootstrapTable
    \<Rightarrow> BootstrapTable \<times> (RepoError, BootstrapScope) result" where
  "consume cr now pid sec agent_id t =
     (case consume_read cr now pid sec t of
        Inl e \<Rightarrow> (t, Inl e)
      | Inr scope \<Rightarrow> consume_mark now pid agent_id scope t)"

text \<open>Every statement that writes the table.\<close>

inductive bt_step :: "BootstrapTable \<Rightarrow> BootstrapTable \<Rightarrow> bool" where
  mint: "bt_step t (fst (mint cr en now scope created_by t))"
| revoke: "bt_step t (fst (bt_revoke now pid t))"
| mark: "bt_step t (fst (consume_mark now pid agent_id scope t))"

definition bt_inv :: "BootstrapTable \<Rightarrow> bool" where
  "bt_inv t \<longleftrightarrow> distinct (map bt_public_id (bs_rows t)) \<and>
     distinct (map bt_id (bs_rows t)) \<and> (\<forall>r \<in> set (bs_rows t). bt_id r \<le> bs_last_id t)"

definition bt_used :: "string \<Rightarrow> BootstrapTable \<Rightarrow> bool" where
  "bt_used pid t \<longleftrightarrow>
     pid \<in> set (map bt_public_id (bs_rows t)) \<and>
     (\<forall>r \<in> set (bs_rows t). bt_public_id r = pid \<longrightarrow> bt_used_at r \<noteq> None)"

section \<open>Lemmas\<close>

inductive_cases bt_stepE: "bt_step t t'"

lemma bt_inv_update [inv_intros]:
  assumes "bt_inv t" "\<And>r. bt_public_id (f r) = bt_public_id r" "\<And>r. bt_id (f r) = bt_id r"
  shows "bt_inv (t\<lparr> bs_rows := update_where p f (bs_rows t) \<rparr>)"
  using assms by (auto simp: bt_inv_def table_simps)

lemma bt_inv_step:
  assumes "bt_step t t'" "bt_inv t"
  shows "bt_inv t'"
  using assms(1)
proof cases
  case (mint cr en now scope created_by)
  with assms(2) show ?thesis
    by (auto simp: mint_def bt_inv_def Let_def list_ex_iff split: sum.splits)
qed (use assms(2) in \<open>simp_all add: bt_revoke_def consume_mark_def Let_def inv_intros\<close>)

lemma bt_used_update:
  assumes "bt_used pid t" "\<And>r. bt_public_id (f r) = bt_public_id r"
    and "\<And>r. bt_used_at r \<noteq> None \<Longrightarrow> bt_used_at (f r) \<noteq> None"
  shows "bt_used pid (t\<lparr> bs_rows := update_where p f (bs_rows t) \<rparr>)"
proof -
  have "map bt_public_id (update_where p f (bs_rows t)) = map bt_public_id (bs_rows t)"
    using assms(2) by (simp add: map_update_where_frame)
  moreover have "\<forall>r \<in> set (update_where p f (bs_rows t)). bt_public_id r = pid \<longrightarrow> bt_used_at r \<noteq> None"
  proof
    fix q assume "q \<in> set (update_where p f (bs_rows t))"
    then obtain r where "r \<in> set (bs_rows t)" "q = (if p r then f r else r)"
      by (auto simp: update_where_def)
    with assms show "bt_public_id q = pid \<longrightarrow> bt_used_at q \<noteq> None"
      by (simp add: bt_used_def)
  qed
  ultimately show ?thesis
    using assms(1) by (simp add: bt_used_def)
qed

lemma bt_used_step:
  assumes "bt_step t t'" "bt_used pid t"
  shows "bt_used pid t'"
  using assms(1)
proof cases
  case (mint cr en now scope created_by)
  with assms(2) show ?thesis
    by (auto simp: mint_def bt_used_def Let_def list_ex_iff split: sum.splits)
qed (use assms(2) in \<open>simp_all add: bt_revoke_def consume_mark_def Let_def bt_used_update\<close>)

interpretation bootstrap: invariant_system bt_step bt_inv
  by unfold_locales (rule bt_inv_step)

interpretation bootstrap_use: stable_fact bt_step bt_inv "bt_used pid" for pid
  by unfold_locales (rule bt_used_step)

lemma consume_mark_single:
  assumes "sc_single_use scope" "consume_mark now pid aid scope t = (t', Inr s)"
  shows "bs_rows t' = update_where (\<lambda>r. bt_public_id r = pid \<and> bt_used_at r = None)
           (\<lambda>r. r\<lparr> bt_used_at := Some now, bt_used_by_agent_id := Some aid \<rparr>) (bs_rows t)"
    and "\<exists>r \<in> set (bs_rows t). bt_public_id r = pid \<and> bt_used_at r = None"
  using assms
  by (simp_all add: consume_mark_def Let_def rows_affected_def filter_empty_conv split: if_splits)
     auto

lemma consume_mark_uses:
  assumes "sc_single_use scope" "consume_mark now pid aid scope t = (t', Inr s)"
  shows "bt_used pid t'"
proof -
  note t' = consume_mark_single(1) [OF assms]
  from consume_mark_single(2) [OF assms] have "pid \<in> set (map bt_public_id (bs_rows t))"
    by auto
  moreover have "map bt_public_id (bs_rows t') = map bt_public_id (bs_rows t)"
    unfolding t' by (rule map_update_where_frame) simp
  moreover have "\<forall>q \<in> set (bs_rows t'). bt_public_id q = pid \<longrightarrow> bt_used_at q \<noteq> None"
    unfolding t' update_where_def set_map ball_simps(9) by simp
  ultimately show ?thesis by (simp add: bt_used_def)
qed

lemma bt_used_mark_fails:
  assumes "bt_used pid t" "sc_single_use scope"
  shows "snd (consume_mark now pid aid scope t) = Inl InvalidCredential"
  using assms
  by (auto simp: consume_mark_def bt_used_def Let_def rows_affected_0_iff)

lemma bt_find_Some:
  "bt_find pid t = Some r \<Longrightarrow> r \<in> set (bs_rows t) \<and> bt_public_id r = pid"
  unfolding bt_find_def by (rule find_Some_in_set)

lemma bt_used_read_fails:
  assumes "bt_used pid t"
  shows "consume_read cr now pid sec t = Inl InvalidCredential"
    and "preview_scope now pid t = Inl InvalidCredential"
proof -
  have "bt_used_at r \<noteq> None" if "bt_find pid t = Some r" for r
    using assms bt_find_Some [OF that] by (simp add: bt_used_def)
  then show "consume_read cr now pid sec t = Inl InvalidCredential"
    and "preview_scope now pid t = Inl InvalidCredential"
    by (simp_all add: consume_read_def preview_scope_def split: option.splits)
qed

lemma consume_read_InrD:
  assumes "consume_read cr now pid sec t = Inr scope"
  shows "\<exists>r. bt_find pid t = Some r \<and> scope = bt_scope r \<and> diagnose now pid t = Active \<and>
             argon2_verify cr (bt_secret_hash r) sec = Inr True"
proof (cases "bt_find pid t")
  case (Some r)
  with assms show ?thesis
    by (simp add: consume_read_def diagnose_def split: if_splits sum.splits bool.splits)
qed (use assms in \<open>simp add: consume_read_def\<close>)

lemma mint_InrD:
  assumes "mint cr en now scope by_op t = (t', Inr (pid, sec))"
  shows "\<exists>h. argon2_hash cr (en_salt en) sec = Inr h \<and>
             (\<forall>r \<in> set (bs_rows t). bt_public_id r \<noteq> pid) \<and>
             pid = cr_b64 cr (en_id en) \<and> sec = cr_b64 cr (en_secret en) \<and>
             bs_rows t' = bs_rows t @
               [\<lparr> bt_id = bs_last_id t + 1, bt_public_id = pid, bt_secret_hash = h,
                  bt_scope = scope, bt_created_by = by_op, bt_created_at = now,
                  bt_expires_at = sc_expires_at scope, bt_used_at = None,
                  bt_used_by_agent_id = None, bt_revoked_at = None \<rparr>]"
  using assms
  by (simp add: mint_def Let_def generate_def list_ex_iff split: sum.splits if_splits) auto

lemma mint_find:
  assumes "mint cr en now scope by_op t = (t', Inr (pid, sec))"
  shows "\<exists>r. bt_find pid t' = Some r \<and> bt_scope r = scope \<and> bt_used_at r = None \<and>
             bt_revoked_at r = None \<and> bt_expires_at r = sc_expires_at scope \<and>
             argon2_hash cr (en_salt en) sec = Inr (bt_secret_hash r)"
proof -
  from mint_InrD [OF assms] obtain h where
    h: "argon2_hash cr (en_salt en) sec = Inr h"
    and fresh: "\<forall>r \<in> set (bs_rows t). bt_public_id r \<noteq> pid"
    and rows: "bs_rows t' = bs_rows t @
               [\<lparr> bt_id = bs_last_id t + 1, bt_public_id = pid, bt_secret_hash = h,
                  bt_scope = scope, bt_created_by = by_op, bt_created_at = now,
                  bt_expires_at = sc_expires_at scope, bt_used_at = None,
                  bt_used_by_agent_id = None, bt_revoked_at = None \<rparr>]"
    by blast
  from fresh have "List.find (\<lambda>r. bt_public_id r = pid) (bs_rows t) = None"
    by (simp add: find_None_iff)
  with h show ?thesis by (simp add: bt_find_def rows find_append)
qed

end
