(* ===== verification/Http.thy ===== *)
theory Http
  imports Audit_Event
begin

text \<open>
  HTTP requests and responses as the handlers see them, the error envelopes,
  and the audit log of a handler: \<open>None\<close> when no audit repository is wired,
  otherwise the events passed to \<open>AuditRepository::record\<close>, oldest first.
  A streamed body is what the polls of the upstream stream return, with the
  size cap and the event its truncation callback records.
\<close>

datatype poll = Pending | Ready_Err | Ready_Ok string | Ready_None

type_synonym audit_log = "AuditEvent list option"

datatype body =
    NoBody
  | JsonBody json
  | Bytes string
  | Stream "poll list" "(nat \<times> (nat \<Rightarrow> AuditEvent)) option"

record Response =
  rs_status :: nat
  rs_headers :: headers
  rs_body :: body

definition audit_emit :: "AuditEvent \<Rightarrow> audit_log \<Rightarrow> audit_log" where
  "audit_emit e log = map_option (\<lambda>l. l @ [e]) log"

text \<open>\<open>HeaderValue::to_str\<close>: visible ASCII and tab only.\<close>

definition hdr_to_str :: "string \<Rightarrow> string option" where
  "hdr_to_str v =
     (if list_all (\<lambda>c. let n = of_char c :: nat in n = 9 \<or> (32 \<le> n \<and> n < 127)) v
      then Some v else None)"

definition json_response :: "nat \<Rightarrow> json \<Rightarrow> Response" where
  "json_response st j = \<lparr> rs_status = st, rs_headers = [], rs_body = JsonBody j \<rparr>"

lemma audit_emit_simps [simp]:
  "audit_emit e None = None"
  "audit_emit e (Some l) = Some (l @ [e])"
  by (simp_all add: audit_emit_def)

lemma audit_emit_eq_None [simp]: "audit_emit e log = None \<longleftrightarrow> log = None"
  by (simp add: audit_emit_def)

end
