(* ===== verification/Agent_Auth.thy ===== *)
theory Agent_Auth
  imports Bootstrap_Repo Http
begin

text \<open>
  Per-agent and operator authentication, \<open>src/auth_v2\<close>: the error type and its
  wire envelope, the tool ACL of an agent, the bearer authenticator over the
  agent table and the operator authenticator over the operators file.  The
  decoy hash verifications only equalise timing and have no effect on the
  result, so they do not appear.
\<close>

section \<open>Definitions\<close>

datatype AuthError =
    MissingCredential
  | InvalidCredential
  | Revoked
  | Expired
  | RateLimited nat
  | Backend
  | MtlsMisconfigured

fun auth_status :: "AuthError \<Rightarrow> nat" where
  "auth_status MissingCredential = 401"
| "auth_status InvalidCredential = 401"
| "auth_status Revoked = 401"
| "auth_status Expired = 401"
| "auth_status (RateLimited _) = 429"
| "auth_status Backend = 500"
| "auth_status MtlsMisconfigured = 500"

fun auth_code :: "AuthError \<Rightarrow> string" where
  "auth_code MissingCredential = ''invalid_credential''"
| "auth_code InvalidCredential = ''invalid_credential''"
| "auth_code Revoked = ''revoked''"
| "auth_code Expired = ''expired''"
| "auth_code (RateLimited _) = ''rate_limited''"
| "auth_code Backend = ''backend_error''"
| "auth_code MtlsMisconfigured = ''internal_error''"

fun auth_message :: "AuthError \<Rightarrow> string" where
  "auth_message MissingCredential = ''missing credential''"
| "auth_message InvalidCredential = ''invalid credential''"
| "auth_message Revoked = ''revoked''"
| "auth_message Expired = ''expired''"
| "auth_message (RateLimited _) = ''rate limited''"
| "auth_message Backend = ''internal error''"
| "auth_message MtlsMisconfigured = ''internal error''"

definition auth_error_response :: "AuthError \<Rightarrow> Response" where
  "auth_error_response err =
     \<lparr> rs_status = auth_status err,
       rs_headers = (case err of RateLimited secs \<Rightarrow> [(''retry-after'', digits secs)] | _ \<Rightarrow> []),
       rs_body = JsonBody (JObj [(''error'', JObj
         [(''message'', JStr (auth_message err)),
          (''type'', JStr ''auth_error''),
          (''code'', JStr (auth_code err))])]) \<rparr>"

subsection \<open>Agents\<close>

record AgentIdentity =
  ai_id :: int
  ai_public_id :: string
  ai_name :: string
  ai_tool_allowlist :: "string list option"
  ai_tool_denylist :: "string list option"

definition allows_tool :: "AgentIdentity \<Rightarrow> string \<Rightarrow> (string, unit) result" where
  "allows_tool ident tool_name =
     (if (case ai_tool_denylist ident of None \<Rightarrow> False | Some deny \<Rightarrow> tool_name \<in> set deny)
      then Inl ''in_denylist''
      else if (case ai_tool_allowlist ident of None \<Rightarrow> False | Some allow \<Rightarrow> tool_name \<notin> set allow)
      then Inl ''not_in_allowlist''
      else Inr ())"

definition identity_of :: "AgentRecord \<Rightarrow> AgentIdentity" where
  "identity_of r =
     \<lparr> ai_id = ag_id r, ai_public_id = ag_public_id r, ai_name = ag_name r,
       ai_tool_allowlist = ag_tool_allowlist r, ai_tool_denylist = ag_tool_denylist r \<rparr>"

text \<open>The state an authentication reads and writes.\<close>

record AuthState =
  as_agents :: AgentTable
  as_audit :: audit_log

definition auth_failure_event :: "int \<Rightarrow> string option \<Rightarrow> string \<Rightarrow> AuditEvent" where
  "auth_failure_event now_ms pid reason =
     default_event\<lparr> ev_ts_ms := now_ms, ev_class := Security, ev_event := ''auth_failure'',
       ev_agent_public_id := pid, ev_decision := Denied, ev_auth_method := Some ''bearer'',
       ev_details := Some (JObj [(''reason'', JStr reason)]) \<rparr>"

definition audit_failure :: "int \<Rightarrow> string option \<Rightarrow> string \<Rightarrow> AuthState \<Rightarrow> AuthState" where
  "audit_failure clk pid reason s =
     s\<lparr> as_audit := audit_emit (auth_failure_event clk pid reason) (as_audit s) \<rparr>"

definition auth_resolve ::
  "Crypto \<Rightarrow> int \<Rightarrow> string \<Rightarrow> string \<Rightarrow> AuthState \<Rightarrow> AuthState \<times> (AuthError, AgentIdentity) result" where
  "auth_resolve cr clk pid sec s =
     (case get_active_by_public_id pid (as_agents s) of
        None \<Rightarrow> (audit_failure clk None ''unknown_public_id'' s, Inl InvalidCredential)
      | Some r \<Rightarrow>
          if is_past (secs_of clk) (ag_expires_at r)
          then (audit_failure clk (Some (ag_public_id r)) ''expired'' s, Inl Expired)
          else
            (case argon2_verify cr (ag_secret_hash r) sec of
               Inl _ \<Rightarrow> (s, Inl Backend)
             | Inr False \<Rightarrow>
                 (audit_failure clk (Some (ag_public_id r)) ''secret_mismatch'' s,
                  Inl InvalidCredential)
             | Inr True \<Rightarrow>
                 (s\<lparr> as_agents := touch_last_used (secs_of clk) (ag_public_id r) (as_agents s) \<rparr>,
                  Inr (identity_of r))))"

definition authenticate_bearer ::
  "Crypto \<Rightarrow> int \<Rightarrow> string \<Rightarrow> AuthState \<Rightarrow> AuthState \<times> (AuthError, AgentIdentity) result" where
  "authenticate_bearer cr clk header s =
     (case strip_prefix ''Bearer '' header of
        None \<Rightarrow> (audit_failure clk None ''missing_credential'' s, Inl MissingCredential)
      | Some raw \<Rightarrow>
          (case parse (cr_unb64 cr) raw of
             Inl _ \<Rightarrow> (audit_failure clk None ''malformed_token'' s, Inl InvalidCredential)
           | Inr (ns, pid, sec) \<Rightarrow>
               if ns \<noteq> TokenNamespace.Agent
               then (audit_failure clk (Some (as_str pid)) ''wrong_namespace'' s,
                     Inl InvalidCredential)
               else auth_resolve cr clk (as_str pid) (expose sec) s))"

subsection \<open>Operators\<close>

record OperatorIdentity =
  oi_name :: string
  oi_scope :: "json option"
  oi_auth_method :: "string option"

record OperatorRecord =
  or_name :: string
  or_public_id :: string
  or_token_hash :: string
  or_scope :: "json option"
  or_cert_identity :: "string option"

definition operator_failure_event :: "int \<Rightarrow> string option \<Rightarrow> string \<Rightarrow> AuditEvent" where
  "operator_failure_event now_ms opname reason =
     default_event\<lparr> ev_ts_ms := now_ms, ev_class := Security,
       ev_event := ''operator_auth_failure'', ev_operator_name := opname,
       ev_decision := Denied, ev_auth_method := Some ''bearer'',
       ev_details := Some (JObj [(''reason'', JStr reason)]) \<rparr>"

text \<open>Loading the operators file: \<open>None\<close> when it cannot be read.\<close>

definition operators_load ::
  "Crypto \<Rightarrow> bytes \<Rightarrow> (string \<Rightarrow> OperatorRecord list option) \<Rightarrow> string option \<Rightarrow> (AuthError, OperatorRecord list) result" where
  "operators_load cr salt yaml file =
     (case Option.bind file yaml of
        None \<Rightarrow> Inl AuthError.Backend
      | Some rs \<Rightarrow>
          (case argon2_hash cr salt ''decoy-operator-secret-for-constant-time-on-miss'' of
             Inl _ \<Rightarrow> Inl AuthError.Backend
           | Inr _ \<Rightarrow> Inr rs))"

text \<open>Building the agent authenticator only computes its decoy hash.\<close>

definition bearer_with_audit :: "Crypto \<Rightarrow> bytes \<Rightarrow> (AuthError, string) result" where
  "bearer_with_audit cr salt =
     (case argon2_hash cr salt ''decoy-secret-for-constant-time-on-miss-do-not-use-in-production'' of
        Inl _ \<Rightarrow> Inl Backend
      | Inr h \<Rightarrow> Inr h)"

definition operator_authenticate_bearer ::
  "Crypto \<Rightarrow> int \<Rightarrow> OperatorRecord list \<Rightarrow> string \<Rightarrow> audit_log
    \<Rightarrow> audit_log \<times> (AuthError, OperatorIdentity) result" where
  "operator_authenticate_bearer cr clk records header log =
     (let fail = (\<lambda>opname reason. audit_emit (operator_failure_event clk opname reason) log)
      in case strip_prefix ''Bearer '' header of
           None \<Rightarrow> (log, Inl MissingCredential)
         | Some raw \<Rightarrow>
             (case parse (cr_unb64 cr) raw of
                Inl _ \<Rightarrow> (fail None ''malformed_token'', Inl InvalidCredential)
              | Inr (ns, pid, sec) \<Rightarrow>
                  if ns \<noteq> TokenNamespace.Operator
                  then (fail None ''wrong_namespace'', Inl InvalidCredential)
                  else
                    (case List.find (\<lambda>r. or_public_id r = as_str pid) records of
                       None \<Rightarrow> (fail None ''unknown_public_id'', Inl InvalidCredential)
                     | Some r \<Rightarrow>
                         (case argon2_verify cr (or_token_hash r) (expose sec) of
                            Inl _ \<Rightarrow> (log, Inl Backend)
                          | Inr True \<Rightarrow>
                              (log, Inr \<lparr> oi_name = or_name r, oi_scope = or_scope r,
                                          oi_auth_method = None \<rparr>)
                          | Inr False \<Rightarrow>
                              (fail (Some (or_name r)) ''secret_mismatch'',
                               Inl InvalidCredential)))))"

definition operator_cert_failure_event :: "int \<Rightarrow> string \<Rightarrow> AuditEvent" where
  "operator_cert_failure_event now_ms cert_identity =
     default_event\<lparr> ev_ts_ms := now_ms, ev_class := Security,
       ev_event := ''operator_auth_failure'', ev_decision := Denied,
       ev_auth_method := Some ''mtls'',
       ev_details := Some (JObj [(''reason'', JStr ''unknown_cert_identity''),
                                 (''cert_identity'', JStr cert_identity)]) \<rparr>"

definition authenticate_cert_identity ::
  "int \<Rightarrow> OperatorRecord list \<Rightarrow> string \<Rightarrow> audit_log
    \<Rightarrow> audit_log \<times> (AuthError, OperatorIdentity) result" where
  "authenticate_cert_identity clk records cert_identity log =
     (case List.find (\<lambda>r. or_cert_identity r = Some cert_identity) records of
        Some r \<Rightarrow> (log, Inr \<lparr> oi_name = or_name r, oi_scope = or_scope r,
                             oi_auth_method = Some ''mtls'' \<rparr>)
      | None \<Rightarrow> (audit_emit (operator_cert_failure_event clk cert_identity) log,
                 Inl InvalidCredential))"

text \<open>The active accounts of the agent table, the contract of the authenticators.\<close>

definition active_account :: "AuthState \<Rightarrow> AgentIdentity \<Rightarrow> bool" where
  "active_account s ident \<longleftrightarrow>
     (\<exists>r \<in> set (at_rows (as_agents s)). ag_revoked_at r = None \<and> ident = identity_of r)"

section \<open>Lemmas\<close>

subsection \<open>The tool ACL\<close>

lemma allows_tool_Inr_iff:
  "allows_tool ident tn = Inr () \<longleftrightarrow>
     (\<forall>deny. ai_tool_denylist ident = Some deny \<longrightarrow> tn \<notin> set deny) \<and>
     (\<forall>allow. ai_tool_allowlist ident = Some allow \<longrightarrow> tn \<in> set allow)"
  by (auto simp: allows_tool_def split: option.splits)

lemma allows_tool_deny_wins:
  "ai_tool_denylist ident = Some deny \<Longrightarrow> tn \<in> set deny \<Longrightarrow>
   allows_tool ident tn = Inl ''in_denylist''"
  by (simp add: allows_tool_def)

lemma revoked_not_active:
  assumes "agents_inv (as_agents s)" "revoked pid (as_agents s)" "active_account s ident"
  shows "ai_public_id ident \<noteq> pid"
proof
  assume pid: "ai_public_id ident = pid"
  from assms(3) obtain q where q: "q \<in> set (at_rows (as_agents s))"
      "ag_revoked_at q = None" "ident = identity_of q"
    by (auto simp: active_account_def)
  from assms(2) obtain r where r: "r \<in> set (at_rows (as_agents s))" "ag_public_id r = pid"
      "ag_revoked_at r \<noteq> None"
    by (auto simp: revoked_def)
  have "ag_public_id q = ag_public_id r" using pid q(3) r(2) by (simp add: identity_of_def)
  then have "q = r"
    using q(1) r(1) assms(1) by (auto simp: agents_inv_def distinct_map inj_on_def)
  with q(2) r(3) show False by simp
qed

subsection \<open>The authenticator contract\<close>

locale agent_authenticator =
  fixes authn :: "'c \<Rightarrow> AuthState \<Rightarrow> AuthState \<times> (AuthError, AgentIdentity) result"
  assumes sound: "authn c s = (s', Inr ident) \<Longrightarrow> active_account s ident"
    and accounts_frame: "authn c s = (s', r) \<Longrightarrow> active_account s' = active_account s"
    and failure_audited: "authn c s = (s', Inl e) \<Longrightarrow> auth_status e = 401 \<Longrightarrow> as_audit s = Some l \<Longrightarrow>
          \<exists>ev. as_audit s' = Some (l @ [ev]) \<and> ev_class ev = Security \<and> ev_decision ev = Denied"
    and failure_frame: "authn c s = (s', Inl e) \<Longrightarrow> as_agents s' = as_agents s"
    and inv_kept: "authn c s = (s', r) \<Longrightarrow> agents_inv (as_agents s) \<Longrightarrow> agents_inv (as_agents s')"
begin

lemma no_revoked_identity:
  assumes "agents_inv (as_agents s)" "revoked pid (as_agents s)"
    and "authn c s = (s', Inr ident)"
  shows "ai_public_id ident \<noteq> pid"
  using revoked_not_active [OF assms(1,2) sound [OF assms(3)]] .

end

lemma active_account_touch:
  "active_account (s\<lparr> as_agents := touch_last_used now pid (as_agents s) \<rparr>) = active_account s"
  (is "active_account ?s' = _")
proof
  fix ident
  have "\<exists>q \<in> set (at_rows (as_agents ?s')). ag_revoked_at q = ag_revoked_at r \<and> identity_of q = identity_of r"
    if "r \<in> set (at_rows (as_agents s))" for r
    using that
    by (cases "ag_public_id r = pid")
       (auto simp: touch_last_used_def update_where_def identity_of_def
             intro!: bexI [of _ "if ag_public_id r = pid then r\<lparr> ag_last_used_at := Some now \<rparr> else r"]
                     rev_image_eqI [of r])
  moreover have "\<exists>q \<in> set (at_rows (as_agents s)). ag_revoked_at q = ag_revoked_at r \<and> identity_of q = identity_of r"
    if "r \<in> set (at_rows (as_agents ?s'))" for r
    using that
    by (auto simp: touch_last_used_def update_where_def identity_of_def split: if_splits)
  ultimately show "active_account ?s' ident = active_account s ident"
    unfolding active_account_def by metis
qed

lemma auth_resolve_InrD:
  assumes "auth_resolve cr clk pid sec s = (s', Inr ident)"
  shows "\<exists>r. get_active_by_public_id pid (as_agents s) = Some r \<and>
             \<not> is_past (secs_of clk) (ag_expires_at r) \<and>
             argon2_verify cr (ag_secret_hash r) sec = Inr True \<and> ident = identity_of r \<and>
             s' = s\<lparr> as_agents := touch_last_used (secs_of clk) (ag_public_id r) (as_agents s) \<rparr>"
proof (cases "get_active_by_public_id pid (as_agents s)")
  case (Some r)
  with assms show ?thesis
    by (simp add: auth_resolve_def split: if_splits sum.splits bool.splits)
qed (use assms in \<open>simp add: auth_resolve_def\<close>)

lemma authenticate_bearer_InrD:
  assumes "authenticate_bearer cr clk header s = (s', Inr ident)"
  shows "\<exists>pid sec. header = ''Bearer '' @ wire_format \<lparr> tk_namespace = TokenNamespace.Agent,
              tk_public_id = pid, tk_secret = sec \<rparr> \<and>
             auth_resolve cr clk (as_str pid) (expose sec) s = (s', Inr ident)"
proof -
  from assms obtain raw ns pid sec where "header = ''Bearer '' @ raw"
      "parse (cr_unb64 cr) raw = Inr (ns, pid, sec)" "ns = TokenNamespace.Agent"
      "auth_resolve cr clk (as_str pid) (expose sec) s = (s', Inr ident)"
    by (auto simp: authenticate_bearer_def strip_prefix_iff
             split: option.splits sum.splits if_splits)
  then show ?thesis
    by (intro exI [of _ pid] exI [of _ sec]) (simp add: parse_Inr_iff)
qed

lemma get_active_Some:
  "get_active_by_public_id pid t = Some r \<Longrightarrow>
   r \<in> set (at_rows t) \<and> ag_public_id r = pid \<and> ag_revoked_at r = None"
  unfolding get_active_by_public_id_def by (drule find_Some_in_set) simp

lemma authenticate_bearer_InlD:
  assumes "authenticate_bearer cr clk header s = (s', Inl e)"
  shows "s' = s \<and> e = Backend \<or> (\<exists>pid reason. s' = audit_failure clk pid reason s)"
  using assms
  unfolding authenticate_bearer_def auth_resolve_def
  by (simp split: option.splits sum.splits if_splits bool.splits prod.splits) blast+

interpretation bearer: agent_authenticator "\<lambda>header. authenticate_bearer cr clk header" for cr clk
proof
  fix header s s' ident
  assume "authenticate_bearer cr clk header s = (s', Inr ident)"
  from authenticate_bearer_InrD [OF this] show "active_account s ident"
    by (auto dest!: auth_resolve_InrD get_active_Some simp: active_account_def)
next
  fix header s s' r
  assume a: "authenticate_bearer cr clk header s = (s', r)"
  show "active_account s' = active_account s"
  proof (cases r)
    case (Inl e)
    with a show ?thesis
      by (auto dest!: authenticate_bearer_InlD simp: active_account_def audit_failure_def fun_eq_iff)
  next
    case (Inr ident)
    with a show ?thesis
      by (auto dest!: authenticate_bearer_InrD auth_resolve_InrD simp: active_account_touch)
  qed
  show "agents_inv (as_agents s) \<Longrightarrow> agents_inv (as_agents s')"
  proof (cases r)
    case (Inl e)
    then show "agents_inv (as_agents s) \<Longrightarrow> agents_inv (as_agents s')"
      using a by (auto dest!: authenticate_bearer_InlD simp: audit_failure_def)
  next
    case (Inr ident)
    then show "agents_inv (as_agents s) \<Longrightarrow> agents_inv (as_agents s')"
      using a by (auto dest!: authenticate_bearer_InrD auth_resolve_InrD
                       simp: touch_last_used_def inv_intros)
  qed
next
  fix header s s' e l
  assume "authenticate_bearer cr clk header s = (s', Inl e)" "auth_status e = 401" "as_audit s = Some l"
  then show "\<exists>ev. as_audit s' = Some (l @ [ev]) \<and> ev_class ev = Security \<and> ev_decision ev = Denied"
    by (auto dest!: authenticate_bearer_InlD
             simp: audit_failure_def auth_failure_event_def)
next
  fix header s s' e
  assume "authenticate_bearer cr clk header s = (s', Inl e)"
  then show "as_agents s' = as_agents s"
    by (auto dest!: authenticate_bearer_InlD simp: audit_failure_def)
qed

lemma issued_token_authenticates:
  assumes ok: "argon2_ok cr" "b64_ok cr" "entropy_ok en"
    and get: "get_active_by_public_id pid (as_agents st) = Some r"
    and hash: "argon2_hash cr salt sec = Inr (ag_secret_hash r)"
    and tok: "pid = cr_b64 cr (en_id en)" "sec = cr_b64 cr (en_secret en)"
    and live: "\<not> is_past (secs_of clk) (ag_expires_at r)"
  shows "snd (authenticate_bearer cr clk (''Bearer '' @ ''lk_'' @ pid @ ''.'' @ sec) st) = Inr (identity_of r)"
proof -
  have "parse (cr_unb64 cr) (''lk_'' @ pid @ ''.'' @ sec) =
      Inr (TokenNamespace.Agent, PublicId pid, Secret sec)"
    using parse_generated_entropy [OF ok(2,3), of TokenNamespace.Agent] tok
    by (simp add: generate_def wire_format_def)
  moreover have "argon2_verify cr (ag_secret_hash r) sec = Inr True"
    using argon2_hash_verify [OF ok(1) hash] by simp
  ultimately show ?thesis
    using get live
    by (simp add: authenticate_bearer_def strip_prefix_def starts_with_def auth_resolve_def)
qed

subsection \<open>Properties\<close>

text \<open>
  Property C18: an accepted bearer header is the wire format of an agent token
  whose secret verifies against the stored hash of an account that is neither
  revoked nor expired; the identity is that account's, no failure is audited,
  and of the table only the time of last use of that account changes.
\<close>

theorem bearer_authentication_sound:
  assumes "authenticate_bearer cr clk header s = (s', Inr ident)"
  shows "\<exists>r pid sec. header = ''Bearer '' @ wire_format \<lparr> tk_namespace = TokenNamespace.Agent,
              tk_public_id = pid, tk_secret = sec \<rparr> \<and>
            r \<in> set (at_rows (as_agents s)) \<and> ag_public_id r = as_str pid \<and>
            ag_revoked_at r = None \<and> \<not> is_past (secs_of clk) (ag_expires_at r) \<and>
            argon2_verify cr (ag_secret_hash r) (expose sec) = Inr True \<and> ident = identity_of r \<and>
            as_audit s' = as_audit s \<and>
            as_agents s' = touch_last_used (secs_of clk) (as_str pid) (as_agents s)"
proof -
  from authenticate_bearer_InrD [OF assms] obtain pid sec where
    hd: "header = ''Bearer '' @ wire_format \<lparr> tk_namespace = TokenNamespace.Agent,
              tk_public_id = pid, tk_secret = sec \<rparr>"
    and res: "auth_resolve cr clk (as_str pid) (expose sec) s = (s', Inr ident)" by blast
  from auth_resolve_InrD [OF res] obtain r where
    get: "get_active_by_public_id (as_str pid) (as_agents s) = Some r"
    and r: "\<not> is_past (secs_of clk) (ag_expires_at r)"
      "argon2_verify cr (ag_secret_hash r) (expose sec) = Inr True" "ident = identity_of r"
      "s' = s\<lparr> as_agents := touch_last_used (secs_of clk) (ag_public_id r) (as_agents s) \<rparr>" by blast
  have row: "r \<in> set (at_rows (as_agents s))" "ag_public_id r = as_str pid" "ag_revoked_at r = None"
    using find_Some_in_set [OF get [unfolded get_active_by_public_id_def]] by simp_all
  have "as_audit s' = as_audit s"
    "as_agents s' = touch_last_used (secs_of clk) (as_str pid) (as_agents s)"
    using r(4) row(2) by simp_all
  with hd r(1-3) row show ?thesis by blast
qed

definition sample_auth :: AuthState where
  "sample_auth =
     \<lparr> as_agents = \<lparr> at_rows = [sample_agent_row\<lparr> ag_public_id := b64url_encode (en_id sample_entropy),
         ag_secret_hash := ''$argon2id$'' @ b64url_encode (en_secret sample_entropy) \<rparr>], at_last_id = 1 \<rparr>,
       as_audit = Some [] \<rparr>"

theorem bearer_authentication_sound_witness:
  "let run = authenticate_bearer sample_crypto 5000 (''Bearer '' @ ''lk_'' @ b64url_encode (en_id sample_entropy)
               @ ''.'' @ b64url_encode (en_secret sample_entropy)) sample_auth
   in (\<exists>ident. snd run = Inr ident) \<and> as_audit (fst run) = Some []"
proof -
  let ?run = "authenticate_bearer sample_crypto 5000 (''Bearer '' @ ''lk_'' @ b64url_encode (en_id sample_entropy)
               @ ''.'' @ b64url_encode (en_secret sample_entropy)) sample_auth"
  let ?r = "hd (at_rows (as_agents sample_auth))"
  have "snd ?run = Inr (identity_of ?r)"
    by (rule issued_token_authenticates [OF sample_crypto_argon2 sample_crypto_b64 sample_entropy_ok,
           where salt = "[]"])
       (simp_all add: sample_auth_def get_active_by_public_id_def sample_agent_row_def argon2_hash_def
          sample_crypto_def is_past_def secs_of_def)
  then have ok: "\<exists>ident. snd ?run = Inr ident" and run: "?run = (fst ?run, Inr (identity_of ?r))"
    by (blast, metis prod.collapse)
  from bearer_authentication_sound [OF run] have "as_audit (fst ?run) = as_audit sample_auth" by blast
  moreover have "as_audit sample_auth = Some []" by (simp add: sample_auth_def)
  ultimately show ?thesis unfolding Let_def using ok by (intro conjI) (assumption, rule trans)
qed

end
