(* ===== verification/Config.thy ===== *)
theory Config
  imports Prelude
begin

text \<open>
  Configuration, \<open>src/config.rs\<close> and \<open>src/deprecation.rs\<close>: the fields the
  request path reads, the request allowlist and its validation, \<open>${VAR}\<close>
  expansion, and the deprecation rewriting of the parsed YAML tree.  YAML
  parsing belongs to \<open>serde_yaml\<close>: a tree is a \<open>json\<close> value.
\<close>

section \<open>Definitions\<close>

datatype SecretRef =
    Inline string
  | LegacyString string
  | FromEnv string "string option"
  | FromFileSealed string
  | FromVault string string string
  | FromAwsSecretsManager string "string option" "string option"

definition looks_present :: "SecretRef \<Rightarrow> bool" where
  "looks_present r =
     (case r of Inline s \<Rightarrow> s \<noteq> [] | LegacyString s \<Rightarrow> s \<noteq> [] | _ \<Rightarrow> True)"

fun secret_ref_display :: "SecretRef \<Rightarrow> string" where
  "secret_ref_display (Inline _) = ''<inline>''"
| "secret_ref_display (LegacyString _) = ''<legacy_string>''"
| "secret_ref_display (FromEnv var _) = ''from_env('' @ var @ '')''"
| "secret_ref_display (FromFileSealed path) = ''from_file_sealed('' @ path @ '')''"
| "secret_ref_display (FromVault mount path field) =
     ''from_vault('' @ mount @ ''/'' @ path @ ''#'' @ field @ '')''"
| "secret_ref_display (FromAwsSecretsManager sid _ _) =
     ''from_aws_secrets_manager('' @ sid @ '')''"

datatype AuthMode = Bearer | Mtls | Both

datatype EgressMode = Direct | Proxied

record ToolTimeouts =
  to_request_seconds :: nat
  to_idle_seconds :: nat

definition default_timeouts :: ToolTimeouts where
  "default_timeouts = \<lparr> to_request_seconds = 30, to_idle_seconds = 60 \<rparr>"

definition default_body_limit :: nat where
  "default_body_limit = 10 * 1024 * 1024"

record RedactionPatternConfig =
  rp_id :: string
  rp_regex :: string
  rp_replacement :: "string option"

record ResponseControlsConfig =
  rcc_max_size_bytes :: "nat option"
  rcc_content_type_allowlist :: "string list option"
  rcc_redaction_patterns :: "RedactionPatternConfig list"

record ToolRequestRule =
  tr_method :: string
  tr_path :: string

record ToolAuthConfig =
  tac_header :: string
  tac_force_replace :: bool
  tac_value :: SecretRef

record ToolConfig =
  tc_name :: string
  tc_description :: string
  tc_upstream :: string
  tc_egress :: EgressMode
  tc_credential_handles :: "string list"
  tc_request_allowlist :: "ToolRequestRule list option"
  tc_auth :: "ToolAuthConfig option"
  tc_timeouts :: ToolTimeouts
  tc_body_limit_bytes :: nat
  tc_response :: "ResponseControlsConfig option"

record InboundAuthConfig =
  ia_mode :: string
  ia_token :: "string option"

record KamiwazaDelegationConfig =
  kd_enabled :: bool
  kd_required :: bool
  kd_signing_secret :: "string option"
  kd_header :: string
  kd_issuer :: string
  kd_audience :: string
  kd_ttl_seconds :: nat

definition default_delegation :: KamiwazaDelegationConfig where
  "default_delegation =
     \<lparr> kd_enabled = False, kd_required = False, kd_signing_secret = None,
       kd_header = ''x-kamiwaza-agent-delegation'', kd_issuer = ''agent-locksmith'',
       kd_audience = ''kamiwaza-tools'', kd_ttl_seconds = 60 \<rparr>"

record KamiwazaConfig =
  kc_enabled :: bool
  kc_api_url :: "string option"
  kc_api_url_candidates :: "string list"
  kc_api_token :: "string option"
  kc_tool_prefix :: string
  kc_include_types :: "string list"
  kc_extension_names :: "string list"
  kc_verify_tls :: bool
  kc_cloud :: bool
  kc_timeout_seconds :: nat
  kc_catalog_ttl_seconds :: nat
  kc_delegation :: KamiwazaDelegationConfig

record AppConfig =
  ac_auth_mode :: AuthMode
  ac_inbound_auth :: "InboundAuthConfig option"
  ac_egress_proxy :: "string option"
  ac_kamiwaza :: "KamiwazaConfig option"
  ac_upstream_ca_bundle :: "string option"
  ac_tools :: "ToolConfig list"

definition is_literal_request_path :: "string \<Rightarrow> bool" where
  "is_literal_request_path path \<longleftrightarrow>
     starts_with ''/'' path \<and>
     \<not> contains_str ''//'' path \<and>
     \<not> list_ex (\<lambda>c. c = CHR ''%'' \<or> c = CHR ''?'' \<or> c = CHR ''#'' \<or> c = CHR 0x5C) path \<and>
     \<not> list_ex (\<lambda>c. is_ws c \<or> is_ctl c) path \<and>
     \<not> list_ex (\<lambda>seg. seg = ''.'' \<or> seg = ''..'') (split_on (CHR ''/'') path)"

definition active_tools :: "AppConfig \<Rightarrow> ToolConfig list" where
  "active_tools cfg =
     filter (\<lambda>t. case tc_auth t of Some auth \<Rightarrow> looks_present (tac_value auth) | None \<Rightarrow> True)
       (ac_tools cfg)"

definition active_tools_against :: "(string \<rightharpoonup> string) \<Rightarrow> AppConfig \<Rightarrow> ToolConfig list" where
  "active_tools_against resolved cfg =
     filter (\<lambda>t. case tc_auth t of Some _ \<Rightarrow> resolved (tc_name t) \<noteq> None | None \<Rightarrow> True)
       (ac_tools cfg)"

subsection \<open>Variable expansion\<close>

text \<open>
  One iteration of the loop: the first \<open>${\<close>, the first \<open>}\<close> at or after it, and
  the text in between replaced by the value of the variable.  \<open>None\<close> when the
  loop exits.
\<close>

fun index_char :: "char \<Rightarrow> string \<Rightarrow> nat option" where
  "index_char c [] = None"
| "index_char c (x # xs) = (if x = c then Some 0 else map_option Suc (index_char c xs))"

definition expand_once :: "(string \<Rightarrow> string option) \<Rightarrow> string \<Rightarrow> string option" where
  "expand_once env s =
     (case find_sub ''${'' s of
        None \<Rightarrow> None
      | Some start \<Rightarrow>
          (case index_char (CHR ''}'') (drop start s) of
             None \<Rightarrow> None
           | Some stop \<Rightarrow>
               (let var_name = drop 2 (take stop (drop start s));
                    val = (case env var_name of Some v \<Rightarrow> v | None \<Rightarrow> [])
                in Some (take start s @ val @ drop (start + stop + 1) s))))"

partial_function (option) expand_env_vars ::
  "(string \<Rightarrow> string option) \<Rightarrow> string \<Rightarrow> string option" where
  "expand_env_vars env s =
     (case expand_once env s of None \<Rightarrow> Some s | Some s' \<Rightarrow> expand_env_vars env s')"

subsection \<open>Validation\<close>

datatype ConfigError = InvalidAllowlist string | DuplicatePatternId string string
  | RegexCompileFailed string string | YamlError

definition ascii_upper :: "char \<Rightarrow> char" where
  "ascii_upper c = (let n = of_char c :: nat in
     if 97 \<le> n \<and> n \<le> 122 then char_of (n - 32) else c)"

definition rule_valid :: "(string \<Rightarrow> bool) \<Rightarrow> ToolRequestRule \<Rightarrow> bool" where
  "rule_valid method_ok r \<longleftrightarrow>
     tr_method r = map ascii_upper (tr_method r) \<and> method_ok (tr_method r) \<and>
     is_literal_request_path (tr_path r)"

fun validate_request_allowlists ::
  "(string \<Rightarrow> bool) \<Rightarrow> ToolConfig list \<Rightarrow> (ConfigError, unit) result" where
  "validate_request_allowlists method_ok [] = Inr ()"
| "validate_request_allowlists method_ok (t # ts) =
     (case tc_request_allowlist t of
        None \<Rightarrow> validate_request_allowlists method_ok ts
      | Some rules \<Rightarrow>
          if list_all (rule_valid method_ok) rules then validate_request_allowlists method_ok ts
          else Inl (InvalidAllowlist (tc_name t)))"

fun check_patterns ::
  "(string \<Rightarrow> bool) \<Rightarrow> string \<Rightarrow> string list \<Rightarrow> RedactionPatternConfig list \<Rightarrow> (ConfigError, unit) result" where
  "check_patterns regex_ok tool seen [] = Inr ()"
| "check_patterns regex_ok tool seen (p # ps) =
     (if rp_id p \<in> set seen then Inl (DuplicatePatternId tool (rp_id p))
      else if \<not> regex_ok (rp_regex p) then Inl (RegexCompileFailed tool (rp_id p))
      else check_patterns regex_ok tool (rp_id p # seen) ps)"

fun validate_response_controls ::
  "(string \<Rightarrow> bool) \<Rightarrow> ToolConfig list \<Rightarrow> (ConfigError, unit) result" where
  "validate_response_controls regex_ok [] = Inr ()"
| "validate_response_controls regex_ok (t # ts) =
     (case tc_response t of
        None \<Rightarrow> validate_response_controls regex_ok ts
      | Some rc \<Rightarrow>
          (case check_patterns regex_ok (tc_name t) [] (rcc_redaction_patterns rc) of
             Inl e \<Rightarrow> Inl e
           | Inr _ \<Rightarrow> validate_response_controls regex_ok ts))"

subsection \<open>Deprecations\<close>

datatype DeprecationDisposition = Renamed string | Deprecated | Removed

record DeprecationEntry =
  de_field_path :: string
  de_disposition :: DeprecationDisposition
  de_since_version :: string
  de_removal_target :: "string option"

record DeprecationRegistry =
  dr_entries :: "DeprecationEntry list"
  dr_warned_once :: "string set"

definition registry_lookup :: "string \<Rightarrow> DeprecationRegistry \<Rightarrow> DeprecationEntry option" where
  "registry_lookup fp reg = List.find (\<lambda>e. de_field_path e = fp) (dr_entries reg)"

definition notice :: "string \<Rightarrow> DeprecationRegistry \<Rightarrow> DeprecationRegistry \<times> bool" where
  "notice fp reg =
     (if registry_lookup fp reg = None then (reg, False)
      else (reg\<lparr> dr_warned_once := insert fp (dr_warned_once reg) \<rparr>,
            fp \<notin> dr_warned_once reg))"

definition default_registry :: DeprecationRegistry where
  "default_registry =
     \<lparr> dr_entries =
         [\<lparr> de_field_path = ''tools[].cloud'', de_disposition = Renamed ''tools[].egress'',
            de_since_version = ''0.2.0'', de_removal_target = Some ''0.3.0'' \<rparr>,
          \<lparr> de_field_path = ''telemetry'', de_disposition = Removed,
            de_since_version = ''0.2.0'', de_removal_target = None \<rparr>,
          \<lparr> de_field_path = ''tools[].timeout_seconds'',
            de_disposition = Renamed ''tools[].timeouts.request_seconds'',
            de_since_version = ''0.2.0'', de_removal_target = Some ''0.3.0'' \<rparr>,
          \<lparr> de_field_path = ''inbound_auth.token'', de_disposition = Deprecated,
            de_since_version = ''2.0.0'', de_removal_target = None \<rparr>],
       dr_warned_once = {} \<rparr>"

text \<open>The tree, the registry and the warnings emitted so far.\<close>

type_synonym dep_state = "DeprecationRegistry \<times> DeprecationEntry list"

definition emit_deprecation :: "string \<Rightarrow> dep_state \<Rightarrow> dep_state" where
  "emit_deprecation fp st =
     (case st of (reg, warns) \<Rightarrow>
        (case notice fp reg of
           (reg', False) \<Rightarrow> (reg', warns)
         | (reg', True) \<Rightarrow>
             (case registry_lookup fp reg' of
                None \<Rightarrow> (reg', warns)
              | Some e \<Rightarrow> (reg', warns @ [e]))))"

text \<open>The warning of the daemon at start-up; the administration substrate makes the shared token ineffective.\<close>

definition emit_inbound_auth_token_runtime_deprecation :: "bool \<Rightarrow> bool \<Rightarrow> dep_state \<Rightarrow> dep_state" where
  "emit_inbound_auth_token_runtime_deprecation substrate token_set st =
     (if \<not> (substrate \<and> token_set) then st else emit_deprecation ''inbound_auth.token'' st)"

definition translate_cloud :: "(string \<times> json) list \<times> dep_state \<Rightarrow> (string \<times> json) list \<times> dep_state" where
  "translate_cloud x =
     (case x of (m, st) \<Rightarrow>
        (case obj_get ''cloud'' m of
           None \<Rightarrow> (m, st)
         | Some v \<Rightarrow>
             let m1 = obj_remove ''cloud'' m;
                 st1 = emit_deprecation ''tools[].cloud'' st
             in if obj_get ''egress'' m1 \<noteq> None then (m1, st1)
                else (obj_insert ''egress''
                        (JStr (if v = JBool True then ''proxied'' else ''direct'')) m1, st1)))"

definition translate_timeout_seconds ::
  "(string \<times> json) list \<times> dep_state \<Rightarrow> (string \<times> json) list \<times> dep_state" where
  "translate_timeout_seconds x =
     (case x of (m, st) \<Rightarrow>
        (case obj_get ''timeout_seconds'' m of
           None \<Rightarrow> (m, st)
         | Some v \<Rightarrow>
             let m1 = obj_remove ''timeout_seconds'' m;
                 st1 = emit_deprecation ''tools[].timeout_seconds'' st
             in (case obj_get ''timeouts'' m1 of
                   None \<Rightarrow> (obj_insert ''timeouts'' (JObj [(''request_seconds'', v)]) m1, st1)
                 | Some (JObj existing) \<Rightarrow>
                     if obj_get ''request_seconds'' existing \<noteq> None then (m1, st1)
                     else (obj_insert ''timeouts'' (JObj (obj_insert ''request_seconds'' v existing)) m1, st1)
                 | Some _ \<Rightarrow> (m1, st1))))"

fun translate_tools :: "json list \<Rightarrow> dep_state \<Rightarrow> json list \<times> dep_state" where
  "translate_tools [] st = ([], st)"
| "translate_tools (JObj m # ts) st =
     (case translate_timeout_seconds (translate_cloud (m, st)) of (m', st') \<Rightarrow>
        (case translate_tools ts st' of (ts', st'') \<Rightarrow> (JObj m' # ts', st'')))"
| "translate_tools (j # ts) st = (case translate_tools ts st of (ts', st') \<Rightarrow> (j # ts', st'))"

definition apply_deprecations :: "json \<Rightarrow> dep_state \<Rightarrow> json \<times> dep_state" where
  "apply_deprecations v st =
     (case v of
        JObj tree \<Rightarrow>
          (let (top1, st1) =
             (if obj_get ''telemetry'' tree \<noteq> None
              then (obj_remove ''telemetry'' tree, emit_deprecation ''telemetry'' st)
              else (tree, st))
           in (case obj_get ''tools'' top1 of
                 Some (JArr ts) \<Rightarrow>
                   (case translate_tools ts st1 of (ts', st2) \<Rightarrow>
                      (JObj (obj_insert ''tools'' (JArr ts') top1), st2))
               | _ \<Rightarrow> (JObj top1, st1)))
      | _ \<Rightarrow> (v, st))"

definition parse_with_registry ::
  "(string \<Rightarrow> json option) \<Rightarrow> (json \<Rightarrow> AppConfig option) \<Rightarrow> (string \<Rightarrow> bool) \<Rightarrow> (string \<Rightarrow> bool)
    \<Rightarrow> string \<Rightarrow> DeprecationRegistry \<Rightarrow> (ConfigError, AppConfig) result" where
  "parse_with_registry yaml_parse typed regex_ok method_ok yaml reg =
     (case yaml_parse yaml of
        None \<Rightarrow> Inl YamlError
      | Some v \<Rightarrow>
          (case typed (fst (apply_deprecations v (reg, []))) of
             None \<Rightarrow> Inl YamlError
           | Some cfg \<Rightarrow>
               (case validate_response_controls regex_ok (ac_tools cfg) of
                  Inl e \<Rightarrow> Inl e
                | Inr _ \<Rightarrow>
                    (case validate_request_allowlists method_ok (ac_tools cfg) of
                       Inl e \<Rightarrow> Inl e
                     | Inr _ \<Rightarrow> Inr cfg))))"

section \<open>Lemmas\<close>

subsection \<open>Variable expansion\<close>

lemma find_sub_SomeD:
  "find_sub p s = Some n \<Longrightarrow> starts_with p (drop n s)"
  by (induction p s arbitrary: n rule: find_sub.induct) (auto split: if_splits simp: starts_with_def)

lemma find_sub_first:
  "find_sub p s = Some n \<Longrightarrow> m < n \<Longrightarrow> \<not> starts_with p (drop m s)"
proof (induction p s arbitrary: n m rule: find_sub.induct)
  case (2 p c s)
  then show ?case by (cases m) (auto split: if_splits)
qed (auto split: if_splits)

lemma index_char_SomeD:
  "index_char c s = Some n \<Longrightarrow> \<exists>b. s = take n s @ c # b \<and> c \<notin> set (take n s) \<and> b = drop (Suc n) s"
  by (induction s arbitrary: n) (auto split: if_splits)

lemma index_char_None_iff: "index_char c s = None \<longleftrightarrow> c \<notin> set s"
  by (induction s) (auto split: if_splits)

lemma expand_once_SomeD:
  assumes "expand_once env s = Some s'"
  shows "\<exists>a v b. s = a @ ''${'' @ v @ ''}'' @ b \<and> CHR ''}'' \<notin> set v \<and>
               s' = a @ (case env v of Some x \<Rightarrow> x | None \<Rightarrow> []) @ b"
proof -
  from assms obtain start stop where
    st: "find_sub ''${'' s = Some start" and sp: "index_char (CHR ''}'') (drop start s) = Some stop"
    and s': "s' = take start s @
       (case env (drop 2 (take stop (drop start s))) of Some v \<Rightarrow> v | None \<Rightarrow> []) @
       drop (start + stop + 1) s"
    by (auto simp: expand_once_def Let_def split: option.splits)
  let ?r = "drop start s"
  from index_char_SomeD [OF sp] have
    r: "?r = take stop ?r @ CHR ''}'' # drop (Suc stop) ?r" and ni: "CHR ''}'' \<notin> set (take stop ?r)"
    by auto
  from find_sub_SomeD [OF st] have two: "take 2 ?r = ''${''"
    by (simp add: starts_with_def numeral_2_eq_2)
  have "2 \<le> stop"
  proof (rule ccontr)
    assume "\<not> 2 \<le> stop"
    then have "stop = 0 \<or> stop = 1" by auto
    with r two show False
      by (cases ?r; cases "tl ?r") (auto simp: numeral_2_eq_2)
  qed
  then have "take stop ?r = ''${'' @ drop 2 (take stop ?r)"
    using two by (metis append_take_drop_id min.absorb1 take_take)
  with r have "s = take start s @ ''${'' @ drop 2 (take stop ?r) @ ''}'' @ drop (start + stop + 1) s"
    by (metis (no_types, lifting) Cons_eq_appendI add.commute add_Suc_right append_assoc
        append_take_drop_id drop_drop eq_Nil_appendI Suc_eq_plus1)
  moreover have "CHR ''}'' \<notin> set (drop 2 (take stop ?r))"
    using ni by (meson in_set_dropD)
  ultimately show ?thesis using s' by blast
qed

lemma expand_once_None_iff:
  "expand_once env s = None \<longleftrightarrow> (\<forall>a v b. s \<noteq> a @ ''${'' @ v @ ''}'' @ b)"
proof
  assume none: "expand_once env s = None"
  show "\<forall>a v b. s \<noteq> a @ ''${'' @ v @ ''}'' @ b"
  proof (intro allI notI)
    fix a v b assume s: "s = a @ ''${'' @ v @ ''}'' @ b"
    then have "contains_str ''${'' s" unfolding contains_str_iff by blast
    then obtain start where st: "find_sub ''${'' s = Some start"
      by (auto simp: contains_str_def)
    have "start \<le> length a"
    proof (rule ccontr)
      assume "\<not> start \<le> length a"
      with find_sub_first [OF st, of "length a"] s show False
        by (simp add: starts_with_def)
    qed
    then have "CHR ''}'' \<in> set (drop start s)" by (simp add: s)
    with none st show False
      by (auto simp: expand_once_def Let_def index_char_None_iff split: option.splits)
  qed
next
  assume "\<forall>a v b. s \<noteq> a @ ''${'' @ v @ ''}'' @ b"
  then show "expand_once env s = None"
    using expand_once_SomeD [of env s] by (cases "expand_once env s") blast+
qed

lemma expand_env_vars_terminates:
  assumes "\<forall>var v. env var = Some v \<longrightarrow> CHR ''}'' \<notin> set v"
  shows "\<exists>r. expand_env_vars env s = Some r \<and> expand_once env r = None"
proof (induction "count_list s (CHR ''}'')" arbitrary: s rule: less_induct)
  case less
  show ?case
  proof (cases "expand_once env s")
    case None
    then show ?thesis by (simp add: expand_env_vars.simps [of env s])
  next
    case (Some s')
    from expand_once_SomeD [OF this] obtain a v b where
      "s = a @ ''${'' @ v @ ''}'' @ b"
      "s' = a @ (case env v of Some x \<Rightarrow> x | None \<Rightarrow> []) @ b" by blast
    then have "count_list s' (CHR ''}'') < count_list s (CHR ''}'')"
      using assms by (auto simp: count_notin split: option.splits)
    from less [OF this] Some show ?thesis by (simp add: expand_env_vars.simps [of env s])
  qed
qed

lemma expand_env_vars_cycle:
  assumes "\<And>s. P s \<Longrightarrow> \<exists>s'. expand_once env s = Some s' \<and> P s'" "P s"
  shows "expand_env_vars env s = None"
proof -
  have "e = env \<longrightarrow> \<not> P s" if "expand_env_vars e s = Some y" for e s y
  proof (rule expand_env_vars.raw_induct [OF _ that], goal_cases)
    case (1 f e s y)
    show ?case
    proof (intro impI notI)
      assume "e = env" "P s"
      with assms(1) obtain s' where "expand_once e s = Some s'" "P s'" by blast
      with 1 \<open>e = env\<close> show False by auto
    qed
  qed
  with assms(2) show ?thesis by (cases "expand_env_vars env s") blast+
qed

subsection \<open>Validation\<close>

lemma validate_request_allowlists_Inr:
  assumes "validate_request_allowlists ok ts = Inr ()" "t \<in> set ts"
    and "tc_request_allowlist t = Some rules" "rule \<in> set rules"
  shows "rule_valid ok rule"
  using assms
  by (induction ts) (auto simp: list_all_iff split: option.splits if_splits)

lemma check_patterns_Inr:
  assumes "check_patterns ok tool seen ps = Inr ()"
  shows "distinct (map rp_id ps) \<and> set (map rp_id ps) \<inter> set seen = {} \<and>
         (\<forall>p \<in> set ps. ok (rp_regex p))"
  using assms
proof (induction ps arbitrary: seen)
  case (Cons p ps)
  from Cons.prems have "check_patterns ok tool (rp_id p # seen) ps = Inr ()"
    and "rp_id p \<notin> set seen" "ok (rp_regex p)"
    by (auto split: if_splits)
  with Cons.IH [OF this(1)] show ?case by auto
qed simp

lemma validate_response_controls_Inr:
  assumes "validate_response_controls ok ts = Inr ()" "t \<in> set ts" "tc_response t = Some rc"
  shows "distinct (map rp_id (rcc_redaction_patterns rc)) \<and>
         (\<forall>p \<in> set (rcc_redaction_patterns rc). ok (rp_regex p))"
  using assms
  by (induction ts) (auto split: option.splits sum.splits dest: check_patterns_Inr)

lemma literal_path_safe:
  assumes "is_literal_request_path p"
  shows "\<not> contains_str ''/../'' p" "\<not> contains_str ''//'' p" "CHR ''%'' \<notin> set p" "CHR ''?'' \<notin> set p"
proof -
  have mem: "seg \<in> set (tl (split_on (CHR ''/'') (a @ CHR ''/'' # seg @ CHR ''/'' # b)))"
    if "CHR ''/'' \<notin> set seg" for a seg b
  proof (induction a)
    case Nil
    have "split_on (CHR ''/'') (seg @ CHR ''/'' # b) = seg # split_on (CHR ''/'') b"
      using that by (induction seg) auto
    then show ?case by simp
  next
    case (Cons c a)
    then show ?case by (auto split: list.splits dest: list.set_sel(2) [rotated])
  qed
  show "\<not> contains_str ''/../'' p"
  proof
    assume "contains_str ''/../'' p"
    then obtain a b where "p = a @ CHR ''/'' # ''..'' @ CHR ''/'' # b"
      by (auto simp: contains_str_iff)
    with mem [of "''..''" a b] have "''..'' \<in> set (split_on (CHR ''/'') p)"
      by (simp add: list.set_sel(2))
    with assms show False by (auto simp: is_literal_request_path_def list_ex_iff)
  qed
qed (use assms in \<open>auto simp: is_literal_request_path_def list_ex_iff\<close>)

subsection \<open>Deprecations\<close>

text \<open>A field is warned about once, however often it is met.\<close>

lemma emit_deprecation_once: "emit_deprecation fp (emit_deprecation fp st) = emit_deprecation fp st"
  by (auto simp: emit_deprecation_def notice_def registry_lookup_def split: prod.splits bool.splits option.splits)

lemma translate_cloud_no_cloud: "obj_get ''cloud'' (fst (translate_cloud (m, st))) = None"
  by (auto simp: translate_cloud_def Let_def obj_get_insert_other split: option.splits)

lemma translate_timeout_frame:
  assumes "k \<noteq> ''timeout_seconds''" "k \<noteq> ''timeouts''"
  shows "obj_get k (fst (translate_timeout_seconds (m, st))) = obj_get k m"
  using assms
  by (simp add: translate_timeout_seconds_def Let_def obj_get_insert_other obj_get_remove_other
           split: option.splits json.splits)

lemma translate_timeout_no_legacy:
  "obj_get ''timeout_seconds'' (fst (translate_timeout_seconds (m, st))) = None"
  by (simp add: translate_timeout_seconds_def Let_def obj_get_insert_other
           split: option.splits json.splits)

lemma translate_cloud_egress:
  "obj_get ''egress'' (fst (translate_cloud (m, st))) =
     (case obj_get ''egress'' m of
        Some e \<Rightarrow> Some e
      | None \<Rightarrow> (case obj_get ''cloud'' m of
                   None \<Rightarrow> None
                 | Some v \<Rightarrow> Some (JStr (if v = JBool True then ''proxied'' else ''direct''))))"
  by (auto simp: translate_cloud_def Let_def obj_get_remove_other split: option.splits)

section \<open>Properties\<close>

text \<open>
  Property C39: if no value of the environment contains a closing brace, the
  expansion of a configuration text returns, and what it returns has no
  \<open>${...}\<close> left.
\<close>

theorem expansion_terminates:
  assumes "\<forall>var v. env var = Some v \<longrightarrow> CHR ''}'' \<notin> set v"
  shows "\<exists>r. expand_env_vars env s = Some r \<and> (\<forall>a v b. r \<noteq> a @ ''${'' @ v @ ''}'' @ b)"
  using expand_env_vars_terminates [OF assms, of s] by (simp add: expand_once_None_iff)

theorem expansion_terminates_witness:
  "\<exists>r. expand_env_vars (\<lambda>var. if var = ''KEY'' then Some ''s3cret'' else None) ''token: ${KEY}'' = Some r"
proof -
  have "\<forall>var v. (if var = ''KEY'' then Some ''s3cret'' else None) = Some v \<longrightarrow> CHR ''}'' \<notin> set v"
    by simp
  from expansion_terminates [OF this, of "''token: ${KEY}''"] show ?thesis by blast
qed

text \<open>A variable whose value mentions itself makes the loop run for ever.\<close>

lemma self_reference_diverges:
  assumes "env ''V'' = Some ''${V}''"
  shows "expand_env_vars env ''${V}'' = None"
proof (rule expand_env_vars_cycle [of "\<lambda>s. s = ''${V}''"])
  fix s assume "s = ''${V}''"
  with assms show "\<exists>s'. expand_once env s = Some s' \<and> s' = ''${V}''"
    by (simp add: expand_once_def starts_with_def Let_def)
qed simp


definition sample_tool :: ToolConfig where
  "sample_tool =
     \<lparr> tc_name = ''gh'', tc_description = [], tc_upstream = ''https://api'', tc_egress = Direct,
       tc_credential_handles = [],
       tc_request_allowlist = Some [\<lparr> tr_method = ''GET'', tr_path = ''/user'' \<rparr>], tc_auth = None,
       tc_timeouts = \<lparr> to_request_seconds = 30, to_idle_seconds = 30 \<rparr>, tc_body_limit_bytes = 1024,
       tc_response = None \<rparr>"


end
