(* ===== verification/Registrations.thy ===== *)
theory Registrations
  imports Agent_Auth Config "HOL-Library.List_Lexorder" "HOL-Library.Char_ord"
begin

text \<open>
  Registrations, \<open>src/registrations\<close>: kinds, authentication specs, name
  validation, the \<open>registrations\<close> table and its repository, the in-memory
  catalog, and the resolution of registration credentials from the
  environment (\<open>src/secret/mod.rs\<close>).  JSON columns hold decoded values.
\<close>

section \<open>Definitions\<close>

datatype Kind = Model | Tool | Infra

fun kind_str :: "Kind \<Rightarrow> string" where
  "kind_str Model = ''model''"
| "kind_str Tool = ''tool''"
| "kind_str Infra = ''infra''"

fun url_segment :: "Kind \<Rightarrow> string" where
  "url_segment Model = ''models''"
| "url_segment Tool = ''tools''"
| "url_segment Infra = ''infra''"

definition DEFAULT_SESSION_LABEL :: string where
  "DEFAULT_SESSION_LABEL = ''default''"

datatype AuthSpec =
    NoAuth
  | Header (as_header: string) (as_header_env: string) bool
  | BearerEnv string bool
  | OauthPkce (pk_client_id: string) (pk_redirect_uri: string) (pk_scopes: "string list")
      (pk_auth_url: string) (pk_token_url: string) (pk_session_label: "string option")
  | OauthDeviceCode (dc_client_id: string) (dc_scopes: "string list") (dc_device_url: string)
      (dc_token_url: string) (dc_session_label: "string option")

definition injects_header :: "AuthSpec \<Rightarrow> bool" where
  "injects_header a = (a \<noteq> NoAuth)"

fun is_oauth :: "AuthSpec \<Rightarrow> bool" where
  "is_oauth (OauthPkce _ _ _ _ _ _) = True"
| "is_oauth (OauthDeviceCode _ _ _ _ _) = True"
| "is_oauth _ = False"

fun oauth_session_label :: "AuthSpec \<Rightarrow> string option" where
  "oauth_session_label (OauthPkce _ _ _ _ _ l) = l"
| "oauth_session_label (OauthDeviceCode _ _ _ _ l) = l"
| "oauth_session_label _ = None"

definition session_label_or_default :: "AuthSpec \<Rightarrow> string option" where
  "session_label_or_default a =
     (if \<not> is_oauth a then None
      else Some (case oauth_session_label a of Some l \<Rightarrow> l | None \<Rightarrow> DEFAULT_SESSION_LABEL))"

fun to_secret_ref :: "AuthSpec \<Rightarrow> SecretRef option" where
  "to_secret_ref (Header _ v _) = Some (FromEnv v None)"
| "to_secret_ref (BearerEnv v _) = Some (FromEnv v None)"
| "to_secret_ref _ = None"

fun force_replace :: "AuthSpec \<Rightarrow> bool" where
  "force_replace (Header _ _ f) = f"
| "force_replace (BearerEnv _ f) = f"
| "force_replace _ = False"

fun auth_to_json :: "AuthSpec \<Rightarrow> json" where
  "auth_to_json NoAuth = JObj [(''kind'', JStr ''none'')]"
| "auth_to_json (Header h v f) =
     JObj ([(''kind'', JStr ''header''), (''header'', JStr h), (''env_var'', JStr v)] @
           (if f then [(''force_replace'', JBool True)] else []))"
| "auth_to_json (BearerEnv v f) =
     JObj ([(''kind'', JStr ''bearer''), (''env_var'', JStr v)] @
           (if f then [(''force_replace'', JBool True)] else []))"
| "auth_to_json (OauthPkce c r s a t l) =
     JObj ([(''kind'', JStr ''oauth_pkce''), (''client_id'', JStr c), (''redirect_uri'', JStr r),
            (''scopes'', JArr (map JStr s)), (''auth_url'', JStr a), (''token_url'', JStr t)] @
           (case l of None \<Rightarrow> [] | Some x \<Rightarrow> [(''session_label'', JStr x)]))"
| "auth_to_json (OauthDeviceCode c s d t l) =
     JObj ([(''kind'', JStr ''oauth_device_code''), (''client_id'', JStr c),
            (''scopes'', JArr (map JStr s)), (''device_url'', JStr d), (''token_url'', JStr t)] @
           (case l of None \<Rightarrow> [] | Some x \<Rightarrow> [(''session_label'', JStr x)]))"

datatype RegistrationError =
    NameInUse Kind
  | ReservedName
  | AuthRequired
  | ModelAuthRequired
  | InvalidName string
  | InvalidMetadata string
  | WrongKind Kind Kind
  | RegBackend

subsection \<open>Names\<close>

definition RESERVED_NAMES :: "string list" where
  "RESERVED_NAMES =
     [''livez'', ''readyz'', ''version'', ''health'', ''skill'', ''tools'', ''models'',
      ''admin'', ''api'', ''metrics'', ''audit'']"

definition MAX_NAME_LEN :: nat where "MAX_NAME_LEN = 64"

definition name_char :: "char \<Rightarrow> bool" where
  "name_char c = (let n = of_char c :: nat in
     (97 \<le> n \<and> n \<le> 122) \<or> (48 \<le> n \<and> n \<le> 57) \<or> c = CHR ''-'')"

definition validate_name :: "string \<Rightarrow> (RegistrationError, unit) result" where
  "validate_name name =
     (if name = [] then Inl (InvalidName ''name is empty'')
      else if length name > MAX_NAME_LEN then Inl (InvalidName ''name exceeds 64 characters'')
      else if \<not> list_all name_char name
      then Inl (InvalidName ''name contains invalid characters (allowed: a-z 0-9 -)'')
      else if name \<in> set RESERVED_NAMES then Inl ReservedName
      else Inr ())"

subsection \<open>The repository\<close>

record Registration =
  rg_name :: string
  rg_kind :: Kind
  rg_description :: string
  rg_upstream :: string
  rg_auth :: AuthSpec
  rg_egress :: EgressMode
  rg_timeouts :: ToolTimeouts
  rg_body_limit_bytes :: nat
  rg_metadata :: json
  rg_seed :: bool
  rg_disabled :: bool
  rg_created_at :: int
  rg_updated_at :: int

definition registration_new ::
  "int \<Rightarrow> string \<Rightarrow> Kind \<Rightarrow> string \<Rightarrow> string \<Rightarrow> AuthSpec \<Rightarrow> Registration" where
  "registration_new now name kind descr upstream auth =
     \<lparr> rg_name = name, rg_kind = kind, rg_description = descr, rg_upstream = upstream,
       rg_auth = auth, rg_egress = Direct, rg_timeouts = default_timeouts,
       rg_body_limit_bytes = 10 * 1024 * 1024, rg_metadata = JObj [], rg_seed = False,
       rg_disabled = False, rg_created_at = now, rg_updated_at = now \<rparr>"

record RegTable =
  rt_rows :: "Registration list"
  rt_seed_version :: "string option"

text \<open>
  A row read back: the limit is bound as \<open>u64 as i64\<close> and read as
  \<open>max(0) as u64\<close>, every other column as it was written.
\<close>

definition stored_limit :: "nat \<Rightarrow> nat" where
  "stored_limit n = nat (max 0 (sint (of_nat n :: 64 word)))"

definition row_to_registration :: "Registration \<Rightarrow> Registration" where
  "row_to_registration r = r\<lparr> rg_body_limit_bytes := stored_limit (rg_body_limit_bytes r) \<rparr>"

definition reg_create :: "Registration \<Rightarrow> RegTable \<Rightarrow> RegTable \<times> (RegistrationError, unit) result" where
  "reg_create r t =
     (if list_ex (\<lambda>q. rg_name q = rg_name r) (rt_rows t) then (t, Inl RegBackend)
      else (t\<lparr> rt_rows := rt_rows t @ [r] \<rparr>, Inr ()))"

definition reg_get :: "string \<Rightarrow> RegTable \<Rightarrow> Registration option" where
  "reg_get name t = map_option row_to_registration (List.find (\<lambda>r. rg_name r = name) (rt_rows t))"

definition reg_list :: "Kind option \<Rightarrow> RegTable \<Rightarrow> Registration list" where
  "reg_list kind t =
     map row_to_registration (sort_key rg_name
       (case kind of Some k \<Rightarrow> filter (\<lambda>r. rg_kind r = k) (rt_rows t) | None \<Rightarrow> rt_rows t))"

definition upsert_fields :: "Registration \<Rightarrow> Registration \<Rightarrow> Registration" where
  "upsert_fields r q =
     q\<lparr> rg_description := rg_description r, rg_upstream := rg_upstream r, rg_auth := rg_auth r,
        rg_egress := rg_egress r, rg_timeouts := rg_timeouts r,
        rg_body_limit_bytes := rg_body_limit_bytes r, rg_metadata := rg_metadata r,
        rg_seed := rg_seed r, rg_disabled := rg_disabled r, rg_updated_at := rg_updated_at r \<rparr>"

definition reg_upsert :: "Registration \<Rightarrow> RegTable \<Rightarrow> RegTable" where
  "reg_upsert r t =
     (if list_ex (\<lambda>q. rg_name q = rg_name r) (rt_rows t)
      then t\<lparr> rt_rows := update_where (\<lambda>q. rg_name q = rg_name r) (upsert_fields r) (rt_rows t) \<rparr>
      else t\<lparr> rt_rows := rt_rows t @ [r] \<rparr>)"

definition reg_delete :: "string \<Rightarrow> RegTable \<Rightarrow> RegTable \<times> bool" where
  "reg_delete name t =
     (t\<lparr> rt_rows := filter (\<lambda>r. rg_name r \<noteq> name) (rt_rows t) \<rparr>,
      rows_affected (\<lambda>r. rg_name r = name) (rt_rows t) > 0)"

definition set_disabled :: "int \<Rightarrow> string \<Rightarrow> bool \<Rightarrow> RegTable \<Rightarrow> RegTable \<times> bool" where
  "set_disabled now name d t =
     (t\<lparr> rt_rows := update_where (\<lambda>r. rg_name r = name)
            (\<lambda>r. r\<lparr> rg_disabled := d, rg_updated_at := now \<rparr>) (rt_rows t) \<rparr>,
      rows_affected (\<lambda>r. rg_name r = name) (rt_rows t) > 0)"

definition get_seed_version :: "RegTable \<Rightarrow> string option" where
  "get_seed_version t = rt_seed_version t"

definition set_seed_version :: "string \<Rightarrow> RegTable \<Rightarrow> RegTable" where
  "set_seed_version v t = t\<lparr> rt_seed_version := Some v \<rparr>"

subsection \<open>The catalog\<close>

type_synonym Catalog = "(string \<times> Registration) list"

definition catalog_from_repo :: "RegTable \<Rightarrow> Catalog" where
  "catalog_from_repo t = map (\<lambda>r. (rg_name r, r)) (reg_list None t)"

definition lookup_any :: "string \<Rightarrow> Catalog \<Rightarrow> Registration option" where
  "lookup_any name cat = map_of cat name"

definition lookup_active :: "string \<Rightarrow> Catalog \<Rightarrow> Registration option" where
  "lookup_active name cat =
     (case map_of cat name of Some r \<Rightarrow> if rg_disabled r then None else Some r | None \<Rightarrow> None)"

definition iter_enabled_by_kind :: "Kind \<Rightarrow> Catalog \<Rightarrow> Registration list" where
  "iter_enabled_by_kind kind cat =
     filter (\<lambda>r. rg_kind r = kind \<and> \<not> rg_disabled r) (map snd cat)"

subsection \<open>Credentials of registrations\<close>

type_synonym ResolvedCreds = "string \<rightharpoonup> string"

fun auth_env_var :: "AuthSpec \<Rightarrow> string option" where
  "auth_env_var (Header _ v _) = Some v"
| "auth_env_var (BearerEnv v _) = Some v"
| "auth_env_var _ = None"

definition resolve_one :: "(string \<Rightarrow> string option) \<Rightarrow> Registration \<Rightarrow> ResolvedCreds \<Rightarrow> ResolvedCreds" where
  "resolve_one env r out =
     (case auth_env_var (rg_auth r) of
        None \<Rightarrow> out
      | Some v \<Rightarrow>
          (case env v of
             None \<Rightarrow> out
           | Some val \<Rightarrow> if val = [] then out else out(rg_name r \<mapsto> val)))"

definition resolve_registration_creds ::
  "(string \<Rightarrow> string option) \<Rightarrow> Catalog \<Rightarrow> ResolvedCreds" where
  "resolve_registration_creds env cat =
     fold (resolve_one env)
       (concat (map (\<lambda>k. iter_enabled_by_kind k cat) [Tool, Model, Infra])) Map.empty"

definition regs_inv :: "RegTable \<Rightarrow> bool" where
  "regs_inv t \<longleftrightarrow> distinct (map rg_name (rt_rows t))"

text \<open>The columns the proxy reads, and the upsert of exactly these columns.\<close>

type_synonym payload = "string \<times> AuthSpec \<times> EgressMode \<times> bool \<times> bool"

definition reg_payload :: "Registration \<Rightarrow> payload" where
  "reg_payload r = (rg_upstream r, rg_auth r, rg_egress r, rg_seed r, rg_disabled r)"

definition reg_put :: "string \<Rightarrow> payload \<Rightarrow> RegTable \<Rightarrow> RegTable" where
  "reg_put name v t =
     (case v of (u, a, e, sd, d) \<Rightarrow>
        reg_upsert ((registration_new 0 name Tool [] u a)\<lparr> rg_egress := e, rg_seed := sd, rg_disabled := d \<rparr>) t)"

inductive reg_step :: "RegTable \<Rightarrow> RegTable \<Rightarrow> bool" where
  create: "reg_step t (fst (reg_create r t))"
| upsert: "reg_step t (reg_upsert r t)"
| delete: "reg_step t (fst (reg_delete name t))"
| disable: "reg_step t (fst (set_disabled now name d t))"
| version: "reg_step t (set_seed_version v t)"

section \<open>Lemmas\<close>

subsection \<open>Names\<close>

lemma validate_name_Inr_iff:
  "validate_name n = Inr () \<longleftrightarrow>
     n \<noteq> [] \<and> length n \<le> 64 \<and> (\<forall>c \<in> set n. name_char c) \<and> n \<notin> set RESERVED_NAMES"
  by (auto simp: validate_name_def MAX_NAME_LEN_def list_all_iff)

lemma name_char_not_slash: "name_char c \<Longrightarrow> c \<noteq> CHR ''/''"
  by (auto simp: name_char_def)

subsection \<open>The table\<close>

inductive_cases reg_stepE: "reg_step t t'"

lemma upsert_fields_name [simp]: "rg_name (upsert_fields r q) = rg_name q"
  by (simp add: upsert_fields_def)

lemma upsert_fields_keeps:
  "rg_kind (upsert_fields r q) = rg_kind q" "rg_created_at (upsert_fields r q) = rg_created_at q"
  by (simp_all add: upsert_fields_def)

lemma regs_inv_step:
  assumes "reg_step t t'" "regs_inv t"
  shows "regs_inv t'"
  using assms(1)
proof cases
  case (create r)
  with assms(2) show ?thesis by (auto simp: reg_create_def regs_inv_def list_ex_iff)
next
  case (upsert r)
  with assms(2) show ?thesis
    by (auto simp: reg_upsert_def regs_inv_def list_ex_iff map_update_where_frame)
next
  case (delete name)
  with assms(2) show ?thesis by (simp add: reg_delete_def regs_inv_def distinct_map_filter)
next
  case (disable now name d)
  with assms(2) show ?thesis by (simp add: set_disabled_def regs_inv_def map_update_where_frame)
next
  case (version v)
  with assms(2) show ?thesis by (simp add: set_seed_version_def regs_inv_def)
qed

interpretation regs: invariant_system reg_step regs_inv
  by unfold_locales (rule regs_inv_step)

lemma find_name_other:
  assumes "\<And>r. rg_name (f r) = rg_name r" "n \<noteq> m"
  shows "List.find (\<lambda>r. rg_name r = n) (update_where (\<lambda>r. rg_name r = m) f rows) =
         List.find (\<lambda>r. rg_name r = n) rows"
  using assms by (intro find_update_where_other) auto

lemma find_name_same:
  assumes "\<And>r. rg_name (f r) = rg_name r"
  shows "List.find (\<lambda>r. rg_name r = n) (update_where (\<lambda>r. rg_name r = n) f rows) =
         map_option f (List.find (\<lambda>r. rg_name r = n) rows)"
  using assms by (induction rows) (auto simp: update_where_def)

lemma find_filter_name:
  "List.find (\<lambda>r. rg_name r = n) (filter (\<lambda>r. rg_name r \<noteq> m) rows) =
   (if n = m then None else List.find (\<lambda>r. rg_name r = n) rows)"
  by (induction rows) auto

lemma reg_get_upsert_other:
  "n \<noteq> rg_name r \<Longrightarrow> reg_get n (reg_upsert r t) = reg_get n t"
  by (auto simp: reg_get_def reg_upsert_def find_name_other find_append split: option.splits)

lemma reg_get_upsert_same:
  "reg_get (rg_name r) (reg_upsert r t) =
     Some (case List.find (\<lambda>q. rg_name q = rg_name r) (rt_rows t) of
             None \<Rightarrow> row_to_registration r
           | Some q \<Rightarrow> row_to_registration (upsert_fields r q))"
proof (cases "List.find (\<lambda>q. rg_name q = rg_name r) (rt_rows t)")
  case None
  then have "\<not> list_ex (\<lambda>q. rg_name q = rg_name r) (rt_rows t)"
    by (auto simp: find_None_iff list_ex_iff)
  with None show ?thesis by (simp add: reg_get_def reg_upsert_def find_append)
next
  case (Some q)
  then have "list_ex (\<lambda>q. rg_name q = rg_name r) (rt_rows t)"
    by (auto simp: list_ex_iff dest: find_Some_in_set)
  with Some show ?thesis by (simp add: reg_get_def reg_upsert_def find_name_same)
qed

lemma reg_get_delete:
  "reg_get n (fst (reg_delete m t)) = (if n = m then None else reg_get n t)"
  by (simp add: reg_get_def reg_delete_def find_filter_name)

lemma reg_payload_row [simp]: "reg_payload (row_to_registration r) = reg_payload r"
  by (simp add: reg_payload_def row_to_registration_def)

lemma reg_payload_upsert [simp]: "reg_payload (upsert_fields r q) = reg_payload r"
  by (simp add: reg_payload_def upsert_fields_def)

interpretation reg_store: kv_store regs_inv "\<lambda>n t. map_option reg_payload (reg_get n t)" reg_put
  "\<lambda>n t. fst (reg_delete n t)"
proof
  fix t k v
  assume "regs_inv t"
  moreover have "reg_step t (reg_put k v t)"
    unfolding reg_put_def by (cases v) (simp add: reg_step.upsert)
  ultimately show "regs_inv (reg_put k v t)" by (rule regs_inv_step [rotated])
next
  fix t k
  assume "regs_inv t"
  then show "regs_inv (fst (reg_delete k t))" by (rule regs_inv_step [OF reg_step.delete])
next
  fix t j k v
  show "map_option reg_payload (reg_get j (reg_put k v t)) =
        (if j = k then Some v else map_option reg_payload (reg_get j t))"
  proof (cases v)
    case (fields u a e sd d)
    let ?r = "(registration_new 0 k Tool [] u a)\<lparr> rg_egress := e, rg_seed := sd, rg_disabled := d \<rparr>"
    have name: "rg_name ?r = k" and pay: "reg_payload ?r = v"
      by (simp_all add: registration_new_def reg_payload_def fields)
    have put: "reg_put k v t = reg_upsert ?r t" by (simp add: reg_put_def fields)
    show ?thesis
    proof (cases "j = k")
      case True
      then show ?thesis
        using reg_get_upsert_same [of ?r t] pay
        unfolding put name by (simp split: option.splits)
    next
      case False
      then show ?thesis using reg_get_upsert_other [of j ?r t] by (simp add: put name)
    qed
  qed
next
  fix t j k
  show "map_option reg_payload (reg_get j (fst (reg_delete k t))) =
        (if j = k then None else map_option reg_payload (reg_get j t))"
    by (simp add: reg_get_delete)
qed

subsection \<open>The catalog\<close>

lemma map_of_sorted_names:
  assumes "distinct (map rg_name rows)"
  shows "map_of (map (\<lambda>r. (rg_name r, g r)) (sort_key rg_name rows)) n =
         map_option g (List.find (\<lambda>r. rg_name r = n) rows)"
proof (cases "List.find (\<lambda>r. rg_name r = n) rows")
  case None
  then have "\<forall>r \<in> set rows. rg_name r \<noteq> n" by (simp add: find_None_iff)
  then have "n \<notin> fst ` set (map (\<lambda>r. (rg_name r, g r)) (sort_key rg_name rows))" by auto
  then show ?thesis using None by (simp add: map_of_eq_None_iff)
next
  case (Some r)
  have "(n, g r) \<in> set (map (\<lambda>r. (rg_name r, g r)) (sort_key rg_name rows))"
    using find_Some_in_set [OF Some] by auto
  moreover have "distinct (map fst (map (\<lambda>r. (rg_name r, g r)) (sort_key rg_name rows)))"
    using assms by (simp add: comp_def distinct_map inj_on_def)
  ultimately show ?thesis using Some by (simp add: map_of_is_SomeI)
qed

lemma lookup_any_from_repo:
  assumes "regs_inv t"
  shows "lookup_any n (catalog_from_repo t) = reg_get n t"
proof -
  have "catalog_from_repo t = map (\<lambda>r. (rg_name r, row_to_registration r)) (sort_key rg_name (rt_rows t))"
    by (simp add: catalog_from_repo_def reg_list_def row_to_registration_def comp_def)
  with assms show ?thesis
    by (simp add: lookup_any_def reg_get_def map_of_sorted_names regs_inv_def)
qed

lemma lookup_active_from_repo:
  assumes "regs_inv t"
  shows "lookup_active n (catalog_from_repo t) =
         (case reg_get n t of Some r \<Rightarrow> if rg_disabled r then None else Some r | None \<Rightarrow> None)"
  using lookup_any_from_repo [OF assms, of n] by (simp add: lookup_active_def lookup_any_def)

subsection \<open>Credentials\<close>

lemma resolve_one_other: "rg_name r \<noteq> n \<Longrightarrow> resolve_one env r out n = out n"
  by (auto simp: resolve_one_def split: option.splits)

lemma fold_resolve_other:
  "\<forall>r \<in> set rs. rg_name r \<noteq> n \<Longrightarrow> fold (resolve_one env) rs out n = out n"
  by (induction rs arbitrary: out) (auto simp: resolve_one_other)

lemma fold_resolve_distinct:
  assumes "distinct (map rg_name rs)" "r \<in> set rs" "out (rg_name r) = None"
  shows "fold (resolve_one env) rs out (rg_name r) = resolve_one env r Map.empty (rg_name r)"
  using assms
proof (induction rs arbitrary: out)
  case (Cons q rs)
  show ?case
  proof (cases "q = r")
    case True
    with Cons.prems(1) have "\<forall>x \<in> set rs. rg_name x \<noteq> rg_name r" by (simp add: image_iff) metis
    with True Cons.prems(3) show ?thesis
      by (simp add: fold_resolve_other) (simp add: resolve_one_def split: option.splits)
  next
    case False
    with Cons.prems(1,2) have "rg_name q \<noteq> rg_name r" by auto
    with False Cons.prems Cons.IH [of "resolve_one env q out"] show ?thesis
      by (simp add: resolve_one_other)
  qed
qed simp

lemma resolve_registration_creds_spec:
  assumes "regs_inv t"
  shows "resolve_registration_creds env (catalog_from_repo t) n =
         (case lookup_active n (catalog_from_repo t) of
            None \<Rightarrow> None
          | Some r \<Rightarrow> resolve_one env r Map.empty n)"
proof -
  let ?cat = "catalog_from_repo t"
  let ?rs = "concat (map (\<lambda>k. iter_enabled_by_kind k ?cat) [Tool, Model, Infra])"
  have keys: "map fst ?cat = map rg_name (map snd ?cat)"
    by (simp add: catalog_from_repo_def comp_def)
  have dk: "distinct (map fst ?cat)"
    using assms
    by (simp add: catalog_from_repo_def reg_list_def regs_inv_def comp_def row_to_registration_def
                  distinct_map inj_on_def)
  have mem: "r \<in> set ?rs \<longleftrightarrow> r \<in> set (map snd ?cat) \<and> \<not> rg_disabled r" for r
    by (cases "rg_kind r") (auto simp: iter_enabled_by_kind_def)
  have dist: "distinct (map rg_name ?rs)"
  proof -
    have d0: "distinct (map rg_name (map snd ?cat))" using dk keys by simp
    then have inj: "inj_on rg_name (set (map snd ?cat))" and ds: "distinct (map snd ?cat)"
      by (simp_all only: distinct_map)
    have "distinct ?rs"
      using ds by (auto simp: iter_enabled_by_kind_def)
    moreover have "inj_on rg_name (set ?rs)"
      using inj by (rule inj_on_subset) (use mem in blast)
    ultimately show ?thesis by (simp only: distinct_map)
  qed
  have look: "lookup_active n ?cat = Some r \<longleftrightarrow> r \<in> set ?rs \<and> rg_name r = n" for r
  proof -
    have "map_of ?cat n = Some r \<longleftrightarrow> (n, r) \<in> set ?cat"
      using dk by (simp add: map_of_eq_Some_iff)
    moreover have "(n, r) \<in> set ?cat \<longleftrightarrow> r \<in> set (map snd ?cat) \<and> rg_name r = n"
      by (auto simp: catalog_from_repo_def)
    ultimately show ?thesis
      unfolding mem by (auto simp: lookup_active_def split: option.splits if_splits)
  qed
  show ?thesis
  proof (cases "lookup_active n ?cat")
    case None
    then have "\<forall>r \<in> set ?rs. rg_name r \<noteq> n" using look by force
    then show ?thesis
      using None unfolding resolve_registration_creds_def by (simp only: fold_resolve_other option.case)
  next
    case (Some r)
    with look have "r \<in> set ?rs" "rg_name r = n" by blast+
    with Some fold_resolve_distinct [OF dist, of r Map.empty env] show ?thesis
      unfolding resolve_registration_creds_def by simp
  qed
qed

end
