(* ===== verification/Agent_Creds.thy ===== *)
theory Agent_Creds
  imports Registrations
begin

text \<open>
  Per-agent credential overrides, \<open>src/repo/agent_creds.rs\<close>: a table keyed by
  agent id and registration name, with an upsert that keeps the creation time.
\<close>

section \<open>Definitions\<close>

record AgentCredentialOverride =
  ov_agent_id :: int
  ov_registration :: string
  ov_auth_spec :: AuthSpec
  ov_created_at :: int
  ov_updated_at :: int

type_synonym OverrideTable = "AgentCredentialOverride list"

definition ov_key :: "AgentCredentialOverride \<Rightarrow> int \<times> string" where
  "ov_key o_row = (ov_agent_id o_row, ov_registration o_row)"

definition override_set :: "int \<Rightarrow> int \<Rightarrow> string \<Rightarrow> AuthSpec \<Rightarrow> OverrideTable \<Rightarrow> OverrideTable" where
  "override_set now aid reg spec t =
     (if list_ex (\<lambda>r. ov_agent_id r = aid \<and> ov_registration r = reg) t
      then update_where (\<lambda>r. ov_agent_id r = aid \<and> ov_registration r = reg)
             (\<lambda>r. r\<lparr> ov_auth_spec := spec, ov_updated_at := now \<rparr>) t
      else t @ [\<lparr> ov_agent_id = aid, ov_registration = reg, ov_auth_spec = spec,
                  ov_created_at = now, ov_updated_at = now \<rparr>])"

definition override_get :: "int \<Rightarrow> string \<Rightarrow> OverrideTable \<Rightarrow> AgentCredentialOverride option" where
  "override_get aid reg t = List.find (\<lambda>r. ov_agent_id r = aid \<and> ov_registration r = reg) t"

definition override_delete :: "int \<Rightarrow> string \<Rightarrow> OverrideTable \<Rightarrow> OverrideTable \<times> bool" where
  "override_delete aid reg t =
     (filter (\<lambda>r. \<not> (ov_agent_id r = aid \<and> ov_registration r = reg)) t,
      rows_affected (\<lambda>r. ov_agent_id r = aid \<and> ov_registration r = reg) t > 0)"

definition list_for_agent :: "int \<Rightarrow> OverrideTable \<Rightarrow> AgentCredentialOverride list" where
  "list_for_agent aid t = sort_key ov_registration (filter (\<lambda>r. ov_agent_id r = aid) t)"

definition overrides_inv :: "OverrideTable \<Rightarrow> bool" where
  "overrides_inv t \<longleftrightarrow> distinct (map ov_key t)"

text \<open>The override that applies, as the proxy reads it.\<close>

definition effective_override :: "int \<times> string \<Rightarrow> OverrideTable \<Rightarrow> AuthSpec option" where
  "effective_override k t = map_option ov_auth_spec (override_get (fst k) (snd k) t)"

section \<open>Lemmas\<close>

lemma override_get_find: "override_get a r t = List.find (\<lambda>x. ov_key x = (a, r)) t"
  by (simp add: override_get_def ov_key_def)

lemma override_key_fold: "(ov_agent_id x = a \<and> ov_registration x = r) = (ov_key x = (a, r))"
  by (simp add: ov_key_def)

lemma overrides_inv_set: "overrides_inv t \<Longrightarrow> overrides_inv (override_set now a r s t)"
proof -
  assume inv: "overrides_inv t"
  have "map ov_key (update_where (\<lambda>x. ov_agent_id x = a \<and> ov_registration x = r)
          (\<lambda>x. x\<lparr> ov_auth_spec := s, ov_updated_at := now \<rparr>) t) = map ov_key t"
    by (rule map_update_where_frame) (simp add: ov_key_def)
  with inv show ?thesis
    by (auto simp: overrides_inv_def override_set_def list_ex_iff ov_key_def)
qed

lemma effective_override_set:
  "effective_override j (override_set now (fst k) (snd k) s t) =
   (if j = k then Some s else effective_override j t)"
proof (cases "list_ex (\<lambda>x. ov_key x = k) t")
  case True
  let ?u = "\<lambda>x. x\<lparr> ov_auth_spec := s, ov_updated_at := now \<rparr>"
  have set: "override_set now (fst k) (snd k) s t = update_where (\<lambda>x. ov_key x = k) ?u t"
    using True by (simp add: override_set_def override_key_fold)
  show ?thesis
  proof (cases "j = k")
    case True
    have "List.find (\<lambda>x. ov_key x = k) (update_where (\<lambda>x. ov_key x = k) ?u t) =
          map_option (\<lambda>x. if ov_key x = k then ?u x else x) (List.find (\<lambda>x. ov_key x = k) t)"
      by (rule find_update_where_same) (simp add: ov_key_def)
    moreover obtain x where "List.find (\<lambda>x. ov_key x = k) t = Some x" "ov_key x = k"
      using \<open>list_ex _ t\<close> by (cases "List.find (\<lambda>x. ov_key x = k) t")
        (auto simp: list_ex_iff find_None_iff dest: find_Some_in_set)
    ultimately show ?thesis
      using True by (simp add: effective_override_def override_get_find set)
  next
    case False
    have "List.find (\<lambda>x. ov_key x = j) (update_where (\<lambda>x. ov_key x = k) ?u t) =
          List.find (\<lambda>x. ov_key x = j) t"
      using False by (intro find_update_where_other) (auto simp: ov_key_def)
    with False show ?thesis by (simp add: effective_override_def override_get_find set)
  qed
next
  case False
  then have "List.find (\<lambda>x. ov_key x = k) t = None" by (simp add: list_ex_iff find_None_iff)
  moreover have "ov_key \<lparr> ov_agent_id = fst k, ov_registration = snd k, ov_auth_spec = s,
                  ov_created_at = now, ov_updated_at = now \<rparr> = k"
    by (simp add: ov_key_def)
  ultimately show ?thesis
    using False
    by (auto simp: effective_override_def override_get_find override_set_def override_key_fold
                   find_append split: option.splits)
qed

lemma effective_override_delete:
  "effective_override j (fst (override_delete (fst k) (snd k) t)) =
   (if j = k then None else effective_override j t)"
proof -
  have "List.find (\<lambda>x. ov_key x = j) (filter (\<lambda>x. ov_key x \<noteq> k) t) =
        (if j = k then None else List.find (\<lambda>x. ov_key x = j) t)"
    by (induction t) auto
  then show ?thesis
    by (simp add: effective_override_def override_get_find override_delete_def override_key_fold)
qed

interpretation overrides: kv_store overrides_inv effective_override
  "\<lambda>k s t. override_set now (fst k) (snd k) s t"
  "\<lambda>k t. fst (override_delete (fst k) (snd k) t)" for now
proof
  fix t k
  assume "overrides_inv t"
  then show "overrides_inv (fst (override_delete (fst k) (snd k) t))"
    by (simp add: overrides_inv_def override_delete_def distinct_map_filter)
qed (simp_all add: overrides_inv_set effective_override_set effective_override_delete)

section \<open>Properties\<close>

fun override_run :: "OverrideTable \<Rightarrow> int \<times> (int \<times> string, AuthSpec) kv_op \<Rightarrow> OverrideTable" where
  "override_run t (now, Put k s) = override_set now (fst k) (snd k) s t"
| "override_run t (now, Del k) = fst (override_delete (fst k) (snd k) t)"

lemma override_run_step:
  assumes "overrides_inv t"
  shows "overrides_inv (override_run t p) \<and>
         (\<lambda>k. effective_override k (override_run t p)) = map_op (\<lambda>k. effective_override k t) (snd p)"
proof -
  obtain now p' where p: "p = (now, p')" by fastforce
  show ?thesis
    using assms overrides.refines_map [OF assms, of now "[p']"] unfolding p
    by (cases p') simp_all
qed



end
