(* ===== verification/Secrets.thy ===== *)
theory Secrets
  imports Registrations "HOL-Library.Monad_Syntax"
begin

text \<open>
  Secret backends and credential resolution, \<open>src/secret\<close>.  The environment
  and the file system are parameters.  The legacy form expands \<open>${VAR}\<close>
  patterns with a loop that need not end: the operations that reach it return
  an option, \<open>None\<close> when they do not return.
\<close>

section \<open>Definitions\<close>

datatype BackendError = Missing string | NotImplemented string | Io | Other string

type_synonym env = "string \<Rightarrow> string option"

definition expand_legacy :: "env \<Rightarrow> string \<Rightarrow> string option" where
  "expand_legacy env raw = expand_env_vars env raw"

definition env_from_var :: "env \<Rightarrow> string \<Rightarrow> string option \<Rightarrow> (BackendError, string) result" where
  "env_from_var env var prf =
     (case env var of
        None \<Rightarrow> Inl (Missing var)
      | Some v \<Rightarrow> Inr (case prf of Some p \<Rightarrow> p @ v | None \<Rightarrow> v))"

definition env_resolve_sync :: "env \<Rightarrow> SecretRef \<Rightarrow> (BackendError, string) result option" where
  "env_resolve_sync env r =
     (case r of
        LegacyString raw \<Rightarrow> map_option Inr (expand_legacy env raw)
      | FromEnv var prf \<Rightarrow> Some (env_from_var env var prf)
      | _ \<Rightarrow> Some (Inl (NotImplemented
               ''EnvBackend::resolve_sync only handles LegacyString and FromEnv'')))"

definition env_resolve :: "env \<Rightarrow> SecretRef \<Rightarrow> (BackendError, string) result option" where
  "env_resolve env r =
     (case r of
        LegacyString raw \<Rightarrow> map_option Inr (expand_legacy env raw)
      | FromEnv var prf \<Rightarrow> Some (env_from_var env var prf)
      | Inline _ \<Rightarrow> Some (Inl (NotImplemented ''EnvBackend received Inline (resolver bug)''))
      | FromFileSealed _ \<Rightarrow> Some (Inl (NotImplemented ''from_file_sealed (use FileSealedBackend)''))
      | FromVault _ _ _ \<Rightarrow> Some (Inl (NotImplemented ''from_vault (stub only)''))
      | FromAwsSecretsManager _ _ _ \<Rightarrow>
          Some (Inl (NotImplemented ''from_aws_secrets_manager (stub only)'')))"

subsection \<open>Sealed files\<close>

text \<open>A file system maps a path to its permission bits and its bytes.\<close>

record FileSealedBackend =
  fb_cache :: "string \<rightharpoonup> string"
  fb_enforce_permissions :: bool

definition check_permissions :: "nat \<Rightarrow> bool" where
  "check_permissions mode = ((mode mod 512) mod 64 = 0)"

definition strip_newline :: "string \<Rightarrow> string" where
  "strip_newline s = (if s \<noteq> [] \<and> last s = CHR 0x0A then butlast s else s)"

definition read_path ::
  "(string \<Rightarrow> (nat \<times> string) option) \<Rightarrow> (string \<Rightarrow> bool) \<Rightarrow> bool \<Rightarrow> string \<Rightarrow> (BackendError, string) result" where
  "read_path fs utf8 enforce path =
     (case fs path of
        None \<Rightarrow> Inl Io
      | Some (mode, content) \<Rightarrow>
          if enforce \<and> \<not> check_permissions mode
          then Inl (Other ''sealed credentials must be chmod 0600 or 0400'')
          else if \<not> utf8 (strip_newline content) then Inl (Other ''file is not valid UTF-8'')
          else Inr (strip_newline content))"

definition file_sealed_resolve ::
  "(string \<Rightarrow> (nat \<times> string) option) \<Rightarrow> (string \<Rightarrow> bool) \<Rightarrow> string \<Rightarrow> FileSealedBackend
    \<Rightarrow> FileSealedBackend \<times> (BackendError, string) result" where
  "file_sealed_resolve fs utf8 path b =
     (case fb_cache b path of
        Some v \<Rightarrow> (b, Inr v)
      | None \<Rightarrow>
          (case read_path fs utf8 (fb_enforce_permissions b) path of
             Inl e \<Rightarrow> (b, Inl e)
           | Inr v \<Rightarrow> (b\<lparr> fb_cache := (fb_cache b)(path \<mapsto> v) \<rparr>, Inr v)))"

subsection \<open>The resolver\<close>

record SecretResolver =
  sr_file_sealed :: "FileSealedBackend option"

definition resolver_resolve ::
  "env \<Rightarrow> (string \<Rightarrow> (nat \<times> string) option) \<Rightarrow> (string \<Rightarrow> bool) \<Rightarrow> SecretRef \<Rightarrow> SecretResolver
    \<Rightarrow> (SecretResolver \<times> (BackendError, string) result) option" where
  "resolver_resolve env fs utf8 r rs =
     (case r of
        Inline s \<Rightarrow> Some (rs, Inr s)
      | LegacyString _ \<Rightarrow> map_option (Pair rs) (env_resolve env r)
      | FromEnv _ _ \<Rightarrow> map_option (Pair rs) (env_resolve env r)
      | FromFileSealed path \<Rightarrow>
          Some (case sr_file_sealed rs of
                  Some b \<Rightarrow> (case file_sealed_resolve fs utf8 path b of
                               (b', res) \<Rightarrow> (rs\<lparr> sr_file_sealed := Some b' \<rparr>, res))
                | None \<Rightarrow> (rs, Inl (NotImplemented
                            ''from_file_sealed (no FileSealedBackend configured)'')))
      | FromVault _ _ _ \<Rightarrow> Some (rs, Inl (NotImplemented ''from_vault (M6+ stub only)''))
      | FromAwsSecretsManager _ _ _ \<Rightarrow>
          Some (rs, Inl (NotImplemented ''from_aws_secrets_manager (M6+ stub only)'')))"

fun resolve_tool_creds ::
  "env \<Rightarrow> (string \<Rightarrow> (nat \<times> string) option) \<Rightarrow> (string \<Rightarrow> bool) \<Rightarrow> ToolConfig list \<Rightarrow> SecretResolver
    \<Rightarrow> ResolvedCreds \<Rightarrow> ResolvedCreds option" where
  "resolve_tool_creds env fs utf8 [] rs out = Some out"
| "resolve_tool_creds env fs utf8 (t # ts) rs out =
     (case tc_auth t of
        None \<Rightarrow> resolve_tool_creds env fs utf8 ts rs out
      | Some auth \<Rightarrow> do {
          (rs', res) \<leftarrow> resolver_resolve env fs utf8 (tac_value auth) rs;
          resolve_tool_creds env fs utf8 ts rs'
            (case res of
               Inr v \<Rightarrow> if v \<noteq> [] then out(tc_name t \<mapsto> v) else out
             | Inl _ \<Rightarrow> out)
        })"

fun resolve_tool_creds_sync :: "env \<Rightarrow> ToolConfig list \<Rightarrow> ResolvedCreds \<Rightarrow> ResolvedCreds option" where
  "resolve_tool_creds_sync env [] out = Some out"
| "resolve_tool_creds_sync env (t # ts) out =
     (case tc_auth t of
        None \<Rightarrow> resolve_tool_creds_sync env ts out
      | Some auth \<Rightarrow> do {
          res \<leftarrow> (case tac_value auth of
                    Inline s \<Rightarrow> Some (Inr s)
                  | LegacyString _ \<Rightarrow> env_resolve_sync env (tac_value auth)
                  | FromEnv _ _ \<Rightarrow> env_resolve_sync env (tac_value auth)
                  | _ \<Rightarrow> Some (Inl Io));
          resolve_tool_creds_sync env ts
            (case res of
               Inr v \<Rightarrow> if v \<noteq> [] then out(tc_name t \<mapsto> v) else out
             | Inl _ \<Rightarrow> out)
        })"

text \<open>
  Startup keeps an entry that is already resolved (\<open>src/daemon.rs\<close>), the
  refresh after an admin write overwrites it (\<open>src/registrations/api.rs\<close>).
\<close>

definition merge_startup :: "ResolvedCreds \<Rightarrow> ResolvedCreds \<Rightarrow> ResolvedCreds" where
  "merge_startup base extra = extra ++ base"

definition merge_refresh :: "ResolvedCreds \<Rightarrow> ResolvedCreds \<Rightarrow> ResolvedCreds" where
  "merge_refresh base extra = base ++ extra"

section \<open>Lemmas\<close>

lemma env_resolve_agree:
  assumes "\<exists>s. r = LegacyString s \<or> (\<exists>p. r = FromEnv s p)"
  shows "env_resolve env r = env_resolve_sync env r"
  using assms by (auto simp: env_resolve_def env_resolve_sync_def)

definition creds_nonempty :: "ResolvedCreds \<Rightarrow> bool" where
  "creds_nonempty m \<longleftrightarrow> (\<forall>n v. m n = Some v \<longrightarrow> v \<noteq> [])"

lemma creds_nonempty_upd:
  "creds_nonempty out \<Longrightarrow>
   creds_nonempty (case res of Inr v \<Rightarrow> if v \<noteq> [] then out(n \<mapsto> v) else out | Inl _ \<Rightarrow> out)"
  by (simp add: creds_nonempty_def split: sum.splits)

lemma resolve_tool_creds_nonempty:
  assumes "resolve_tool_creds env fs utf8 ts rs out = Some m" "creds_nonempty out"
  shows "creds_nonempty m"
  using assms
proof (induction ts arbitrary: rs out)
  case (Cons t ts)
  show ?case
  proof (cases "tc_auth t")
    case None
    with Cons.prems Cons.IH show ?thesis by simp
  next
    case auth: (Some auth)
    show ?thesis
    proof (cases "resolver_resolve env fs utf8 (tac_value auth) rs")
      case None
      with auth Cons.prems(1) show ?thesis by simp
    next
      case (Some p)
      obtain rs' res where p: "p = (rs', res)" by fastforce
      with auth Some Cons.prems(1) have
        "resolve_tool_creds env fs utf8 ts rs'
           (case res of Inr v \<Rightarrow> if v \<noteq> [] then out(tc_name t \<mapsto> v) else out | Inl _ \<Rightarrow> out) = Some m"
        by simp
      from Cons.IH [OF this creds_nonempty_upd [OF Cons.prems(2)]] show ?thesis .
    qed
  qed
qed simp

lemma file_sealed_private:
  assumes "file_sealed_resolve fs utf8 path b = (b', Inr v)" "fb_cache b path = None"
    and "fb_enforce_permissions b"
  shows "\<exists>mode content. fs path = Some (mode, content) \<and> mode mod 64 = 0 \<and> v = strip_newline content"
  using assms
  by (auto simp: file_sealed_resolve_def read_path_def check_permissions_def mod_mod_cancel
           split: option.splits sum.splits if_splits)

end
