(* ===== verification/Oauth_Session.thy ===== *)
theory Oauth_Session
  imports Registrations
begin

text \<open>
  OAuth token storage, \<open>src/oauth/sealing.rs\<close>, \<open>src/oauth/jwt.rs\<close> and
  \<open>src/oauth/session.rs\<close>: the sealing key, the account id carried by an
  access token, and the table of sealed sessions.  AES-256-GCM, SHA-256,
  base64 and the JSON parser are parameters; a nonce is drawn by the caller.
\<close>

section \<open>Definitions\<close>

subsection \<open>Sealing\<close>

datatype SealingKeyError =
    EnvVarUnset
  | InvalidBase64
  | KeyInvalidLength nat
  | InvalidNonce nat
  | Decrypt
  | NonceGenFailed

datatype SealingKey = SealingKey (key_bytes: bytes)

definition key_from_b64 :: "(string \<Rightarrow> bytes option) \<Rightarrow> string \<Rightarrow> (SealingKeyError, SealingKey) result" where
  "key_from_b64 dec b64 =
     (case dec (trim b64) of
        None \<Rightarrow> Inl InvalidBase64
      | Some bs \<Rightarrow> if length bs \<noteq> 32 then Inl (KeyInvalidLength (length bs)) else Inr (SealingKey bs))"

definition key_from_env ::
  "(string \<Rightarrow> bytes option) \<Rightarrow> (string \<Rightarrow> string option) \<Rightarrow> (SealingKeyError, SealingKey) result" where
  "key_from_env dec env =
     (case env ''LOCKSMITH_OAUTH_SEALING_KEY'' of
        None \<Rightarrow> Inl EnvVarUnset
      | Some raw \<Rightarrow> if raw = [] then Inl EnvVarUnset else key_from_b64 dec raw)"

definition seal :: "Crypto \<Rightarrow> SealingKey \<Rightarrow> bytes \<Rightarrow> string \<Rightarrow> string \<times> bytes" where
  "seal cr key nonce plaintext = (cr_aead_seal cr (key_bytes key) nonce plaintext, nonce)"

definition unseal :: "Crypto \<Rightarrow> SealingKey \<Rightarrow> string \<Rightarrow> bytes \<Rightarrow> (SealingKeyError, string) result" where
  "unseal cr key ct nonce =
     (if length nonce \<noteq> 12 then Inl (InvalidNonce (length nonce))
      else (case cr_aead_open cr (key_bytes key) nonce ct of
              None \<Rightarrow> Inl Decrypt
            | Some p \<Rightarrow> Inr p))"

subsection \<open>Access-token claims\<close>

definition bytes_to_string :: "bytes \<Rightarrow> string" where
  "bytes_to_string bs = map (\<lambda>b. char_of (unat b)) bs"

definition decode_jwt_payload ::
  "(string \<Rightarrow> bytes option) \<Rightarrow> (string \<Rightarrow> json option) \<Rightarrow> string \<Rightarrow> json option" where
  "decode_jwt_payload dec json_parse token =
     (case split_on (CHR ''.'') token of
        [hd_part, payload, sig_part] \<Rightarrow>
          (let padded = payload @ replicate ((4 - length payload mod 4) mod 4) (CHR ''='') in
           Option.bind (dec (trim_end_matches (CHR ''='') padded))
             (\<lambda>bs. json_parse (bytes_to_string bs)))
      | _ \<Rightarrow> None)"

definition extract_chatgpt_account_id ::
  "(string \<Rightarrow> bytes option) \<Rightarrow> (string \<Rightarrow> json option) \<Rightarrow> string \<Rightarrow> string option" where
  "extract_chatgpt_account_id dec json_parse token =
     (case Option.bind (decode_jwt_payload dec json_parse token)
             (\<lambda>p. Option.bind (json_get ''https://api.openai.com/auth'' p)
               (\<lambda>a. Option.bind (json_get ''chatgpt_account_id'' a) json_str)) of
        Some i \<Rightarrow> if i = [] then None else Some i
      | None \<Rightarrow> None)"

subsection \<open>Sessions\<close>

record OauthSession =
  os_name :: string
  os_session_label :: string
  os_refresh_token :: string
  os_access_token :: "string option"
  os_access_token_expires_at :: "int option"
  os_scope :: string
  os_degraded :: bool
  os_created_at :: int
  os_updated_at :: int
  os_account_id :: "string option"

definition audit_session_id :: "Crypto \<Rightarrow> OauthSession \<Rightarrow> string" where
  "audit_session_id cr s =
     take 16 (cr_sha256_hex cr
       (os_name s @ '':'' @ os_session_label s @ '':'' @ show_int (os_created_at s)))"

datatype OauthSessionError = Sealing SealingKeyError | Database | Invariant string

record OauthRow =
  ow_name :: string
  ow_session_label :: string
  ow_refresh_ct :: string
  ow_refresh_nonce :: bytes
  ow_access_ct :: "string option"
  ow_access_nonce :: "bytes option"
  ow_access_expires_at :: "int option"
  ow_scope :: string
  ow_degraded :: bool
  ow_created_at :: int
  ow_updated_at :: int
  ow_account_id :: "string option"

type_synonym OauthTable = "OauthRow list"

text \<open>The functions of the environment a session operation calls.\<close>

record OauthExt =
  ox_crypto :: Crypto
  ox_json :: "string \<Rightarrow> json option"

definition account_id_of :: "OauthExt \<Rightarrow> string \<Rightarrow> string option" where
  "account_id_of ox tok = extract_chatgpt_account_id (cr_unb64 (ox_crypto ox)) (ox_json ox) tok"

definition row_is :: "string \<Rightarrow> string \<Rightarrow> OauthRow \<Rightarrow> bool" where
  "row_is name label r \<longleftrightarrow> ow_name r = name \<and> ow_session_label r = label"

definition session_create ::
  "OauthExt \<Rightarrow> int \<Rightarrow> bytes \<times> bytes \<Rightarrow> SealingKey \<Rightarrow> string \<Rightarrow> string \<Rightarrow> string \<Rightarrow> string option
    \<Rightarrow> int option \<Rightarrow> string \<Rightarrow> OauthTable \<Rightarrow> OauthTable \<times> (OauthSessionError, OauthSession) result" where
  "session_create ox now nonces key name label refresh_token access_token expires_at scope t =
     (let cr = ox_crypto ox;
          rf = seal cr key (fst nonces) refresh_token;
          ac = map_option (seal cr key (snd nonces)) access_token;
          acct = Option.bind access_token (account_id_of ox)
      in if list_ex (row_is name label) t then (t, Inl Database)
         else
           (t @ [\<lparr> ow_name = name, ow_session_label = label, ow_refresh_ct = fst rf,
                   ow_refresh_nonce = snd rf, ow_access_ct = map_option fst ac,
                   ow_access_nonce = map_option snd ac, ow_access_expires_at = expires_at,
                   ow_scope = scope, ow_degraded = False, ow_created_at = now,
                   ow_updated_at = now, ow_account_id = acct \<rparr>],
            Inr \<lparr> os_name = name, os_session_label = label, os_refresh_token = refresh_token,
                  os_access_token = access_token, os_access_token_expires_at = expires_at,
                  os_scope = scope, os_degraded = False, os_created_at = now,
                  os_updated_at = now, os_account_id = acct \<rparr>))"

definition refreshed_row ::
  "OauthExt \<Rightarrow> int \<Rightarrow> bytes \<times> bytes \<Rightarrow> SealingKey \<Rightarrow> string \<Rightarrow> int \<Rightarrow> string option \<Rightarrow> OauthRow \<Rightarrow> OauthRow" where
  "refreshed_row ox now nonces key access_token expires_at refresh_token r =
     (let cr = ox_crypto ox;
          ac = seal cr key (snd nonces) access_token
      in (case refresh_token of
            Some rt \<Rightarrow>
              (let rf = seal cr key (fst nonces) rt
               in r\<lparr> ow_refresh_ct := fst rf, ow_refresh_nonce := snd rf \<rparr>)
          | None \<Rightarrow> r)
         \<lparr> ow_access_ct := Some (fst ac), ow_access_nonce := Some (snd ac),
           ow_access_expires_at := Some expires_at,
           ow_account_id := account_id_of ox access_token,
           ow_degraded := False, ow_updated_at := now \<rparr>)"

definition update_tokens ::
  "OauthExt \<Rightarrow> int \<Rightarrow> bytes \<times> bytes \<Rightarrow> SealingKey \<Rightarrow> string \<Rightarrow> string \<Rightarrow> string \<Rightarrow> int \<Rightarrow> string option
    \<Rightarrow> OauthTable \<Rightarrow> OauthTable" where
  "update_tokens ox now nonces key name label access_token expires_at refresh_token t =
     update_where (row_is name label)
       (refreshed_row ox now nonces key access_token expires_at refresh_token) t"

definition mark_degraded :: "int \<Rightarrow> string \<Rightarrow> string \<Rightarrow> OauthTable \<Rightarrow> OauthTable" where
  "mark_degraded now name label t =
     update_where (row_is name label) (\<lambda>r. r\<lparr> ow_degraded := True, ow_updated_at := now \<rparr>) t"

definition open_row :: "Crypto \<Rightarrow> SealingKey \<Rightarrow> OauthRow \<Rightarrow> (OauthSessionError, OauthSession) result" where
  "open_row cr key r =
     (case unseal cr key (ow_refresh_ct r) (ow_refresh_nonce r) of
        Inl e \<Rightarrow> Inl (Sealing e)
      | Inr rt \<Rightarrow>
          (let mk = (\<lambda>at. \<lparr> os_name = ow_name r, os_session_label = ow_session_label r,
                 os_refresh_token = rt, os_access_token = at,
                 os_access_token_expires_at = ow_access_expires_at r, os_scope = ow_scope r,
                 os_degraded = ow_degraded r, os_created_at = ow_created_at r,
                 os_updated_at = ow_updated_at r, os_account_id = ow_account_id r \<rparr>)
           in case (ow_access_ct r, ow_access_nonce r) of
                (Some ct, Some n) \<Rightarrow>
                  (case unseal cr key ct n of
                     Inl e \<Rightarrow> Inl (Sealing e)
                   | Inr at \<Rightarrow> Inr (mk (Some at)))
              | (None, None) \<Rightarrow> Inr (mk None)
              | _ \<Rightarrow> Inl (Invariant ''access_token_ciphertext / access_token_nonce out of sync'')))"

definition session_get ::
  "Crypto \<Rightarrow> SealingKey \<Rightarrow> string \<Rightarrow> string \<Rightarrow> OauthTable \<Rightarrow> (OauthSessionError, OauthSession option) result" where
  "session_get cr key name label t =
     (case List.find (row_is name label) t of
        None \<Rightarrow> Inr None
      | Some r \<Rightarrow> (case open_row cr key r of Inl e \<Rightarrow> Inl e | Inr s \<Rightarrow> Inr (Some s)))"

definition session_delete :: "string \<Rightarrow> string \<Rightarrow> OauthTable \<Rightarrow> OauthTable \<times> bool" where
  "session_delete name label t =
     (filter (\<lambda>r. \<not> row_is name label r) t, rows_affected (row_is name label) t > 0)"

definition pending_row :: "int \<Rightarrow> OauthRow \<Rightarrow> bool" where
  "pending_row threshold r \<longleftrightarrow>
     \<not> ow_degraded r \<and> (case ow_access_expires_at r of None \<Rightarrow> False | Some e \<Rightarrow> e \<le> threshold)"

definition list_pending_refresh :: "int \<Rightarrow> OauthTable \<Rightarrow> (string \<times> string) list" where
  "list_pending_refresh threshold t =
     map (\<lambda>r. (ow_name r, ow_session_label r))
       (sort_key (\<lambda>r. case ow_access_expires_at r of Some e \<Rightarrow> e | None \<Rightarrow> 0)
         (filter (pending_row threshold) t))"

definition session_list_all :: "OauthTable \<Rightarrow> (string \<times> string \<times> bool \<times> int option) list" where
  "session_list_all t =
     map (\<lambda>r. (ow_name r, ow_session_label r, ow_degraded r, ow_access_expires_at r))
       (sort_key ow_name (sort_key ow_session_label t))"

definition row_key :: "OauthRow \<Rightarrow> string \<times> string" where
  "row_key r = (ow_name r, ow_session_label r)"

text \<open>
  Rows have distinct keys, 12-byte nonces, and an access ciphertext exactly
  when they have its nonce.
\<close>

definition row_ok :: "OauthRow \<Rightarrow> bool" where
  "row_ok r \<longleftrightarrow> length (ow_refresh_nonce r) = 12 \<and>
     (ow_access_ct r = None) = (ow_access_nonce r = None) \<and>
     (\<forall>n. ow_access_nonce r = Some n \<longrightarrow> length n = 12)"

definition sessions_inv :: "OauthTable \<Rightarrow> bool" where
  "sessions_inv t \<longleftrightarrow> distinct (map row_key t) \<and> (\<forall>r \<in> set t. row_ok r)"

definition nonces_ok :: "bytes \<times> bytes \<Rightarrow> bool" where
  "nonces_ok n \<longleftrightarrow> length (fst n) = 12 \<and> length (snd n) = 12"

inductive session_step :: "OauthTable \<Rightarrow> OauthTable \<Rightarrow> bool" where
  create: "nonces_ok ns \<Longrightarrow> session_step t (fst (session_create ox now ns key n l rt at ex sc t))"
| update: "nonces_ok ns \<Longrightarrow> session_step t (update_tokens ox now ns key n l at' ex' rt' t)"
| degrade: "session_step t (mark_degraded now n l t)"
| delete: "session_step t (fst (session_delete n l t))"

section \<open>Lemmas\<close>

inductive_cases session_stepE: "session_step t t'"

lemma row_is_key: "row_is n l r \<longleftrightarrow> row_key r = (n, l)"
  by (simp add: row_is_def row_key_def)

lemma seal_fst_snd [simp]:
  "snd (seal cr key n p) = n"
  "aead_ok cr \<Longrightarrow> length n = 12 \<Longrightarrow> unseal cr key (fst (seal cr key n p)) n = Inr p"
  by (simp_all add: seal_def unseal_def aead_ok_def)

lemma sessions_inv_update:
  assumes "sessions_inv t" "\<And>r. row_key (f r) = row_key r" "\<And>r. row_ok r \<Longrightarrow> row_ok (f r)"
  shows "sessions_inv (update_where p f t)"
proof -
  have "map row_key (update_where p f t) = map row_key t"
    using assms(2) by (simp add: map_update_where_frame)
  moreover have "\<forall>r \<in> set (update_where p f t). row_ok r"
    using assms(1,3) by (auto simp: sessions_inv_def update_where_def)
  ultimately show ?thesis using assms(1) by (simp add: sessions_inv_def)
qed

lemma refreshed_row_key [simp]:
  "row_key (refreshed_row ox now ns key at ex rt r) = row_key r"
  by (simp add: refreshed_row_def Let_def row_key_def split: option.splits)

lemma refreshed_row_ok:
  "row_ok r \<Longrightarrow> nonces_ok ns \<Longrightarrow> row_ok (refreshed_row ox now ns key at ex rt r)"
  by (simp add: refreshed_row_def Let_def row_ok_def nonces_ok_def split: option.splits)

lemma sessions_inv_step:
  assumes "session_step t t'" "sessions_inv t"
  shows "sessions_inv t'"
  using assms(1)
proof cases
  case (create ns ox now key n l rt at ex sc)
  with assms(2) show ?thesis
    by (cases at)
       (auto simp: session_create_def sessions_inv_def Let_def list_ex_iff row_is_key row_ok_def
                   nonces_ok_def row_key_def)
next
  case (update ns ox now key n l at ex rt)
  then show ?thesis
    using assms(2)
    by (auto simp: update_tokens_def refreshed_row_ok intro!: sessions_inv_update)
next
  case (degrade now n l)
  then show ?thesis
    using assms(2)
    by (auto simp: mark_degraded_def row_key_def row_ok_def intro!: sessions_inv_update)
next
  case (delete n l)
  with assms(2) show ?thesis
    by (auto simp: session_delete_def sessions_inv_def distinct_map_filter)
qed

interpretation sessions: invariant_system session_step sessions_inv
  by unfold_locales (rule sessions_inv_step)

lemma find_row_update_same:
  assumes "\<And>r. row_key (f r) = row_key r"
  shows "List.find (row_is n l) (update_where (row_is n l) f t) = map_option f (List.find (row_is n l) t)"
proof -
  have "List.find (row_is n l) (update_where (row_is n l) f t) =
        map_option (\<lambda>r. if row_is n l r then f r else r) (List.find (row_is n l) t)"
    by (rule find_update_where_same) (simp add: row_is_key assms)
  also have "\<dots> = map_option f (List.find (row_is n l) t)"
    by (cases "List.find (row_is n l) t") (auto dest: find_Some_in_set)
  finally show ?thesis .
qed

lemma find_row_update_other:
  assumes "\<And>r. row_key (f r) = row_key r" "(n, l) \<noteq> (n', l')"
  shows "List.find (row_is n l) (update_where (row_is n' l') f t) = List.find (row_is n l) t"
  using assms by (intro find_update_where_other) (auto simp: row_is_key)

lemma session_get_create:
  assumes "aead_ok (ox_crypto ox)" "nonces_ok ns"
    and "session_create ox now ns key n l rt at ex sc t = (t', Inr s)"
  shows "session_get (ox_crypto ox) key n l t' = Inr (Some s)"
proof -
  have "List.find (row_is n l) t = None"
    using assms(3) by (auto simp: session_create_def Let_def list_ex_iff find_None_iff split: if_splits)
  with assms show ?thesis
    by (cases at)
       (auto simp: session_create_def Let_def session_get_def find_append row_is_def open_row_def
                   nonces_ok_def split: if_splits)
qed

lemma session_get_update:
  assumes "aead_ok (ox_crypto ox)" "nonces_ok ns" "sessions_inv t"
    and "session_get (ox_crypto ox) key n l t = Inr (Some s)"
  shows "session_get (ox_crypto ox) key n l (update_tokens ox now ns key n l at ex rt t) =
         Inr (Some (s\<lparr> os_refresh_token := (case rt of Some x \<Rightarrow> x | None \<Rightarrow> os_refresh_token s),
                       os_access_token := Some at, os_access_token_expires_at := Some ex,
                       os_account_id := account_id_of ox at, os_degraded := False,
                       os_updated_at := now \<rparr>))"
proof -
  let ?cr = "ox_crypto ox"
  let ?f = "refreshed_row ox now ns key at ex rt"
  obtain r where r: "List.find (row_is n l) t = Some r" and op: "open_row ?cr key r = Inr s"
    using assms(4) by (auto simp: session_get_def split: option.splits sum.splits)
  have "List.find (row_is n l) (update_tokens ox now ns key n l at ex rt t) = Some (?f r)"
    unfolding update_tokens_def using find_row_update_same [of ?f n l t] r by simp
  moreover have "open_row ?cr key (?f r) =
     Inr (s\<lparr> os_refresh_token := (case rt of Some x \<Rightarrow> x | None \<Rightarrow> os_refresh_token s),
             os_access_token := Some at, os_access_token_expires_at := Some ex,
             os_account_id := account_id_of ox at, os_degraded := False, os_updated_at := now \<rparr>)"
    using op assms(1,2)
    by (cases rt)
       (auto simp: open_row_def refreshed_row_def Let_def nonces_ok_def split: sum.splits option.splits)
  ultimately show ?thesis by (simp add: session_get_def)
qed

lemma session_get_degrade:
  assumes "session_get cr key n l t = Inr (Some s)"
  shows "session_get cr key n l (mark_degraded now n l t) =
         Inr (Some (s\<lparr> os_degraded := True, os_updated_at := now \<rparr>))"
proof -
  let ?f = "\<lambda>r. r\<lparr> ow_degraded := True, ow_updated_at := now \<rparr>"
  obtain r where r: "List.find (row_is n l) t = Some r" and op: "open_row cr key r = Inr s"
    using assms by (auto simp: session_get_def split: option.splits sum.splits)
  have "List.find (row_is n l) (mark_degraded now n l t) = Some (?f r)"
    unfolding mark_degraded_def using find_row_update_same [of ?f n l t] r
    by (simp add: row_key_def)
  moreover have "open_row cr key (?f r) = Inr (s\<lparr> os_degraded := True, os_updated_at := now \<rparr>)"
    using op by (auto simp: open_row_def Let_def split: sum.splits option.splits)
  ultimately show ?thesis by (simp add: session_get_def)
qed

end
