(* ===== verification/Seed_Loader.thy ===== *)
theory Seed_Loader
  imports Registrations
begin

text \<open>
  Startup population of the registrations table: the seed catalog
  (\<open>src/registrations/seed_loader.rs\<close>) and the migration of legacy
  \<open>config.tools\<close> entries (\<open>src/registrations/legacy_bootstrap.rs\<close>).  Each
  entry is written by its own statement, so an error leaves the writes of the
  entries before it.  The YAML decoder is a parameter.
\<close>

section \<open>Definitions\<close>

datatype SeedLoadError =
    SeedIo
  | SeedParse
  | SeedEntryError string string RegistrationError
  | SeedBackend RegistrationError

record SeedEntry =
  se_name :: string
  se_kind :: Kind
  se_description :: string
  se_upstream :: string
  se_auth :: "AuthSpec option"
  se_egress :: "EgressMode option"
  se_timeouts :: "ToolTimeouts option"
  se_body_limit_bytes :: "nat option"
  se_metadata :: "json option"

record SeedCatalog =
  cat_version :: string
  cat_entries :: "SeedEntry list"

definition DEFAULT_SEED_PATH :: string where
  "DEFAULT_SEED_PATH = ''/etc/locksmith/seed/catalog.yaml''"

definition seed_path_from_env :: "(string \<Rightarrow> string option) \<Rightarrow> string option" where
  "seed_path_from_env env =
     (case env ''LOCKSMITH_SEED_PATH'' of
        Some s \<Rightarrow> if s = [] then None else Some s
      | None \<Rightarrow> Some DEFAULT_SEED_PATH)"

text \<open>\<open>str::parse::<u64>\<close>: an optional plus sign, then decimal digits below \<open>2^64\<close>.\<close>

definition is_digit :: "char \<Rightarrow> bool" where
  "is_digit c = (let n = of_char c :: nat in 48 \<le> n \<and> n \<le> 57)"

definition digits_value :: "string \<Rightarrow> nat" where
  "digits_value s = foldl (\<lambda>acc c. acc * 10 + (of_char c - 48)) 0 s"

definition parse_u64 :: "string \<Rightarrow> nat option" where
  "parse_u64 s =
     (let ds = (case strip_prefix ''+'' s of Some r \<Rightarrow> r | None \<Rightarrow> s) in
      if ds \<noteq> [] \<and> list_all is_digit ds \<and> digits_value ds < 2 ^ 64
      then Some (digits_value ds) else None)"

definition part_value :: "string list \<Rightarrow> nat \<Rightarrow> nat" where
  "part_value parts i =
     (if i < length parts then (case parse_u64 (parts ! i) of Some n \<Rightarrow> n | None \<Rightarrow> 0) else 0)"

definition semver_lt :: "string \<Rightarrow> string \<Rightarrow> bool" where
  "semver_lt a b =
     (let pa = split_on (CHR ''.'') a; pb = split_on (CHR ''.'') b in
      part_value pa 0 < part_value pb 0 \<or>
      (part_value pa 0 = part_value pb 0 \<and>
        (part_value pa 1 < part_value pb 1 \<or>
         (part_value pa 1 = part_value pb 1 \<and> part_value pa 2 < part_value pb 2))))"

definition check_auth_for_kind :: "SeedEntry \<Rightarrow> (RegistrationError, unit) result" where
  "check_auth_for_kind e =
     (if (se_kind e = Tool \<or> se_kind e = Model) \<and> se_auth e = None then Inl AuthRequired
      else Inr ())"

definition opt_or :: "'a \<Rightarrow> 'a option \<Rightarrow> 'a" where
  "opt_or d x = (case x of None \<Rightarrow> d | Some v \<Rightarrow> v)"

definition entry_to_registration ::
  "SeedEntry \<Rightarrow> Kind \<Rightarrow> int \<Rightarrow> (SeedLoadError, Registration) result" where
  "entry_to_registration e kind now =
     (let mk = (\<lambda>auth.
        \<lparr> rg_name = se_name e, rg_kind = kind, rg_description = se_description e,
          rg_upstream = se_upstream e, rg_auth = auth, rg_egress = opt_or Direct (se_egress e),
          rg_timeouts = opt_or default_timeouts (se_timeouts e),
          rg_body_limit_bytes = opt_or (10 * 1024 * 1024) (se_body_limit_bytes e),
          rg_metadata = opt_or (JObj []) (se_metadata e), rg_seed = True, rg_disabled = False,
          rg_created_at = now, rg_updated_at = now \<rparr>)
      in case se_auth e of
           Some a \<Rightarrow> Inr (mk a)
         | None \<Rightarrow> if kind = Infra then Inr (mk NoAuth)
                   else Inl (SeedEntryError (se_name e) (kind_str kind) AuthRequired))"

fun validate_entries :: "SeedEntry list \<Rightarrow> (SeedLoadError, unit) result" where
  "validate_entries [] = Inr ()"
| "validate_entries (e # es) =
     (case validate_name (se_name e) of
        Inl err \<Rightarrow> Inl (SeedEntryError (se_name e) (kind_str (se_kind e)) err)
      | Inr _ \<Rightarrow>
          (case check_auth_for_kind e of
             Inl err \<Rightarrow> Inl (SeedEntryError (se_name e) (kind_str (se_kind e)) err)
           | Inr _ \<Rightarrow> validate_entries es))"

definition apply_entry :: "int \<Rightarrow> SeedEntry \<Rightarrow> RegTable \<Rightarrow> RegTable \<times> (SeedLoadError, unit) result" where
  "apply_entry now e t =
     (let kind = se_kind e in
      case reg_get (se_name e) t of
        Some existing \<Rightarrow>
          if \<not> rg_seed existing then (t, Inr ())
          else if rg_kind existing \<noteq> kind
          then (t, Inl (SeedEntryError (se_name e) (kind_str kind) (WrongKind (rg_kind existing) kind)))
          else (case entry_to_registration e kind now of
                  Inl err \<Rightarrow> (t, Inl err)
                | Inr nxt \<Rightarrow>
                    (reg_upsert (nxt\<lparr> rg_created_at := rg_created_at existing,
                                      rg_disabled := rg_disabled existing \<rparr>) t, Inr ()))
      | None \<Rightarrow>
          (case entry_to_registration e kind now of
             Inl err \<Rightarrow> (t, Inl err)
           | Inr r \<Rightarrow>
               (case reg_create r t of
                  (t', Inl err) \<Rightarrow> (t', Inl (SeedBackend err))
                | (t', Inr _) \<Rightarrow> (t', Inr ()))))"

fun apply_entries :: "int \<Rightarrow> SeedEntry list \<Rightarrow> RegTable \<Rightarrow> RegTable \<times> (SeedLoadError, unit) result" where
  "apply_entries now [] t = (t, Inr ())"
| "apply_entries now (e # es) t =
     (case apply_entry now e t of
        (t', Inl err) \<Rightarrow> (t', Inl err)
      | (t', Inr _) \<Rightarrow> apply_entries now es t')"

definition apply_catalog_parsed ::
  "int \<Rightarrow> SeedCatalog \<Rightarrow> RegTable \<Rightarrow> RegTable \<times> (SeedLoadError, unit) result" where
  "apply_catalog_parsed now cat t =
     (if (case get_seed_version t of
            None \<Rightarrow> False
          | Some v \<Rightarrow> v = cat_version cat \<or> \<not> semver_lt v (cat_version cat))
      then (t, Inr ())
      else (case validate_entries (cat_entries cat) of
              Inl err \<Rightarrow> (t, Inl err)
            | Inr _ \<Rightarrow>
                (case apply_entries now (cat_entries cat) t of
                   (t', Inl err) \<Rightarrow> (t', Inl err)
                 | (t', Inr _) \<Rightarrow> (set_seed_version (cat_version cat) t', Inr ()))))"

text \<open>The file: \<open>None\<close> when it does not exist, \<open>Some None\<close> when reading it fails.\<close>

definition load_or_skip ::
  "(string \<Rightarrow> SeedCatalog option) \<Rightarrow> int \<Rightarrow> string option option \<Rightarrow> RegTable
    \<Rightarrow> RegTable \<times> (SeedLoadError, unit) result" where
  "load_or_skip yaml now file t =
     (case file of
        None \<Rightarrow> (t, Inr ())
      | Some None \<Rightarrow> (t, Inl SeedIo)
      | Some (Some contents) \<Rightarrow>
          (case yaml contents of
             None \<Rightarrow> (t, Inl SeedParse)
           | Some cat \<Rightarrow> apply_catalog_parsed now cat t))"

subsection \<open>Legacy configuration entries\<close>

function extract_loop :: "string option \<Rightarrow> string \<Rightarrow> string option" where
  "extract_loop found s =
     (if length s < 2 then found
      else if s ! 0 = CHR ''$'' \<and> s ! 1 = CHR ''{'' then
        (case index_char (CHR ''}'') (drop 2 s) of
           None \<Rightarrow> None
         | Some close \<Rightarrow>
             if found \<noteq> None then None
             else extract_loop (Some (take close (drop 2 s))) (drop (2 + close + 1) s))
      else extract_loop found (tl s))"
  by pat_completeness auto
termination by (relation "measure (length \<circ> snd)") auto

declare extract_loop.simps [simp del]

definition extract_single_env_var :: "string \<Rightarrow> string option" where
  "extract_single_env_var s = extract_loop None s"

fun translate_auth :: "ToolAuthConfig \<Rightarrow> AuthSpec option" where
  "translate_auth ta =
     (case tac_value ta of
        FromEnv var _ \<Rightarrow> Some (Header (tac_header ta) var (tac_force_replace ta))
      | LegacyString s \<Rightarrow>
          map_option (\<lambda>v. Header (tac_header ta) v (tac_force_replace ta)) (extract_single_env_var s)
      | _ \<Rightarrow> None)"

declare translate_auth.simps [simp del]

definition legacy_registration :: "int \<Rightarrow> ToolConfig \<Rightarrow> AuthSpec \<Rightarrow> Registration" where
  "legacy_registration now tool auth =
     \<lparr> rg_name = tc_name tool, rg_kind = Tool, rg_description = tc_description tool,
       rg_upstream = tc_upstream tool, rg_auth = auth, rg_egress = tc_egress tool,
       rg_timeouts = tc_timeouts tool, rg_body_limit_bytes = tc_body_limit_bytes tool,
       rg_metadata = JObj [], rg_seed = False, rg_disabled = False,
       rg_created_at = now, rg_updated_at = now \<rparr>"

definition legacy_auth :: "ToolConfig \<Rightarrow> AuthSpec option" where
  "legacy_auth tool = (case tc_auth tool of None \<Rightarrow> Some NoAuth | Some ta \<Rightarrow> translate_auth ta)"

fun bootstrap_from_config_tools ::
  "int \<Rightarrow> ToolConfig list \<Rightarrow> nat \<times> nat \<times> nat \<Rightarrow> RegTable
    \<Rightarrow> RegTable \<times> (RegistrationError, nat \<times> nat \<times> nat) result" where
  "bootstrap_from_config_tools now [] acc t = (t, Inr acc)"
| "bootstrap_from_config_tools now (tool # tools) (i, se, su) t =
     (if reg_get (tc_name tool) t \<noteq> None
      then bootstrap_from_config_tools now tools (i, se + 1, su) t
      else (case legacy_auth tool of
              None \<Rightarrow> bootstrap_from_config_tools now tools (i, se, su + 1) t
            | Some auth \<Rightarrow>
                (case reg_create (legacy_registration now tool auth) t of
                   (t', Inl e) \<Rightarrow> (t', Inl e)
                 | (t', Inr _) \<Rightarrow> bootstrap_from_config_tools now tools (i + 1, se, su) t')))"

section \<open>Lemmas\<close>

lemma entry_to_registration_Inr:
  assumes "entry_to_registration e k now = Inr r"
  shows "rg_name r = se_name e \<and> rg_kind r = k \<and> rg_seed r \<and> \<not> rg_disabled r"
  using assms by (auto simp: entry_to_registration_def Let_def split: option.splits if_splits)

lemma reg_get_row:
  "reg_get n t = Some r \<Longrightarrow> rg_name r = n"
  by (auto simp: reg_get_def row_to_registration_def dest!: find_Some_in_set)

lemma reg_get_create:
  assumes "reg_create r t = (t', Inr ())"
  shows "reg_get n t' = (if n = rg_name r then Some (row_to_registration r) else reg_get n t)"
proof -
  have "List.find (\<lambda>q. rg_name q = rg_name r) (rt_rows t) = None" and t': "t' = t\<lparr> rt_rows := rt_rows t @ [r] \<rparr>"
    using assms by (auto simp: reg_create_def find_None_iff list_ex_iff split: if_splits)
  then show ?thesis by (auto simp: reg_get_def find_append split: option.splits)
qed

lemma row_to_registration_sel [simp]:
  "rg_name (row_to_registration r) = rg_name r" "rg_kind (row_to_registration r) = rg_kind r"
  "rg_seed (row_to_registration r) = rg_seed r" "rg_disabled (row_to_registration r) = rg_disabled r"
  "rg_created_at (row_to_registration r) = rg_created_at r" "rg_auth (row_to_registration r) = rg_auth r"
  "rg_upstream (row_to_registration r) = rg_upstream r"
  by (simp_all add: row_to_registration_def)

text \<open>What one entry may change of the row of any name.\<close>

definition row_kept :: "Registration \<Rightarrow> Registration \<Rightarrow> bool" where
  "row_kept r r' \<longleftrightarrow>
     rg_kind r' = rg_kind r \<and> rg_disabled r' = rg_disabled r \<and>
     rg_created_at r' = rg_created_at r \<and> rg_seed r' = rg_seed r \<and> (\<not> rg_seed r \<longrightarrow> r' = r)"

lemma row_kept_refl: "row_kept r r"
  by (simp add: row_kept_def)

lemma row_kept_trans: "row_kept a b \<Longrightarrow> row_kept b c \<Longrightarrow> row_kept a c"
  by (auto simp: row_kept_def)

lemma apply_entry_keeps:
  assumes "reg_get n t = Some r"
  shows "\<exists>r'. reg_get n (fst (apply_entry now e t)) = Some r' \<and> row_kept r r'"
proof (cases "reg_get (se_name e) t")
  case None
  then have ne: "n \<noteq> se_name e" using assms by auto
  have "reg_get n (fst (apply_entry now e t)) = reg_get n t"
  proof (cases "entry_to_registration e (se_kind e) now")
    case (Inr q)
    then have "rg_name q = se_name e" by (simp add: entry_to_registration_Inr)
    with ne None Inr show ?thesis
      by (auto simp: apply_entry_def Let_def reg_create_def reg_get_def find_append
               split: option.splits)
  qed (simp add: apply_entry_def None)
  with assms row_kept_refl show ?thesis by auto
next
  case (Some existing)
  show ?thesis
  proof (cases "\<not> rg_seed existing \<or> rg_kind existing \<noteq> se_kind e \<or>
                (\<exists>err. entry_to_registration e (se_kind e) now = Inl err)")
    case True
    then have "fst (apply_entry now e t) = t"
      using Some by (auto simp: apply_entry_def Let_def)
    with assms row_kept_refl show ?thesis by auto
  next
    case False
    then obtain nxt where nxt: "entry_to_registration e (se_kind e) now = Inr nxt"
      by (cases "entry_to_registration e (se_kind e) now") auto
    let ?q = "nxt\<lparr> rg_created_at := rg_created_at existing, rg_disabled := rg_disabled existing \<rparr>"
    have st: "fst (apply_entry now e t) = reg_upsert ?q t"
      using Some False nxt by (simp add: apply_entry_def Let_def)
    have name: "rg_name ?q = se_name e" using entry_to_registration_Inr [OF nxt] by simp
    show ?thesis
    proof (cases "n = se_name e")
      case True
      with assms Some have "existing = r" by simp
      from Some obtain q0 where q0: "List.find (\<lambda>q. rg_name q = se_name e) (rt_rows t) = Some q0"
        and ex: "existing = row_to_registration q0" by (auto simp: reg_get_def)
      have "reg_get (se_name e) (reg_upsert ?q t) = Some (row_to_registration (upsert_fields ?q q0))"
        using reg_get_upsert_same [of ?q t] unfolding name q0 by simp
      moreover have "row_kept r (row_to_registration (upsert_fields ?q q0))"
        using False ex \<open>existing = r\<close> entry_to_registration_Inr [OF nxt]
        by (auto simp: row_kept_def upsert_fields_def)
      ultimately show ?thesis using True st by auto
    next
      case neq: False
      then have "reg_get n (reg_upsert ?q t) = reg_get n t"
        using reg_get_upsert_other [of n ?q t] unfolding name by simp
      with st assms row_kept_refl show ?thesis by auto
    qed
  qed
qed

lemma apply_entries_keeps:
  assumes "reg_get n t = Some r"
  shows "\<exists>r'. reg_get n (fst (apply_entries now es t)) = Some r' \<and> row_kept r r'"
  using assms
proof (induction es arbitrary: t r)
  case Nil
  then show ?case using row_kept_refl by auto
next
  case (Cons e es)
  obtain t' res where st: "apply_entry now e t = (t', res)" by fastforce
  from apply_entry_keeps [OF Cons.prems, of now e] st obtain r1 where
    r1: "reg_get n t' = Some r1" "row_kept r r1" by auto
  show ?case
  proof (cases res)
    case (Inl err)
    with st r1 show ?thesis by auto
  next
    case (Inr u)
    from Cons.IH [OF r1(1)] obtain r2 where
      "reg_get n (fst (apply_entries now es t')) = Some r2" "row_kept r1 r2" by blast
    with st Inr r1 row_kept_trans show ?thesis by auto
  qed
qed

lemma reg_get_set_version [simp]: "reg_get n (set_seed_version v t) = reg_get n t"
  by (simp add: reg_get_def set_seed_version_def)

lemma apply_entry_present:
  assumes "apply_entry now e t = (t', Inr ())"
  shows "\<exists>r. reg_get (se_name e) t' = Some r \<and> (rg_seed r \<longrightarrow> rg_kind r = se_kind e)"
proof (cases "reg_get (se_name e) t")
  case None
  then show ?thesis
    using assms
    by (auto simp: apply_entry_def Let_def reg_get_create split: sum.splits prod.splits
             dest!: entry_to_registration_Inr)
next
  case (Some existing)
  from apply_entry_keeps [OF Some, of now e] assms obtain r' where
    "reg_get (se_name e) t' = Some r'" "row_kept existing r'" by auto
  moreover have "rg_seed existing \<longrightarrow> rg_kind existing = se_kind e"
    using assms Some by (auto simp: apply_entry_def Let_def split: if_splits)
  ultimately show ?thesis by (auto simp: row_kept_def)
qed

lemma apply_entries_present:
  assumes "apply_entries now es t = (t', Inr ())" "e \<in> set es"
  shows "\<exists>r. reg_get (se_name e) t' = Some r \<and> (rg_seed r \<longrightarrow> rg_kind r = se_kind e)"
  using assms
proof (induction es arbitrary: t)
  case (Cons x es)
  from Cons.prems(1) obtain t1 where s1: "apply_entry now x t = (t1, Inr ())"
    and s2: "apply_entries now es t1 = (t', Inr ())"
    by (auto split: prod.splits sum.splits)
  show ?case
  proof (cases "e \<in> set es")
    case True
    with Cons.IH s2 show ?thesis by blast
  next
    case False
    with Cons.prems(2) have "e = x" by simp
    with apply_entry_present [OF s1] obtain r where
      r: "reg_get (se_name e) t1 = Some r" "rg_seed r \<longrightarrow> rg_kind r = se_kind e" by auto
    from apply_entries_keeps [OF r(1), of now es] s2 r(2) show ?thesis
      by (auto simp: row_kept_def)
  qed
qed simp


subsection \<open>Startup as a whole\<close>

lemma reg_create_inv: "reg_create r t = (t', res) \<Longrightarrow> regs_inv t \<Longrightarrow> regs_inv t'"
  using regs_inv_step [OF reg_step.create [of t r]] by simp

lemma apply_entry_inv: "regs_inv t \<Longrightarrow> regs_inv (fst (apply_entry now e t))"
  by (auto simp: apply_entry_def Let_def split: option.splits sum.splits prod.splits
           intro: regs_inv_step reg_step.intros reg_create_inv)

lemma apply_entries_inv: "regs_inv t \<Longrightarrow> regs_inv (fst (apply_entries now es t))"
proof (induction es arbitrary: t)
  case (Cons e es)
  from apply_entry_inv [OF Cons.prems, of now e] Cons.IH show ?case by (auto split: prod.splits sum.splits)
qed simp

text \<open>Whatever the outcome, the table after loading is the one before or the one after applying entries.\<close>

lemma load_or_skip_table:
  "\<exists>cat :: SeedCatalog. fst (load_or_skip yaml now file t) \<in>
     {t, fst (apply_entries now (cat_entries cat) t),
      set_seed_version (cat_version cat) (fst (apply_entries now (cat_entries cat) t))}"
proof (cases "\<exists>c cat. file = Some (Some c) \<and> yaml c = Some cat")
  case True
  then obtain c cat where f: "file = Some (Some c)" "yaml c = Some cat" by blast
  obtain t' res where st: "apply_entries now (cat_entries cat) t = (t', res)" by fastforce
  have "fst (load_or_skip yaml now file t) \<in> {t, t', set_seed_version (cat_version cat) t'}"
    by (auto simp: load_or_skip_def f apply_catalog_parsed_def st split: option.splits sum.splits)
  with st show ?thesis by (intro exI [of _ cat]) simp
next
  case False
  then have "fst (load_or_skip yaml now file t) = t" by (auto simp: load_or_skip_def split: option.splits)
  then show ?thesis by simp
qed

lemma load_or_skip_keeps:
  assumes "reg_get n t = Some r"
  shows "\<exists>r'. reg_get n (fst (load_or_skip yaml now file t)) = Some r' \<and> row_kept r r'"
proof -
  obtain cat :: SeedCatalog where "fst (load_or_skip yaml now file t) \<in>
     {t, fst (apply_entries now (cat_entries cat) t),
      set_seed_version (cat_version cat) (fst (apply_entries now (cat_entries cat) t))}"
    using load_or_skip_table ..
  with apply_entries_keeps [OF assms, of now "cat_entries cat"] assms row_kept_refl show ?thesis by auto
qed

lemma load_or_skip_inv:
  assumes "regs_inv t"
  shows "regs_inv (fst (load_or_skip yaml now file t))"
proof -
  obtain cat :: SeedCatalog where "fst (load_or_skip yaml now file t) \<in>
     {t, fst (apply_entries now (cat_entries cat) t),
      set_seed_version (cat_version cat) (fst (apply_entries now (cat_entries cat) t))}"
    using load_or_skip_table ..
  with apply_entries_inv [OF assms, of now "cat_entries cat"] assms show ?thesis
    by (auto simp: regs_inv_def set_seed_version_def)
qed

text \<open>One step of the import, whatever the tool.\<close>

lemma legacy_step:
  obtains t1 acc1 where
    "bootstrap_from_config_tools now (tool # tools) acc t = bootstrap_from_config_tools now tools acc1 t1"
    "t1 = t \<and> (reg_get (tc_name tool) t \<noteq> None \<or> legacy_auth tool = None) \<or>
     (\<exists>auth. reg_get (tc_name tool) t = None \<and> reg_create (legacy_registration now tool auth) t = (t1, Inr ()))"
  | e where "bootstrap_from_config_tools now (tool # tools) acc t = (t, Inl e)"
proof (cases acc)
  case (fields i se su)
  consider "reg_get (tc_name tool) t \<noteq> None" | "reg_get (tc_name tool) t = None" "legacy_auth tool = None"
    | auth where "reg_get (tc_name tool) t = None" "legacy_auth tool = Some auth" by blast
  then show ?thesis
  proof cases
    case (3 auth)
    obtain t1 res where c: "reg_create (legacy_registration now tool auth) t = (t1, res)" by fastforce
    show ?thesis
    proof (cases res)
      case (Inl e)
      then have "t1 = t" using c by (auto simp: reg_create_def split: if_splits)
      with 3 c Inl fields that(2) show ?thesis by simp
    next
      case (Inr u)
      with 3 c fields that(1) [of "(i + 1, se, su)" t1] show ?thesis by auto
    qed
  qed (use fields that(1) in auto)
qed

lemma legacy_inv: "regs_inv t \<Longrightarrow> regs_inv (fst (bootstrap_from_config_tools now ts acc t))"
proof (induction ts arbitrary: acc t)
  case Nil
  then show ?case by (cases acc) simp
next
  case (Cons tool ts)
  show ?case
    by (rule legacy_step [of now tool ts acc t]) (use Cons reg_create_inv in auto)
qed

lemma legacy_keeps:
  "reg_get n t = Some r \<Longrightarrow> reg_get n (fst (bootstrap_from_config_tools now ts acc t)) = Some r"
proof (induction ts arbitrary: acc t)
  case Nil
  then show ?case by (cases acc) simp
next
  case (Cons tool ts)
  show ?case
  proof (rule legacy_step [of now tool ts acc t])
    fix t1 acc1
    assume run: "bootstrap_from_config_tools now (tool # ts) acc t = bootstrap_from_config_tools now ts acc1 t1"
      and "t1 = t \<and> (reg_get (tc_name tool) t \<noteq> None \<or> legacy_auth tool = None) \<or>
        (\<exists>auth. reg_get (tc_name tool) t = None \<and> reg_create (legacy_registration now tool auth) t = (t1, Inr ()))"
    then have "reg_get n t1 = Some r"
      using Cons.prems by (auto simp: reg_get_create legacy_registration_def)
    with Cons.IH run show ?thesis by simp
  qed (use Cons.prems in simp)
qed

lemma legacy_present:
  assumes "bootstrap_from_config_tools now ts acc t = (t', Inr acc')" "tool \<in> set ts" "legacy_auth tool \<noteq> None"
  shows "reg_get (tc_name tool) t' \<noteq> None"
  using assms
proof (induction ts arbitrary: acc t)
  case (Cons x ts)
  show ?case
  proof (rule legacy_step [of now x ts acc t])
    fix t1 acc1
    assume run: "bootstrap_from_config_tools now (x # ts) acc t = bootstrap_from_config_tools now ts acc1 t1"
      and step: "t1 = t \<and> (reg_get (tc_name x) t \<noteq> None \<or> legacy_auth x = None) \<or>
        (\<exists>auth. reg_get (tc_name x) t = None \<and> reg_create (legacy_registration now x auth) t = (t1, Inr ()))"
    show ?thesis
    proof (cases "tool \<in> set ts")
      case True
      with Cons.IH [of acc1 t1] Cons.prems run show ?thesis by simp
    next
      case False
      with Cons.prems step have "reg_get (tc_name tool) t1 \<noteq> None"
        by (auto simp: reg_get_create legacy_registration_def)
      then obtain r where "reg_get (tc_name tool) t1 = Some r" by blast
      from legacy_keeps [OF this, of now ts acc1] Cons.prems(1) run show ?thesis by simp
    qed
  qed (use Cons.prems in simp)
qed simp
end
