(* ===== verification/Registrations_Api.thy ===== *)
theory Registrations_Api
  imports Secrets Seed_Loader
begin

text \<open>
  The admin and discovery operations on registrations,
  \<open>src/registrations/api.rs\<close>: every handler with its guards, the writes to
  the table, and the refresh of the in-memory catalog and credential map that
  the proxy reads.
\<close>

section \<open>Definitions\<close>

record AdminRegs =
  ad_repo :: RegTable
  ad_catalog :: "Catalog option"
  ad_creds :: "ResolvedCreds option"

definition api_path :: "string \<Rightarrow> string" where
  "api_path name = ''/api/'' @ name"

definition public_json :: "string \<Rightarrow> string \<Rightarrow> json" where
  "public_json name descr =
     JObj [(''name'', JStr name), (''type'', JStr ''api''), (''path'', JStr (api_path name)),
           (''description'', JStr descr)]"

definition acl_visible :: "AgentIdentity option \<Rightarrow> string \<Rightarrow> bool" where
  "acl_visible ident name =
     (case ident of None \<Rightarrow> True | Some i \<Rightarrow> allows_tool i name = Inr ())"

definition list_public :: "RegTable \<Rightarrow> Kind \<Rightarrow> AgentIdentity option \<Rightarrow> json list" where
  "list_public t kind ident =
     map (\<lambda>r. public_json (rg_name r) (rg_description r))
       (filter (\<lambda>r. acl_visible ident (rg_name r))
         (filter (\<lambda>r. \<not> rg_disabled r) (reg_list (Some kind) t)))"

record PutBody =
  pb_description :: string
  pb_upstream :: string
  pb_auth :: "AuthSpec option"
  pb_egress :: "EgressMode option"
  pb_timeouts :: "ToolTimeouts option"
  pb_body_limit_bytes :: "nat option"
  pb_metadata :: "json option"

definition egress_str :: "EgressMode \<Rightarrow> string" where
  "egress_str e = (case e of Direct \<Rightarrow> ''direct'' | Proxied \<Rightarrow> ''proxied'')"

definition timeouts_json :: "ToolTimeouts \<Rightarrow> json" where
  "timeouts_json t = JObj [(''request_seconds'', JNum (int (to_request_seconds t))),
                           (''idle_seconds'', JNum (int (to_idle_seconds t)))]"

definition registration_to_admin_json :: "Registration \<Rightarrow> json" where
  "registration_to_admin_json r =
     JObj [(''name'', JStr (rg_name r)), (''kind'', JStr (kind_str (rg_kind r))),
           (''description'', JStr (rg_description r)), (''upstream'', JStr (rg_upstream r)),
           (''auth'', auth_to_json (rg_auth r)), (''egress'', JStr (egress_str (rg_egress r))),
           (''timeouts'', timeouts_json (rg_timeouts r)),
           (''body_limit_bytes'', JNum (int (rg_body_limit_bytes r))),
           (''metadata'', rg_metadata r), (''seed'', JBool (rg_seed r)),
           (''disabled'', JBool (rg_disabled r)), (''created_at'', JNum (rg_created_at r)),
           (''updated_at'', JNum (rg_updated_at r))]"

fun registration_status_code :: "RegistrationError \<Rightarrow> nat \<times> string \<times> string" where
  "registration_status_code (NameInUse _) = (409, ''conflict'', ''name_in_use'')"
| "registration_status_code (WrongKind _ _) = (409, ''conflict'', ''wrong_kind'')"
| "registration_status_code ReservedName = (400, ''bad_request'', ''reserved_name'')"
| "registration_status_code (InvalidName _) = (400, ''bad_request'', ''invalid_name'')"
| "registration_status_code AuthRequired = (400, ''bad_request'', ''auth_required'')"
| "registration_status_code ModelAuthRequired = (400, ''bad_request'', ''model_auth_required'')"
| "registration_status_code (InvalidMetadata _) = (400, ''bad_request'', ''invalid_metadata'')"
| "registration_status_code RegBackend = (500, ''auth_error'', ''internal_error'')"

fun registration_message :: "RegistrationError \<Rightarrow> string" where
  "registration_message (NameInUse k) = ''name in use (existing kind: '' @ kind_str k @ '')''"
| "registration_message ReservedName = ''name is reserved''"
| "registration_message AuthRequired =
     ''kind=tool requires explicit `auth:` (use `auth: none` for authless)''"
| "registration_message ModelAuthRequired = ''kind=model requires non-none auth''"
| "registration_message (InvalidName m) = ''invalid name: '' @ m"
| "registration_message (InvalidMetadata m) = ''invalid metadata: '' @ m"
| "registration_message (WrongKind e r) =
     ''wrong kind (registered as '' @ kind_str e @ '', requested '' @ kind_str r @ '')''"
| "registration_message RegBackend = ''internal error''"

definition envelope :: "string \<Rightarrow> string \<Rightarrow> string \<Rightarrow> json" where
  "envelope msg ty code =
     JObj [(''error'', JObj [(''message'', JStr msg), (''type'', JStr ty), (''code'', JStr code)])]"

definition registration_error_response :: "RegistrationError \<Rightarrow> Response" where
  "registration_error_response e =
     (case registration_status_code e of (st, ty, code) \<Rightarrow>
        json_response st (envelope (registration_message e) ty code))"

definition unknown_name_response :: "string \<Rightarrow> Response" where
  "unknown_name_response name =
     json_response 404 (envelope (''registration not found: '' @ name) ''not_found'' ''unknown_name'')"

definition no_content :: Response where
  "no_content = \<lparr> rs_status = 204, rs_headers = [], rs_body = NoBody \<rparr>"

definition refresh_runtime :: "env \<Rightarrow> AdminRegs \<Rightarrow> AdminRegs" where
  "refresh_runtime env s =
     (case ad_catalog s of
        None \<Rightarrow> s
      | Some _ \<Rightarrow>
          let new_catalog = catalog_from_repo (ad_repo s) in
          s\<lparr> ad_creds := map_option (\<lambda>m. merge_refresh m (resolve_registration_creds env new_catalog)) (ad_creds s),
             ad_catalog := Some new_catalog \<rparr>)"

definition op_list :: "Kind \<Rightarrow> AdminRegs \<Rightarrow> Response" where
  "op_list kind s =
     json_response 200 (JObj [(kind_str kind @ ''s'',
       JArr (map registration_to_admin_json (reg_list (Some kind) (ad_repo s))))])"

definition op_get :: "Kind \<Rightarrow> string \<Rightarrow> AdminRegs \<Rightarrow> Response" where
  "op_get kind name s =
     (case reg_get name (ad_repo s) of
        Some r \<Rightarrow> if rg_kind r \<noteq> kind then registration_error_response (WrongKind (rg_kind r) kind)
                  else json_response 200 (registration_to_admin_json r)
      | None \<Rightarrow> unknown_name_response name)"

definition put_auth :: "Kind \<Rightarrow> AuthSpec option \<Rightarrow> (RegistrationError, AuthSpec) result" where
  "put_auth kind auth =
     (case auth of
        Some a \<Rightarrow> Inr a
      | None \<Rightarrow> if kind = Infra then Inr NoAuth else Inl AuthRequired)"

definition put_registration ::
  "int \<Rightarrow> Kind \<Rightarrow> string \<Rightarrow> PutBody \<Rightarrow> AuthSpec \<Rightarrow> int \<Rightarrow> bool \<Rightarrow> Registration" where
  "put_registration now kind name b auth created_at dis =
     \<lparr> rg_name = name, rg_kind = kind, rg_description = pb_description b,
       rg_upstream = pb_upstream b, rg_auth = auth, rg_egress = opt_or Direct (pb_egress b),
       rg_timeouts = opt_or default_timeouts (pb_timeouts b),
       rg_body_limit_bytes = opt_or (10 * 1024 * 1024) (pb_body_limit_bytes b),
       rg_metadata = opt_or (JObj []) (pb_metadata b), rg_seed = False, rg_disabled = dis,
       rg_created_at = created_at, rg_updated_at = now \<rparr>"

definition op_put :: "env \<Rightarrow> int \<Rightarrow> Kind \<Rightarrow> string \<Rightarrow> PutBody \<Rightarrow> AdminRegs \<Rightarrow> AdminRegs \<times> Response" where
  "op_put env now kind name b s =
     (case validate_name name of
        Inl e \<Rightarrow> (s, registration_error_response e)
      | Inr _ \<Rightarrow>
          (case put_auth kind (pb_auth b) of
             Inl e \<Rightarrow> (s, registration_error_response e)
           | Inr auth \<Rightarrow>
               (case (case reg_get name (ad_repo s) of
                        Some existing \<Rightarrow>
                          if rg_kind existing \<noteq> kind then Inl (WrongKind (rg_kind existing) kind)
                          else Inr (rg_created_at existing, rg_disabled existing)
                      | None \<Rightarrow> Inr (now, False)) of
                  Inl e \<Rightarrow> (s, registration_error_response e)
                | Inr (created_at, dis) \<Rightarrow>
                    let r = put_registration now kind name b auth created_at dis in
                    (refresh_runtime env (s\<lparr> ad_repo := reg_upsert r (ad_repo s) \<rparr>),
                     json_response 200 (registration_to_admin_json r)))))"

definition op_delete :: "env \<Rightarrow> int \<Rightarrow> Kind \<Rightarrow> string \<Rightarrow> AdminRegs \<Rightarrow> AdminRegs \<times> Response" where
  "op_delete env now kind name s =
     (case reg_get name (ad_repo s) of
        None \<Rightarrow> (s, unknown_name_response name)
      | Some r \<Rightarrow>
          if rg_kind r \<noteq> kind then (s, registration_error_response (WrongKind (rg_kind r) kind))
          else
            let t' = (if rg_seed r then fst (set_disabled now name True (ad_repo s))
                      else fst (reg_delete name (ad_repo s)))
            in (refresh_runtime env (s\<lparr> ad_repo := t' \<rparr>), no_content))"

definition op_enable :: "env \<Rightarrow> int \<Rightarrow> Kind \<Rightarrow> string \<Rightarrow> AdminRegs \<Rightarrow> AdminRegs \<times> Response" where
  "op_enable env now kind name s =
     (case reg_get name (ad_repo s) of
        None \<Rightarrow> (s, unknown_name_response name)
      | Some r \<Rightarrow>
          if rg_kind r \<noteq> kind then (s, registration_error_response (WrongKind (rg_kind r) kind))
          else (refresh_runtime env (s\<lparr> ad_repo := fst (set_disabled now name False (ad_repo s)) \<rparr>),
                no_content))"

text \<open>The requests an operator can issue, and the runtime caches they must keep in step.\<close>

inductive admin_step :: "env \<Rightarrow> AdminRegs \<Rightarrow> AdminRegs \<Rightarrow> bool" for env where
  put: "admin_step env s (fst (op_put env now kind name b s))"
| del: "admin_step env s (fst (op_delete env now kind name s))"
| enable: "admin_step env s (fst (op_enable env now kind name s))"

definition admin_inv :: "AdminRegs \<Rightarrow> bool" where
  "admin_inv s \<longleftrightarrow>
     regs_inv (ad_repo s) \<and>
     (\<forall>cat. ad_catalog s = Some cat \<longrightarrow> (\<forall>n. lookup_any n cat = reg_get n (ad_repo s)))"

section \<open>Lemmas\<close>

lemma refresh_runtime_repo [simp]: "ad_repo (refresh_runtime env s) = ad_repo s"
  by (simp add: refresh_runtime_def Let_def split: option.splits)

lemma refresh_runtime_inv:
  "regs_inv (ad_repo s) \<Longrightarrow> admin_inv (refresh_runtime env s)"
  by (auto simp: admin_inv_def refresh_runtime_def Let_def lookup_any_from_repo split: option.splits)

lemma op_put_cases:
  "fst (op_put env now kind name b s) = s \<or>
   (\<exists>r. rg_name r = name \<and> rg_kind r = kind \<and> \<not> rg_seed r \<and>
        fst (op_put env now kind name b s) = refresh_runtime env (s\<lparr> ad_repo := reg_upsert r (ad_repo s) \<rparr>))"
proof -
  have put: "\<exists>r. rg_name r = name \<and> rg_kind r = kind \<and> \<not> rg_seed r \<and>
       refresh_runtime env (s\<lparr> ad_repo := reg_upsert (put_registration now kind name b a c d) (ad_repo s) \<rparr>) =
       refresh_runtime env (s\<lparr> ad_repo := reg_upsert r (ad_repo s) \<rparr>)" for a c d
    by (rule exI [of _ "put_registration now kind name b a c d"]) (simp add: put_registration_def)
  show ?thesis
    using put
    by (cases "validate_name name"; cases "put_auth kind (pb_auth b)"; cases "reg_get name (ad_repo s)")
       (simp_all add: op_put_def Let_def)
qed

lemma regs_inv_ops:
  assumes "regs_inv t"
  shows "regs_inv (reg_upsert r t)" "regs_inv (fst (reg_delete n t))"
    "regs_inv (fst (set_disabled now n d t))"
  using assms by (auto intro: regs_inv_step reg_step.intros)

lemma admin_inv_step:
  assumes "admin_step env s s'" "admin_inv s"
  shows "admin_inv s'"
  using assms(1)
proof cases
  case (put now kind name b)
  from assms(2) have inv: "regs_inv (ad_repo s)" by (simp add: admin_inv_def)
  from op_put_cases [of env now kind name b s] show ?thesis
  proof (elim disjE exE conjE)
    fix r
    assume "fst (op_put env now kind name b s) =
            refresh_runtime env (s\<lparr> ad_repo := reg_upsert r (ad_repo s) \<rparr>)"
    with put inv show ?thesis by (simp add: refresh_runtime_inv regs_inv_ops)
  qed (use put assms(2) in simp)
next
  case (del now kind name)
  then show ?thesis
    using assms(2)
    by (cases "reg_get name (ad_repo s)")
       (simp_all add: op_delete_def Let_def refresh_runtime_inv regs_inv_ops admin_inv_def [of s])
next
  case (enable now kind name)
  then show ?thesis
    using assms(2)
    by (cases "reg_get name (ad_repo s)")
       (simp_all add: op_enable_def Let_def refresh_runtime_inv regs_inv_ops admin_inv_def [of s])
qed

interpretation admin_regs: invariant_system "admin_step env" admin_inv for env
  by unfold_locales (rule admin_inv_step)

text \<open>
  After any sequence of administration requests the in-memory
  catalog the proxy reads answers every name exactly as the table does, and
  offers only registrations that are not disabled.
\<close>

theorem catalog_follows_table:
  assumes "(admin_step env)\<^sup>*\<^sup>* s s'" "admin_inv s" "ad_catalog s' = Some cat"
  shows "lookup_any n cat = reg_get n (ad_repo s') \<and>
         lookup_active n cat = (case reg_get n (ad_repo s') of
            Some r \<Rightarrow> if rg_disabled r then None else Some r | None \<Rightarrow> None)"
proof -
  have "admin_inv s'" by (rule admin_regs.reach_inv [OF assms(1,2)])
  with assms(3) have "lookup_any n cat = reg_get n (ad_repo s')" by (simp add: admin_inv_def)
  then show ?thesis by (simp add: lookup_active_def lookup_any_def)
qed

definition sample_regs :: AdminRegs where
  "sample_regs = \<lparr> ad_repo = \<lparr> rt_rows = [], rt_seed_version = None \<rparr>, ad_catalog = Some [], ad_creds = None \<rparr>"

definition sample_put :: PutBody where
  "sample_put =
     \<lparr> pb_description = [], pb_upstream = ''http://db'', pb_auth = None, pb_egress = None,
       pb_timeouts = None, pb_body_limit_bytes = None, pb_metadata = None \<rparr>"

theorem catalog_follows_table_witness:
  "let s' = fst (op_put (\<lambda>_. None) 5 Infra ''db'' sample_put sample_regs);
       cat = the (ad_catalog s')
   in reg_get ''db'' (ad_repo s') \<noteq> None \<and> lookup_any ''db'' cat = reg_get ''db'' (ad_repo s')"
proof -
  let ?s' = "fst (op_put (\<lambda>_. None) 5 Infra ''db'' sample_put sample_regs)"
  have inv: "admin_inv sample_regs"
    by (simp add: admin_inv_def sample_regs_def regs_inv_def lookup_any_def reg_get_def)
  have step: "(admin_step (\<lambda>_. None))\<^sup>*\<^sup>* sample_regs ?s'"
    by (rule r_into_rtranclp) (rule admin_step.put)
  have valid: "validate_name ''db'' = Inr ()" by code_simp
  have repo: "reg_get ''db'' (ad_repo ?s') \<noteq> None" and cat: "ad_catalog ?s' = Some (the (ad_catalog ?s'))"
    by (simp_all add: op_put_def valid put_auth_def sample_put_def sample_regs_def reg_get_def Let_def
          reg_upsert_def put_registration_def refresh_runtime_def)
  from catalog_follows_table [OF step inv cat, of "''db''"] repo show ?thesis by (simp add: Let_def)
qed

end
