(* ===== verification/Oauth_Refresh.thy ===== *)
theory Oauth_Refresh
  imports Oauth_Session Registrations_Api
begin

text \<open>
  Token refresh and OAuth administration, \<open>src/oauth/refresh.rs\<close> and
  \<open>src/oauth/admin.rs\<close>: the exchange with the token endpoint, the background
  tick, the per-session lock key and the bootstrap, status, list and revoke
  handlers.  The token endpoint is a parameter: the reply to a form post.
\<close>

section \<open>Definitions\<close>

definition DEFAULT_REFRESH_SAFETY_MARGIN_SECS :: int where
  "DEFAULT_REFRESH_SAFETY_MARGIN_SECS = 300"

definition MIN_REFRESH_SAFETY_MARGIN_SECS :: int where
  "MIN_REFRESH_SAFETY_MARGIN_SECS = 60"

text \<open>Rust division truncates towards zero.\<close>

definition rust_div :: "int \<Rightarrow> int \<Rightarrow> int" where
  "rust_div a b = sgn a * sgn b * (\<bar>a\<bar> div \<bar>b\<bar>)"

definition refresh_safety_margin_secs :: "int \<Rightarrow> int" where
  "refresh_safety_margin_secs lifetime =
     (let by_quarter = rust_div lifetime 4;
          chosen = min DEFAULT_REFRESH_SAFETY_MARGIN_SECS by_quarter
      in max chosen MIN_REFRESH_SAFETY_MARGIN_SECS)"

definition lock_key :: "string \<Rightarrow> string \<Rightarrow> string" where
  "lock_key name label = name @ [CHR 0x1F] @ label"

subsection \<open>Refresh\<close>

record TokenResponse =
  tr_access_token :: string
  tr_expires_in :: "int option"
  tr_refresh_token :: "string option"

datatype token_reply = NetworkFailure | Reply nat string

type_synonym token_endpoint = "string \<Rightarrow> (string \<times> string) list \<Rightarrow> token_reply"

text \<open>The \<open>serde\<close> decoding of \<open>TokenResponse\<close>: defaults for absent or null members.\<close>

definition opt_member :: "string \<Rightarrow> (json \<Rightarrow> 'a option) \<Rightarrow> json \<Rightarrow> 'a option option" where
  "opt_member k f j =
     (case json_get k j of
        None \<Rightarrow> Some None
      | Some JNull \<Rightarrow> Some None
      | Some v \<Rightarrow> map_option Some (f v))"

definition json_int :: "json \<Rightarrow> int option" where
  "json_int j = (case j of JNum i \<Rightarrow> if - (2 ^ 63) \<le> i \<and> i < 2 ^ 63 then Some i else None | _ \<Rightarrow> None)"

definition parse_token_response :: "json \<Rightarrow> TokenResponse option" where
  "parse_token_response j =
     Option.bind (Option.bind (json_get ''access_token'' j) json_str) (\<lambda>at.
     Option.bind (opt_member ''expires_in'' json_int j) (\<lambda>ex.
     Option.bind (opt_member ''refresh_token'' json_str j) (\<lambda>rt.
     Option.bind (opt_member ''token_type'' json_str j) (\<lambda>_.
       Some \<lparr> tr_access_token = at, tr_expires_in = ex, tr_refresh_token = rt \<rparr>))))"

datatype RefreshError =
    RegistrationGone string
  | NotOauth string
  | Network
  | RefreshRevoked nat string
  | ProviderError nat string
  | BadResponse
  | Persist

fun audit_cause :: "RefreshError \<Rightarrow> string" where
  "audit_cause (RegistrationGone _) = ''registration_gone''"
| "audit_cause (NotOauth _) = ''not_oauth''"
| "audit_cause Network = ''network_error''"
| "audit_cause (RefreshRevoked _ _) = ''revoked''"
| "audit_cause (ProviderError _ _) = ''provider_5xx''"
| "audit_cause BadResponse = ''bad_response''"
| "audit_cause Persist = ''persist_failed''"

fun oauth_endpoint :: "AuthSpec \<Rightarrow> (string \<times> string) option" where
  "oauth_endpoint (OauthPkce c _ _ _ t _) = Some (t, c)"
| "oauth_endpoint (OauthDeviceCode c _ _ t _) = Some (t, c)"
| "oauth_endpoint _ = None"

definition refresh_form :: "OauthSession \<Rightarrow> string \<Rightarrow> (string \<times> string) list" where
  "refresh_form s client_id =
     [(''grant_type'', ''refresh_token''), (''refresh_token'', os_refresh_token s),
      (''client_id'', client_id)]"

definition refresh_session ::
  "OauthExt \<Rightarrow> token_endpoint \<Rightarrow> int \<Rightarrow> bytes \<times> bytes \<Rightarrow> Catalog \<Rightarrow> SealingKey \<Rightarrow> OauthSession
    \<Rightarrow> OauthTable \<Rightarrow> OauthTable \<times> (RefreshError, OauthSession) result" where
  "refresh_session ox post now nonces cat key s t =
     (case lookup_active (os_name s) cat of
        None \<Rightarrow> (t, Inl (RegistrationGone (os_name s)))
      | Some reg \<Rightarrow>
          (case oauth_endpoint (rg_auth reg) of
             None \<Rightarrow> (t, Inl (NotOauth (os_name s)))
           | Some (token_url, client_id) \<Rightarrow>
               (case post token_url (refresh_form s client_id) of
                  NetworkFailure \<Rightarrow> (t, Inl Network)
                | Reply st bd \<Rightarrow>
                    if \<not> (200 \<le> st \<and> st < 300) then
                      (if 400 \<le> st \<and> st < 500 then (t, Inl (RefreshRevoked st (take 256 bd)))
                       else (t, Inl (ProviderError st (take 256 bd))))
                    else
                      (case Option.bind (ox_json ox bd) parse_token_response of
                         None \<Rightarrow> (t, Inl BadResponse)
                       | Some tr \<Rightarrow>
                           (let lifetime = (case tr_expires_in tr of Some l \<Rightarrow> l | None \<Rightarrow> 3600);
                                t' = update_tokens ox now nonces key (os_name s) (os_session_label s)
                                       (tr_access_token tr) (now + lifetime) (tr_refresh_token tr) t
                            in case session_get (ox_crypto ox) key (os_name s) (os_session_label s) t' of
                                 Inr (Some s') \<Rightarrow> (t', Inr s')
                               | _ \<Rightarrow> (t', Inl Persist))))))"

text \<open>One session of the background tick, then the whole tick.\<close>

definition refresh_item ::
  "OauthExt \<Rightarrow> token_endpoint \<Rightarrow> int \<Rightarrow> bytes \<times> bytes \<Rightarrow> Catalog \<Rightarrow> SealingKey \<Rightarrow> int \<Rightarrow> string \<times> string
    \<Rightarrow> OauthTable \<Rightarrow> OauthTable" where
  "refresh_item ox post now nonces cat key threshold nl t =
     (case nl of (name, label) \<Rightarrow>
        (case session_get (ox_crypto ox) key name label t of
           Inr (Some s) \<Rightarrow>
             if os_degraded s then t
             else if (case os_access_token_expires_at s of Some e \<Rightarrow> e > threshold | None \<Rightarrow> False) then t
             else (case refresh_session ox post now nonces cat key s t of
                     (t', Inr _) \<Rightarrow> t'
                   | (t', Inl _) \<Rightarrow> mark_degraded now name label t')
         | _ \<Rightarrow> t))"

definition refresh_tick ::
  "OauthExt \<Rightarrow> token_endpoint \<Rightarrow> int \<Rightarrow> bytes \<times> bytes \<Rightarrow> Catalog \<Rightarrow> SealingKey \<Rightarrow> OauthTable \<Rightarrow> OauthTable" where
  "refresh_tick ox post now nonces cat key t =
     (let threshold = now + DEFAULT_REFRESH_SAFETY_MARGIN_SECS in
      fold (refresh_item ox post now nonces cat key threshold) (list_pending_refresh threshold t) t)"

subsection \<open>Administration\<close>

definition label_or_default :: "string option \<Rightarrow> string" where
  "label_or_default l = (case l of Some x \<Rightarrow> x | None \<Rightarrow> DEFAULT_SESSION_LABEL)"

definition error_envelope :: "nat \<Rightarrow> string \<Rightarrow> string \<Rightarrow> string \<Rightarrow> Response" where
  "error_envelope st ty code msg = json_response st (envelope msg ty code)"

definition opt_int :: "int option \<Rightarrow> json" where
  "opt_int i = (case i of Some x \<Rightarrow> JNum x | None \<Rightarrow> JNull)"

definition session_status_json :: "Crypto \<Rightarrow> OauthSession \<Rightarrow> (string \<times> json) list" where
  "session_status_json cr s =
     [(''name'', JStr (os_name s)), (''session_label'', JStr (os_session_label s)),
      (''present'', JBool True), (''scope'', JStr (os_scope s)),
      (''degraded'', JBool (os_degraded s)),
      (''access_token_expires_at'', opt_int (os_access_token_expires_at s)),
      (''created_at'', JNum (os_created_at s)), (''updated_at'', JNum (os_updated_at s)),
      (''audit_session_id'', JStr (audit_session_id cr s))]"

definition other_labels :: "OauthTable \<Rightarrow> string \<Rightarrow> string \<Rightarrow> string list" where
  "other_labels t name label =
     map (\<lambda>(n, l, _, _). l) (filter (\<lambda>(n, l, _, _). n = name \<and> l \<noteq> label) (session_list_all t))"

definition collision_warnings :: "OauthTable \<Rightarrow> string \<Rightarrow> string \<Rightarrow> string list" where
  "collision_warnings t name label =
     (let others = other_labels t name label in
      if others = [] then []
      else [''Registration `'' @ name @ ''` already has session label(s): '' @ join_str '', '' others @
            ''. If those sessions point at the same upstream account as label `'' @ label @
            ''`, the provider has likely invalidated the prior refresh tokens (single-grant OAuth '' @
            ''policy on OpenAI ChatGPT, GitHub, Google, etc.). Per-agent OAuth requires distinct '' @
            ''upstream accounts; see concepts/per-agent-credentials.md.''])"

text \<open>Error texts; what a third-party error adds after the colon is left out.\<close>

fun refresh_display :: "RefreshError \<Rightarrow> string" where
  "refresh_display (RegistrationGone n) =
     ''registration '' @ n @ '' disappeared from catalog before refresh''"
| "refresh_display (NotOauth n) =
     ''registration '' @ n @ '' is not an OAuth shape (programming error)''"
| "refresh_display Network = ''network error contacting token endpoint: ''"
| "refresh_display (RefreshRevoked st bd) =
     ''provider rejected refresh ('' @ digits st @ ''): '' @ bd"
| "refresh_display (ProviderError st bd) =
     ''provider error during refresh ('' @ digits st @ ''): '' @ bd"
| "refresh_display BadResponse = ''provider returned malformed token response: ''"
| "refresh_display Persist = ''failed to persist refreshed tokens: ''"

record OauthAdminState =
  oa_registrations :: RegTable
  oa_sessions :: OauthTable
  oa_key :: SealingKey
  oa_catalog :: Catalog

definition op_oauth_bootstrap ::
  "OauthExt \<Rightarrow> token_endpoint \<Rightarrow> int \<Rightarrow> bytes \<times> bytes \<Rightarrow> bytes \<times> bytes \<Rightarrow> string \<Rightarrow> string option \<Rightarrow> string
    \<Rightarrow> OauthAdminState \<Rightarrow> OauthAdminState \<times> Response" where
  "op_oauth_bootstrap ox post now ns1 ns2 name lbl refresh_token st =
     (let label = label_or_default lbl in
      case reg_get name (oa_registrations st) of
        None \<Rightarrow> (st, error_envelope 404 ''not_found'' ''unknown_name'' ''registration not found'')
      | Some reg \<Rightarrow>
          if \<not> is_oauth (rg_auth reg)
          then (st, error_envelope 400 ''bad_request'' ''not_oauth_registration''
                      ''registration is not an OAuth shape'')
          else
            (case session_create ox now ns1 (oa_key st) name label refresh_token None None [] (oa_sessions st) of
               (t1, Inl _) \<Rightarrow>
                 (st, error_envelope 409 ''conflict'' ''session_exists''
                        ''session already bootstrapped; revoke before re-bootstrapping'')
             | (t1, Inr s) \<Rightarrow>
                 (case refresh_session ox post now ns2 (oa_catalog st) (oa_key st) s t1 of
                    (t2, Inl e) \<Rightarrow>
                      (st\<lparr> oa_sessions := fst (session_delete name label t2) \<rparr>,
                       error_envelope 502 ''auth_error'' ''oauth_bootstrap_failed''
                         (''refresh exchange failed: '' @ refresh_display e))
                  | (t2, Inr s') \<Rightarrow>
                      (st\<lparr> oa_sessions := t2 \<rparr>,
                       json_response 200 (JObj (session_status_json (ox_crypto ox) s' @
                         (if collision_warnings t2 name label = [] then []
                          else [(''warnings'', JArr (map JStr (collision_warnings t2 name label)))])))))))"

definition op_oauth_status :: "OauthExt \<Rightarrow> string \<Rightarrow> string option \<Rightarrow> OauthAdminState \<Rightarrow> Response" where
  "op_oauth_status ox name lbl st =
     (let label = label_or_default lbl in
      case session_get (ox_crypto ox) (oa_key st) name label (oa_sessions st) of
        Inr (Some s) \<Rightarrow> json_response 200 (JObj (session_status_json (ox_crypto ox) s))
      | Inr None \<Rightarrow> json_response 200 (JObj [(''name'', JStr name), (''session_label'', JStr label),
                                              (''present'', JBool False)])
      | Inl _ \<Rightarrow> error_envelope 500 ''auth_error'' ''internal_error'' ''oauth_sessions'')"

definition op_oauth_list :: "OauthAdminState \<Rightarrow> Response" where
  "op_oauth_list st =
     json_response 200 (JObj [(''sessions'',
       JArr (map (\<lambda>(n, l, d, e). JObj [(''name'', JStr n), (''session_label'', JStr l),
                    (''degraded'', JBool d), (''access_token_expires_at'', opt_int e)])
              (session_list_all (oa_sessions st))))])"

definition op_oauth_revoke :: "string \<Rightarrow> string option \<Rightarrow> OauthAdminState \<Rightarrow> OauthAdminState \<times> Response" where
  "op_oauth_revoke name lbl st =
     (st\<lparr> oa_sessions := fst (session_delete name (label_or_default lbl) (oa_sessions st)) \<rparr>, no_content)"

section \<open>Lemmas\<close>

lemma refresh_session_cases:
  assumes "refresh_session ox post now ns cat key s t = (t', res)"
  shows "t' = t \<and> (\<exists>e. res = Inl e) \<or>
         (\<exists>at ex rt. t' = update_tokens ox now ns key (os_name s) (os_session_label s) at ex rt t \<and>
            (case res of
               Inr s' \<Rightarrow> session_get (ox_crypto ox) key (os_name s) (os_session_label s) t' = Inr (Some s')
             | Inl e \<Rightarrow> e = Persist \<and>
                 (\<forall>s'. session_get (ox_crypto ox) key (os_name s) (os_session_label s) t' \<noteq> Inr (Some s'))))"
  using assms
  by (auto simp: refresh_session_def Let_def
           split: option.splits token_reply.splits if_splits sum.splits prod.splits)

lemma update_tokens_other:
  "(n, l) \<noteq> (n', l') \<Longrightarrow>
   List.find (row_is n l) (update_tokens ox now ns key n' l' at ex rt t) = List.find (row_is n l) t"
  unfolding update_tokens_def by (rule find_row_update_other) simp_all

lemma mark_degraded_other:
  "(n, l) \<noteq> (n', l') \<Longrightarrow>
   List.find (row_is n l) (mark_degraded now n' l' t) = List.find (row_is n l) t"
  unfolding mark_degraded_def by (rule find_row_update_other) (simp_all add: row_key_def)

lemma session_get_label:
  assumes "session_get cr key n l t = Inr (Some s)"
  shows "os_name s = n \<and> os_session_label s = l"
proof -
  obtain r where r: "List.find (row_is n l) t = Some r" and op: "open_row cr key r = Inr s"
    using assms by (auto simp: session_get_def split: option.splits sum.splits)
  have "ow_name r = n \<and> ow_session_label r = l"
    using find_Some_in_set [OF r] by (simp add: row_is_def)
  with op show ?thesis
    by (auto simp: open_row_def Let_def split: sum.splits option.splits)
qed

lemma refresh_item_other:
  assumes "(n, l) \<noteq> nl"
  shows "List.find (row_is n l) (refresh_item ox post now ns cat key th nl t) = List.find (row_is n l) t"
proof -
  obtain n' l' where nl: "nl = (n', l')" by fastforce
  show ?thesis
  proof (cases "session_get (ox_crypto ox) key n' l' t")
    case (Inr o_s)
    show ?thesis
    proof (cases o_s)
      case (Some s)
      with Inr have get: "session_get (ox_crypto ox) key n' l' t = Inr (Some s)" by simp
      obtain t' res where rs: "refresh_session ox post now ns cat key s t = (t', res)" by fastforce
      have "List.find (row_is n l) t' = List.find (row_is n l) t"
        using refresh_session_cases [OF rs] session_get_label [OF get] assms nl
        by (auto simp: update_tokens_other)
      then show ?thesis
        using assms nl get rs
        by (cases res) (simp_all add: refresh_item_def mark_degraded_other split: option.splits)
    qed (simp add: refresh_item_def nl Inr)
  qed (simp add: refresh_item_def nl)
qed

lemma fold_refresh_other:
  assumes "(n, l) \<notin> set items"
  shows "List.find (row_is n l) (fold (refresh_item ox post now ns cat key th) items t) =
         List.find (row_is n l) t"
  using assms
proof (induction items arbitrary: t)
  case (Cons nl items)
  from Cons.prems have ne: "(n, l) \<noteq> nl" and ni: "(n, l) \<notin> set items" by auto
  show ?case using Cons.IH [OF ni] refresh_item_other [OF ne] by simp
qed simp

lemma pending_mem:
  "(n, l) \<in> set (list_pending_refresh th t) \<longleftrightarrow> (\<exists>r \<in> set t. row_is n l r \<and> pending_row th r)"
  by (auto simp: list_pending_refresh_def row_is_def)

lemma sessions_inv_find:
  assumes "sessions_inv t" "r \<in> set t" "row_is n l r"
  shows "List.find (row_is n l) t = Some r"
  using find_distinct_key [of row_key t r "(n, l)"] assms
  by (simp add: sessions_inv_def row_is_key [abs_def])

lemma updated_session_has_token:
  assumes "session_get cr key n l (update_tokens ox now ns key' n l at ex rt t) = Inr (Some s)"
  shows "\<exists>tok. os_access_token s = Some tok"
proof -
  let ?f = "refreshed_row ox now ns key' at ex rt"
  have key: "row_key (?f r) = row_key r" for r
    by (simp add: refreshed_row_def Let_def row_key_def split: option.splits)
  obtain r where r: "List.find (row_is n l) (update_tokens ox now ns key' n l at ex rt t) = Some r"
      and op: "open_row cr key r = Inr s"
    using assms by (auto simp: session_get_def split: option.splits sum.splits)
  have "\<exists>q. r = ?f q"
    using r find_row_update_same [of ?f n l t] key by (auto simp: update_tokens_def)
  then have "ow_access_ct r \<noteq> None \<and> ow_access_nonce r \<noteq> None"
    by (auto simp: refreshed_row_def Let_def split: option.splits)
  with op show ?thesis
    by (auto simp: open_row_def Let_def split: sum.splits option.splits)
qed

text \<open>With a working cipher a refresh never fails to persist.\<close>

lemma refresh_session_not_persist:
  assumes "aead_ok (ox_crypto ox)" "nonces_ok ns" "sessions_inv t"
    and "session_get (ox_crypto ox) key n l t = Inr (Some s)"
    and "refresh_session ox post now ns cat key s t = (t', Inl e)"
  shows "t' = t"
proof -
  have nl: "os_name s = n" "os_session_label s = l" using session_get_label [OF assms(4)] by simp_all
  from refresh_session_cases [OF assms(5)] show ?thesis
    using session_get_update [OF assms(1-4)] by (auto simp: nl)
qed

subsection \<open>The background tick\<close>

lemma refresh_session_local:
  assumes "aead_ok (ox_crypto ox)" "nonces_ok ns" "sessions_inv t" "sessions_inv t1"
    and "session_get (ox_crypto ox) key n l t = Inr (Some s)"
    and "session_get (ox_crypto ox) key n l t1 = Inr (Some s)"
  shows "snd (refresh_session ox post now ns cat key s t1) = snd (refresh_session ox post now ns cat key s t)"
proof -
  have nl: "os_name s = n" "os_session_label s = l" using session_get_label [OF assms(5)] by simp_all
  note upd = session_get_update [OF assms(1,2,3,5)] session_get_update [OF assms(1,2,4,6)]
  show ?thesis
    by (auto simp: refresh_session_def Let_def nl upd split: option.split token_reply.split)
qed

lemma refresh_session_get:
  assumes "aead_ok (ox_crypto ox)" "nonces_ok ns" "sessions_inv t"
    and "session_get (ox_crypto ox) key n l t = Inr (Some s)"
    and "refresh_session ox post now ns cat key s t = (t', Inr s')"
  shows "session_get (ox_crypto ox) key n l t' = Inr (Some s')"
proof -
  have nl: "os_name s = n" "os_session_label s = l" using session_get_label [OF assms(4)] by simp_all
  from assms(5) show ?thesis
    by (auto simp: refresh_session_def Let_def nl split: option.splits token_reply.splits if_splits sum.splits)
qed

lemma refresh_item_inv:
  assumes "nonces_ok ns" "sessions_inv t"
  shows "sessions_inv (refresh_item ox post now ns cat key th nl t)"
proof -
  have upd: "sessions_inv (update_tokens ox now ns key n l at ex rt t)" for n l at ex rt
    by (rule sessions_inv_step [OF session_step.update [OF assms(1)] assms(2)])
  have deg: "sessions_inv t' \<Longrightarrow> sessions_inv (mark_degraded now n l t')" for n l t'
    by (rule sessions_inv_step [OF session_step.degrade])
  have ref: "sessions_inv t'" if "refresh_session ox post now ns cat key s t = (t', res)" for s t' res
    using refresh_session_cases [OF that] assms(2) upd by auto
  show ?thesis
    using assms(2) ref deg
    by (auto simp: refresh_item_def split: prod.splits sum.splits option.splits)
qed

lemma fold_refresh_inv:
  assumes "nonces_ok ns" "sessions_inv t"
  shows "sessions_inv (fold (refresh_item ox post now ns cat key th) items t)"
  using assms by (induction items arbitrary: t) (simp_all add: refresh_item_inv)

lemma session_get_find:
  "List.find (row_is n l) t = List.find (row_is n l) t' \<Longrightarrow> session_get cr key n l t = session_get cr key n l t'"
  by (simp add: session_get_def)

text \<open>A session the tick has to refresh: not degraded and expiring within the margin.\<close>

definition due :: "int \<Rightarrow> OauthSession \<Rightarrow> bool" where
  "due now s \<longleftrightarrow> \<not> os_degraded s \<and>
     (case os_access_token_expires_at s of
        None \<Rightarrow> False | Some e \<Rightarrow> e \<le> now + DEFAULT_REFRESH_SAFETY_MARGIN_SECS)"

definition ticked ::
  "OauthExt \<Rightarrow> token_endpoint \<Rightarrow> int \<Rightarrow> bytes \<times> bytes \<Rightarrow> Catalog \<Rightarrow> SealingKey \<Rightarrow> OauthTable \<Rightarrow> OauthSession \<Rightarrow> OauthSession" where
  "ticked ox post now ns cat key t s =
     (if due now s
      then (case snd (refresh_session ox post now ns cat key s t) of
              Inr s' \<Rightarrow> s' | Inl _ \<Rightarrow> s\<lparr> os_degraded := True, os_updated_at := now \<rparr>)
      else s)"

lemma refresh_item_due:
  assumes "aead_ok (ox_crypto ox)" "nonces_ok ns" "sessions_inv t"
    and "session_get (ox_crypto ox) key n l t = Inr (Some s)" "due now s"
  shows "session_get (ox_crypto ox) key n l
           (refresh_item ox post now ns cat key (now + DEFAULT_REFRESH_SAFETY_MARGIN_SECS) (n, l) t) =
         Inr (Some (ticked ox post now ns cat key t s))"
proof -
  let ?th = "now + DEFAULT_REFRESH_SAFETY_MARGIN_SECS"
  obtain t' res where rs: "refresh_session ox post now ns cat key s t = (t', res)" by fastforce
  have late: "\<not> os_degraded s \<and> \<not> (case os_access_token_expires_at s of Some e \<Rightarrow> e > ?th | None \<Rightarrow> False)"
    using assms(5) by (auto simp: due_def split: option.splits)
  show ?thesis
  proof (cases res)
    case (Inl e)
    with rs have "t' = t" using refresh_session_not_persist [OF assms(1-4)] by blast
    with Inl rs late assms(4,5) show ?thesis
      by (simp add: refresh_item_def ticked_def session_get_degrade)
  next
    case (Inr s')
    with rs late assms(4,5) refresh_session_get [OF assms(1-4), of post now cat t' s'] show ?thesis
      by (simp add: refresh_item_def ticked_def)
  qed
qed

lemma pending_distinct: "sessions_inv t \<Longrightarrow> distinct (list_pending_refresh th t)"
proof -
  assume "sessions_inv t"
  then have "distinct (map row_key (filter (pending_row th) t))"
    by (simp add: sessions_inv_def distinct_map_filter)
  then show ?thesis
    by (simp add: list_pending_refresh_def distinct_map row_key_def [abs_def])
qed

lemma due_pending:
  assumes "sessions_inv t" "session_get cr key n l t = Inr (Some s)"
  shows "(n, l) \<in> set (list_pending_refresh (now + DEFAULT_REFRESH_SAFETY_MARGIN_SECS) t) \<longleftrightarrow> due now s"
proof -
  obtain r where r: "List.find (row_is n l) t = Some r" and op: "open_row cr key r = Inr s"
    using assms(2) by (auto simp: session_get_def split: option.splits sum.splits)
  have "os_degraded s = ow_degraded r" "os_access_token_expires_at s = ow_access_expires_at r"
    using op by (auto simp: open_row_def Let_def split: sum.splits option.splits)
  then have "due now s = pending_row (now + DEFAULT_REFRESH_SAFETY_MARGIN_SECS) r"
    by (simp add: due_def pending_row_def)
  moreover have "q = r" if "q \<in> set t" "row_is n l q" for q
    using sessions_inv_find [OF assms(1) that] r by simp
  ultimately show ?thesis
    using find_Some_in_set [OF r] by (auto simp: pending_mem)
qed

text \<open>
  Property C17: one tick of the background task acts on each session by itself:
  a session that is due ends as the provider's reply to its own refresh, or
  degraded if that refresh fails, and every other session is left as it was.
\<close>

theorem tick_refreshes_due_sessions:
  assumes "aead_ok (ox_crypto ox)" "nonces_ok ns" "sessions_inv t"
    and "session_get (ox_crypto ox) key n l t = Inr (Some s)"
  shows "session_get (ox_crypto ox) key n l (refresh_tick ox post now ns cat key t) =
         Inr (Some (ticked ox post now ns cat key t s))"
proof -
  let ?th = "now + DEFAULT_REFRESH_SAFETY_MARGIN_SECS"
  let ?items = "list_pending_refresh ?th t"
  let ?f = "refresh_item ox post now ns cat key ?th"
  show ?thesis
  proof (cases "due now s")
    case False
    then have "(n, l) \<notin> set ?items" using due_pending [OF assms(3,4)] by simp
    from fold_refresh_other [OF this] assms(4) False show ?thesis
      by (simp add: refresh_tick_def Let_def ticked_def session_get_def)
  next
    case True
    then obtain xs ys where items: "?items = xs @ (n, l) # ys"
      using due_pending [OF assms(3,4)] by (meson split_list)
    with pending_distinct [OF assms(3), of ?th] have out: "(n, l) \<notin> set xs" "(n, l) \<notin> set ys" by auto
    let ?t1 = "fold ?f xs t"
    have inv: "sessions_inv ?t1" by (rule fold_refresh_inv [OF assms(2,3)])
    have get: "session_get (ox_crypto ox) key n l ?t1 = Inr (Some s)"
      using session_get_find [OF fold_refresh_other [OF out(1)]] assms(4) by simp
    have "session_get (ox_crypto ox) key n l (refresh_tick ox post now ns cat key t) =
          session_get (ox_crypto ox) key n l (?f (n, l) ?t1)"
      using session_get_find [OF fold_refresh_other [OF out(2)]]
      by (simp add: refresh_tick_def Let_def items)
    also have "\<dots> = Inr (Some (ticked ox post now ns cat key ?t1 s))"
      by (rule refresh_item_due [OF assms(1,2) inv get True])
    finally show ?thesis
      using refresh_session_local [OF assms(1,2,3) inv assms(4) get] by (simp add: ticked_def)
  qed
qed

definition sample_ox :: OauthExt where
  "sample_ox = \<lparr> ox_crypto = sample_crypto, ox_json = (\<lambda>_. None) \<rparr>"

definition sample_nonces :: "bytes \<times> bytes" where
  "sample_nonces = (replicate 12 0, replicate 12 1)"

definition sample_sessions :: OauthTable where
  "sample_sessions =
     fst (session_create sample_ox 0 sample_nonces (SealingKey []) ''codex'' ''default'' ''rt'' (Some ''at'') (Some 100) [] [])"

theorem tick_refreshes_due_sessions_witness:
  "\<exists>s. session_get sample_crypto (SealingKey []) ''codex'' ''default'' sample_sessions = Inr (Some s) \<and> due 50 s \<and>
       (\<exists>s'. session_get sample_crypto (SealingKey []) ''codex'' ''default''
               (refresh_tick sample_ox (\<lambda>_ _. NetworkFailure) 50 sample_nonces [] (SealingKey []) sample_sessions) =
             Inr (Some s') \<and> os_degraded s')"
proof -
  let ?run = "session_create sample_ox 0 sample_nonces (SealingKey []) ''codex'' ''default'' ''rt'' (Some ''at'') (Some 100) [] []"
  have ok: "aead_ok (ox_crypto sample_ox)" "nonces_ok sample_nonces"
    by (simp_all add: sample_ox_def sample_crypto_aead nonces_ok_def sample_nonces_def)
  have inv: "sessions_inv sample_sessions"
    unfolding sample_sessions_def
    by (rule sessions_inv_step [OF session_step.create [OF ok(2)]]) (simp add: sessions_inv_def)
  obtain s where run: "?run = (sample_sessions, Inr s)" and due: "due 50 s"
    by (simp add: session_create_def Let_def sample_sessions_def due_def DEFAULT_REFRESH_SAFETY_MARGIN_SECS_def)
  from session_get_create [OF ok run]
  have get: "session_get (ox_crypto sample_ox) (SealingKey []) ''codex'' ''default'' sample_sessions = Inr (Some s)" .
  from tick_refreshes_due_sessions [OF ok inv get, of "\<lambda>_ _. NetworkFailure" 50 "[]"] get due
  show ?thesis
    by (simp add: ticked_def refresh_session_def lookup_active_def sample_ox_def)
qed

end
