(* ===== verification/Mtls.thy ===== *)
theory Mtls
  imports Agent_Auth
begin

text \<open>
  Client-certificate authentication, \<open>src/mtls\<close>: certificate validation, the
  local blocklist, the CRL store, and the authenticator that maps a validated
  identity to an agent record.  X.509 parsing and chain verification belong to
  third-party crates and are the functions of \<open>Pki\<close>; the peer certificate is
  its DER bytes.  Audit rows of this component are written by a spawned task;
  the model records them when they are spawned.
\<close>

section \<open>Definitions\<close>

datatype MtlsError =
    UntrustedChain
  | CertExpired
  | NotYetValid
  | MalformedCert string
  | NoIdentity
  | RevokedByCRL string
  | RevokedByBlocklist string

record MtlsIdentity =
  mi_value :: string
  mi_kind :: string
  mi_serial_hex :: string

datatype GeneralName = DNSName string | URI string | OtherName

record X509 =
  x_not_before :: int
  x_not_after :: int
  x_serial :: "nat list"
  x_common_name :: "string option option"
  x_san :: "GeneralName list option"

record Pki =
  pk_parse :: "string \<Rightarrow> (string, X509) result"
  pk_ee :: "string \<Rightarrow> (string, unit) result"
  pk_anchor_ok :: "string \<Rightarrow> bool"
  pk_verify :: "string list \<Rightarrow> string \<Rightarrow> int \<Rightarrow> bool"

subsection \<open>Blocklist\<close>

record Snapshot =
  sn_serials :: "string set"
  sn_mtime_secs :: int

definition empty_snapshot :: Snapshot where
  "empty_snapshot = \<lparr> sn_serials = {}, sn_mtime_secs = 0 \<rparr>"

text \<open>The file: \<open>None\<close> when it cannot be read, else its text and modification time.\<close>

definition blocklist_read :: "(string \<times> int) option \<Rightarrow> Snapshot option" where
  "blocklist_read file =
     (case file of
        None \<Rightarrow> None
      | Some (raw, mtime) \<Rightarrow>
          Some \<lparr> sn_serials = set (map to_lower
                   (filter (\<lambda>l. l \<noteq> [] \<and> \<not> starts_with ''#'' l)
                     (map trim (split_on (CHR 0x0A) raw)))),
                 sn_mtime_secs = mtime \<rparr>)"

definition blocklist_open :: "(string \<times> int) option \<Rightarrow> Snapshot" where
  "blocklist_open file =
     (case blocklist_read file of None \<Rightarrow> empty_snapshot | Some s \<Rightarrow> s)"

definition reload_if_changed ::
  "int option \<Rightarrow> (string \<times> int) option \<Rightarrow> Snapshot \<Rightarrow> Snapshot \<times> bool" where
  "reload_if_changed stat file s =
     (case stat of
        None \<Rightarrow> (s, False)
      | Some mtime \<Rightarrow>
          if mtime = sn_mtime_secs s then (s, False)
          else (case blocklist_read file of
                  Some snap \<Rightarrow> (snap, True)
                | None \<Rightarrow> (s, False)))"

definition blocklist_contains :: "Snapshot \<Rightarrow> string \<Rightarrow> bool" where
  "blocklist_contains s serial_hex = (to_lower serial_hex \<in> sn_serials s)"

subsection \<open>CRL store\<close>

record CrlStore =
  cl_revoked_serials :: "string set"
  cl_last_success :: int
  cl_failures :: nat

definition crl_new :: CrlStore where
  "crl_new = \<lparr> cl_revoked_serials = {}, cl_last_success = 0, cl_failures = 0 \<rparr>"

definition crl_contains :: "CrlStore \<Rightarrow> string \<Rightarrow> bool" where
  "crl_contains c serial_hex = (to_lower serial_hex \<in> cl_revoked_serials c)"

definition age_secs :: "int \<Rightarrow> CrlStore \<Rightarrow> int" where
  "age_secs now c = (if cl_last_success c = 0 then 2 ^ 63 - 1 else now - cl_last_success c)"

datatype CrlParseError = Pem | Der

definition hex_digit :: "nat \<Rightarrow> char" where
  "hex_digit n = ''0123456789abcdef'' ! n"

definition hex_serial :: "nat list \<Rightarrow> string" where
  "hex_serial bs = concat (map (\<lambda>b. [hex_digit (b div 16 mod 16), hex_digit (b mod 16)]) bs)"

text \<open>A PEM block is its tag and the serials of its DER content, \<open>None\<close> if malformed.\<close>

definition apply_pem ::
  "int \<Rightarrow> (string \<times> nat list list option) list option \<Rightarrow> CrlStore
    \<Rightarrow> CrlStore \<times> (CrlParseError, nat) result" where
  "apply_pem now blocks c =
     (case blocks of
        None \<Rightarrow> (c, Inl Pem)
      | Some bs \<Rightarrow>
          let crls = filter (\<lambda>b. fst b = ''X509 CRL'') bs in
          if list_ex (\<lambda>b. snd b = None) crls then (c, Inl Der)
          else if crls = [] then (c, Inl Pem)
          else
            let serials = set (map hex_serial (concat (map (\<lambda>b. the (snd b)) crls)))
            in (c\<lparr> cl_revoked_serials := serials, cl_last_success := now \<rparr>, Inr (card serials)))"

definition note_failure :: "CrlStore \<Rightarrow> CrlStore" where
  "note_failure c = c\<lparr> cl_failures := cl_failures c + 1 \<rparr>"

text \<open>
  The outcome of the HTTP fetch: client build failure, send failure, status
  and, for a success status, the body (\<open>None\<close> when reading it failed).
\<close>

datatype fetch = ClientBuildFailed | SendFailed | Fetched nat "(string \<times> nat list list option) list option option"

definition refresh_once :: "int \<Rightarrow> fetch \<Rightarrow> CrlStore \<Rightarrow> CrlStore" where
  "refresh_once now f c =
     (case f of
        ClientBuildFailed \<Rightarrow> note_failure c
      | SendFailed \<Rightarrow> note_failure c
      | Fetched st bd \<Rightarrow>
          if 200 \<le> st \<and> st < 300 then
            (case bd of
               None \<Rightarrow> note_failure c
             | Some blocks \<Rightarrow>
                 (case apply_pem now blocks c of
                    (c', Inr _) \<Rightarrow> c'
                  | (c', Inl _) \<Rightarrow> note_failure c'))
          else note_failure c)"

subsection \<open>Validation\<close>

record MtlsValidator =
  mv_roots :: "string list"
  mv_crl :: "CrlStore option"
  mv_blocklist :: "Snapshot option"

text \<open>\<open>pem\<close> is the PEM reader: the tags and contents of the blocks, \<open>None\<close> on malformed text.\<close>

definition validator_new ::
  "(string \<Rightarrow> (string \<times> string) list option) \<Rightarrow> string \<Rightarrow> (MtlsError, MtlsValidator) result" where
  "validator_new pem ca_bundle_pem =
     (case pem ca_bundle_pem of
        None \<Rightarrow> Inl (MalformedCert ''CA bundle'')
      | Some blocks \<Rightarrow>
          let roots = map snd (filter (\<lambda>b. fst b = ''CERTIFICATE'') blocks) in
          if roots = [] then Inl (MalformedCert ''CA bundle contains no CERTIFICATE blocks'')
          else Inr \<lparr> mv_roots = roots, mv_crl = None, mv_blocklist = None \<rparr>)"

definition with_crl :: "CrlStore \<Rightarrow> MtlsValidator \<Rightarrow> MtlsValidator" where
  "with_crl crl v = v\<lparr> mv_crl := Some crl \<rparr>"

definition with_blocklist :: "Snapshot \<Rightarrow> MtlsValidator \<Rightarrow> MtlsValidator" where
  "with_blocklist b v = v\<lparr> mv_blocklist := Some b \<rparr>"

definition san_dns :: "GeneralName list \<Rightarrow> string option" where
  "san_dns ns = map_option (\<lambda>g. case g of DNSName s \<Rightarrow> s | _ \<Rightarrow> [])
     (List.find (\<lambda>g. case g of DNSName s \<Rightarrow> s \<noteq> [] | _ \<Rightarrow> False) ns)"

definition san_uri :: "GeneralName list \<Rightarrow> string option" where
  "san_uri ns = map_option (\<lambda>g. case g of URI s \<Rightarrow> s | _ \<Rightarrow> [])
     (List.find (\<lambda>g. case g of URI s \<Rightarrow> s \<noteq> [] | _ \<Rightarrow> False) ns)"

definition extract_identity :: "X509 \<Rightarrow> string \<Rightarrow> MtlsIdentity option" where
  "extract_identity x serial_hex =
     (let mk = (\<lambda>k v. \<lparr> mi_value = v, mi_kind = k, mi_serial_hex = serial_hex \<rparr>);
          san = (case x_san x of
                   None \<Rightarrow> None
                 | Some ns \<Rightarrow>
                     (case san_dns ns of
                        Some v \<Rightarrow> Some (mk ''san_dns'' v)
                      | None \<Rightarrow> map_option (mk ''san_uri'') (san_uri ns)))
      in case x_common_name x of
           Some (Some cn) \<Rightarrow> if cn \<noteq> [] then Some (mk ''cn'' cn) else san
         | _ \<Rightarrow> san)"

definition mtls_validate ::
  "Pki \<Rightarrow> int \<Rightarrow> MtlsValidator \<Rightarrow> string \<Rightarrow> (MtlsError, MtlsIdentity) result" where
  "mtls_validate pki now v der =
     (case pk_parse pki der of
        Inl m \<Rightarrow> Inl (MalformedCert m)
      | Inr x \<Rightarrow>
          if now < x_not_before x then Inl NotYetValid
          else if now > x_not_after x then Inl CertExpired
          else
            (case pk_ee pki der of
               Inl m \<Rightarrow> Inl (MalformedCert m)
             | Inr _ \<Rightarrow>
                 let anchors = filter (pk_anchor_ok pki) (mv_roots v);
                     serial_hex = hex_serial (x_serial x)
                 in if anchors = [] then Inl UntrustedChain
                    else if \<not> pk_verify pki anchors der now then Inl UntrustedChain
                    else if (case mv_blocklist v of None \<Rightarrow> False
                             | Some b \<Rightarrow> blocklist_contains b serial_hex)
                    then Inl (RevokedByBlocklist serial_hex)
                    else if (case mv_crl v of None \<Rightarrow> False | Some c \<Rightarrow> crl_contains c serial_hex)
                    then Inl (RevokedByCRL serial_hex)
                    else (case extract_identity x serial_hex of
                            Some i \<Rightarrow> Inr i
                          | None \<Rightarrow> Inl NoIdentity)))"

subsection \<open>The authenticator\<close>

fun mtls_kind :: "MtlsError \<Rightarrow> string" where
  "mtls_kind UntrustedChain = ''untrusted_chain''"
| "mtls_kind CertExpired = ''cert_expired''"
| "mtls_kind NotYetValid = ''cert_not_yet_valid''"
| "mtls_kind (MalformedCert _) = ''malformed_cert''"
| "mtls_kind NoIdentity = ''no_identity''"
| "mtls_kind (RevokedByCRL _) = ''revoked_by_crl''"
| "mtls_kind (RevokedByBlocklist _) = ''revoked_by_blocklist''"

fun mtls_message :: "MtlsError \<Rightarrow> string" where
  "mtls_message UntrustedChain = ''untrusted chain''"
| "mtls_message CertExpired = ''certificate expired''"
| "mtls_message NotYetValid = ''certificate not yet valid''"
| "mtls_message (MalformedCert m) = ''malformed certificate: '' @ m"
| "mtls_message NoIdentity = ''no identity extractable from cert''"
| "mtls_message (RevokedByCRL s) = ''revoked by CRL (serial '' @ s @ '')''"
| "mtls_message (RevokedByBlocklist s) = ''revoked by local blocklist (serial '' @ s @ '')''"

definition mtls_failure_event :: "int \<Rightarrow> MtlsError \<Rightarrow> AuditEvent" where
  "mtls_failure_event clk e =
     default_event\<lparr> ev_ts_ms := clk, ev_class := Security, ev_event := ''mtls_auth_failure'',
       ev_decision := Denied, ev_auth_method := Some ''mtls'',
       ev_details := Some (JObj [(''reason'', JStr (mtls_kind e)),
                                 (''message'', JStr (mtls_message e)),
                                 (''serial_hex'', JNull)]) \<rparr>"

definition mtls_unknown_event :: "int \<Rightarrow> MtlsIdentity \<Rightarrow> AuditEvent" where
  "mtls_unknown_event clk i =
     default_event\<lparr> ev_ts_ms := clk, ev_class := Security, ev_event := ''mtls_unknown_identity'',
       ev_decision := Denied, ev_auth_method := Some ''mtls'',
       ev_details := Some (JObj [(''identity'', JStr (mi_value i)),
                                 (''kind'', JStr (mi_kind i)),
                                 (''serial_hex'', JStr (mi_serial_hex i))]) \<rparr>"

definition authenticate_cert ::
  "Pki \<Rightarrow> int \<Rightarrow> MtlsValidator \<Rightarrow> string \<Rightarrow> AuthState \<Rightarrow> AuthState \<times> (AuthError, AgentIdentity) result" where
  "authenticate_cert pki clk v der s =
     (case mtls_validate pki (secs_of clk) v der of
        Inl e \<Rightarrow> (s\<lparr> as_audit := audit_emit (mtls_failure_event clk e) (as_audit s) \<rparr>,
                  Inl AuthError.InvalidCredential)
      | Inr i \<Rightarrow>
          (case get_by_cert_identity (mi_value i) (as_agents s) of
             Some r \<Rightarrow> (s, Inr (identity_of r))
           | None \<Rightarrow> (s\<lparr> as_audit := audit_emit (mtls_unknown_event clk i) (as_audit s) \<rparr>,
                      Inl AuthError.InvalidCredential)))"

section \<open>Lemmas\<close>

lemma mtls_validate_InrD:
  assumes "mtls_validate pki now v der = Inr i"
  shows "\<exists>x. pk_parse pki der = Inr x \<and> x_not_before x \<le> now \<and> now \<le> x_not_after x \<and>
             pk_verify pki (filter (pk_anchor_ok pki) (mv_roots v)) der now \<and>
             filter (pk_anchor_ok pki) (mv_roots v) \<noteq> [] \<and>
             (\<forall>b. mv_blocklist v = Some b \<longrightarrow> \<not> blocklist_contains b (hex_serial (x_serial x))) \<and>
             (\<forall>c. mv_crl v = Some c \<longrightarrow> \<not> crl_contains c (hex_serial (x_serial x))) \<and>
             extract_identity x (hex_serial (x_serial x)) = Some i"
proof (cases "pk_parse pki der")
  case (Inr x)
  with assms show ?thesis
    by (simp add: mtls_validate_def Let_def split: if_splits sum.splits option.splits)
qed (use assms in \<open>simp add: mtls_validate_def\<close>)

lemma find_map_nonempty:
  assumes "map_option f (List.find p xs) = Some v" "\<And>x. p x \<Longrightarrow> f x \<noteq> []"
  shows "v \<noteq> []"
  using assms find_Some_in_set [of p xs] by auto

lemma san_nonempty:
  "san_dns ns = Some v \<Longrightarrow> v \<noteq> []"
  "san_uri ns = Some v \<Longrightarrow> v \<noteq> []"
  unfolding san_dns_def san_uri_def
  by (erule find_map_nonempty; simp split: GeneralName.splits)+

lemma extract_identity_nonempty:
  assumes "extract_identity x h = Some i"
  shows "mi_value i \<noteq> [] \<and> mi_serial_hex i = h"
  using assms
  by (auto simp: extract_identity_def Let_def dest!: san_nonempty split: option.splits if_splits)

lemma get_by_cert_Some:
  "get_by_cert_identity ident t = Some r \<Longrightarrow>
   r \<in> set (at_rows t) \<and> ag_cert_identity r = Some ident \<and> ag_revoked_at r = None"
  unfolding get_by_cert_identity_def by (drule find_Some_in_set) simp

lemma authenticate_cert_cases:
  assumes "authenticate_cert pki clk v der s = (s', res)"
  shows "(\<exists>i r. mtls_validate pki (secs_of clk) v der = Inr i \<and>
              get_by_cert_identity (mi_value i) (as_agents s) = Some r \<and>
              s' = s \<and> res = Inr (identity_of r)) \<or>
         (\<exists>ev. s' = s\<lparr> as_audit := audit_emit ev (as_audit s) \<rparr> \<and> ev_class ev = Security \<and>
              ev_decision ev = Denied \<and> res = Inl AuthError.InvalidCredential)"
  using assms
  by (auto simp: authenticate_cert_def mtls_failure_event_def mtls_unknown_event_def
           split: sum.splits option.splits)

interpretation mtls: agent_authenticator "\<lambda>der. authenticate_cert pki clk v der" for pki clk v
proof
  fix der s s' ident
  assume "authenticate_cert pki clk v der s = (s', Inr ident)"
  from authenticate_cert_cases [OF this] show "active_account s ident"
    by (auto dest!: get_by_cert_Some simp: active_account_def)
next
  fix der s s' r
  assume "authenticate_cert pki clk v der s = (s', r)"
  from authenticate_cert_cases [OF this] show "active_account s' = active_account s"
    and "agents_inv (as_agents s) \<Longrightarrow> agents_inv (as_agents s')"
    by (auto simp: active_account_def fun_eq_iff)
next
  fix der s s' e l
  assume "authenticate_cert pki clk v der s = (s', Inl e)" "as_audit s = Some l"
  from authenticate_cert_cases [OF this(1)] this(2)
  show "\<exists>ev. as_audit s' = Some (l @ [ev]) \<and> ev_class ev = Security \<and> ev_decision ev = Denied"
    by auto
next
  fix der s s' e
  assume "authenticate_cert pki clk v der s = (s', Inl e)"
  from authenticate_cert_cases [OF this] show "as_agents s' = as_agents s" by auto
qed

lemma refresh_once_keeps_snapshot:
  "cl_failures (refresh_once now f c) \<noteq> cl_failures c \<Longrightarrow>
   cl_revoked_serials (refresh_once now f c) = cl_revoked_serials c \<and>
   cl_last_success (refresh_once now f c) = cl_last_success c"
  by (auto simp: refresh_once_def note_failure_def apply_pem_def Let_def
           split: fetch.splits option.splits if_splits sum.splits prod.splits)

subsection \<open>Properties\<close>

text \<open>
  Property C19: an accepted client certificate is within its validity period,
  chains to a configured root, is on neither the block list nor the revocation
  list, and carries the identity of an account that is not revoked; the
  identity returned is that account's and nothing is written.
\<close>

theorem certificate_authentication_sound:
  assumes "authenticate_cert pki clk v der s = (s', Inr ident)"
  shows "s' = s \<and>
         (\<exists>x i r. pk_parse pki der = Inr x \<and> x_not_before x \<le> secs_of clk \<and> secs_of clk \<le> x_not_after x \<and>
            pk_verify pki (filter (pk_anchor_ok pki) (mv_roots v)) der (secs_of clk) \<and>
            (\<forall>b. mv_blocklist v = Some b \<longrightarrow> \<not> blocklist_contains b (hex_serial (x_serial x))) \<and>
            (\<forall>c. mv_crl v = Some c \<longrightarrow> \<not> crl_contains c (hex_serial (x_serial x))) \<and>
            extract_identity x (hex_serial (x_serial x)) = Some i \<and> mi_value i \<noteq> [] \<and>
            r \<in> set (at_rows (as_agents s)) \<and> ag_cert_identity r = Some (mi_value i) \<and>
            ag_revoked_at r = None \<and> ident = identity_of r)"
proof -
  from authenticate_cert_cases [OF assms] obtain i r where
    v: "mtls_validate pki (secs_of clk) v der = Inr i"
    and get: "get_by_cert_identity (mi_value i) (as_agents s) = Some r"
    and res: "s' = s" "ident = identity_of r" by auto
  from mtls_validate_InrD [OF v] obtain x where x: "pk_parse pki der = Inr x"
    "x_not_before x \<le> secs_of clk" "secs_of clk \<le> x_not_after x"
    "pk_verify pki (filter (pk_anchor_ok pki) (mv_roots v)) der (secs_of clk)"
    "\<forall>b. mv_blocklist v = Some b \<longrightarrow> \<not> blocklist_contains b (hex_serial (x_serial x))"
    "\<forall>c. mv_crl v = Some c \<longrightarrow> \<not> crl_contains c (hex_serial (x_serial x))"
    "extract_identity x (hex_serial (x_serial x)) = Some i" by blast
  with extract_identity_nonempty [OF x(7)] get_by_cert_Some [OF get] res show ?thesis by blast
qed

definition sample_pki :: Pki where
  "sample_pki =
     \<lparr> pk_parse = (\<lambda>der. Inr \<lparr> x_not_before = 0, x_not_after = 100, x_serial = [10, 255],
                                x_common_name = Some (Some der), x_san = None \<rparr>),
       pk_ee = (\<lambda>_. Inr ()), pk_anchor_ok = (\<lambda>_. True), pk_verify = (\<lambda>roots der now. ''ca'' \<in> set roots) \<rparr>"

definition sample_validator :: MtlsValidator where
  "sample_validator =
     \<lparr> mv_roots = [''ca''], mv_crl = None,
       mv_blocklist = Some \<lparr> sn_serials = {''00''}, sn_mtime_secs = 0 \<rparr> \<rparr>"

definition sample_mtls_auth :: AuthState where
  "sample_mtls_auth = \<lparr> as_agents = sample_agent_table, as_audit = Some [] \<rparr>"

lemmas sample_mtls_defs = authenticate_cert_def mtls_validate_def sample_pki_def sample_validator_def
  blocklist_contains_def hex_serial_def hex_digit_def extract_identity_def Let_def sample_mtls_auth_def
  get_by_cert_identity_def sample_agent_table_def sample_agent_row_def secs_of_def to_lower_def

text \<open>
  The account of the sample expires at second 10, and the certificate path
  accepts it at second 50: expiry of the account is only checked for bearer
  tokens.
\<close>

lemma expired_agent_accepted_by_certificate:
  "ag_expires_at sample_agent_row = Some 10 \<and>
   authenticate_cert sample_pki 50000 sample_validator ''bot.local'' sample_mtls_auth =
     (sample_mtls_auth, Inr (identity_of sample_agent_row))"
  by (simp add: sample_mtls_defs ascii_lower_def)

theorem certificate_authentication_sound_witness:
  "fst (authenticate_cert sample_pki 50000 sample_validator ''bot.local'' sample_mtls_auth) = sample_mtls_auth \<and>
   pk_verify sample_pki (filter (pk_anchor_ok sample_pki) (mv_roots sample_validator)) ''bot.local'' 50"
proof -
  have run: "authenticate_cert sample_pki 50000 sample_validator ''bot.local'' sample_mtls_auth =
     (sample_mtls_auth, Inr (identity_of sample_agent_row))"
    using expired_agent_accepted_by_certificate by simp
  from certificate_authentication_sound [OF run] run show ?thesis by (auto simp: secs_of_def)
qed

end
