(* ===== verification/Response_Controls.thy ===== *)
theory Response_Controls
  imports Config Crypto Http
begin

text \<open>
  Response controls, \<open>src/response_controls.rs\<close>: size cap, content-type
  allowlist and redaction of a buffered response, and the size-capped stream.
  The regular-expression engine is the record \<open>RegexEngine\<close>; a stream is the
  list of what its polls return.
\<close>

section \<open>Definitions\<close>

record RegexEngine =
  re_ok :: "string \<Rightarrow> bool"
  re_find_iter :: "string \<Rightarrow> string \<Rightarrow> string list"
  re_replace_all :: "string \<Rightarrow> string \<Rightarrow> string \<Rightarrow> string"
  re_utf8 :: "string \<Rightarrow> bool"

record RedactionRecord =
  rr_pattern_id :: string
  rr_matches :: nat
  rr_match_hash :: string

datatype ApplyOutcome =
    RcAllowed string "RedactionRecord list"
  | SizeExceeded nat nat
  | ContentTypeDisallowed string

record CompiledPattern =
  cp_id :: string
  cp_regex :: string
  cp_replacement :: string

record ResponseControls =
  rc_max_size_bytes :: "nat option"
  rc_content_type_allowlist :: "string list option"
  rc_patterns :: "CompiledPattern list"

definition compile_pattern :: "RegexEngine \<Rightarrow> RedactionPatternConfig \<Rightarrow> CompiledPattern option" where
  "compile_pattern re p =
     (if \<not> re_ok re (rp_regex p) then None
      else Some \<lparr> cp_id = rp_id p, cp_regex = rp_regex p,
                  cp_replacement = (case rp_replacement p of
                                      Some r \<Rightarrow> r
                                    | None \<Rightarrow> ''[REDACTED:'' @ rp_id p @ '']'') \<rparr>)"

definition rc_compile :: "RegexEngine \<Rightarrow> ResponseControlsConfig \<Rightarrow> ResponseControls option" where
  "rc_compile re cfg =
     map_option (\<lambda>ps. \<lparr> rc_max_size_bytes = rcc_max_size_bytes cfg,
                        rc_content_type_allowlist = rcc_content_type_allowlist cfg,
                        rc_patterns = ps \<rparr>)
       (seq_opt (map (compile_pattern re) (rcc_redaction_patterns cfg)))"

definition media_type :: "string option \<Rightarrow> string" where
  "media_type ct =
     (let full = (case ct of Some c \<Rightarrow> c | None \<Rightarrow> []) in
      to_lower (trim (hd (split_on (CHR '';'') full))))"

definition streaming_content_type_allowed :: "ResponseControls \<Rightarrow> string option \<Rightarrow> bool" where
  "streaming_content_type_allowed rc ct =
     (case rc_content_type_allowlist rc of
        None \<Rightarrow> True
      | Some allow \<Rightarrow> list_ex (\<lambda>a. eq_ignore_ascii_case a (media_type ct)) allow)"

definition redact_one ::
  "RegexEngine \<Rightarrow> Crypto \<Rightarrow> CompiledPattern \<Rightarrow> string \<times> RedactionRecord list \<Rightarrow> string \<times> RedactionRecord list" where
  "redact_one re cr p acc =
     (case acc of (working, records) \<Rightarrow>
        (let ms = re_find_iter re (cp_regex p) working in
         if ms = [] then (working, records)
         else (re_replace_all re (cp_regex p) working (cp_replacement p),
               records @ [\<lparr> rr_pattern_id = cp_id p, rr_matches = length ms,
                            rr_match_hash = cr_sha256_hex cr (concat ms) \<rparr>])))"

definition apply_non_streaming ::
  "RegexEngine \<Rightarrow> Crypto \<Rightarrow> ResponseControls \<Rightarrow> string option \<Rightarrow> string \<Rightarrow> ApplyOutcome" where
  "apply_non_streaming re cr rc ct bd =
     (case rc_max_size_bytes rc of
        Some cap \<Rightarrow>
          if length bd > cap then SizeExceeded (length bd) cap
          else if \<not> streaming_content_type_allowed rc ct
          then ContentTypeDisallowed (case ct of Some c \<Rightarrow> c | None \<Rightarrow> [])
          else if rc_patterns rc = [] \<or> \<not> re_utf8 re bd then RcAllowed bd []
          else (case fold (redact_one re cr) (rc_patterns rc) (bd, []) of (w, rs) \<Rightarrow> RcAllowed w rs)
      | None \<Rightarrow>
          if \<not> streaming_content_type_allowed rc ct
          then ContentTypeDisallowed (case ct of Some c \<Rightarrow> c | None \<Rightarrow> [])
          else if rc_patterns rc = [] \<or> \<not> re_utf8 re bd then RcAllowed bd []
          else (case fold (redact_one re cr) (rc_patterns rc) (bd, []) of (w, rs) \<Rightarrow> RcAllowed w rs))"

definition has_redaction_patterns :: "ResponseControls \<Rightarrow> bool" where
  "has_redaction_patterns rc = (rc_patterns rc \<noteq> [])"

subsection \<open>The size-capped stream\<close>

definition STREAM_TRUNCATION_MARKER :: string where
  "STREAM_TRUNCATION_MARKER =
     [CHR 0x0A] @ ''{'' @ [CHR 0x22] @ ''_locksmith'' @ [CHR 0x22] @ '':'' @ [CHR 0x22] @
     ''response_size_exceeded'' @ [CHR 0x22] @ ''}'' @ [CHR 0x0A]"

record SizeCappedStream =
  st_inner :: "poll list"
  st_cap :: "nat option"
  st_seen :: nat
  st_truncated :: bool
  st_pending_marker :: "string option"
  st_callbacks :: "nat list"

definition stream_new :: "poll list \<Rightarrow> nat option \<Rightarrow> SizeCappedStream" where
  "stream_new inner cap =
     \<lparr> st_inner = inner, st_cap = cap, st_seen = 0, st_truncated = False,
       st_pending_marker = None, st_callbacks = [] \<rparr>"

text \<open>\<open>on_truncate\<close> is taken once; the calls made so far are recorded with their argument.\<close>

definition fire_truncation :: "SizeCappedStream \<Rightarrow> SizeCappedStream" where
  "fire_truncation s =
     s\<lparr> st_truncated := True,
        st_callbacks := (if st_callbacks s = [] then [st_seen s] else st_callbacks s),
        st_pending_marker := Some STREAM_TRUNCATION_MARKER \<rparr>"

definition poll_inner :: "SizeCappedStream \<Rightarrow> poll \<times> SizeCappedStream" where
  "poll_inner s =
     (case st_inner s of
        [] \<Rightarrow> (Ready_None, s)
      | p # ps \<Rightarrow> (p, s\<lparr> st_inner := ps \<rparr>))"

definition poll_next :: "SizeCappedStream \<Rightarrow> poll \<times> SizeCappedStream" where
  "poll_next s =
     (case st_pending_marker s of
        Some m \<Rightarrow> (Ready_Ok m, s\<lparr> st_pending_marker := None \<rparr>)
      | None \<Rightarrow>
          if st_truncated s then (Ready_None, s)
          else (case st_cap s of
                  None \<Rightarrow> poll_inner s
                | Some cap \<Rightarrow>
                    (case poll_inner s of
                       (Ready_Ok chunk, s1) \<Rightarrow>
                         (let new_total = sat_add64 (st_seen s1) (length chunk) in
                          if new_total \<le> cap then (Ready_Ok chunk, s1\<lparr> st_seen := new_total \<rparr>)
                          else (Ready_Ok (take (cap - st_seen s1) chunk),
                                fire_truncation (s1\<lparr> st_seen := cap \<rparr>)))
                     | (p, s1) \<Rightarrow> (p, s1))))"

fun poll_n :: "nat \<Rightarrow> SizeCappedStream \<Rightarrow> poll list \<times> SizeCappedStream" where
  "poll_n 0 s = ([], s)"
| "poll_n (Suc n) s =
     (case poll_next s of (p, s1) \<Rightarrow> (case poll_n n s1 of (ps, s2) \<Rightarrow> (p # ps, s2)))"

definition data_of :: "poll list \<Rightarrow> string" where
  "data_of ps = concat (map (\<lambda>p. case p of Ready_Ok c \<Rightarrow> c | _ \<Rightarrow> []) ps)"

section \<open>Lemmas\<close>

lemma data_of_simps [simp]:
  "data_of [] = []"
  "data_of (p # ps) = (case p of Ready_Ok c \<Rightarrow> c | _ \<Rightarrow> []) @ data_of ps"
  by (simp_all add: data_of_def)

lemma poll_n_Suc [simp]:
  "fst (poll_n (Suc n) s) = fst (poll_next s) # fst (poll_n n (snd (poll_next s)))"
  "snd (poll_n (Suc n) s) = snd (poll_n n (snd (poll_next s)))"
  by (simp_all add: split_beta)

declare poll_n.simps(2) [simp del]

lemma poll_n_done:
  "st_truncated s \<Longrightarrow> st_pending_marker s = None \<Longrightarrow>
   data_of (fst (poll_n n s)) = [] \<and> snd (poll_n n s) = s"
  by (induction n) (auto simp: poll_next_def)

lemma poll_n_marker:
  assumes "st_truncated s" "st_pending_marker s = Some m"
  shows "data_of (fst (poll_n n s)) = (if n = 0 then [] else m) \<and>
         st_callbacks (snd (poll_n n s)) = st_callbacks s"
proof (cases n)
  case (Suc k)
  have "poll_next s = (Ready_Ok m, s\<lparr> st_pending_marker := None \<rparr>)"
    using assms by (simp add: poll_next_def)
  with poll_n_done [of "s\<lparr> st_pending_marker := None \<rparr>" k] assms Suc show ?thesis
    by simp
qed simp

text \<open>The open stream: nothing truncated yet, \<open>seen\<close> bytes forwarded, no callback made.\<close>

definition stream_open :: "nat \<Rightarrow> SizeCappedStream \<Rightarrow> bool" where
  "stream_open cap s \<longleftrightarrow> st_cap s = Some cap \<and> st_seen s \<le> cap \<and> \<not> st_truncated s \<and>
     st_pending_marker s = None \<and> st_callbacks s = []"

lemma poll_next_open:
  assumes "stream_open cap s" "cap < 2 ^ 64 - 1" "st_inner s = p # ps"
  shows "case p of
           Ready_Ok chunk \<Rightarrow>
             if st_seen s + length chunk \<le> cap
             then poll_next s = (p, s\<lparr> st_inner := ps, st_seen := st_seen s + length chunk \<rparr>)
             else poll_next s = (Ready_Ok (take (cap - st_seen s) chunk),
                    fire_truncation (s\<lparr> st_inner := ps, st_seen := cap \<rparr>))
         | _ \<Rightarrow> poll_next s = (p, s\<lparr> st_inner := ps \<rparr>)"
proof -
  have sat: "sat_add64 a b \<le> cap \<longleftrightarrow> a + b \<le> cap" "a + b \<le> cap \<Longrightarrow> sat_add64 a b = a + b" for a b
    using assms(2) by (auto simp: sat_add64_def min_def)
  show ?thesis
    using assms sat
    by (cases p) (simp_all add: poll_next_def poll_inner_def stream_open_def Let_def)
qed

lemma stream_open_advance:
  assumes "stream_open cap s" "k \<le> cap"
  shows "stream_open cap (s\<lparr> st_inner := ps, st_seen := k \<rparr>)" "stream_open cap (s\<lparr> st_inner := ps \<rparr>)"
  using assms by (simp_all add: stream_open_def)

text \<open>What \<open>n\<close> polls of an open stream forward, and the callbacks they make.\<close>

lemma poll_n_open:
  assumes "stream_open cap s" "cap < 2 ^ 64 - 1"
  shows "if st_seen s + length (data_of (take n (st_inner s))) \<le> cap
         then data_of (fst (poll_n n s)) = data_of (take n (st_inner s)) \<and>
              st_callbacks (snd (poll_n n s)) = []
         else \<exists>mk. data_of (fst (poll_n n s)) =
                take (cap - st_seen s) (data_of (take n (st_inner s))) @ mk \<and>
              (mk = STREAM_TRUNCATION_MARKER \<or> mk = [] \<and> n \<le> length (st_inner s)) \<and>
              st_callbacks (snd (poll_n n s)) = [cap]"
  using assms(1)
proof (induction n arbitrary: s)
  case (Suc n)
  show ?case
  proof (cases "st_inner s")
    case Nil
    have "poll_next s = (Ready_None, s)"
      using Suc.prems Nil by (simp add: poll_next_def poll_inner_def stream_open_def)
    with Suc.IH [OF Suc.prems] Nil Suc.prems show ?thesis
      by (simp add: stream_open_def)
  next
    case (Cons p ps)
    note step = poll_next_open [OF Suc.prems assms(2) Cons]
    show ?thesis
    proof (cases "\<exists>chunk. p = Ready_Ok chunk")
      case False
      let ?s1 = "s\<lparr> st_inner := ps \<rparr>"
      have "poll_next s = (p, ?s1)" and nil: "(case p of Ready_Ok c \<Rightarrow> c | _ \<Rightarrow> []) = []"
        using step False by (cases p; simp)+
      moreover have "stream_open cap ?s1" using Suc.prems by (simp add: stream_open_def)
      ultimately show ?thesis
        using Suc.IH [of ?s1] Cons by (simp split: if_splits)
    next
      case True
      then obtain chunk where p: "p = Ready_Ok chunk" by blast
      show ?thesis
      proof (cases "st_seen s + length chunk \<le> cap")
        case fits: True
        let ?s1 = "s\<lparr> st_inner := ps, st_seen := st_seen s + length chunk \<rparr>"
        have "poll_next s = (p, ?s1)" using step p fits by simp
        moreover have "stream_open cap ?s1" using Suc.prems fits by (simp add: stream_open_def)
        ultimately show ?thesis
          using Suc.IH [of ?s1] Cons p fits
          by (auto simp: add.assoc split: if_splits)
      next
        case over: False
        let ?s1 = "fire_truncation (s\<lparr> st_inner := ps, st_seen := cap \<rparr>)"
        have nx: "poll_next s = (Ready_Ok (take (cap - st_seen s) chunk), ?s1)"
          using step p over by simp
        have s1: "st_truncated ?s1" "st_pending_marker ?s1 = Some STREAM_TRUNCATION_MARKER"
            "st_callbacks ?s1 = [cap]"
          using Suc.prems by (simp_all add: fire_truncation_def stream_open_def)
        have d: "data_of (fst (poll_n n ?s1)) = (if n = 0 then [] else STREAM_TRUNCATION_MARKER)"
            "st_callbacks (snd (poll_n n ?s1)) = [cap]"
          using poll_n_marker [OF s1(1,2), of n] s1(3) by simp_all
        have gt: "\<not> st_seen s + length (data_of (take (Suc n) (st_inner s))) \<le> cap"
          using over Cons p by simp
        show ?thesis
          unfolding if_not_P [OF gt]
          by (rule exI [of _ "if n = 0 then [] else STREAM_TRUNCATION_MARKER"])
             (use over in \<open>simp add: nx d Cons p\<close>)
      qed
    qed
  qed
qed (simp add: stream_open_def)

lemma redact_fold_none:
  assumes "\<forall>p \<in> set ps. re_find_iter re (cp_regex p) w = []"
  shows "fold (redact_one re cr) ps (w, rs) = (w, rs)"
  using assms by (induction ps) (auto simp: redact_one_def Let_def)

lemma redact_fold_records:
  "\<exists>new. snd (fold (redact_one re cr) ps (w, rs)) = rs @ new \<and>
         (new = [] \<longrightarrow> fst (fold (redact_one re cr) ps (w, rs)) = w) \<and>
         subseq (map rr_pattern_id new) (map cp_id ps) \<and> (\<forall>x \<in> set new. rr_matches x > 0)"
proof (induction ps arbitrary: w rs)
  case (Cons p ps)
  show ?case
  proof (cases "re_find_iter re (cp_regex p) w = []")
    case True
    then have "redact_one re cr p (w, rs) = (w, rs)" by (simp add: redact_one_def)
    with Cons.IH [of w rs] show ?thesis by (auto intro: list_emb_Cons)
  next
    case False
    let ?rec = "\<lparr> rr_pattern_id = cp_id p, rr_matches = length (re_find_iter re (cp_regex p) w),
                  rr_match_hash = cr_sha256_hex cr (concat (re_find_iter re (cp_regex p) w)) \<rparr>"
    let ?w = "re_replace_all re (cp_regex p) w (cp_replacement p)"
    have one: "redact_one re cr p (w, rs) = (?w, rs @ [?rec])"
      using False by (simp add: redact_one_def Let_def)
    from Cons.IH [of ?w "rs @ [?rec]"] obtain new where
      new: "snd (fold (redact_one re cr) ps (?w, rs @ [?rec])) = (rs @ [?rec]) @ new"
        "subseq (map rr_pattern_id new) (map cp_id ps)" "\<forall>x \<in> set new. rr_matches x > 0" by blast
    show ?thesis
      by (rule exI [of _ "?rec # new"]) (use new one False in simp)
  qed
qed simp

lemma stream_open_new: "stream_open cap (stream_new polls (Some cap))"
  by (simp add: stream_open_def stream_new_def)

text \<open>
  Property C30: the size-capped stream forwards exactly the allowed prefix.
  Polled to its end, the stream over any upstream body delivers the body
  unchanged and reports nothing when it fits the cap, and otherwise delivers
  exactly the first \<open>cap\<close> bytes followed by the truncation marker and reports
  the truncation once, however the body was cut into chunks.
\<close>

theorem capped_stream_exact:
  assumes "cap < 2 ^ 64 - 1" "length polls < n"
  shows "data_of (fst (poll_n n (stream_new polls (Some cap)))) =
           (if length (data_of polls) \<le> cap then data_of polls
            else take cap (data_of polls) @ STREAM_TRUNCATION_MARKER) \<and>
         st_callbacks (snd (poll_n n (stream_new polls (Some cap)))) =
           (if length (data_of polls) \<le> cap then [] else [cap])"
  using poll_n_open [OF stream_open_new [of cap polls] assms(1), where n = n] assms(2)
  by (auto simp: stream_new_def split: if_splits)

theorem capped_stream_exact_witness:
  "data_of (fst (poll_n 4 (stream_new [Ready_Ok ''abc'', Pending, Ready_Ok ''def''] (Some 4)))) =
     ''abcd'' @ STREAM_TRUNCATION_MARKER"
  using capped_stream_exact [of 4 "[Ready_Ok ''abc'', Pending, Ready_Ok ''def'']" 4] by simp

text \<open>
  At no moment does a capped stream exceed its bound.  After any
  number of polls the bytes handed to the agent are at most the cap plus the
  length of the truncation marker.
\<close>

theorem capped_stream_bound:
  assumes "cap < 2 ^ 64 - 1"
  shows "length (data_of (fst (poll_n n (stream_new polls (Some cap))))) \<le>
         cap + length STREAM_TRUNCATION_MARKER"
  using poll_n_open [OF stream_open_new [of cap polls] assms, where n = n]
  by (auto simp: stream_new_def split: if_splits)

theorem capped_stream_bound_witness:
  "length (data_of (fst (poll_n 9 (stream_new [Ready_Ok ''abcdef''] (Some 2))))) \<le>
     2 + length STREAM_TRUNCATION_MARKER"
  using capped_stream_bound [of 2 9] by simp



end
