(* ===== verification/Client_Pool.thy ===== *)
theory Client_Pool
  imports Config
begin

text \<open>
  The per-tool HTTP client cache, \<open>src/client_pool.rs\<close>.  A client is the record
  of the options it was built with; reading the CA bundle, accepting a
  certificate or a proxy URL and the builder's own success are the record
  \<open>ClientIo\<close>.
\<close>

section \<open>Definitions\<close>

record ToolFingerprint =
  fp_request_seconds :: nat
  fp_idle_seconds :: nat
  fp_egress :: EgressMode
  fp_egress_proxy_url :: "string option"
  fp_follow_redirects :: bool

record HttpClient =
  hc_timeouts :: "ToolTimeouts option"
  hc_follow_redirects :: bool
  hc_extra_roots :: "string list"
  hc_proxy :: "string option"

record ClientIo =
  ci_read :: "string \<Rightarrow> string option"
  ci_cert_ok :: "string \<Rightarrow> bool"
  ci_proxy_ok :: "string \<Rightarrow> bool"
  ci_build_ok :: "HttpClient \<Rightarrow> bool"

type_synonym ClientPool = "string \<rightharpoonup> HttpClient \<times> ToolFingerprint"

definition of_parts :: "string \<Rightarrow> ToolTimeouts \<Rightarrow> EgressMode \<Rightarrow> AppConfig \<Rightarrow> ToolFingerprint" where
  "of_parts name timeouts egress cfg =
     \<lparr> fp_request_seconds = to_request_seconds timeouts,
       fp_idle_seconds = to_idle_seconds timeouts,
       fp_egress = egress,
       fp_egress_proxy_url = (if egress = Proxied then ac_egress_proxy cfg else None),
       fp_follow_redirects =
         (\<not> list_ex (\<lambda>t. tc_name t = name \<and> tc_request_allowlist t \<noteq> None) (ac_tools cfg)) \<rparr>"

definition fingerprint_of :: "ToolConfig \<Rightarrow> AppConfig \<Rightarrow> ToolFingerprint" where
  "fingerprint_of tool cfg =
     (let fp = of_parts (tc_name tool) (tc_timeouts tool) (tc_egress tool) cfg in
      fp\<lparr> fp_follow_redirects := fp_follow_redirects fp \<and> tc_request_allowlist tool = None \<rparr>)"

text \<open>The PEM splitter: the accumulator is \<open>(certs, current, in_cert)\<close>.\<close>

definition pem_line :: "string \<Rightarrow> string list \<times> string \<times> bool \<Rightarrow> string list \<times> string \<times> bool" where
  "pem_line line acc =
     (case acc of (certs, current, in_cert) \<Rightarrow>
        (let starts = contains_str ''BEGIN CERTIFICATE'' line;
             current1 = (if starts then [] else current);
             in1 = (starts \<or> in_cert);
             current2 = (if in1 then current1 @ line @ [CHR 0x0A] else current1)
         in if contains_str ''END CERTIFICATE'' line then (certs @ [current2], current2, False)
            else (certs, current2, in1)))"

definition split_pem_certificates :: "string \<Rightarrow> string list" where
  "split_pem_certificates pem = fst (fold pem_line (text_lines pem) ([], [], False))"

definition add_ca_bundle :: "ClientIo \<Rightarrow> string \<Rightarrow> HttpClient \<Rightarrow> HttpClient" where
  "add_ca_bundle io path builder =
     (case ci_read io path of
        None \<Rightarrow> builder
      | Some pem \<Rightarrow> builder\<lparr> hc_extra_roots :=
          hc_extra_roots builder @ filter (ci_cert_ok io) (split_pem_certificates pem) \<rparr>)"

definition build_client_for ::
  "ClientIo \<Rightarrow> ToolTimeouts \<Rightarrow> EgressMode \<Rightarrow> AppConfig \<Rightarrow> bool \<Rightarrow> HttpClient" where
  "build_client_for io timeouts egress cfg follow =
     (let b0 = \<lparr> hc_timeouts = Some timeouts, hc_follow_redirects = follow,
                 hc_extra_roots = [], hc_proxy = None \<rparr>;
          b1 = (case ac_upstream_ca_bundle cfg of Some p \<Rightarrow> add_ca_bundle io p b0 | None \<Rightarrow> b0);
          b2 = (case ac_egress_proxy cfg of
                  Some u \<Rightarrow> if egress = Proxied \<and> ci_proxy_ok io u then b1\<lparr> hc_proxy := Some u \<rparr> else b1
                | None \<Rightarrow> b1)
      in if ci_build_ok io b2 then b2
         else \<lparr> hc_timeouts = None, hc_follow_redirects = follow, hc_extra_roots = [], hc_proxy = None \<rparr>)"

definition get_or_build_for ::
  "ClientIo \<Rightarrow> string \<Rightarrow> ToolTimeouts \<Rightarrow> EgressMode \<Rightarrow> AppConfig \<Rightarrow> ClientPool \<Rightarrow> ClientPool \<times> HttpClient" where
  "get_or_build_for io name timeouts egress cfg pool =
     (let fp = of_parts name timeouts egress cfg;
          fresh = build_client_for io timeouts egress cfg (fp_follow_redirects fp)
      in case pool name of
           Some (client, cached) \<Rightarrow>
             if cached = fp then (pool, client) else (pool(name \<mapsto> (fresh, fp)), fresh)
         | None \<Rightarrow> (pool(name \<mapsto> (fresh, fp)), fresh))"

definition get_or_build ::
  "ClientIo \<Rightarrow> ToolConfig \<Rightarrow> AppConfig \<Rightarrow> ClientPool \<Rightarrow> ClientPool \<times> HttpClient" where
  "get_or_build io tool cfg pool =
     (let fp = fingerprint_of tool cfg;
          fresh = build_client_for io (tc_timeouts tool) (tc_egress tool) cfg (fp_follow_redirects fp)
      in case pool (tc_name tool) of
           Some (client, cached) \<Rightarrow>
             if cached = fp then (pool, client) else (pool(tc_name tool \<mapsto> (fresh, fp)), fresh)
         | None \<Rightarrow> (pool(tc_name tool \<mapsto> (fresh, fp)), fresh))"

definition cleanup_removed :: "string list \<Rightarrow> ClientPool \<Rightarrow> ClientPool" where
  "cleanup_removed keep pool = (\<lambda>n. if n \<in> set keep then pool n else None)"

section \<open>Lemmas\<close>

text \<open>
  Every cached client is the one its fingerprint would build under the running
  configuration.
\<close>

definition client_of_fp :: "ClientIo \<Rightarrow> AppConfig \<Rightarrow> ToolFingerprint \<Rightarrow> HttpClient" where
  "client_of_fp io cfg fp =
     build_client_for io \<lparr> to_request_seconds = fp_request_seconds fp, to_idle_seconds = fp_idle_seconds fp \<rparr>
       (fp_egress fp) cfg (fp_follow_redirects fp)"

definition pool_inv :: "ClientIo \<Rightarrow> AppConfig \<Rightarrow> ClientPool \<Rightarrow> bool" where
  "pool_inv io cfg pool \<longleftrightarrow> (\<forall>n c fp. pool n = Some (c, fp) \<longrightarrow> c = client_of_fp io cfg fp)"

lemma client_of_parts:
  "client_of_fp io cfg (of_parts name to eg cfg) =
   build_client_for io to eg cfg (fp_follow_redirects (of_parts name to eg cfg))"
  by (cases to) (simp add: client_of_fp_def of_parts_def)

lemma pool_inv_empty [simp]: "pool_inv io cfg Map.empty"
  by (simp add: pool_inv_def)

lemma get_or_build_for_fresh:
  assumes "pool_inv io cfg pool"
  shows "snd (get_or_build_for io name to eg cfg pool) =
           build_client_for io to eg cfg (fp_follow_redirects (of_parts name to eg cfg))"
    and "pool_inv io cfg (fst (get_or_build_for io name to eg cfg pool))"
  using assms
  by (auto simp: get_or_build_for_def Let_def pool_inv_def client_of_parts [symmetric] split: option.splits)

lemma build_client_follow [simp]: "hc_follow_redirects (build_client_for io to eg cfg follow) = follow"
  by (simp add: build_client_for_def Let_def add_ca_bundle_def split: option.splits)

lemma pool_inv_cleanup: "pool_inv io cfg pool \<Longrightarrow> pool_inv io cfg (cleanup_removed keep pool)"
  by (simp add: pool_inv_def cleanup_removed_def)

section \<open>Properties\<close>

lemma get_or_build_inv:
  assumes "pool_inv io cfg pool"
  shows "pool_inv io cfg (fst (get_or_build io tool cfg pool))"
proof -
  let ?fp = "fingerprint_of tool cfg"
  have "client_of_fp io cfg ?fp =
        build_client_for io (tc_timeouts tool) (tc_egress tool) cfg (fp_follow_redirects ?fp)"
    by (cases "tc_timeouts tool") (simp add: client_of_fp_def fingerprint_of_def of_parts_def Let_def)
  with assms show ?thesis
    by (auto simp: get_or_build_def Let_def pool_inv_def split: option.splits)
qed

text \<open>The calls that reach the pool while one configuration runs.\<close>

datatype pool_call = Fetch string ToolTimeouts EgressMode | FetchTool ToolConfig | Cleanup "string list"

fun pool_run :: "ClientIo \<Rightarrow> AppConfig \<Rightarrow> ClientPool \<Rightarrow> pool_call \<Rightarrow> ClientPool" where
  "pool_run io cfg pool (Fetch n to eg) = fst (get_or_build_for io n to eg cfg pool)"
| "pool_run io cfg pool (FetchTool tool) = fst (get_or_build io tool cfg pool)"
| "pool_run io cfg pool (Cleanup keep) = cleanup_removed keep pool"

lemma pool_run_inv: "pool_inv io cfg pool \<Longrightarrow> pool_inv io cfg (foldl (pool_run io cfg) pool calls)"
proof (induction calls arbitrary: pool)
  case (Cons c calls)
  have "pool_inv io cfg (pool_run io cfg pool c)"
    using Cons.prems
    by (cases c) (simp_all add: get_or_build_for_fresh get_or_build_inv pool_inv_cleanup)
  then show ?case using Cons.IH by simp
qed simp


end
