(* ===== verification/Request.thy ===== *)
theory Request
  imports Agent_Auth
begin

text \<open>
  An HTTP request as the handlers of the agent listener see it: the request
  line, the headers, the body (\<open>None\<close> when reading it fails) and the
  extensions, which are the peer certificate the TLS listener records and the
  marks the authentication middleware stamps (\<open>AuthenticatedAs\<close> of
  \<open>src/auth.rs\<close> and the agent identity).
\<close>

datatype AuthenticatedAs = AsBearer | AsMtls

record Request =
  rq_method :: string
  rq_path :: string
  rq_query :: "string option"
  rq_headers :: headers
  rq_body :: "string option"
  rq_peer_cert :: "string option"
  rq_auth :: "AuthenticatedAs option"
  rq_identity :: "AgentIdentity option"

text \<open>\<open>axum::body::to_bytes\<close>: fails beyond the limit.\<close>

definition to_bytes :: "nat \<Rightarrow> Request \<Rightarrow> string option" where
  "to_bytes limit req =
     (case rq_body req of
        Some b \<Rightarrow> if length b \<le> limit then Some b else None
      | None \<Rightarrow> None)"

text \<open>A header value that \<open>to_str\<close> accepts.\<close>

definition header_str :: "string \<Rightarrow> Request \<Rightarrow> string option" where
  "header_str n req = Option.bind (hdr_get n (rq_headers req)) hdr_to_str"

end
