(* ===== verification/Codex_Body.thy ===== *)
theory Codex_Body
  imports Prelude
begin

text \<open>
  The rewrite of a request body sent to the codex \<open>/responses\<close> endpoint,
  \<open>src/codex_body.rs\<close>.  The JSON reader and writer (\<open>serde_json\<close>) are the
  record \<open>JsonCodec\<close>.
\<close>

section \<open>Definitions\<close>

record JsonCodec =
  jx_parse :: "string \<Rightarrow> json option"
  jx_print :: "json \<Rightarrow> string"

definition MAX_BODY_BYTES :: nat where
  "MAX_BODY_BYTES = 1024 * 1024"

definition DEFAULT_INSTRUCTIONS :: string where
  "DEFAULT_INSTRUCTIONS = ''You are a helpful assistant.''"

datatype CodexBodyError = TooLarge

record FixupSummary =
  fx_added :: "string list"
  fx_overridden :: "string list"
  fx_removed :: "string list"

definition default_summary :: FixupSummary where
  "default_summary = \<lparr> fx_added = [], fx_overridden = [], fx_removed = [] \<rparr>"

definition is_noop :: "FixupSummary \<Rightarrow> bool" where
  "is_noop s \<longleftrightarrow> fx_added s = [] \<and> fx_overridden s = [] \<and> fx_removed s = []"

type_synonym fixup_acc = "(string \<times> json) list \<times> FixupSummary"

definition apply_store_rule :: "fixup_acc \<Rightarrow> fixup_acc" where
  "apply_store_rule acc =
     (case acc of (m, s) \<Rightarrow>
        (case obj_get ''store'' m of
           Some v \<Rightarrow>
             if v = JBool False then (m, s)
             else (obj_insert ''store'' (JBool False) m, s\<lparr> fx_overridden := fx_overridden s @ [''store''] \<rparr>)
         | None \<Rightarrow> (obj_insert ''store'' (JBool False) m, s\<lparr> fx_added := fx_added s @ [''store''] \<rparr>)))"

definition apply_stream_rule :: "fixup_acc \<Rightarrow> fixup_acc" where
  "apply_stream_rule acc =
     (case acc of (m, s) \<Rightarrow>
        (case obj_get ''stream'' m of
           Some v \<Rightarrow>
             if v = JBool True then (m, s)
             else (obj_insert ''stream'' (JBool True) m, s\<lparr> fx_overridden := fx_overridden s @ [''stream''] \<rparr>)
         | None \<Rightarrow> (obj_insert ''stream'' (JBool True) m, s\<lparr> fx_added := fx_added s @ [''stream''] \<rparr>)))"

definition apply_instructions_rule :: "fixup_acc \<Rightarrow> fixup_acc" where
  "apply_instructions_rule acc =
     (case acc of (m, s) \<Rightarrow>
        if obj_get ''instructions'' m = None
        then (obj_insert ''instructions'' (JStr DEFAULT_INSTRUCTIONS) m,
              s\<lparr> fx_added := fx_added s @ [''instructions''] \<rparr>)
        else (m, s))"

definition apply_max_output_tokens_rule :: "fixup_acc \<Rightarrow> fixup_acc" where
  "apply_max_output_tokens_rule acc =
     (case acc of (m, s) \<Rightarrow>
        if obj_get ''max_output_tokens'' m \<noteq> None
        then (obj_remove ''max_output_tokens'' m,
              s\<lparr> fx_removed := fx_removed s @ [''max_output_tokens''] \<rparr>)
        else (m, s))"

definition fixup_object :: "(string \<times> json) list \<Rightarrow> fixup_acc" where
  "fixup_object m =
     apply_max_output_tokens_rule (apply_instructions_rule (apply_stream_rule
       (apply_store_rule (m, default_summary))))"

definition fixup :: "JsonCodec \<Rightarrow> string \<Rightarrow> (CodexBodyError, string \<times> FixupSummary) result" where
  "fixup jx bd =
     (if length bd > MAX_BODY_BYTES then Inl TooLarge
      else (case jx_parse jx bd of
              Some (JObj m) \<Rightarrow>
                (case fixup_object m of (m1, s) \<Rightarrow>
                   if is_noop s then Inr (bd, s) else Inr (jx_print jx (JObj m1), s))
            | _ \<Rightarrow> Inr (bd, default_summary)))"

section \<open>Lemmas\<close>

text \<open>What codex requires of an object.\<close>

definition codex_ready :: "(string \<times> json) list \<Rightarrow> bool" where
  "codex_ready m \<longleftrightarrow> obj_get ''store'' m = Some (JBool False) \<and> obj_get ''stream'' m = Some (JBool True) \<and>
     obj_get ''instructions'' m \<noteq> None \<and> obj_get ''max_output_tokens'' m = None"

lemma default_summary_noop [simp]: "is_noop default_summary"
  by (simp add: is_noop_def default_summary_def)

lemmas fixup_rule_defs = apply_store_rule_def apply_stream_rule_def apply_instructions_rule_def
  apply_max_output_tokens_rule_def

lemma store_rule:
  "obj_get k (fst (apply_store_rule (m, s))) = (if k = ''store'' then Some (JBool False) else obj_get k m)"
  "is_noop (snd (apply_store_rule (m, s))) \<longleftrightarrow> is_noop s \<and> obj_get ''store'' m = Some (JBool False)"
  by (auto simp: apply_store_rule_def is_noop_def obj_get_insert_other split: option.splits)

lemma stream_rule:
  "obj_get k (fst (apply_stream_rule (m, s))) = (if k = ''stream'' then Some (JBool True) else obj_get k m)"
  "is_noop (snd (apply_stream_rule (m, s))) \<longleftrightarrow> is_noop s \<and> obj_get ''stream'' m = Some (JBool True)"
  by (auto simp: apply_stream_rule_def is_noop_def obj_get_insert_other split: option.splits)

lemma instructions_rule:
  "obj_get k (fst (apply_instructions_rule (m, s))) =
     (if k = ''instructions'' \<and> obj_get k m = None then Some (JStr DEFAULT_INSTRUCTIONS) else obj_get k m)"
  "is_noop (snd (apply_instructions_rule (m, s))) \<longleftrightarrow> is_noop s \<and> obj_get ''instructions'' m \<noteq> None"
  by (auto simp: apply_instructions_rule_def is_noop_def obj_get_insert_other split: option.splits)

lemma max_output_tokens_rule:
  "obj_get k (fst (apply_max_output_tokens_rule (m, s))) =
     (if k = ''max_output_tokens'' then None else obj_get k m)"
  "is_noop (snd (apply_max_output_tokens_rule (m, s))) \<longleftrightarrow>
     is_noop s \<and> obj_get ''max_output_tokens'' m = None"
  by (auto simp: apply_max_output_tokens_rule_def is_noop_def obj_get_remove_other)

lemmas fixup_rules = store_rule stream_rule instructions_rule max_output_tokens_rule

lemma fixup_object_stages:
  obtains m1 s1 m2 s2 m3 s3 where
    "apply_store_rule (m, default_summary) = (m1, s1)" "apply_stream_rule (m1, s1) = (m2, s2)"
    "apply_instructions_rule (m2, s2) = (m3, s3)" "fixup_object m = apply_max_output_tokens_rule (m3, s3)"
  unfolding fixup_object_def by (metis surj_pair)

lemma fixup_object_get:
  "obj_get k (fst (fixup_object m)) =
     (if k = ''store'' then Some (JBool False)
      else if k = ''stream'' then Some (JBool True)
      else if k = ''max_output_tokens'' then None
      else if k = ''instructions'' \<and> obj_get k m = None then Some (JStr DEFAULT_INSTRUCTIONS)
      else obj_get k m)"
proof (rule fixup_object_stages [of m])
  fix m1 s1 m2 s2 m3 s3
  assume st: "apply_store_rule (m, default_summary) = (m1, s1)" "apply_stream_rule (m1, s1) = (m2, s2)"
    "apply_instructions_rule (m2, s2) = (m3, s3)" "fixup_object m = apply_max_output_tokens_rule (m3, s3)"
  have e: "obj_get k m1 = (if k = ''store'' then Some (JBool False) else obj_get k m)"
      "obj_get k m2 = (if k = ''stream'' then Some (JBool True) else obj_get k m1)"
      "obj_get k m3 = (if k = ''instructions'' \<and> obj_get k m2 = None
                       then Some (JStr DEFAULT_INSTRUCTIONS) else obj_get k m2)"
      "obj_get k (fst (fixup_object m)) = (if k = ''max_output_tokens'' then None else obj_get k m3)"
    using store_rule(1) [of k m default_summary] stream_rule(1) [of k m1 s1]
      instructions_rule(1) [of k m2 s2] max_output_tokens_rule(1) [of k m3 s3]
    unfolding st by simp_all
  show ?thesis unfolding e by (cases "k = ''instructions''") simp_all
qed

lemma fixup_object_ready: "codex_ready (fst (fixup_object m))"
  by (auto simp: codex_ready_def fixup_object_get)

lemma fixup_object_noop_iff: "is_noop (snd (fixup_object m)) \<longleftrightarrow> codex_ready m"
proof (rule fixup_object_stages [of m])
  fix m1 s1 m2 s2 m3 s3
  assume st: "apply_store_rule (m, default_summary) = (m1, s1)" "apply_stream_rule (m1, s1) = (m2, s2)"
    "apply_instructions_rule (m2, s2) = (m3, s3)" "fixup_object m = apply_max_output_tokens_rule (m3, s3)"
  have g: "obj_get ''stream'' m1 = obj_get ''stream'' m" "obj_get ''instructions'' m2 = obj_get ''instructions'' m"
      "obj_get ''max_output_tokens'' m3 = obj_get ''max_output_tokens'' m"
    using store_rule(1) [of _ m default_summary] stream_rule(1) [of _ m1 s1]
      instructions_rule(1) [of _ m2 s2] st by simp_all
  have "is_noop default_summary" by (simp add: is_noop_def default_summary_def)
  then show ?thesis
    using store_rule(2) [of m default_summary] stream_rule(2) [of m1 s1]
      instructions_rule(2) [of m2 s2] max_output_tokens_rule(2) [of m3 s3] st g
    by (simp add: codex_ready_def)
qed

lemma fixup_object_noop: "codex_ready m \<Longrightarrow> fixup_object m = (m, default_summary)"
  by (auto simp: fixup_object_def fixup_rule_defs codex_ready_def)

lemma fixup_ready:
  assumes "length bd \<le> MAX_BODY_BYTES" "jx_parse jx bd = Some (JObj m)" "codex_ready m"
  shows "fixup jx bd = Inr (bd, default_summary)"
  using assms by (simp add: fixup_def fixup_object_noop is_noop_def default_summary_def)

text \<open>
  Property C32: what the codex rewrite does to a body.  A body over the limit is
  refused; a body that is not a JSON object passes byte for byte; an object that
  already meets the endpoint's demands passes byte for byte; any other object is
  printed anew with \<open>store\<close> false, \<open>stream\<close> true, no \<open>max_output_tokens\<close>, its own
  instructions or the default ones, and every other member as it was.
\<close>

theorem codex_fixup_spec:
  "fixup jx bd =
     (if length bd > MAX_BODY_BYTES then Inl TooLarge
      else case jx_parse jx bd of
             Some (JObj m) \<Rightarrow>
               if codex_ready m then Inr (bd, default_summary)
               else Inr (jx_print jx (JObj (fst (fixup_object m))), snd (fixup_object m))
           | _ \<Rightarrow> Inr (bd, default_summary)) \<and>
   codex_ready (fst (fixup_object m)) \<and>
   obj_get ''instructions'' (fst (fixup_object m)) =
     (case obj_get ''instructions'' m of Some v \<Rightarrow> Some v | None \<Rightarrow> Some (JStr DEFAULT_INSTRUCTIONS)) \<and>
   (k \<notin> {''store'', ''stream'', ''instructions'', ''max_output_tokens''} \<longrightarrow>
      obj_get k (fst (fixup_object m)) = obj_get k m)"
proof (intro conjI)
  show "fixup jx bd =
     (if length bd > MAX_BODY_BYTES then Inl TooLarge
      else case jx_parse jx bd of
             Some (JObj m) \<Rightarrow>
               if codex_ready m then Inr (bd, default_summary)
               else Inr (jx_print jx (JObj (fst (fixup_object m))), snd (fixup_object m))
           | _ \<Rightarrow> Inr (bd, default_summary))"
  proof (cases "\<exists>m. jx_parse jx bd = Some (JObj m)")
    case True
    then obtain m where m: "jx_parse jx bd = Some (JObj m)" by blast
    obtain m1 s where f: "fixup_object m = (m1, s)" by fastforce
    show ?thesis
      using fixup_object_noop_iff [of m] fixup_object_noop [of m] f m
      by (auto simp: fixup_def is_noop_def default_summary_def)
  qed (auto simp: fixup_def split: option.splits json.splits)
qed (auto simp: fixup_object_ready fixup_object_get split: option.splits)

theorem codex_fixup_spec_witness:
  "obj_get ''model'' (fst (fixup_object [(''model'', JStr ''m''), (''stream'', JBool False)])) = Some (JStr ''m'')"
  using codex_fixup_spec [of "\<lparr> jx_parse = (\<lambda>_. None), jx_print = (\<lambda>_. []) \<rparr>" "[]"
      "[(''model'', JStr ''m''), (''stream'', JBool False)]" "''model''"]
  by (simp add: obj_get_def)

text \<open>
  The codex rewrite is idempotent.  If the JSON library reads back
  a printed object with the members it had, then rewriting a rewritten body
  that is still within the limit changes nothing more.
\<close>

theorem codex_fixup_idempotent:
  assumes "jx_parse jx bd = Some (JObj m)" "fixup jx bd = Inr (out, s)" "length out \<le> MAX_BODY_BYTES"
    and "jx_parse jx (jx_print jx (JObj (fst (fixup_object m)))) = Some (JObj m')"
    and "\<forall>k. obj_get k m' = obj_get k (fst (fixup_object m))"
  shows "fixup jx out = Inr (out, default_summary)"
proof (cases "codex_ready m")
  case True
  with assms(1,2) have "out = bd"
    by (auto simp: fixup_def fixup_object_noop split: if_splits)
  with True assms(1,3) show ?thesis by (simp add: fixup_ready)
next
  case False
  then have "\<not> is_noop (snd (fixup_object m))" by (simp add: fixup_object_noop_iff)
  with assms(1,2) have "out = jx_print jx (JObj (fst (fixup_object m)))"
    by (auto simp: fixup_def split: if_splits prod.splits)
  moreover have "codex_ready m'"
    using fixup_object_ready [of m] assms(5) by (simp add: codex_ready_def)
  ultimately show ?thesis using assms(3,4) by (simp add: fixup_ready)
qed

definition toy_codec :: JsonCodec where
  "toy_codec =
     \<lparr> jx_parse = (\<lambda>s. if s = ''{}'' then Some (JObj []) else Some (JObj (fst (fixup_object [])))),
       jx_print = (\<lambda>_. ''{p}'') \<rparr>"

theorem codex_fixup_idempotent_witness:
  "fixup toy_codec ''{}'' \<noteq> Inr (''{}'', default_summary) \<and>
   fixup toy_codec ''{p}'' = Inr (''{p}'', default_summary)"
proof -
  have nr: "\<not> codex_ready []" by (simp add: codex_ready_def obj_get_def)
  have p: "jx_parse toy_codec ''{}'' = Some (JObj [])"
    "jx_parse toy_codec (jx_print toy_codec j) = Some (JObj (fst (fixup_object [])))" for j
    by (simp_all add: toy_codec_def)
  have f: "fixup toy_codec ''{}'' = Inr (''{p}'', snd (fixup_object []))"
    using nr fixup_object_noop_iff [of "[]"] p
    by (auto simp: fixup_def MAX_BODY_BYTES_def toy_codec_def split: prod.splits)
  have "fixup toy_codec ''{p}'' = Inr (''{p}'', default_summary)"
    by (rule codex_fixup_idempotent [OF p(1) f _ p(2)]) (simp_all add: MAX_BODY_BYTES_def)
  with f show ?thesis by simp
qed

end
