(* ===== verification/Kamiwaza.thy ===== *)
theory Kamiwaza
  imports Request Codex_Body Config "HOL-Library.List_Lexorder" "HOL-Library.Char_ord"
begin

text \<open>
  The Kamiwaza provider, \<open>src/kamiwaza.rs\<close>: extension discovery, the MCP
  exchanges, the delegation token, the tool catalog cache and the proxy
  fallback that invokes a discovered tool.

  The remote side is \<open>kz_http\<close>, the reply to the last request of the history of
  requests sent so far; \<open>KzWorld\<close> keeps that history and the catalog cache.
  Extensions are probed in list order (the code's completion order only shows
  among tools with equal slugs).  Text that a library error would add to a
  message is left out.  Lower-casing is that of ASCII.
\<close>

section \<open>Definitions\<close>

definition MCP_PROTOCOL_VERSION :: string where
  "MCP_PROTOCOL_VERSION = ''2025-03-26''"

definition DEFAULT_API_URL_CANDIDATES :: "string list" where
  "DEFAULT_API_URL_CANDIDATES =
     [''https://localhost/api'', ''https://host.docker.internal/api'', ''https://traefik/api'']"

record KamiwazaTool =
  kt_slug :: string
  kt_extension_name :: string
  kt_mcp_url :: string
  kt_tool_name :: string
  kt_description :: "string option"
  kt_input_schema :: "json option"

datatype KamiwazaError =
    KzDisabled
  | MissingToken
  | MissingDelegationSigningSecret
  | MissingAgentIdentity
  | KzRequestError string
  | KzProtocol string

fun kz_display :: "KamiwazaError \<Rightarrow> string" where
  "kz_display KzDisabled = ''Kamiwaza provider is disabled''"
| "kz_display MissingToken = ''Kamiwaza provider has no API token configured''"
| "kz_display MissingDelegationSigningSecret =
     ''Kamiwaza delegated identity is enabled but no signing secret is configured''"
| "kz_display MissingAgentIdentity =
     ''Kamiwaza delegated identity is required but no authenticated agent identity is available''"
| "kz_display (KzRequestError m) = ''Kamiwaza request failed: '' @ m"
| "kz_display (KzProtocol m) = ''Kamiwaza MCP protocol error: '' @ m"

record ExtensionServiceStatus =
  xs_ready :: bool
  xs_available_replicas :: nat

record ExtensionResponse =
  xr_name :: string
  xr_type :: "string option"
  xr_phase :: "string option"
  xr_services :: "ExtensionServiceStatus list"
  xr_endpoints :: "(string option \<times> string option) option"

record KzClient =
  kl_timeout :: nat
  kl_verify_tls :: bool
  kl_proxy :: "string option"

record KzRequest =
  kq_client :: KzClient
  kq_method :: string
  kq_url :: string
  kq_headers :: headers
  kq_json :: "json option"

datatype KzReply = KzFail | KzReply nat headers "string option"

record KzEnv =
  kz_env :: "string \<Rightarrow> string option"
  kz_http :: "KzRequest list \<Rightarrow> KzReply"
  kz_now :: int
  kz_json :: JsonCodec
  kz_b64 :: "string \<Rightarrow> string"
  kz_hmac :: "string \<Rightarrow> string \<Rightarrow> string"
  kz_header_name_ok :: "string \<Rightarrow> bool"
  kz_proxy_ok :: "string \<Rightarrow> bool"
  kz_client_ok :: "KzClient \<Rightarrow> bool"
  kz_version :: string

record KzWorld =
  kw_sent :: "KzRequest list"
  kw_cache :: "(int \<times> KamiwazaTool list) option"

type_synonym 'a kz = "KzWorld \<Rightarrow> KzWorld \<times> (KamiwazaError, 'a) result"

definition kz_bind :: "'a kz \<Rightarrow> ('a \<Rightarrow> 'b kz) \<Rightarrow> 'b kz" where
  "kz_bind m f w = (case m w of (w', Inl e) \<Rightarrow> (w', Inl e) | (w', Inr a) \<Rightarrow> f a w')"

definition kz_lift :: "(KamiwazaError, 'a) result \<Rightarrow> 'a kz" where
  "kz_lift r w = (w, r)"

definition trim_nonempty :: "string \<Rightarrow> string option" where
  "trim_nonempty v = (let t = trim v in if t = [] then None else Some t)"

definition first_some :: "'a option \<Rightarrow> 'a option \<Rightarrow> 'a option" where
  "first_some a b = (case a of Some x \<Rightarrow> Some x | None \<Rightarrow> b)"

definition api_token :: "KzEnv \<Rightarrow> KamiwazaConfig \<Rightarrow> string option" where
  "api_token env kc =
     first_some (Option.bind (kc_api_token kc) trim_nonempty)
                (Option.bind (kz_env env ''KAMIWAZA_API_KEY'') trim_nonempty)"

definition delegation_signing_secret :: "KzEnv \<Rightarrow> KamiwazaDelegationConfig \<Rightarrow> string option" where
  "delegation_signing_secret env kd =
     first_some (Option.bind (kd_signing_secret kd) trim_nonempty)
                (Option.bind (kz_env env ''KAMIWAZA_DELEGATION_SIGNING_SECRET'') trim_nonempty)"

subsection \<open>The delegation token\<close>

definition jwt_segment :: "KzEnv \<Rightarrow> json \<Rightarrow> string" where
  "jwt_segment env v = kz_b64 env (jx_print (kz_json env) v)"

definition build_delegation_jwt ::
  "KzEnv \<Rightarrow> KamiwazaDelegationConfig \<Rightarrow> AgentIdentity \<Rightarrow> KamiwazaTool \<Rightarrow> string \<Rightarrow> string" where
  "build_delegation_jwt env kd ident tool secret =
     (let issued_at = nat (secs_of (kz_now env));
          expires_at = sat_add64 issued_at (kd_ttl_seconds kd);
          header = JObj [(''alg'', JStr ''HS256''), (''typ'', JStr ''JWT'')];
          claims = JObj [(''iss'', JStr (kd_issuer kd)), (''aud'', JStr (kd_audience kd)),
                         (''sub'', JStr (ai_public_id ident)), (''agent_id'', JNum (ai_id ident)),
                         (''agent_name'', JStr (ai_name ident)), (''iat'', JNum (int issued_at)),
                         (''exp'', JNum (int expires_at)), (''scope'', JStr ''kamiwaza.tool.invoke''),
                         (''tool'', JStr (kt_slug tool)), (''extension'', JStr (kt_extension_name tool)),
                         (''mcp_tool'', JStr (kt_tool_name tool))];
          signing_input = jwt_segment env header @ ''.'' @ jwt_segment env claims
      in signing_input @ ''.'' @ kz_b64 env (kz_hmac env secret signing_input))"

definition build_delegation_header ::
  "KzEnv \<Rightarrow> KamiwazaConfig \<Rightarrow> AgentIdentity option \<Rightarrow> KamiwazaTool
    \<Rightarrow> (KamiwazaError, (string \<times> string) option) result" where
  "build_delegation_header env kc identity tool =
     (let kd = kc_delegation kc; secret = delegation_signing_secret env kd in
      if \<not> (kd_enabled kd \<or> kd_required kd \<or> secret \<noteq> None) then Inr None
      else (case identity of
              None \<Rightarrow> if kd_required kd then Inl MissingAgentIdentity else Inr None
            | Some ident \<Rightarrow>
                (case secret of
                   None \<Rightarrow> Inl MissingDelegationSigningSecret
                 | Some sec \<Rightarrow>
                     (let jwt = build_delegation_jwt env kd ident tool sec in
                      if \<not> kz_header_name_ok env (kd_header kd)
                      then Inl (KzProtocol ''invalid delegation header: '')
                      else if hdr_to_str (''Bearer '' @ jwt) = None
                      then Inl (KzProtocol ''invalid delegation header value: '')
                      else Inr (Some (to_lower (kd_header kd), ''Bearer '' @ jwt))))))"

subsection \<open>Endpoints and names\<close>

definition api_url_candidates :: "KzEnv \<Rightarrow> KamiwazaConfig \<Rightarrow> string list" where
  "api_url_candidates env kc =
     (case Option.bind (kc_api_url kc) trim_nonempty of
        Some v \<Rightarrow> [v]
      | None \<Rightarrow>
          (case List.map_filter (\<lambda>n. Option.bind (kz_env env n) trim_nonempty)
                  [''KAMIWAZA_API_URL'', ''KAMIWAZA_API_URI'', ''KAMIWAZA_BASE_URL'', ''KAMIWAZA_BASE_URI''] of
             v # _ \<Rightarrow> [v]
           | [] \<Rightarrow>
               (let configured = List.map_filter trim_nonempty (kc_api_url_candidates kc) in
                if configured \<noteq> [] then configured else DEFAULT_API_URL_CANDIDATES)))"

definition build_client :: "KzEnv \<Rightarrow> AppConfig \<Rightarrow> KamiwazaConfig \<Rightarrow> (KamiwazaError, KzClient) result" where
  "build_client env cfg kc =
     (let c = \<lparr> kl_timeout = kc_timeout_seconds kc, kl_verify_tls = kc_verify_tls kc,
                kl_proxy = (case ac_egress_proxy cfg of
                              Some u \<Rightarrow> if kc_cloud kc \<and> kz_proxy_ok env u then Some u else None
                            | None \<Rightarrow> None) \<rparr>
      in if kz_client_ok env c then Inr c else Inl (KzRequestError []))"

definition sanitize_step :: "char \<Rightarrow> string \<times> bool \<Rightarrow> string \<times> bool" where
  "sanitize_step ch acc =
     (case acc of (out, sep) \<Rightarrow>
        if is_alnum ch then (out @ [ch], False)
        else if \<not> sep \<and> out \<noteq> [] then (out @ ''_'', True)
        else (out, sep))"

definition sanitize_component :: "string \<Rightarrow> string" where
  "sanitize_component v =
     (let out = trim_end_matches (CHR ''_'') (fst (fold sanitize_step (to_lower v) ([], False)))
      in if out = [] then ''x'' else out)"

definition tool_slug :: "string \<Rightarrow> string \<Rightarrow> string \<Rightarrow> string" where
  "tool_slug pfx ext tool =
     sanitize_component pfx @ ''_'' @ sanitize_component ext @ ''_'' @ sanitize_component tool"

text \<open>The loop over the segments of a glob pattern; \<open>name\<close> is what remains after the cursor.\<close>

fun glob_segments :: "bool \<Rightarrow> string list \<Rightarrow> string \<Rightarrow> bool" where
  "glob_segments first [] name = True"
| "glob_segments first (seg # segs) name =
     (if seg = [] then glob_segments False segs name
      else if first then
        (if starts_with seg name then glob_segments False segs (drop (length seg) name) else False)
      else (case find_sub seg name of
              Some found \<Rightarrow> glob_segments False segs (drop (found + length seg) name)
            | None \<Rightarrow> False))"

definition extension_name_matches :: "string \<Rightarrow> string \<Rightarrow> bool" where
  "extension_name_matches pattern name0 =
     (let name = to_lower name0; segments = split_on (CHR ''*'') pattern in
      if length segments = 1 then name = to_lower pattern
      else (let lowered = map to_lower segments in
            glob_segments True lowered name \<and>
            \<not> (\<not> ends_with ''*'' pattern \<and> last lowered \<noteq> [] \<and> \<not> ends_with (last lowered) name)))"

definition extension_is_allowed :: "KamiwazaConfig \<Rightarrow> ExtensionResponse \<Rightarrow> bool" where
  "extension_is_allowed kc x \<longleftrightarrow>
     xr_phase x = Some ''Running'' \<and>
     (kc_include_types kc = [] \<or>
      list_ex (\<lambda>e. eq_ignore_ascii_case e (case xr_type x of Some t \<Rightarrow> t | None \<Rightarrow> []))
        (kc_include_types kc)) \<and>
     (xr_services x = [] \<or>
      list_ex (\<lambda>s. xs_ready s \<or> xs_available_replicas s > 0) (xr_services x)) \<and>
     (kc_extension_names kc = [] \<or>
      list_ex (\<lambda>p. extension_name_matches p (xr_name x)) (kc_extension_names kc))"

definition mcp_url_for_extension :: "ExtensionResponse \<Rightarrow> string option" where
  "mcp_url_for_extension x =
     Option.bind (xr_endpoints x) (\<lambda>(external, internal).
     Option.bind (first_some external internal) (\<lambda>e.
       (let endpoint = trim_end_matches (CHR ''/'') (trim e) in
        if endpoint = [] then None else Some (endpoint @ ''/mcp''))))"

subsection \<open>Decoding the extension list\<close>

definition kz_opt_str :: "string \<Rightarrow> json \<Rightarrow> string option option" where
  "kz_opt_str k j =
     (case json_get k j of
        None \<Rightarrow> Some None
      | Some JNull \<Rightarrow> Some None
      | Some (JStr s) \<Rightarrow> Some (Some s)
      | _ \<Rightarrow> None)"

fun kz_collect :: "'a option list \<Rightarrow> 'a list option" where
  "kz_collect [] = Some []"
| "kz_collect (x # xs) = Option.bind x (\<lambda>y. map_option (Cons y) (kz_collect xs))"

definition decode_service :: "json \<Rightarrow> ExtensionServiceStatus option" where
  "decode_service j =
     (case j of
        JObj m \<Rightarrow>
          Option.bind (case obj_get ''ready'' m of
                         None \<Rightarrow> Some False | Some (JBool b) \<Rightarrow> Some b | _ \<Rightarrow> None) (\<lambda>r.
          Option.bind (case obj_get ''available_replicas'' m of
                         None \<Rightarrow> Some 0
                       | Some (JNum i) \<Rightarrow> if 0 \<le> i \<and> i < 2 ^ 64 then Some (nat i) else None
                       | _ \<Rightarrow> None) (\<lambda>a.
            Some \<lparr> xs_ready = r, xs_available_replicas = a \<rparr>))
      | _ \<Rightarrow> None)"

definition decode_endpoints :: "json \<Rightarrow> (string option \<times> string option) option" where
  "decode_endpoints j =
     (case j of
        JObj _ \<Rightarrow>
          Option.bind (kz_opt_str ''external'' j) (\<lambda>e.
          Option.bind (kz_opt_str ''internal'' j) (\<lambda>i. Some (e, i)))
      | _ \<Rightarrow> None)"

definition decode_extension :: "json \<Rightarrow> ExtensionResponse option" where
  "decode_extension j =
     (case j of
        JObj m \<Rightarrow>
          Option.bind (Option.bind (obj_get ''name'' m) json_str) (\<lambda>n.
          Option.bind (kz_opt_str ''type'' j) (\<lambda>ty.
          Option.bind (kz_opt_str ''phase'' j) (\<lambda>ph.
          Option.bind (case obj_get ''services'' m of
                         None \<Rightarrow> Some []
                       | Some (JArr ss) \<Rightarrow> kz_collect (map decode_service ss)
                       | _ \<Rightarrow> None) (\<lambda>sv.
          Option.bind (case obj_get ''endpoints'' m of
                         None \<Rightarrow> Some None
                       | Some JNull \<Rightarrow> Some None
                       | Some e \<Rightarrow> map_option Some (decode_endpoints e)) (\<lambda>ep.
            Some \<lparr> xr_name = n, xr_type = ty, xr_phase = ph, xr_services = sv, xr_endpoints = ep \<rparr>)))))
      | _ \<Rightarrow> None)"

definition decode_extensions :: "json \<Rightarrow> ExtensionResponse list option" where
  "decode_extensions j = (case j of JArr xs \<Rightarrow> kz_collect (map decode_extension xs) | _ \<Rightarrow> None)"

subsection \<open>HTTP exchanges\<close>

definition kz_call :: "KzEnv \<Rightarrow> KzRequest \<Rightarrow> KzWorld \<Rightarrow> KzWorld \<times> KzReply" where
  "kz_call env rq w =
     (let sent = kw_sent w @ [rq] in (w\<lparr> kw_sent := sent \<rparr>, kz_http env sent))"

definition is_success :: "nat \<Rightarrow> bool" where
  "is_success st \<longleftrightarrow> 200 \<le> st \<and> st < 300"

fun fetch_extensions ::
  "KzEnv \<Rightarrow> KzClient \<Rightarrow> string list \<Rightarrow> string \<Rightarrow> string option \<Rightarrow> ExtensionResponse list kz" where
  "fetch_extensions env client [] token last_error w =
     (w, Inl (KzRequestError (case last_error of
                                Some m \<Rightarrow> m
                              | None \<Rightarrow> ''no Kamiwaza API URL candidates configured'')))"
| "fetch_extensions env client (candidate # rest) token last_error w =
     (let url = trim_end_matches (CHR ''/'') candidate @ ''/extensions'';
          rq = \<lparr> kq_client = client, kq_method = ''GET'', kq_url = url,
                 kq_headers = [(''authorization'', ''Bearer '' @ token)], kq_json = None \<rparr>
      in case kz_call env rq w of
           (w1, KzReply st hs bd) \<Rightarrow>
             if \<not> is_success st
             then fetch_extensions env client rest token (Some (url @ '' returned '' @ digits st)) w1
             else (w1, case Option.bind (Option.bind bd (jx_parse (kz_json env))) decode_extensions of
                         Some xs \<Rightarrow> Inr xs
                       | None \<Rightarrow> Inl (KzRequestError []))
         | (w1, KzFail) \<Rightarrow> fetch_extensions env client rest token (Some (url @ '': '')) w1)"

definition kz_header_value :: "headers \<Rightarrow> string \<Rightarrow> string option" where
  "kz_header_value hs n = Option.bind (Option.bind (hdr_get n hs) hdr_to_str) trim_nonempty"

fun sse_data :: "string list \<Rightarrow> string \<Rightarrow> string" where
  "sse_data [] data = data"
| "sse_data (line # rest) data =
     (case strip_prefix ''data:'' line of
        Some r \<Rightarrow> sse_data rest ((if data = [] then [] else data @ [CHR 0x0A]) @ trim_start r)
      | None \<Rightarrow> if trim line = [] \<and> data \<noteq> [] then data else sse_data rest data)"

definition parse_mcp_response_body :: "KzEnv \<Rightarrow> string \<Rightarrow> string \<Rightarrow> (KamiwazaError, json) result" where
  "parse_mcp_response_body env ct txt =
     (let src = (if eq_ignore_ascii_case (trim (hd (split_on (CHR '';'') ct))) ''text/event-stream''
                 then (let d = sse_data (text_lines txt) [] in
                       if d = [] then Inl (KzProtocol ''empty streamable HTTP response'') else Inr d)
                 else Inr txt)
      in case src of
           Inl e \<Rightarrow> Inl e
         | Inr d \<Rightarrow> (case jx_parse (kz_json env) d of Some v \<Rightarrow> Inr v | None \<Rightarrow> Inl (KzProtocol [])))"

definition mcp_request ::
  "KzClient \<Rightarrow> string \<Rightarrow> string \<Rightarrow> string option \<Rightarrow> (string \<times> string) option \<Rightarrow> json \<Rightarrow> KzRequest" where
  "mcp_request client url token sid delegation payload =
     \<lparr> kq_client = client, kq_method = ''POST'', kq_url = url,
       kq_headers =
         [(''authorization'', ''Bearer '' @ token),
          (''accept'', ''application/json, text/event-stream''),
          (''content-type'', ''application/json'')] @
         (case sid of Some s \<Rightarrow> [(''mcp-session-id'', s)] | None \<Rightarrow> []) @
         (case delegation of Some d \<Rightarrow> [d] | None \<Rightarrow> []),
       kq_json = Some payload \<rparr>"

definition send_mcp_json ::
  "KzEnv \<Rightarrow> KzClient \<Rightarrow> string \<Rightarrow> string \<Rightarrow> string option \<Rightarrow> (string \<times> string) option \<Rightarrow> json
    \<Rightarrow> (string option \<times> json) kz" where
  "send_mcp_json env client url token sid delegation payload w =
     (case kz_call env (mcp_request client url token sid delegation payload) w of
        (w1, KzFail) \<Rightarrow> (w1, Inl (KzRequestError []))
      | (w1, KzReply st hs bd) \<Rightarrow>
          (w1,
           if st = 202 then Inr (kz_header_value hs ''mcp-session-id'', JNull)
           else if \<not> is_success st then Inl (KzRequestError (''MCP endpoint returned '' @ digits st))
           else (case bd of
                   None \<Rightarrow> Inl (KzRequestError [])
                 | Some txt \<Rightarrow>
                     (case parse_mcp_response_body env
                             (case Option.bind (hdr_get ''content-type'' hs) hdr_to_str of
                                Some c \<Rightarrow> c | None \<Rightarrow> []) txt of
                        Inl e \<Rightarrow> Inl e
                      | Inr v \<Rightarrow> Inr (kz_header_value hs ''mcp-session-id'', v)))))"

definition close_mcp_session ::
  "KzEnv \<Rightarrow> KzClient \<Rightarrow> string \<Rightarrow> string \<Rightarrow> string option \<Rightarrow> (string \<times> string) option \<Rightarrow> KzWorld \<Rightarrow> KzWorld" where
  "close_mcp_session env client url token sid delegation w =
     (case sid of
        None \<Rightarrow> w
      | Some s \<Rightarrow>
          fst (kz_call env \<lparr> kq_client = client, kq_method = ''DELETE'', kq_url = url,
                 kq_headers = [(''authorization'', ''Bearer '' @ token), (''mcp-session-id'', s)] @
                   (case delegation of Some d \<Rightarrow> [d] | None \<Rightarrow> []),
                 kq_json = None \<rparr> w))"

definition rpc :: "int option \<Rightarrow> string \<Rightarrow> json \<Rightarrow> json" where
  "rpc i meth params =
     JObj ([(''jsonrpc'', JStr ''2.0'')] @ (case i of Some n \<Rightarrow> [(''id'', JNum n)] | None \<Rightarrow> []) @
           [(''method'', JStr meth), (''params'', params)])"

definition initialize_session ::
  "KzEnv \<Rightarrow> KzClient \<Rightarrow> string \<Rightarrow> string \<Rightarrow> (string \<times> string) option \<Rightarrow> string option kz" where
  "initialize_session env client url token delegation =
     kz_bind (send_mcp_json env client url token None delegation
       (rpc (Some 1) ''initialize''
         (JObj [(''protocolVersion'', JStr MCP_PROTOCOL_VERSION), (''capabilities'', JObj []),
                (''clientInfo'', JObj [(''name'', JStr ''agent-locksmith''),
                                       (''version'', JStr (kz_version env))])])))
     (\<lambda>(sid, payload).
        if json_get ''error'' payload \<noteq> None
        then kz_lift (Inl (KzProtocol ''initialize returned error''))
        else kz_bind (send_mcp_json env client url token sid delegation
                        (rpc None ''notifications/initialized'' (JObj [])))
               (\<lambda>_. kz_lift (Inr sid)))"

definition list_mcp_tools :: "KzEnv \<Rightarrow> KzClient \<Rightarrow> string \<Rightarrow> string \<Rightarrow> json list kz" where
  "list_mcp_tools env client url token =
     kz_bind (initialize_session env client url token None)
     (\<lambda>sid w.
        case send_mcp_json env client url token sid None (rpc (Some 2) ''tools/list'' (JObj [])) w of
          (w1, res) \<Rightarrow>
            (let w2 = close_mcp_session env client url token sid None w1 in
             (w2, case res of
                    Inl e \<Rightarrow> Inl e
                  | Inr (_, payload) \<Rightarrow>
                      (case json_get ''error'' payload of
                         Some e \<Rightarrow> Inl (KzProtocol (''tools/list returned error: '' @ jx_print (kz_json env) e))
                       | None \<Rightarrow>
                           Inr (case Option.bind (json_get ''result'' payload) (json_get ''tools'') of
                                  Some (JArr ts) \<Rightarrow> ts
                                | _ \<Rightarrow> [])))))"

subsection \<open>Discovery\<close>

definition tool_of_json :: "string \<Rightarrow> ExtensionResponse \<Rightarrow> string \<Rightarrow> json \<Rightarrow> KamiwazaTool option" where
  "tool_of_json pfx x url j =
     map_option (\<lambda>n. \<lparr> kt_slug = tool_slug pfx (xr_name x) n, kt_extension_name = xr_name x,
                       kt_mcp_url = url, kt_tool_name = n,
                       kt_description = Option.bind (Option.bind (json_get ''description'' j) json_str)
                                          trim_nonempty,
                       kt_input_schema = json_get ''inputSchema'' j \<rparr>)
       (Option.bind (Option.bind (json_get ''name'' j) json_str) trim_nonempty)"

fun probe_extensions ::
  "KzEnv \<Rightarrow> KzClient \<Rightarrow> string \<Rightarrow> string \<Rightarrow> (ExtensionResponse \<times> string) list \<Rightarrow> KzWorld
    \<Rightarrow> KzWorld \<times> KamiwazaTool list" where
  "probe_extensions env client token pfx [] w = (w, [])"
| "probe_extensions env client token pfx ((x, url) # rest) w =
     (case list_mcp_tools env client url token w of
        (w1, res) \<Rightarrow>
          (let here = (case res of Inr ts \<Rightarrow> List.map_filter (tool_of_json pfx x url) ts | Inl _ \<Rightarrow> []) in
           case probe_extensions env client token pfx rest w1 of
             (w2, others) \<Rightarrow> (w2, here @ others)))"

definition discovery_targets :: "KamiwazaConfig \<Rightarrow> ExtensionResponse list \<Rightarrow> (ExtensionResponse \<times> string) list" where
  "discovery_targets kc xs =
     List.map_filter (\<lambda>x. map_option (\<lambda>u. (x, u)) (mcp_url_for_extension x))
       (filter (extension_is_allowed kc) xs)"

definition discover_tools_uncached :: "KzEnv \<Rightarrow> AppConfig \<Rightarrow> KamiwazaTool list kz" where
  "discover_tools_uncached env cfg w =
     (case ac_kamiwaza cfg of
        None \<Rightarrow> (w, Inr [])
      | Some kc \<Rightarrow>
          if \<not> kc_enabled kc then (w, Inr [])
          else (case api_token env kc of
                  None \<Rightarrow> (w, Inl MissingToken)
                | Some token \<Rightarrow>
                    (case build_client env cfg kc of
                       Inl e \<Rightarrow> (w, Inl e)
                     | Inr client \<Rightarrow>
                         (case fetch_extensions env client (api_url_candidates env kc) token None w of
                            (w1, Inl e) \<Rightarrow> (w1, Inl e)
                          | (w1, Inr xs) \<Rightarrow>
                              (case probe_extensions env client token (kc_tool_prefix kc)
                                      (discovery_targets kc xs) w1 of
                                 (w2, tools) \<Rightarrow> (w2, Inr (sort_key kt_slug tools)))))))"

definition discover_tools :: "KzEnv \<Rightarrow> AppConfig \<Rightarrow> KamiwazaTool list kz" where
  "discover_tools env cfg w =
     (case ac_kamiwaza cfg of
        None \<Rightarrow> (w, Inr [])
      | Some kc \<Rightarrow>
          if \<not> kc_enabled kc then (w, Inr [])
          else
            (let ttl = int (max (kc_catalog_ttl_seconds kc) 1) * 1000;
                 refill = (case discover_tools_uncached env cfg w of
                             (w1, Inl e) \<Rightarrow> (w1, Inl e)
                           | (w1, Inr tools) \<Rightarrow>
                               (w1\<lparr> kw_cache := Some (kz_now env + ttl, tools) \<rparr>, Inr tools))
             in case kw_cache w of
                  Some (expires_at, tools) \<Rightarrow>
                    if expires_at > kz_now env then (w, Inr tools) else refill
                | None \<Rightarrow> refill))"

definition invalidate_catalog_cache :: "KzWorld \<Rightarrow> KzWorld" where
  "invalidate_catalog_cache w = w\<lparr> kw_cache := None \<rparr>"

definition is_configured :: "AppConfig \<Rightarrow> bool" where
  "is_configured cfg = (case ac_kamiwaza cfg of Some kc \<Rightarrow> kc_enabled kc | None \<Rightarrow> False)"

subsection \<open>Invocation\<close>

definition invoke_tool ::
  "KzEnv \<Rightarrow> AppConfig \<Rightarrow> KamiwazaTool \<Rightarrow> AgentIdentity option \<Rightarrow> json \<Rightarrow> json kz" where
  "invoke_tool env cfg tool identity arguments w =
     (case ac_kamiwaza cfg of
        None \<Rightarrow> (w, Inl KzDisabled)
      | Some kc \<Rightarrow>
          (case api_token env kc of
             None \<Rightarrow> (w, Inl MissingToken)
           | Some token \<Rightarrow>
               (case build_client env cfg kc of
                  Inl e \<Rightarrow> (w, Inl e)
                | Inr client \<Rightarrow>
                    (case build_delegation_header env kc identity tool of
                       Inl e \<Rightarrow> (w, Inl e)
                     | Inr delegation \<Rightarrow>
                         (case initialize_session env client (kt_mcp_url tool) token delegation w of
                            (w1, Inl e) \<Rightarrow> (w1, Inl e)
                          | (w1, Inr sid) \<Rightarrow>
                              (case send_mcp_json env client (kt_mcp_url tool) token sid delegation
                                      (rpc (Some 3) ''tools/call''
                                        (JObj [(''name'', JStr (kt_tool_name tool)),
                                               (''arguments'', arguments)])) w1 of
                                 (w2, res) \<Rightarrow>
                                   (let w3 = close_mcp_session env client (kt_mcp_url tool) token sid delegation w2
                                    in (w3, case res of
                                              Inl e \<Rightarrow> Inl e
                                            | Inr (_, payload) \<Rightarrow>
                                                (case json_get ''error'' payload of
                                                   Some e \<Rightarrow> Inl (KzProtocol (''tools/call returned error: '' @
                                                                    jx_print (kz_json env) e))
                                                 | None \<Rightarrow> Inr (case json_get ''result'' payload of
                                                                   Some r \<Rightarrow> r | None \<Rightarrow> JNull))))))))))"

definition json_error :: "nat \<Rightarrow> string \<Rightarrow> string \<Rightarrow> Response" where
  "json_error st msg ty =
     json_response st (JObj [(''error'', JObj [(''message'', JStr msg), (''type'', JStr ty)])])"

definition response_json :: "json \<Rightarrow> Response" where
  "response_json v =
     \<lparr> rs_status = 200, rs_headers = [(''content-type'', ''application/json; charset=utf-8'')],
       rs_body = JsonBody v \<rparr>"

definition query_pair :: "string \<Rightarrow> (string \<times> json) list \<Rightarrow> (string \<times> json) list" where
  "query_pair pair args =
     (if pair = [] then args
      else (case (case split_once (CHR ''='') pair of Some kv \<Rightarrow> kv | None \<Rightarrow> (pair, [])) of
              (k, v) \<Rightarrow>
                (case trim_nonempty k of
                   Some key \<Rightarrow> obj_insert key (JStr v) args
                 | None \<Rightarrow> args)))"

definition query_arguments :: "string option \<Rightarrow> json" where
  "query_arguments query =
     JObj (case query of Some q \<Rightarrow> fold query_pair (split_on (CHR ''&'') q) [] | None \<Rightarrow> [])"

definition parse_arguments ::
  "KzEnv \<Rightarrow> string \<Rightarrow> string option \<Rightarrow> string \<Rightarrow> (Response, json) result" where
  "parse_arguments env meth query bd =
     (if bd = [] then Inr (query_arguments query)
      else if meth \<noteq> ''POST'' \<and> meth \<noteq> ''PUT'' \<and> meth \<noteq> ''PATCH''
      then Inl (json_error 405
             ''Kamiwaza MCP tool calls with a request body require POST, PUT, or PATCH''
             ''method_not_allowed'')
      else (case jx_parse (kz_json env) bd of
              Some (JObj m) \<Rightarrow> Inr (JObj m)
            | _ \<Rightarrow> Inl (json_error 400 ''Kamiwaza MCP tool arguments must be a JSON object'' ''bad_request'')))"

definition handle_proxy_call ::
  "KzEnv \<Rightarrow> AppConfig \<Rightarrow> string \<Rightarrow> Request \<Rightarrow> KzWorld \<Rightarrow> KzWorld \<times> Response option" where
  "handle_proxy_call env cfg tool_name req w =
     (if \<not> is_configured cfg then (w, None)
      else (case discover_tools env cfg w of
              (w1, Inl e) \<Rightarrow>
                (w1, Some (json_error 502 (''Kamiwaza discovery failed: '' @ kz_display e) ''upstream_error''))
            | (w1, Inr discovered) \<Rightarrow>
                (case List.find (\<lambda>t. kt_slug t = tool_name) discovered of
                   None \<Rightarrow> (w1, None)
                 | Some tool \<Rightarrow>
                     (case to_bytes (1024 * 1024) req of
                        None \<Rightarrow> (w1, Some (json_error 400 ''Failed to read request body'' ''bad_request''))
                      | Some bd \<Rightarrow>
                          (case parse_arguments env (rq_method req) (rq_query req) bd of
                             Inl resp \<Rightarrow> (w1, Some resp)
                           | Inr arguments \<Rightarrow>
                               (case invoke_tool env cfg tool (rq_identity req) arguments w1 of
                                  (w2, Inr v) \<Rightarrow> (w2, Some (response_json v))
                                | (w2, Inl e) \<Rightarrow>
                                    (w2, Some (json_error 502 (''Kamiwaza MCP call failed: '' @ kz_display e)
                                                ''upstream_error''))))))))"

definition catalog_entry :: "KamiwazaTool \<Rightarrow> json" where
  "catalog_entry tool =
     JObj ([(''name'', JStr (kt_slug tool)), (''type'', JStr ''mcp''),
            (''path'', JStr (''/api/'' @ kt_slug tool)),
            (''description'', JStr (case kt_description tool of
               Some d \<Rightarrow> d
             | None \<Rightarrow> ''Kamiwaza MCP tool '' @ kt_tool_name tool @ '' from extension '' @ kt_extension_name tool)),
            (''extension'', JStr (kt_extension_name tool)), (''mcpTool'', JStr (kt_tool_name tool))] @
           (case kt_input_schema tool of Some sc \<Rightarrow> [(''inputSchema'', sc)] | None \<Rightarrow> []))"

definition filtered_response_headers :: "headers \<Rightarrow> headers" where
  "filtered_response_headers hs = fold (\<lambda>(n, v). hdr_insert n v) hs []"

section \<open>Lemmas\<close>

subsection \<open>Glob patterns\<close>

text \<open>The reference matcher: a star matches any run of characters.\<close>

fun glob :: "string \<Rightarrow> string \<Rightarrow> bool" where
  "glob [] n = (n = [])"
| "glob (c # p) n =
     (if c = CHR ''*'' then glob p n \<or> (case n of [] \<Rightarrow> False | _ # m \<Rightarrow> glob (c # p) m)
      else (case n of [] \<Rightarrow> False | x # m \<Rightarrow> x = c \<and> glob p m))"

fun seg_match :: "string list \<Rightarrow> string \<Rightarrow> bool" where
  "seg_match [] n = False"
| "seg_match [s] n = (n = s)"
| "seg_match (s # t # rest) n = (\<exists>x y. n = s @ x @ y \<and> seg_match (t # rest) y)"

lemma glob_star: "glob (CHR ''*'' # p) n \<longleftrightarrow> (\<exists>x y. n = x @ y \<and> glob p y)"
proof (induction n)
  case Nil
  show ?case by simp
next
  case (Cons a n)
  have "glob (CHR ''*'' # p) (a # n) \<longleftrightarrow> glob p (a # n) \<or> (\<exists>x y. n = x @ y \<and> glob p y)"
    using Cons.IH by simp
  also have "\<dots> \<longleftrightarrow> (\<exists>x y. a # n = x @ y \<and> glob p y)"
    by (metis Cons_eq_append_conv append_Nil)
  finally show ?case .
qed

lemma seg_match_Cons: "seg_match ((c # s) # rest) n \<longleftrightarrow> (\<exists>m. n = c # m \<and> seg_match (s # rest) m)"
  by (cases rest) auto

lemma seg_match_Nil: "rest \<noteq> [] \<Longrightarrow> seg_match ([] # rest) n \<longleftrightarrow> (\<exists>x y. n = x @ y \<and> seg_match rest y)"
  by (cases rest) auto

lemma glob_split: "glob p n \<longleftrightarrow> seg_match (split_on (CHR ''*'') p) n"
proof (induction p arbitrary: n)
  case (Cons c p)
  show ?case
  proof (cases "c = CHR ''*''")
    case True
    then show ?thesis using Cons.IH by (simp add: glob_star seg_match_Nil del: glob.simps)
  next
    case False
    obtain s rest where sp: "split_on (CHR ''*'') p = s # rest"
      using split_on_not_Nil by (metis neq_Nil_conv)
    have "glob (c # p) n \<longleftrightarrow> (\<exists>m. n = c # m \<and> glob p m)"
      using False by (cases n) auto
    then show ?thesis using False Cons.IH sp by (simp add: seg_match_Cons del: glob.simps)
  qed
qed simp

lemma find_sub_split:
  assumes "find_sub p s = Some i"
  shows "s = take i s @ p @ drop (i + length p) s"
proof -
  have "take (length p) (drop i s) = p" using find_sub_SomeD [OF assms] by (simp add: starts_with_def)
  then have "drop i s = p @ drop (length p) (drop i s)" by (metis append_take_drop_id)
  then show ?thesis by (metis append_take_drop_id drop_drop add.commute)
qed

lemma find_sub_leftmost:
  assumes "s = x @ p @ y"
  shows "\<exists>i z. find_sub p s = Some i \<and> drop (i + length p) s = z @ y"
proof -
  have "contains_str p s" using assms contains_str_iff by blast
  then obtain i where i: "find_sub p s = Some i" by (auto simp: contains_str_def)
  have "\<not> length x < i"
  proof
    assume "length x < i"
    from find_sub_first [OF i this] show False using assms by simp
  qed
  then have "drop (i + length p) s = drop (i + length p) (x @ p) @ y"
    using assms by simp
  with i show ?thesis by blast
qed

lemma glob_segments_last_len:
  "glob_segments False segs n \<Longrightarrow> segs \<noteq> [] \<Longrightarrow> length (last segs) \<le> length n"
proof (induction segs arbitrary: n)
  case (Cons s rest)
  show ?case
  proof (cases "s = []")
    case True
    with Cons show ?thesis by (cases rest) auto
  next
    case False
    with Cons.prems obtain i where i: "find_sub s n = Some i"
        "glob_segments False rest (drop (i + length s) n)"
      by (auto split: option.splits)
    have "length n = length (take i n) + (length s + length (drop (i + length s) n))"
      using arg_cong [OF find_sub_split [OF i(1)], of length] unfolding length_append .
    then have len: "length s \<le> length n" "length (drop (i + length s) n) \<le> length n" by linarith+
    show ?thesis
    proof (cases "rest = []")
      case True
      with len(1) show ?thesis by simp
    next
      case False
      with order_trans [OF Cons.IH [OF i(2) False] len(2)] show ?thesis by simp
    qed
  qed
qed simp

lemma suffix_of_longer: "suffix q (a @ b) \<Longrightarrow> length q \<le> length b \<Longrightarrow> suffix q b"
  by (metis suffix_appendI suffix_length_suffix suffixI)

lemma glob_segments_iff:
  assumes "segs \<noteq> []"
  shows "(\<exists>x y. n = x @ y \<and> seg_match segs y) \<longleftrightarrow>
         glob_segments False segs n \<and> ends_with (last segs) n"
  using assms
proof (induction segs arbitrary: n)
  case (Cons s rest)
  show ?case
  proof (cases "rest = []")
    case True
    have "(\<exists>x. n = x @ s) \<Longrightarrow> s \<noteq> [] \<Longrightarrow> \<exists>i. find_sub s n = Some i"
      using find_sub_leftmost [of n _ s "[]"] by auto
    with True show ?thesis
      by (auto simp: ends_with_iff_suffix suffix_def split: option.splits)
  next
    case False
    have split: "(\<exists>x y. n = x @ y \<and> seg_match (s # rest) y) \<longleftrightarrow>
                 (\<exists>x y. n = x @ s @ y \<and> (\<exists>u v. y = u @ v \<and> seg_match rest v))"
      using False by (cases rest) auto
    note IH = Cons.IH [OF False]
    show ?thesis
    proof (cases "s = []")
      case True
      have "(\<exists>x y. n = x @ y \<and> (\<exists>u v. y = u @ v \<and> seg_match rest v)) \<longleftrightarrow>
            (\<exists>x y. n = x @ y \<and> seg_match rest y)"
        by (metis append_assoc append_Nil)
      then show ?thesis
        using IH [of n] False True unfolding split by simp
    next
      case ne: False
      show ?thesis
        unfolding split
      proof
        assume "\<exists>x y. n = x @ s @ y \<and> (\<exists>u v. y = u @ v \<and> seg_match rest v)"
        then obtain x u v where n: "n = x @ s @ (u @ v)" and m: "seg_match rest v" by blast
        from find_sub_leftmost [OF n] obtain i z where i: "find_sub s n = Some i"
            "drop (i + length s) n = z @ u @ v" by auto
        then have "drop (i + length s) n = (z @ u) @ v" by simp
        with m have g: "glob_segments False rest (drop (i + length s) n)"
            "ends_with (last rest) (drop (i + length s) n)"
          using IH [of "drop (i + length s) n"] by blast+
        then have "ends_with (last rest) n"
          unfolding ends_with_iff_suffix using suffix_drop suffix_order.trans by blast
        with g i ne False show "glob_segments False (s # rest) n \<and> ends_with (last (s # rest)) n" by simp
      next
        assume r: "glob_segments False (s # rest) n \<and> ends_with (last (s # rest)) n"
        with ne obtain i where i: "find_sub s n = Some i"
            "glob_segments False rest (drop (i + length s) n)"
          by (auto split: option.splits)
        have "suffix (last rest) (take (i + length s) n @ drop (i + length s) n)"
          using r False by (simp add: ends_with_iff_suffix)
        then have "ends_with (last rest) (drop (i + length s) n)"
          unfolding ends_with_iff_suffix
          using glob_segments_last_len [OF i(2) False] suffix_of_longer by blast
        with IH [of "drop (i + length s) n"] i(2) find_sub_split [OF i(1)]
        show "\<exists>x y. n = x @ s @ y \<and> (\<exists>u v. y = u @ v \<and> seg_match rest v)" by blast
      qed
    qed
  qed
qed simp

lemma ascii_lower_star: "ascii_lower x = CHR ''*'' \<longleftrightarrow> x = CHR ''*''"
proof (cases "65 \<le> (of_char x :: nat) \<and> (of_char x :: nat) \<le> 90")
  case True
  then have "(of_char (ascii_lower x) :: nat) = of_char x + 32" by (simp add: ascii_lower_def)
  then have "ascii_lower x = CHR ''*'' \<Longrightarrow> (of_char x :: nat) + 32 = 42" by simp
  moreover have "x = CHR ''*'' \<Longrightarrow> (of_char x :: nat) = 42" by simp
  ultimately show ?thesis using True by linarith
qed (auto simp: ascii_lower_def Let_def)

lemma split_on_lower: "split_on (CHR ''*'') (to_lower s) = map to_lower (split_on (CHR ''*'') s)"
  by (induction s) (auto simp: to_lower_def ascii_lower_star split: list.splits)

lemma split_on_last_Nil: "ends_with [c] s \<longleftrightarrow> (length (split_on c s) > 1 \<and> last (split_on c s) = [])"
proof (induction s)
  case (Cons x s)
  obtain t ts where "split_on c s = t # ts" by (metis split_on_not_Nil neq_Nil_conv)
  with Cons show ?case
    by (cases s) (auto simp: ends_with_iff_suffix suffix_Cons split: if_splits list.splits)
qed (simp add: ends_with_iff_suffix)

lemma to_lower_Nil [simp]: "to_lower s = [] \<longleftrightarrow> s = []"
  by (simp add: to_lower_def)

lemma glob_segments_first:
  assumes "rest \<noteq> []"
  shows "glob_segments True (s # rest) n \<and> ends_with (last rest) n \<longleftrightarrow> seg_match (s # rest) n"
proof -
  have sm: "seg_match (s # rest) n \<longleftrightarrow> (\<exists>y. n = s @ y \<and> (\<exists>u v. y = u @ v \<and> seg_match rest v))"
    using assms by (cases rest) auto
  have first: "glob_segments True (s # rest) n \<longleftrightarrow> (\<exists>y. n = s @ y \<and> glob_segments False rest y)"
    by (cases "s = []") (auto simp: starts_with_iff_prefix prefix_def)
  have "ends_with (last rest) (s @ y) \<longleftrightarrow> ends_with (last rest) y" if "glob_segments False rest y" for y
    using glob_segments_last_len [OF that assms] suffix_of_longer
    unfolding ends_with_iff_suffix by (metis suffix_appendI)
  then show ?thesis
    unfolding sm first glob_segments_iff [OF assms] by auto
qed

text \<open>
  Property C34: the extension filter implements glob matching.  The cursor loop
  of \<open>extension_name_matches\<close> (first segment anchored, the others searched
  leftmost, a final anchored check when the pattern does not end in a star)
  accepts a name exactly when the lower-cased name matches the lower-cased
  pattern with every star standing for some run of characters.
\<close>

theorem extension_name_matches_glob:
  "extension_name_matches pat name = glob (to_lower pat) (to_lower name)"
proof -
  let ?segs = "split_on (CHR ''*'') pat"
  obtain s rest where sp: "?segs = s # rest" by (metis split_on_not_Nil neq_Nil_conv)
  have g: "glob (to_lower pat) (to_lower name) \<longleftrightarrow> seg_match (map to_lower ?segs) (to_lower name)"
    by (simp add: glob_split split_on_lower)
  show ?thesis
  proof (cases "rest = []")
    case True
    have "split_on (CHR ''*'') (to_lower pat) = [to_lower s]" by (simp add: split_on_lower sp True)
    moreover have "split_on (CHR ''*'') p = [t] \<Longrightarrow> p = t" for p t
      by (induction p arbitrary: t) (auto split: if_splits list.splits)
    ultimately have "to_lower pat = to_lower s" by blast
    with True sp show ?thesis unfolding g by (simp add: extension_name_matches_def)
  next
    case False
    let ?low = "map to_lower (s # rest)"
    have l: "last ?low = last (map to_lower rest)" using False by simp
    have "ends_with ''*'' pat \<longleftrightarrow> last ?low = []"
      using split_on_last_Nil [of "CHR ''*''" pat] sp False by (simp add: last_map)
    then have "extension_name_matches pat name \<longleftrightarrow>
        glob_segments True ?low (to_lower name) \<and> ends_with (last ?low) (to_lower name)"
      using sp False by (auto simp: extension_name_matches_def Let_def ends_with_iff_suffix)
    also have "\<dots> \<longleftrightarrow> seg_match ?low (to_lower name)"
      using glob_segments_first [of "map to_lower rest" "to_lower s"] False l by simp
    finally show ?thesis unfolding g sp .
  qed
qed

subsection \<open>What an invocation sends\<close>

definition sent_all :: "(KzRequest \<Rightarrow> bool) \<Rightarrow> KzWorld \<Rightarrow> KzWorld \<Rightarrow> bool" where
  "sent_all P w w' \<longleftrightarrow> (\<exists>new. kw_sent w' = kw_sent w @ new \<and> list_all P new)"

lemma sent_all_refl [simp]: "sent_all P w w"
  by (simp add: sent_all_def)

lemma sent_all_trans: "sent_all P w1 w2 \<Longrightarrow> sent_all P w2 w3 \<Longrightarrow> sent_all P w1 w3"
  by (auto simp: sent_all_def)

definition mcp_shape :: "string \<Rightarrow> string \<Rightarrow> (string \<times> string) option \<Rightarrow> KzRequest \<Rightarrow> bool" where
  "mcp_shape url token delegation rq \<longleftrightarrow>
     kq_url rq = url \<and> (''authorization'', ''Bearer '' @ token) \<in> set (kq_headers rq) \<and>
     (\<forall>h. delegation = Some h \<longrightarrow> h \<in> set (kq_headers rq))"

lemma kz_call_sent: "P rq \<Longrightarrow> kz_call env rq w = (w', r) \<Longrightarrow> sent_all P w w'"
  by (auto simp: kz_call_def Let_def sent_all_def)

lemma send_mcp_json_sent:
  "send_mcp_json env client url token sid d payload w = (w', r) \<Longrightarrow> sent_all (mcp_shape url token d) w w'"
  by (auto simp: send_mcp_json_def mcp_shape_def mcp_request_def intro!: kz_call_sent
           split: prod.splits KzReply.splits)

lemma close_mcp_session_sent: "sent_all (mcp_shape url token d) w (close_mcp_session env client url token sid d w)"
  by (auto simp: close_mcp_session_def mcp_shape_def kz_call_def Let_def sent_all_def split: option.splits)

lemma initialize_session_sent:
  "initialize_session env client url token d w = (w', r) \<Longrightarrow> sent_all (mcp_shape url token d) w w'"
  by (auto simp: initialize_session_def kz_bind_def kz_lift_def
           split: prod.splits sum.splits if_splits
           dest!: send_mcp_json_sent intro: sent_all_trans)

lemma invoke_tool_sent:
  assumes "invoke_tool env cfg tool identity args w = (w', r)"
  shows "(w' = w \<and> (\<exists>e. r = Inl e)) \<or>
         (\<exists>kc token d. ac_kamiwaza cfg = Some kc \<and> api_token env kc = Some token \<and>
            build_delegation_header env kc identity tool = Inr d \<and>
            sent_all (mcp_shape (kt_mcp_url tool) token d) w w')"
proof (cases "ac_kamiwaza cfg")
  case (Some kc)
  note kc = Some
  show ?thesis
  proof (cases "\<exists>token client d. api_token env kc = Some token \<and> build_client env cfg kc = Inr client \<and>
                  build_delegation_header env kc identity tool = Inr d")
    case True
    then obtain token client d where ok: "api_token env kc = Some token"
        "build_client env cfg kc = Inr client" "build_delegation_header env kc identity tool = Inr d"
      by blast
    obtain w1 r1 where i: "initialize_session env client (kt_mcp_url tool) token d w = (w1, r1)"
      by fastforce
    note s1 = initialize_session_sent [OF i]
    have "sent_all (mcp_shape (kt_mcp_url tool) token d) w w'"
    proof (cases r1)
      case (Inl e)
      with assms kc ok i s1 show ?thesis by (simp add: invoke_tool_def)
    next
      case (Inr sid)
      obtain w2 r2 where c: "send_mcp_json env client (kt_mcp_url tool) token sid d
          (rpc (Some 3) ''tools/call''
            (JObj [(''name'', JStr (kt_tool_name tool)), (''arguments'', args)])) w1 = (w2, r2)"
        by fastforce
      have "w' = close_mcp_session env client (kt_mcp_url tool) token sid d w2"
        using assms kc ok i Inr c by (simp add: invoke_tool_def Let_def)
      with s1 send_mcp_json_sent [OF c] show ?thesis
        using close_mcp_session_sent sent_all_trans by metis
    qed
    with kc ok show ?thesis by blast
  next
    case False
    with assms kc show ?thesis
      by (auto simp: invoke_tool_def split: option.splits sum.splits)
  qed
qed (use assms in \<open>auto simp: invoke_tool_def\<close>)

text \<open>
  Property C33: delegated identity is enforced before any contact.  When the
  configuration requires delegation, an invocation without an authenticated
  agent sends nothing and fails, and every request of an invocation for an
  agent (initialize, notification, call and close) goes to the tool's own
  endpoint and carries the API token and the agent's signed delegation header.
\<close>

theorem delegation_enforced:
  assumes "ac_kamiwaza cfg = Some kc" "kd_required (kc_delegation kc)"
    and "invoke_tool env cfg tool identity args w = (w', r)"
  shows "(identity = None \<longrightarrow> w' = w \<and> (\<exists>e. r = Inl e)) \<and>
         (\<exists>new. kw_sent w' = kw_sent w @ new \<and>
            (\<forall>rq \<in> set new. kq_url rq = kt_mcp_url tool \<and>
               (\<exists>token sec ident. api_token env kc = Some token \<and> identity = Some ident \<and>
                  delegation_signing_secret env (kc_delegation kc) = Some sec \<and>
                  (''authorization'', ''Bearer '' @ token) \<in> set (kq_headers rq) \<and>
                  (to_lower (kd_header (kc_delegation kc)),
                   ''Bearer '' @ build_delegation_jwt env (kc_delegation kc) ident tool sec)
                     \<in> set (kq_headers rq))))"
proof -
  have none: "build_delegation_header env kc None tool = Inl MissingAgentIdentity"
    using assms(2) by (simp add: build_delegation_header_def Let_def)
  have some: "\<exists>ident sec. identity = Some ident \<and>
      delegation_signing_secret env (kc_delegation kc) = Some sec \<and>
      d = Some (to_lower (kd_header (kc_delegation kc)),
                ''Bearer '' @ build_delegation_jwt env (kc_delegation kc) ident tool sec)"
    if "build_delegation_header env kc identity tool = Inr d" for d
    using that assms(2)
    by (auto simp: build_delegation_header_def Let_def split: option.splits if_splits)
  from invoke_tool_sent [OF assms(3)] consider "w' = w" "\<exists>e. r = Inl e"
    | token d where "api_token env kc = Some token" "build_delegation_header env kc identity tool = Inr d"
        "sent_all (mcp_shape (kt_mcp_url tool) token d) w w'"
    using assms(1) by auto
  then show ?thesis
  proof cases
    case 1
    then show ?thesis by simp
  next
    case 2
    from some [OF 2(2)] obtain ident sec where i: "identity = Some ident"
      "delegation_signing_secret env (kc_delegation kc) = Some sec"
      "d = Some (to_lower (kd_header (kc_delegation kc)),
                 ''Bearer '' @ build_delegation_jwt env (kc_delegation kc) ident tool sec)" by blast
    with 2 show ?thesis
      by (fastforce simp: sent_all_def mcp_shape_def list_all_iff)
  qed
qed

subsection \<open>A concrete provider\<close>

definition sample_kz :: KzEnv where
  "sample_kz =
     \<lparr> kz_env = (\<lambda>_. None), kz_http = (\<lambda>_. KzReply 200 [] (Some ''{}'')), kz_now = 5000,
       kz_json = \<lparr> jx_parse = (\<lambda>_. Some (JObj [(''result'', JNum 7)])), jx_print = (\<lambda>_. ''j'') \<rparr>,
       kz_b64 = (\<lambda>s. s), kz_hmac = (\<lambda>k m. k), kz_header_name_ok = (\<lambda>_. True),
       kz_proxy_ok = (\<lambda>_. True), kz_client_ok = (\<lambda>_. True), kz_version = ''2'' \<rparr>"

definition sample_kz_config :: KamiwazaConfig where
  "sample_kz_config =
     \<lparr> kc_enabled = True, kc_api_url = None, kc_api_url_candidates = [], kc_api_token = Some ''tok'',
       kc_tool_prefix = ''kamiwaza'', kc_include_types = [], kc_extension_names = [],
       kc_verify_tls = True, kc_cloud = False, kc_timeout_seconds = 30, kc_catalog_ttl_seconds = 600,
       kc_delegation = default_delegation\<lparr> kd_required := True, kd_signing_secret := Some ''s'' \<rparr> \<rparr>"

definition sample_kz_app :: AppConfig where
  "sample_kz_app =
     \<lparr> ac_auth_mode = Bearer, ac_inbound_auth = None, ac_egress_proxy = None,
       ac_kamiwaza = Some sample_kz_config, ac_upstream_ca_bundle = None, ac_tools = [] \<rparr>"

definition sample_kz_tool :: KamiwazaTool where
  "sample_kz_tool =
     \<lparr> kt_slug = ''k_e_t'', kt_extension_name = ''e'', kt_mcp_url = ''u/mcp'', kt_tool_name = ''t'',
       kt_description = None, kt_input_schema = None \<rparr>"

definition sample_agent :: AgentIdentity where
  "sample_agent =
     \<lparr> ai_id = 1, ai_public_id = ''p'', ai_name = ''n'', ai_tool_allowlist = None, ai_tool_denylist = None \<rparr>"

definition empty_kz :: KzWorld where
  "empty_kz = \<lparr> kw_sent = [], kw_cache = None \<rparr>"

lemma sample_kz_facts:
  "ac_kamiwaza sample_kz_app = Some sample_kz_config" "kd_required (kc_delegation sample_kz_config)"
  "api_token sample_kz sample_kz_config = Some ''tok''"
  "delegation_signing_secret sample_kz (kc_delegation sample_kz_config) = Some ''s''"
  "build_delegation_header sample_kz sample_kz_config (Some sample_agent) sample_kz_tool =
     Inr (Some (''x-kamiwaza-agent-delegation'', ''Bearer j.j.s''))"
  by (simp_all add: sample_kz_app_def sample_kz_config_def api_token_def first_some_def trim_nonempty_def
        trim_def trim_start_def trim_end_def is_ws_def delegation_signing_secret_def default_delegation_def
        build_delegation_header_def build_delegation_jwt_def jwt_segment_def sample_kz_def Let_def
        hdr_to_str_def to_lower_def ascii_lower_def)

lemma sample_kz_run:
  "map kq_method (kw_sent (fst (invoke_tool sample_kz sample_kz_app sample_kz_tool (Some sample_agent) JNull empty_kz)))
     = [''POST'', ''POST'', ''POST'']"
proof -
  have "parse_mcp_response_body sample_kz [] ''{}'' = Inr (JObj [(''result'', JNum 7)])"
    by (simp add: parse_mcp_response_body_def sample_kz_def eq_ignore_ascii_case_def to_lower_def
          trim_def trim_start_def trim_end_def Let_def)
  then show ?thesis
    by (simp add: invoke_tool_def sample_kz_facts build_client_def initialize_session_def kz_bind_def
          kz_lift_def send_mcp_json_def kz_call_def Let_def hdr_get_def kz_header_value_def is_success_def
          json_get_def obj_get_def close_mcp_session_def mcp_request_def empty_kz_def
          sample_kz_app_def [THEN arg_cong [of _ _ ac_egress_proxy], simplified]
          sample_kz_def [THEN arg_cong [of _ _ kz_http], simplified]
          sample_kz_def [THEN arg_cong [of _ _ kz_client_ok], simplified])
qed

theorem delegation_enforced_witness:
  "kw_sent (fst (invoke_tool sample_kz sample_kz_app sample_kz_tool None JNull empty_kz)) = [] \<and>
   map kq_method (kw_sent (fst (invoke_tool sample_kz sample_kz_app sample_kz_tool (Some sample_agent) JNull empty_kz)))
     = [''POST'', ''POST'', ''POST'']"
proof
  have "fst (invoke_tool sample_kz sample_kz_app sample_kz_tool None JNull empty_kz) = empty_kz"
    using delegation_enforced [OF sample_kz_facts(1,2)
        surjective_pairing [of "invoke_tool sample_kz sample_kz_app sample_kz_tool None JNull empty_kz"]]
    by blast
  then show "kw_sent (fst (invoke_tool sample_kz sample_kz_app sample_kz_tool None JNull empty_kz)) = []"
    by (simp add: empty_kz_def)
qed (rule sample_kz_run)

end
