(* ===== verification/App_State.thy ===== *)
theory App_State
  imports Agent_Creds Secrets Oauth_Refresh Mtls Response_Controls Client_Pool Kamiwaza
begin

text \<open>
  The state of the agent listener, \<open>AppState\<close> of \<open>src/app.rs\<close>, and the record of
  what its handlers take from outside the program: the clock, the environment
  variables, URL parsing, the upstream transport, the token endpoint and the
  codecs.  \<open>ap_sent\<close> is the history of requests handed to the HTTP client,
  oldest first, so that a theorem can speak about what was sent upstream.
\<close>

record OauthRuntime =
  ort_sessions :: OauthTable
  ort_key :: SealingKey

record UpstreamRequest =
  ur_method :: string
  ur_url :: string
  ur_headers :: headers
  ur_body :: "string option"

datatype SendResult = SendTimeout | SendError | Upstream nat headers "poll list"

record AppState =
  ap_config :: AppConfig
  ap_started_at :: int
  ap_pool :: ClientPool
  ap_audit :: audit_log
  ap_creds :: ResolvedCreds
  ap_response_controls :: "string \<rightharpoonup> ResponseControls"
  ap_mtls :: "MtlsValidator option"
  ap_agents :: AgentTable
  ap_agent_auth :: bool
  ap_registrations :: "RegTable option"
  ap_catalog :: Catalog
  ap_oauth :: "OauthRuntime option"
  ap_agent_creds :: "OverrideTable option"
  ap_kz :: KzWorld
  ap_sent :: "(HttpClient \<times> UpstreamRequest) list"

record Url =
  url_path :: string
  url_query :: "string option"
  url_fragment :: "string option"

record ProxyEnv =
  pe_clk :: int
  pe_started :: int
  pe_env :: env
  pe_url :: "string \<Rightarrow> Url option"
  pe_json :: JsonCodec
  pe_regex :: RegexEngine
  pe_oauth :: OauthExt
  pe_token :: token_endpoint
  pe_nonces :: "bytes \<times> bytes"
  pe_client :: ClientIo
  pe_send :: "HttpClient \<Rightarrow> UpstreamRequest \<Rightarrow> SendResult"
  pe_kz :: KzEnv
  pe_pki :: Pki
  pe_percent_decode :: "string \<Rightarrow> string option"
  pe_skill_template :: string
  pe_version :: string

text \<open>\<open>compile_response_controls\<close>: a later tool of the same name replaces an earlier one.\<close>

definition compile_step ::
  "RegexEngine \<Rightarrow> ToolConfig \<Rightarrow> (string \<rightharpoonup> ResponseControls) \<Rightarrow> (string \<rightharpoonup> ResponseControls)" where
  "compile_step re t out =
     (case Option.bind (tc_response t) (rc_compile re) of
        Some rc \<Rightarrow> out(tc_name t \<mapsto> rc)
      | None \<Rightarrow> out)"

definition compile_response_controls :: "RegexEngine \<Rightarrow> AppConfig \<Rightarrow> (string \<rightharpoonup> ResponseControls)" where
  "compile_response_controls re cfg = fold (compile_step re) (ac_tools cfg) Map.empty"

text \<open>
  The constructors of \<open>src/app.rs\<close>, each of which fills in one more absent part
  of the next.  The agent authenticator and the certificate authenticator come
  with the agents table they hold; the first is the table of the state when both
  are given.
\<close>

type_synonym cert_authenticator = "MtlsValidator \<times> AgentTable"

definition build_app_full_with_phase_g ::
  "RegexEngine \<Rightarrow> int \<Rightarrow> AppConfig \<Rightarrow> AuditEvent list option \<Rightarrow> ResolvedCreds \<Rightarrow> cert_authenticator option
    \<Rightarrow> AgentTable option \<Rightarrow> RegTable option \<Rightarrow> Catalog \<Rightarrow> OauthRuntime option \<Rightarrow> OverrideTable option \<Rightarrow> AppState" where
  "build_app_full_with_phase_g re now cfg audit creds mtls agent_auth regs catalog oauth agent_creds =
     \<lparr> ap_config = cfg, ap_started_at = now, ap_pool = Map.empty, ap_audit = audit, ap_creds = creds,
       ap_response_controls = compile_response_controls re cfg,
       ap_mtls = map_option fst mtls,
       ap_agents = (case agent_auth of
                      Some t \<Rightarrow> t
                    | None \<Rightarrow> (case mtls of Some (_, t) \<Rightarrow> t | None \<Rightarrow> empty_agents)),
       ap_agent_auth = (agent_auth \<noteq> None), ap_registrations = regs, ap_catalog = catalog,
       ap_oauth = oauth, ap_agent_creds = agent_creds, ap_kz = empty_kz, ap_sent = [] \<rparr>"

definition build_app_full_with_oauth ::
  "RegexEngine \<Rightarrow> int \<Rightarrow> AppConfig \<Rightarrow> AuditEvent list option \<Rightarrow> ResolvedCreds \<Rightarrow> cert_authenticator option
    \<Rightarrow> AgentTable option \<Rightarrow> RegTable option \<Rightarrow> Catalog \<Rightarrow> OauthRuntime option \<Rightarrow> AppState" where
  "build_app_full_with_oauth re now cfg audit creds mtls agent_auth regs catalog oauth =
     build_app_full_with_phase_g re now cfg audit creds mtls agent_auth regs catalog oauth None"

definition build_app_full_with_catalog ::
  "RegexEngine \<Rightarrow> int \<Rightarrow> AppConfig \<Rightarrow> AuditEvent list option \<Rightarrow> ResolvedCreds \<Rightarrow> cert_authenticator option
    \<Rightarrow> AgentTable option \<Rightarrow> RegTable option \<Rightarrow> Catalog \<Rightarrow> AppState" where
  "build_app_full_with_catalog re now cfg audit creds mtls agent_auth regs catalog =
     build_app_full_with_oauth re now cfg audit creds mtls agent_auth regs catalog None"

definition build_app_full_with_registrations ::
  "RegexEngine \<Rightarrow> int \<Rightarrow> AppConfig \<Rightarrow> AuditEvent list option \<Rightarrow> ResolvedCreds \<Rightarrow> cert_authenticator option
    \<Rightarrow> AgentTable option \<Rightarrow> RegTable option \<Rightarrow> AppState" where
  "build_app_full_with_registrations re now cfg audit creds mtls agent_auth regs =
     build_app_full_with_catalog re now cfg audit creds mtls agent_auth regs []"

definition build_app_full ::
  "RegexEngine \<Rightarrow> int \<Rightarrow> AppConfig \<Rightarrow> AuditEvent list option \<Rightarrow> ResolvedCreds \<Rightarrow> cert_authenticator option
    \<Rightarrow> AgentTable option \<Rightarrow> AppState" where
  "build_app_full re now cfg audit creds mtls agent_auth =
     build_app_full_with_registrations re now cfg audit creds mtls agent_auth None"

definition build_app_with_audit_and_creds ::
  "RegexEngine \<Rightarrow> int \<Rightarrow> AppConfig \<Rightarrow> AuditEvent list option \<Rightarrow> ResolvedCreds \<Rightarrow> AppState" where
  "build_app_with_audit_and_creds re now cfg audit creds = build_app_full re now cfg audit creds None None"

text \<open>\<open>None\<close> when the expansion of a legacy credential string does not return.\<close>

definition build_app_with_audit ::
  "RegexEngine \<Rightarrow> env \<Rightarrow> int \<Rightarrow> AppConfig \<Rightarrow> AuditEvent list option \<Rightarrow> AppState option" where
  "build_app_with_audit re env now cfg audit =
     map_option (build_app_with_audit_and_creds re now cfg audit)
       (resolve_tool_creds_sync env (ac_tools cfg) Map.empty)"

definition build_app :: "RegexEngine \<Rightarrow> env \<Rightarrow> int \<Rightarrow> AppConfig \<Rightarrow> AppState option" where
  "build_app re env now cfg = build_app_with_audit re env now cfg None"

lemmas build_app_defs = build_app_full_with_phase_g_def build_app_full_with_oauth_def
  build_app_full_with_catalog_def build_app_full_with_registrations_def build_app_full_def
  build_app_with_audit_and_creds_def

text \<open>\<open>audit_record\<close>: best effort, nothing when no repository is wired.\<close>

definition audit_record :: "AuditEvent \<Rightarrow> AppState \<Rightarrow> AppState" where
  "audit_record e st = st\<lparr> ap_audit := audit_emit e (ap_audit st) \<rparr>"

lemma audit_record_frame [simp]:
  "ap_sent (audit_record e st) = ap_sent st" "ap_kz (audit_record e st) = ap_kz st"
  "ap_oauth (audit_record e st) = ap_oauth st" "ap_config (audit_record e st) = ap_config st"
  "ap_audit (audit_record e st) = audit_emit e (ap_audit st)"
  "ap_pool (audit_record e st) = ap_pool st" "ap_creds (audit_record e st) = ap_creds st"
  "ap_agents (audit_record e st) = ap_agents st" "ap_catalog (audit_record e st) = ap_catalog st"
  "ap_agent_creds (audit_record e st) = ap_agent_creds st"
  "ap_response_controls (audit_record e st) = ap_response_controls st"
  by (simp_all add: audit_record_def)

end
