(* ===== verification/Proxy_Target.thy ===== *)
theory Proxy_Target
  imports App_State
begin

text \<open>
  The first half of \<open>src/proxy.rs\<close>: the request context, the proxy target and
  its credential (\<open>ProxyAuth\<close>), target resolution, the per-agent credential
  override, OAuth token resolution, the request allowlist and the credential
  transport handles.
\<close>

section \<open>Definitions\<close>

subsection \<open>Request context\<close>

record RequestCtx =
  cx_tool_name :: string
  cx_request_path :: string
  cx_method :: string
  cx_auth_method :: string
  cx_agent_public_id :: "string option"
  cx_agent_name :: "string option"
  cx_started :: int
  cx_codex_body_fixup :: "json option"

definition snapshot :: "int \<Rightarrow> Request \<Rightarrow> string \<Rightarrow> RequestCtx" where
  "snapshot started req tool_name =
     \<lparr> cx_tool_name = tool_name, cx_request_path = rq_path req, cx_method = rq_method req,
       cx_auth_method = (case rq_auth req of Some AsMtls \<Rightarrow> ''mtls'' | _ \<Rightarrow> ''bearer''),
       cx_agent_public_id = map_option ai_public_id (rq_identity req),
       cx_agent_name = map_option ai_name (rq_identity req),
       cx_started = started, cx_codex_body_fixup = None \<rparr>"

definition audit_event_base :: "int \<Rightarrow> RequestCtx \<Rightarrow> AuditEvent" where
  "audit_event_base clk ctx =
     default_event\<lparr> ev_ts_ms := clk, ev_tool := Some (cx_tool_name ctx),
       ev_method := Some (cx_method ctx), ev_path := Some (cx_request_path ctx),
       ev_latency_ms := Some (of_int (clk - cx_started ctx)),
       ev_auth_method := Some (cx_auth_method ctx),
       ev_agent_public_id := cx_agent_public_id ctx \<rparr>"

subsection \<open>Target and credential\<close>

datatype ProxyAuth =
    PNone
  | PHeader (ph_header: string) (ph_audit_mode: string) (ph_force_replace: bool)
      (ph_override_value: "string option")
  | PBearer (pb_force_replace: bool) (pb_override_value: "string option")
  | POauth (po_audit_mode: string) (po_session_id: string) (po_access_token: "string option")
      (po_account_id: "string option")

fun audit_mode :: "ProxyAuth \<Rightarrow> string" where
  "audit_mode PNone = ''none''"
| "audit_mode (PHeader _ m _ _) = m"
| "audit_mode (PBearer _ _) = ''bearer''"
| "audit_mode (POauth m _ _ _) = m"

fun oauth_session_id :: "ProxyAuth \<Rightarrow> string option" where
  "oauth_session_id (POauth _ sid _ _) = Some sid"
| "oauth_session_id _ = None"

fun strip_header_lower :: "ProxyAuth \<Rightarrow> string option" where
  "strip_header_lower (PHeader h _ _ _) = Some (to_lower h)"
| "strip_header_lower _ = None"

fun force_replace_missing :: "ResolvedCreds \<Rightarrow> string \<Rightarrow> ProxyAuth \<Rightarrow> bool" where
  "force_replace_missing creds name (PHeader _ _ fr ov) = (fr \<and> ov = None \<and> creds name = None)"
| "force_replace_missing creds name (PBearer fr ov) = (fr \<and> ov = None \<and> creds name = None)"
| "force_replace_missing creds name PNone = False"
| "force_replace_missing creds name (POauth _ _ _ _) = False"

record ProxyTarget =
  pt_name :: string
  pt_upstream :: string
  pt_body_limit_bytes :: nat
  pt_timeouts :: ToolTimeouts
  pt_egress :: EgressMode
  pt_auth :: ProxyAuth
  pt_auth_source :: string
  pt_oauth_session_label :: "string option"

fun proxy_auth_of_spec :: "AuthSpec \<Rightarrow> ProxyAuth" where
  "proxy_auth_of_spec NoAuth = PNone"
| "proxy_auth_of_spec (Header h _ fr) = PHeader h ''header'' fr None"
| "proxy_auth_of_spec (BearerEnv _ fr) = PBearer fr None"
| "proxy_auth_of_spec (OauthPkce _ _ _ _ _ _) = POauth ''oauth_pkce'' [] None None"
| "proxy_auth_of_spec (OauthDeviceCode _ _ _ _ _) = POauth ''oauth_device_code'' [] None None"

definition from_registration :: "Registration \<Rightarrow> ProxyTarget" where
  "from_registration r =
     \<lparr> pt_name = rg_name r, pt_upstream = rg_upstream r, pt_body_limit_bytes = rg_body_limit_bytes r,
       pt_timeouts = rg_timeouts r, pt_egress = rg_egress r, pt_auth = proxy_auth_of_spec (rg_auth r),
       pt_auth_source = ''registration_default'', pt_oauth_session_label = None \<rparr>"

definition from_tool_config :: "ToolConfig \<Rightarrow> ProxyTarget" where
  "from_tool_config t =
     \<lparr> pt_name = tc_name t, pt_upstream = tc_upstream t, pt_body_limit_bytes = tc_body_limit_bytes t,
       pt_timeouts = tc_timeouts t, pt_egress = tc_egress t,
       pt_auth = (case tc_auth t of
                    None \<Rightarrow> PNone
                  | Some a \<Rightarrow> PHeader (tac_header a) ''config'' (tac_force_replace a) None),
       pt_auth_source = ''registration_default'', pt_oauth_session_label = None \<rparr>"

definition resolve_target :: "AppState \<Rightarrow> string \<Rightarrow> ProxyTarget option" where
  "resolve_target st name =
     (case lookup_active name (ap_catalog st) of
        Some r \<Rightarrow> Some (from_registration r)
      | None \<Rightarrow> map_option from_tool_config
                  (List.find (\<lambda>t. tc_name t = name) (active_tools (ap_config st))))"

subsection \<open>Request allowlist and transport handles\<close>

definition upstream_url_for :: "ProxyTarget \<Rightarrow> string \<Rightarrow> Request \<Rightarrow> string" where
  "upstream_url_for target path req =
     (let base = trim_end_matches (CHR ''/'') (pt_upstream target) @ ''/'' @ path in
      case rq_query req of
        Some q \<Rightarrow> if q \<noteq> [] then base @ ''?'' @ q else base
      | None \<Rightarrow> base)"

definition tool_request_allowed :: "(string \<Rightarrow> Url option) \<Rightarrow> ToolConfig \<Rightarrow> string \<Rightarrow> Request \<Rightarrow> bool" where
  "tool_request_allowed parse_url tool upstream_url req =
     (case tc_request_allowlist tool of
        None \<Rightarrow> True
      | Some rules \<Rightarrow>
          if \<not> is_literal_request_path (rq_path req) \<or> rq_query req \<noteq> None then False
          else (case parse_url upstream_url of
                  None \<Rightarrow> False
                | Some url \<Rightarrow>
                    url_query url = None \<and> url_fragment url = None \<and>
                    is_literal_request_path (url_path url) \<and>
                    list_ex (\<lambda>r. tr_method r = rq_method req \<and> tr_path r = url_path url) rules))"

definition request_allowed :: "(string \<Rightarrow> Url option) \<Rightarrow> AppConfig \<Rightarrow> string \<Rightarrow> string \<Rightarrow> Request \<Rightarrow> bool" where
  "request_allowed parse_url cfg tool_name upstream_url req =
     list_all (\<lambda>t. tool_request_allowed parse_url t upstream_url req)
       (filter (\<lambda>t. tc_name t = tool_name) (ac_tools cfg))"

definition credential_handle_matches :: "AppState \<Rightarrow> string \<Rightarrow> Request \<Rightarrow> bool" where
  "credential_handle_matches st tool_name req =
     (case List.find (\<lambda>t. tc_name t = tool_name) (ac_tools (ap_config st)) of
        None \<Rightarrow> False
      | Some tool \<Rightarrow>
          if tc_credential_handles tool = [] then False
          else (case map_option trim (Option.bind (header_str ''authorization'' req)
                       (\<lambda>v. strip_prefix ''Bearer '' (trim v))) of
                  None \<Rightarrow> False
                | Some token \<Rightarrow>
                    token \<noteq> [] \<and>
                    list_ex (\<lambda>h. trim h \<noteq> [] \<and> token = trim h) (tc_credential_handles tool)))"

subsection \<open>Per-agent credential override\<close>

definition apply_auth_override :: "env \<Rightarrow> AuthSpec \<Rightarrow> ProxyTarget \<Rightarrow> ProxyTarget" where
  "apply_auth_override env spec target0 =
     (let target = target0\<lparr> pt_auth_source := ''agent_override'' \<rparr> in
      case spec of
        NoAuth \<Rightarrow> target\<lparr> pt_auth := PNone \<rparr>
      | Header h v fr \<Rightarrow> target\<lparr> pt_auth := PHeader h ''header'' fr (env v) \<rparr>
      | BearerEnv v fr \<Rightarrow> target\<lparr> pt_auth := PBearer fr (env v) \<rparr>
      | OauthPkce _ _ _ _ _ l \<Rightarrow>
          target\<lparr> pt_oauth_session_label :=
            Some (case l of Some x \<Rightarrow> x | None \<Rightarrow> DEFAULT_SESSION_LABEL) \<rparr>
      | OauthDeviceCode _ _ _ _ l \<Rightarrow>
          target\<lparr> pt_oauth_session_label :=
            Some (case l of Some x \<Rightarrow> x | None \<Rightarrow> DEFAULT_SESSION_LABEL) \<rparr>)"

definition apply_agent_credential_override ::
  "env \<Rightarrow> AppState \<Rightarrow> AgentIdentity option \<Rightarrow> ProxyTarget \<Rightarrow> ProxyTarget" where
  "apply_agent_credential_override env st identity target =
     (case ap_agent_creds st of
        None \<Rightarrow> target
      | Some overrides \<Rightarrow>
          (case identity of
             None \<Rightarrow> target
           | Some ident \<Rightarrow>
               (case override_get (ai_id ident) (pt_name target) overrides of
                  None \<Rightarrow> target
                | Some row \<Rightarrow> apply_auth_override env (ov_auth_spec row) target)))"

subsection \<open>OAuth token resolution\<close>

record OauthUnavailable =
  ou_response :: Response
  ou_audit_cause :: string

definition oauth_unavailable_envelope :: "nat \<Rightarrow> string \<Rightarrow> string \<Rightarrow> Response" where
  "oauth_unavailable_envelope st code msg =
     json_response st (JObj [(''error'', JObj [(''type'', JStr ''auth_error''), (''code'', JStr code),
                                               (''message'', JStr msg)])])"

definition oauth_unavailable :: "nat \<Rightarrow> string \<Rightarrow> string \<Rightarrow> string \<Rightarrow> OauthUnavailable" where
  "oauth_unavailable st code msg cause =
     \<lparr> ou_response = oauth_unavailable_envelope st code msg, ou_audit_cause = cause \<rparr>"

definition needs_refresh :: "int \<Rightarrow> OauthSession \<Rightarrow> bool" where
  "needs_refresh now s =
     (case (os_access_token s, os_access_token_expires_at s) of
        (None, _) \<Rightarrow> True
      | (Some _, Some e) \<Rightarrow> e \<le> now + 60
      | _ \<Rightarrow> False)"

definition resolve_oauth_token ::
  "ProxyEnv \<Rightarrow> ProxyTarget \<Rightarrow> string \<Rightarrow> AppState \<Rightarrow> AppState \<times> (OauthUnavailable, ProxyAuth) result" where
  "resolve_oauth_token pe target label st =
     (case ap_oauth st of
        None \<Rightarrow> (st, Inl (oauth_unavailable 503 ''oauth_sealing_key_unset''
                  ''OAuth registration requires LOCKSMITH_OAUTH_SEALING_KEY at daemon startup''
                  ''sealing_key_unset''))
      | Some rt \<Rightarrow>
          (let ox = pe_oauth pe; cr = ox_crypto ox; now = secs_of (pe_clk pe);
               mode = (case pt_auth target of POauth m _ _ _ \<Rightarrow> m | _ \<Rightarrow> ''oauth_unknown'');
               ok = (\<lambda>s. POauth mode (audit_session_id cr s) (os_access_token s) (os_account_id s))
           in case session_get cr (ort_key rt) (pt_name target) label (ort_sessions rt) of
                Inl _ \<Rightarrow> (st, Inl (oauth_unavailable 500 ''oauth_session_read_failed''
                            ''OAuth session unavailable (sealing failure)'' ''session_read_failed''))
              | Inr None \<Rightarrow> (st, Inl (oauth_unavailable 503 ''oauth_session_missing''
                               ''OAuth session not bootstrapped for this registration'' ''session_missing''))
              | Inr (Some s) \<Rightarrow>
                  if os_degraded s
                  then (st, Inl (oauth_unavailable 503 ''oauth_refresh_failed''
                          (''OAuth session degraded '' @ [CHR 0xE2, CHR 0x80, CHR 0x94] @
                           '' operator must re-bootstrap'') ''degraded''))
                  else if \<not> needs_refresh now s then (st, Inr (ok s))
                  else (case refresh_session ox (pe_token pe) now (pe_nonces pe) (ap_catalog st)
                               (ort_key rt) s (ort_sessions rt) of
                          (t1, Inr s1) \<Rightarrow>
                            (st\<lparr> ap_oauth := Some (rt\<lparr> ort_sessions := t1 \<rparr>) \<rparr>, Inr (ok s1))
                        | (t1, Inl e) \<Rightarrow>
                            (st\<lparr> ap_oauth := Some (rt\<lparr> ort_sessions :=
                                  mark_degraded now (pt_name target) label t1 \<rparr>) \<rparr>,
                             Inl (oauth_unavailable 503 ''oauth_refresh_failed''
                               (''OAuth refresh failed '' @ [CHR 0xE2, CHR 0x80, CHR 0x94] @
                                '' operator must re-bootstrap'') (audit_cause e))))))"

end
