(* ===== verification/Proxy.thy ===== *)
theory Proxy
  imports Proxy_Target
begin

text \<open>
  The second half of \<open>src/proxy.rs\<close>: the audit rows and wire responses of every
  outcome, the upstream request, the response pipeline and the whole request
  path \<open>proxy_tool_request\<close> with its two entry points.
\<close>

section \<open>Definitions\<close>

subsection \<open>Audit rows and wire responses\<close>

definition err_json :: "string \<Rightarrow> string \<Rightarrow> json" where
  "err_json msg ty = JObj [(''error'', JObj [(''message'', JStr msg), (''type'', JStr ty)])]"

definition err_json_code :: "string \<Rightarrow> string \<Rightarrow> string \<Rightarrow> json" where
  "err_json_code msg ty code =
     JObj [(''error'', JObj [(''message'', JStr msg), (''type'', JStr ty), (''code'', JStr code)])]"

definition proxy_event ::
  "int \<Rightarrow> RequestCtx \<Rightarrow> string \<Rightarrow> nat \<Rightarrow> Decision \<Rightarrow> string option \<Rightarrow> json option \<Rightarrow> AuditEvent" where
  "proxy_event clk ctx name st dec host details =
     (audit_event_base clk ctx)\<lparr> ev_class := Proxy, ev_event := name, ev_status := Some (of_nat st),
       ev_decision := dec, ev_upstream_host := host, ev_details := details \<rparr>"

definition audit_details :: "RequestCtx \<Rightarrow> ProxyTarget \<Rightarrow> json" where
  "audit_details ctx target =
     JObj ([(''auth_mode'', JStr (audit_mode (pt_auth target))),
            (''auth_source'', JStr (pt_auth_source target))] @
           (case oauth_session_id (pt_auth target) of
              Some sid \<Rightarrow> [(''oauth_session_id'', JStr sid)] | None \<Rightarrow> []) @
           (case pt_oauth_session_label target of
              Some l \<Rightarrow> [(''oauth_session_label'', JStr l)] | None \<Rightarrow> []) @
           (case cx_codex_body_fixup ctx of
              Some f \<Rightarrow> [(''codex_body_fixup'', f)] | None \<Rightarrow> []))"

definition record_authz_denied :: "int \<Rightarrow> RequestCtx \<Rightarrow> string \<Rightarrow> AppState \<Rightarrow> AppState \<times> Response" where
  "record_authz_denied clk ctx reason st =
     (audit_record ((audit_event_base clk ctx)\<lparr> ev_class := Security, ev_event := ''authz_denied'',
        ev_status := Some 403, ev_decision := Denied,
        ev_details := Some (JObj [(''reason'', JStr reason)]) \<rparr>) st,
      json_response 403 (err_json_code ''tool access denied'' ''authz_error'' ''tool_not_allowed''))"

definition record_tool_not_found :: "int \<Rightarrow> RequestCtx \<Rightarrow> AppState \<Rightarrow> AppState \<times> Response" where
  "record_tool_not_found clk ctx st =
     (audit_record (proxy_event clk ctx ''tool_not_found'' 404 Denied None None) st,
      json_response 404 (err_json (''Unknown tool: '' @ cx_tool_name ctx) ''not_found''))"

definition record_body_read_error ::
  "int \<Rightarrow> RequestCtx \<Rightarrow> string option \<Rightarrow> AppState \<Rightarrow> AppState \<times> Response" where
  "record_body_read_error clk ctx host st =
     (audit_record (proxy_event clk ctx ''request_body_read_error'' 400 Error host None) st,
      json_response 400 (err_json ''Failed to read request body'' ''bad_request''))"

definition record_credential_unavailable ::
  "int \<Rightarrow> RequestCtx \<Rightarrow> ProxyTarget \<Rightarrow> string option \<Rightarrow> AppState \<Rightarrow> AppState \<times> Response" where
  "record_credential_unavailable clk ctx target host st =
     (audit_record (proxy_event clk ctx ''credential_unavailable'' 503 Error host
        (Some (case audit_details ctx target of
                 JObj m \<Rightarrow> JObj (m @ [(''credential_cause'', JStr ''force_replace_missing_credential'')])
               | j \<Rightarrow> j))) st,
      json_response 503 (err_json_code ''configured credential unavailable'' ''auth_error''
        ''credential_unavailable''))"

definition record_codex_body_too_large ::
  "int \<Rightarrow> RequestCtx \<Rightarrow> string option \<Rightarrow> AppState \<Rightarrow> AppState \<times> Response" where
  "record_codex_body_too_large clk ctx host st =
     (audit_record (proxy_event clk ctx ''codex_body_too_large'' 413 Denied host None) st,
      json_response 413 (err_json_code
        (''Codex request body exceeds '' @ digits MAX_BODY_BYTES @ '' byte cap'')
        ''payload_too_large'' ''codex_body_too_large''))"

definition record_response_content_type_disallowed ::
  "int \<Rightarrow> RequestCtx \<Rightarrow> string option \<Rightarrow> string option \<Rightarrow> AppState \<Rightarrow> AppState \<times> Response" where
  "record_response_content_type_disallowed clk ctx host ct st =
     (audit_record (proxy_event clk ctx ''response_content_type_disallowed'' 502 Denied host
        (Some (JObj [(''observed_content_type'', opt_str ct)]))) st,
      json_response 502 (err_json ''upstream content-type not allowed'' ''response_content_type_disallowed''))"

definition record_proxy_request_success ::
  "int \<Rightarrow> RequestCtx \<Rightarrow> ProxyTarget \<Rightarrow> string option \<Rightarrow> nat \<Rightarrow> AppState \<Rightarrow> AppState" where
  "record_proxy_request_success clk ctx target host status st =
     audit_record (proxy_event clk ctx ''proxy_request'' status
       (if status \<ge> 500 then Error else Allowed) host (Some (audit_details ctx target))) st"

definition record_upstream_error ::
  "int \<Rightarrow> RequestCtx \<Rightarrow> ProxyTarget \<Rightarrow> string option \<Rightarrow> bool \<Rightarrow> AppState \<Rightarrow> AppState \<times> Response" where
  "record_upstream_error clk ctx target host is_timeout st =
     (let (status, kind, msg) =
        (if is_timeout then (504, ''timeout'', ''Upstream timeout'')
         else (502, ''upstream_error'', ''Upstream error''))
      in (audit_record (proxy_event clk ctx kind status Error host (Some (audit_details ctx target))) st,
          json_response status (err_json msg kind)))"

definition record_upstream_body_read_error ::
  "int \<Rightarrow> RequestCtx \<Rightarrow> string option \<Rightarrow> AppState \<Rightarrow> AppState \<times> Response" where
  "record_upstream_body_read_error clk ctx host st =
     (audit_record (proxy_event clk ctx ''upstream_body_read_error'' 502 Error host
        (Some (JObj [(''error'', JStr [])]))) st,
      json_response 502 (err_json ''upstream body read failed'' ''upstream_error''))"

definition record_response_size_exceeded_buffered ::
  "int \<Rightarrow> RequestCtx \<Rightarrow> string option \<Rightarrow> nat \<Rightarrow> nat \<Rightarrow> AppState \<Rightarrow> AppState \<times> Response" where
  "record_response_size_exceeded_buffered clk ctx host observed cap st =
     (audit_record (proxy_event clk ctx ''response_size_exceeded'' 502 Denied host
        (Some (JObj [(''observed_bytes'', JNum (int observed)), (''cap_bytes'', JNum (int cap)),
                     (''flow'', JStr ''non_streaming'')]))) st,
      json_response 502 (err_json ''response too large'' ''response_size_exceeded''))"

definition record_response_redaction ::
  "int \<Rightarrow> RequestCtx \<Rightarrow> string option \<Rightarrow> nat \<Rightarrow> RedactionRecord \<Rightarrow> AppState \<Rightarrow> AppState" where
  "record_response_redaction clk ctx host status rec st =
     audit_record (proxy_event clk ctx ''response_redaction'' status Allowed host
       (Some (JObj [(''pattern_id'', JStr (rr_pattern_id rec)),
                    (''matches'', JNum (int (rr_matches rec))),
                    (''match_hash'', JStr (rr_match_hash rec))]))) st"

definition record_oauth_unavailable :: "int \<Rightarrow> RequestCtx \<Rightarrow> string \<Rightarrow> AppState \<Rightarrow> AppState" where
  "record_oauth_unavailable clk ctx cause st =
     audit_record (proxy_event clk ctx ''oauth_unavailable'' 503 Error None
       (Some (JObj [(''oauth_cause'', JStr cause)]))) st"

text \<open>The event of the truncation callback; it has no latency.\<close>

definition truncate_event ::
  "int \<Rightarrow> RequestCtx \<Rightarrow> string option \<Rightarrow> nat \<Rightarrow> nat \<Rightarrow> nat \<Rightarrow> AuditEvent" where
  "truncate_event clk ctx host status cap observed =
     default_event\<lparr> ev_ts_ms := clk, ev_class := Proxy, ev_event := ''response_size_exceeded'',
       ev_tool := Some (cx_tool_name ctx), ev_upstream_host := host, ev_method := Some (cx_method ctx),
       ev_path := Some (cx_request_path ctx), ev_status := Some (of_nat status), ev_decision := Denied,
       ev_auth_method := Some (cx_auth_method ctx), ev_agent_public_id := cx_agent_public_id ctx,
       ev_details := Some (JObj [(''observed_bytes'', JNum (int observed)),
                                 (''cap_bytes'', JNum (int cap)), (''flow'', JStr ''streaming'')]) \<rparr>"

definition url_host :: "string \<Rightarrow> string option" where
  "url_host url =
     (let stripped = (case strip_prefix ''https://'' url of
                        Some s \<Rightarrow> s
                      | None \<Rightarrow> (case strip_prefix ''http://'' url of Some s \<Rightarrow> s | None \<Rightarrow> url));
          host = takeWhile (\<lambda>c. c \<noteq> CHR ''/'' \<and> c \<noteq> CHR '':'') stripped
      in if host = [] then None else Some host)"

subsection \<open>The upstream request\<close>

definition is_chatgpt_codex_upstream :: "string \<Rightarrow> bool" where
  "is_chatgpt_codex_upstream upstream = contains_str ''/backend-api/codex'' (to_lower upstream)"

definition request_path_ends_with_responses :: "string \<Rightarrow> bool" where
  "request_path_ends_with_responses path = ends_with ''/responses'' (to_lower path)"

definition stripped_header :: "bool \<Rightarrow> string option \<Rightarrow> string \<Rightarrow> bool" where
  "stripped_header codex extra lower \<longleftrightarrow>
     lower = ''host'' \<or> lower = ''authorization'' \<or> lower = ''x-api-key'' \<or>
     lower = ''content-length'' \<or> lower = ''transfer-encoding'' \<or>
     (codex \<and> lower = ''openai-beta'') \<or> extra = Some lower"

definition injected_headers :: "AppState \<Rightarrow> ProxyTarget \<Rightarrow> headers" where
  "injected_headers st target =
     (case pt_auth target of
        PNone \<Rightarrow> []
      | PHeader h _ _ ov \<Rightarrow>
          (case ov of
             Some v \<Rightarrow> [(to_lower h, v)]
           | None \<Rightarrow> (case ap_creds st (pt_name target) of
                         Some v \<Rightarrow> [(to_lower h, v)] | None \<Rightarrow> []))
      | PBearer _ ov \<Rightarrow>
          (case ov of
             Some v \<Rightarrow> [(''authorization'', ''Bearer '' @ v)]
           | None \<Rightarrow> (case ap_creds st (pt_name target) of
                         Some v \<Rightarrow> [(''authorization'', ''Bearer '' @ v)] | None \<Rightarrow> []))
      | POauth _ _ tok acct \<Rightarrow>
          (case tok of Some t \<Rightarrow> [(''authorization'', ''Bearer '' @ t)] | None \<Rightarrow> []) @
          (case acct of
             Some a \<Rightarrow> if is_chatgpt_codex_upstream (pt_upstream target)
                       then [(''chatgpt-account-id'', a)] else []
           | None \<Rightarrow> []))"

definition build_upstream_request ::
  "ProxyEnv \<Rightarrow> AppState \<Rightarrow> ProxyTarget \<Rightarrow> string \<Rightarrow> string \<Rightarrow> headers \<Rightarrow> string \<Rightarrow> string option
    \<Rightarrow> AppState \<times> HttpClient \<times> UpstreamRequest" where
  "build_upstream_request pe st target meth url hs bd agent_name =
     (let (pool, client) = get_or_build_for (pe_client pe) (pt_name target) (pt_timeouts target)
                             (pt_egress target) (ap_config st) (ap_pool st);
          codex = is_chatgpt_codex_upstream (pt_upstream target);
          extra = strip_header_lower (pt_auth target);
          sent_originator = (codex \<and> list_ex (\<lambda>(n, _). eq_ignore_ascii_case n ''originator'') hs);
          forwarded = filter (\<lambda>(n, _). \<not> stripped_header codex extra (to_lower n)) hs;
          codex_headers =
            (if codex
             then [(''openai-beta'', ''responses=experimental'')] @
                  (if sent_originator then []
                   else [(''originator'', case agent_name of Some n \<Rightarrow> n | None \<Rightarrow> ''locksmith-proxy'')])
             else [])
      in (st\<lparr> ap_pool := pool \<rparr>, client,
          \<lparr> ur_method = meth, ur_url = url,
            ur_headers = forwarded @ injected_headers st target @ codex_headers,
            ur_body = (if bd \<noteq> [] then Some bd else None) \<rparr>))"

subsection \<open>The response\<close>

definition hop_by_hop :: "string \<Rightarrow> bool" where
  "hop_by_hop lower \<longleftrightarrow>
     lower \<in> set [''transfer-encoding'', ''content-length'', ''connection'', ''keep-alive'',
                  ''proxy-connection'', ''upgrade'', ''te'', ''trailer'']"

definition forward_response_headers :: "headers \<Rightarrow> headers" where
  "forward_response_headers upstream =
     fold (\<lambda>(n, v) out. if hop_by_hop (to_lower n) then out else hdr_insert n v out) upstream []"

definition status_or_bad_gateway :: "nat \<Rightarrow> nat" where
  "status_or_bad_gateway s = (if 100 \<le> s \<and> s \<le> 999 then s else 502)"

text \<open>\<open>Response::bytes\<close>: the whole body, or an error.\<close>

definition read_all :: "poll list \<Rightarrow> string option" where
  "read_all ps = (if Ready_Err \<in> set ps then None else Some (data_of ps))"

definition rc_should_buffer :: "ResponseControls \<Rightarrow> bool" where
  "rc_should_buffer rc = has_redaction_patterns rc"

definition apply_buffered_response_controls ::
  "ProxyEnv \<Rightarrow> ResponseControls \<Rightarrow> RequestCtx \<Rightarrow> ProxyTarget \<Rightarrow> string option \<Rightarrow> nat \<Rightarrow> string option
    \<Rightarrow> headers \<Rightarrow> poll list \<Rightarrow> AppState \<Rightarrow> AppState \<times> Response" where
  "apply_buffered_response_controls pe rc ctx target host status ct hs polls st =
     (let clk = pe_clk pe in
      case read_all polls of
        None \<Rightarrow> record_upstream_body_read_error clk ctx host st
      | Some bd \<Rightarrow>
          (case apply_non_streaming (pe_regex pe) (ox_crypto (pe_oauth pe)) rc ct bd of
             SizeExceeded observed cap \<Rightarrow> record_response_size_exceeded_buffered clk ctx host observed cap st
           | ContentTypeDisallowed observed \<Rightarrow>
               record_response_content_type_disallowed clk ctx host (Some observed) st
           | RcAllowed bd' redactions \<Rightarrow>
               (record_proxy_request_success clk ctx target host status
                  (fold (record_response_redaction clk ctx host status) redactions st),
                \<lparr> rs_status = status_or_bad_gateway status, rs_headers = hs, rs_body = Bytes bd' \<rparr>)))"

definition handle_upstream_response ::
  "ProxyEnv \<Rightarrow> RequestCtx \<Rightarrow> ProxyTarget \<Rightarrow> string option \<Rightarrow> nat \<Rightarrow> headers \<Rightarrow> poll list
    \<Rightarrow> AppState \<Rightarrow> AppState \<times> Response" where
  "handle_upstream_response pe ctx target host status upstream_hs polls st =
     (let clk = pe_clk pe;
          ct = Option.bind (hdr_get ''content-type'' upstream_hs) hdr_to_str;
          hs = forward_response_headers upstream_hs;
          rc = ap_response_controls st (cx_tool_name ctx);
          stream = (\<lambda>cap. (record_proxy_request_success clk ctx target host status st,
             \<lparr> rs_status = status_or_bad_gateway status, rs_headers = hs,
               rs_body = Stream polls (map_option (\<lambda>c. (c, truncate_event clk ctx host status c)) cap) \<rparr>))
      in case rc of
           None \<Rightarrow> stream None
         | Some c \<Rightarrow>
             if \<not> streaming_content_type_allowed c ct
             then record_response_content_type_disallowed clk ctx host ct st
             else if rc_should_buffer c
             then apply_buffered_response_controls pe c ctx target host status ct hs polls st
             else stream (rc_max_size_bytes c))"

subsection \<open>The request path\<close>

definition fixup_json :: "FixupSummary \<Rightarrow> json" where
  "fixup_json s =
     JObj [(''fields_added'', JArr (map JStr (fx_added s))),
           (''fields_overridden'', JArr (map JStr (fx_overridden s))),
           (''fields_removed'', JArr (map JStr (fx_removed s)))]"

text \<open>From the body onwards: everything before is decided, the credential is resolved.\<close>

definition forward_to_upstream ::
  "ProxyEnv \<Rightarrow> RequestCtx \<Rightarrow> ProxyTarget \<Rightarrow> string \<Rightarrow> Request \<Rightarrow> AppState \<Rightarrow> AppState \<times> Response" where
  "forward_to_upstream pe ctx target url req st =
     (let clk = pe_clk pe; host = url_host (pt_upstream target) in
      if force_replace_missing (ap_creds st) (pt_name target) (pt_auth target)
      then record_credential_unavailable clk ctx target host st
      else (case to_bytes (pt_body_limit_bytes target) req of
              None \<Rightarrow> record_body_read_error clk ctx host st
            | Some raw \<Rightarrow>
                (case (if is_chatgpt_codex_upstream (pt_upstream target) \<and>
                          request_path_ends_with_responses (cx_request_path ctx)
                       then fixup (pe_json pe) raw else Inr (raw, default_summary)) of
                   Inl TooLarge \<Rightarrow> record_codex_body_too_large clk ctx host st
                 | Inr (bd, summary) \<Rightarrow>
                     (let ctx' = (if is_noop summary then ctx
                                  else ctx\<lparr> cx_codex_body_fixup := Some (fixup_json summary) \<rparr>);
                          (st1, client, ureq) = build_upstream_request pe st target (rq_method req) url
                                                  (rq_headers req) bd (cx_agent_name ctx);
                          st2 = st1\<lparr> ap_sent := ap_sent st1 @ [(client, ureq)] \<rparr>
                      in case pe_send pe client ureq of
                           Upstream status hs polls \<Rightarrow>
                             handle_upstream_response pe ctx' target host status hs polls st2
                         | SendTimeout \<Rightarrow> record_upstream_error clk ctx' target host True st2
                         | SendError \<Rightarrow> record_upstream_error clk ctx' target host False st2))))"

definition proxy_to_target ::
  "ProxyEnv \<Rightarrow> RequestCtx \<Rightarrow> ProxyTarget \<Rightarrow> string \<Rightarrow> Request \<Rightarrow> AppState \<Rightarrow> AppState \<times> Response" where
  "proxy_to_target pe ctx target0 path req st =
     (let url = upstream_url_for target0 path req in
      if \<not> request_allowed (pe_url pe) (ap_config st) (cx_tool_name ctx) url req
      then record_authz_denied (pe_clk pe) ctx ''request_not_in_allowlist'' st
      else
        (let target = apply_agent_credential_override (pe_env pe) st (rq_identity req) target0 in
         case pt_auth target of
           POauth _ _ _ _ \<Rightarrow>
             (case resolve_oauth_token pe target
                     (case pt_oauth_session_label target of Some l \<Rightarrow> l | None \<Rightarrow> DEFAULT_SESSION_LABEL) st of
                (st1, Inl u) \<Rightarrow>
                  (record_oauth_unavailable (pe_clk pe) ctx (ou_audit_cause u) st1, ou_response u)
              | (st1, Inr auth) \<Rightarrow> forward_to_upstream pe ctx (target\<lparr> pt_auth := auth \<rparr>) url req st1)
         | _ \<Rightarrow> forward_to_upstream pe ctx target url req st))"

definition proxy_tool_request ::
  "ProxyEnv \<Rightarrow> string \<Rightarrow> string \<Rightarrow> Request \<Rightarrow> AppState \<Rightarrow> AppState \<times> Response" where
  "proxy_tool_request pe tool_name path req st =
     (let ctx = snapshot (pe_started pe) req tool_name in
      case (case rq_identity req of Some ident \<Rightarrow> allows_tool ident tool_name | None \<Rightarrow> Inr ()) of
        Inl reason \<Rightarrow> record_authz_denied (pe_clk pe) ctx reason st
      | Inr _ \<Rightarrow>
          (case resolve_target st tool_name of
             Some target \<Rightarrow> proxy_to_target pe ctx target path req st
           | None \<Rightarrow>
               (case handle_proxy_call (pe_kz pe) (ap_config st) tool_name req (ap_kz st) of
                  (w, Some resp) \<Rightarrow> (st\<lparr> ap_kz := w \<rparr>, resp)
                | (w, None) \<Rightarrow> record_tool_not_found (pe_clk pe) ctx (st\<lparr> ap_kz := w \<rparr>))))"

definition credential_transport_request ::
  "ProxyEnv \<Rightarrow> string \<Rightarrow> string \<Rightarrow> Request \<Rightarrow> AppState \<Rightarrow> AppState \<times> Response" where
  "credential_transport_request pe tool_name path req st =
     (if \<not> credential_handle_matches st tool_name req
      then (st, json_response 401 (JObj [(''error'',
              JObj [(''code'', JStr ''credential_handle_rejected''),
                    (''message'', JStr ''Credential transport handle rejected'')])]))
      else proxy_tool_request pe tool_name path req st)"

text \<open>What a client that polls a response body \<open>n\<close> times receives, and the rows the callback records.\<close>

fun deliver :: "nat \<Rightarrow> body \<Rightarrow> string \<times> AuditEvent list" where
  "deliver n (Stream polls None) = (data_of (take n polls), [])"
| "deliver n (Stream polls (Some (cap, ev))) =
     (case poll_n n (stream_new polls (Some cap)) of
        (out, s) \<Rightarrow> (data_of out, map ev (st_callbacks s)))"
| "deliver n (Bytes b) = (b, [])"
| "deliver n _ = ([], [])"

section \<open>Lemmas\<close>

lemmas record_defs = record_authz_denied_def record_tool_not_found_def record_body_read_error_def
  record_credential_unavailable_def record_codex_body_too_large_def
  record_response_content_type_disallowed_def record_proxy_request_success_def
  record_upstream_error_def record_upstream_body_read_error_def
  record_response_size_exceeded_buffered_def record_response_redaction_def record_oauth_unavailable_def

subsection \<open>Frames\<close>

lemma fold_redaction_frame [simp]:
  "ap_sent (fold (record_response_redaction clk ctx host status) rs st) = ap_sent st"
  by (induction rs arbitrary: st) (simp_all add: record_response_redaction_def)

lemma handle_upstream_response_sent [simp]:
  "ap_sent (fst (handle_upstream_response pe ctx target host status hs polls st)) = ap_sent st"
  by (simp add: handle_upstream_response_def apply_buffered_response_controls_def record_defs Let_def
           split: option.splits ApplyOutcome.splits)

lemma resolve_oauth_token_frame:
  assumes "resolve_oauth_token pe target label st = (st1, r)"
  shows "ap_sent st1 = ap_sent st" "ap_audit st1 = ap_audit st" "ap_creds st1 = ap_creds st"
    "ap_config st1 = ap_config st" "ap_pool st1 = ap_pool st"
    "ap_response_controls st1 = ap_response_controls st" "ap_agents st1 = ap_agents st"
  using assms
  by (auto simp: resolve_oauth_token_def Let_def split: option.splits sum.splits if_splits prod.splits)

subsection \<open>What reaches the upstream\<close>

text \<open>One forwarded request: nothing is sent, or exactly the built request once.\<close>

lemma forward_to_upstream_sent:
  assumes "forward_to_upstream pe ctx target url req st = (st', resp)"
  shows "ap_sent st' = ap_sent st \<or>
         (\<exists>raw bd st1 client ureq. \<not> force_replace_missing (ap_creds st) (pt_name target) (pt_auth target) \<and>
            to_bytes (pt_body_limit_bytes target) req = Some raw \<and>
            build_upstream_request pe st target (rq_method req) url (rq_headers req) bd (cx_agent_name ctx)
              = (st1, client, ureq) \<and>
            ap_sent st' = ap_sent st @ [(client, ureq)])"
proof (cases "force_replace_missing (ap_creds st) (pt_name target) (pt_auth target) \<or>
              to_bytes (pt_body_limit_bytes target) req = None")
  case True
  with assms show ?thesis
    by (cases "force_replace_missing (ap_creds st) (pt_name target) (pt_auth target)")
       (auto simp: forward_to_upstream_def Let_def record_defs)
next
  case False
  then obtain raw where raw: "to_bytes (pt_body_limit_bytes target) req = Some raw"
      "\<not> force_replace_missing (ap_creds st) (pt_name target) (pt_auth target)" by auto
  let ?fix = "if is_chatgpt_codex_upstream (pt_upstream target) \<and>
                 request_path_ends_with_responses (cx_request_path ctx)
              then fixup (pe_json pe) raw else Inr (raw, default_summary)"
  show ?thesis
  proof (cases ?fix)
    case (Inl e)
    then have "e = TooLarge" by (cases e) simp
    with assms raw Inl show ?thesis
      by (auto simp: forward_to_upstream_def Let_def record_defs)
  next
    case (Inr q)
    obtain bd sm where q: "q = (bd, sm)" by fastforce
    obtain st1 client ureq where b: "build_upstream_request pe st target (rq_method req) url (rq_headers req) bd
        (cx_agent_name ctx) = (st1, client, ureq)" by (metis prod_cases3)
    have s1: "ap_sent st1 = ap_sent st"
      using b by (auto simp: build_upstream_request_def Let_def split: prod.splits)
    have "ap_sent st' = ap_sent st @ [(client, ureq)]"
      using assms raw Inr q b s1
      by (cases "pe_send pe client ureq")
         (auto simp: forward_to_upstream_def Let_def record_upstream_error_def
               dest: arg_cong [of _ _ "\<lambda>x. ap_sent (fst x)"])
    with raw b show ?thesis by blast
  qed
qed

text \<open>
  The credential a target ends with: the override of the agent, then the OAuth
  token of the session.
\<close>

definition effective_target ::
  "ProxyEnv \<Rightarrow> AppState \<Rightarrow> Request \<Rightarrow> ProxyTarget \<Rightarrow> ProxyTarget \<Rightarrow> bool" where
  "effective_target pe st req target0 target \<longleftrightarrow>
     (let t1 = apply_agent_credential_override (pe_env pe) st (rq_identity req) target0 in
      case pt_auth t1 of
        POauth _ _ _ _ \<Rightarrow>
          (\<exists>st1 auth. resolve_oauth_token pe t1
             (case pt_oauth_session_label t1 of Some l \<Rightarrow> l | None \<Rightarrow> DEFAULT_SESSION_LABEL) st = (st1, Inr auth) \<and>
             target = t1\<lparr> pt_auth := auth \<rparr>)
      | _ \<Rightarrow> target = t1)"

text \<open>Every request that leaves the proxy, and what was checked before.\<close>

lemma proxy_sends:
  assumes run: "proxy_tool_request pe tool path req st = (st', resp)"
    and sent: "ap_sent st' \<noteq> ap_sent st"
  shows "\<exists>target0 target raw bd st1 st2 client ureq.
           (\<forall>ident. rq_identity req = Some ident \<longrightarrow> allows_tool ident tool = Inr ()) \<and>
           resolve_target st tool = Some target0 \<and>
           request_allowed (pe_url pe) (ap_config st) tool (upstream_url_for target0 path req) req \<and>
           effective_target pe st req target0 target \<and>
           \<not> force_replace_missing (ap_creds st) (pt_name target) (pt_auth target) \<and>
           to_bytes (pt_body_limit_bytes target) req = Some raw \<and>
           ap_creds st1 = ap_creds st \<and> ap_config st1 = ap_config st \<and> ap_pool st1 = ap_pool st \<and>
           build_upstream_request pe st1 target (rq_method req) (upstream_url_for target0 path req)
             (rq_headers req) bd (map_option ai_name (rq_identity req)) = (st2, client, ureq) \<and>
           ap_sent st' = ap_sent st @ [(client, ureq)]"
proof -
  let ?ctx = "snapshot (pe_started pe) req tool"
  have acl: "\<forall>ident. rq_identity req = Some ident \<longrightarrow> allows_tool ident tool = Inr ()"
  proof (intro allI impI)
    fix ident assume i: "rq_identity req = Some ident"
    show "allows_tool ident tool = Inr ()"
      using run sent i
      by (cases "allows_tool ident tool") (auto simp: proxy_tool_request_def Let_def record_defs)
  qed
  then have gate: "(case rq_identity req of Some ident \<Rightarrow> allows_tool ident tool | None \<Rightarrow> Inr ()) = Inr ()"
    by (cases "rq_identity req") auto
  obtain target0 where t0: "resolve_target st tool = Some target0"
    using run sent gate
    by (cases "resolve_target st tool")
       (auto simp: proxy_tool_request_def Let_def record_defs split: prod.splits option.splits)
  let ?url = "upstream_url_for target0 path req"
  let ?t1 = "apply_agent_credential_override (pe_env pe) st (rq_identity req) target0"
  have to: "proxy_to_target pe ?ctx target0 path req st = (st', resp)"
    using run gate t0 by (simp add: proxy_tool_request_def Let_def)
  have ra: "request_allowed (pe_url pe) (ap_config st) tool ?url req"
    using to sent by (auto simp: proxy_to_target_def Let_def record_defs snapshot_def split: if_splits)
  have ctx: "cx_tool_name ?ctx = tool" "cx_agent_name ?ctx = map_option ai_name (rq_identity req)"
    by (simp_all add: snapshot_def)
  have "\<exists>st1 target. ap_sent st1 = ap_sent st \<and> ap_creds st1 = ap_creds st \<and> ap_config st1 = ap_config st \<and>
          ap_pool st1 = ap_pool st \<and> effective_target pe st req target0 target \<and>
          forward_to_upstream pe ?ctx target ?url req st1 = (st', resp)"
  proof (cases "\<exists>m sid tok acct. pt_auth ?t1 = POauth m sid tok acct")
    case True
    then obtain m sid tok acct where oa: "pt_auth ?t1 = POauth m sid tok acct" by blast
    let ?label = "case pt_oauth_session_label ?t1 of Some l \<Rightarrow> l | None \<Rightarrow> DEFAULT_SESSION_LABEL"
    obtain st1 r where rs: "resolve_oauth_token pe ?t1 ?label st = (st1, r)" by fastforce
    note fr = resolve_oauth_token_frame [OF rs]
    show ?thesis
    proof (cases r)
      case (Inl u)
      with to ra oa rs sent fr show ?thesis
        by (auto simp: proxy_to_target_def Let_def record_defs ctx)
    next
      case (Inr auth)
      with to ra oa rs have "forward_to_upstream pe ?ctx (?t1\<lparr> pt_auth := auth \<rparr>) ?url req st1 = (st', resp)"
        by (simp add: proxy_to_target_def Let_def ctx)
      with Inr fr oa rs show ?thesis
        by (intro exI [of _ st1] exI [of _ "?t1\<lparr> pt_auth := auth \<rparr>"]) (simp add: effective_target_def Let_def)
    qed
  next
    case False
    then have "forward_to_upstream pe ?ctx ?t1 ?url req st = (st', resp)"
      using to ra by (cases "pt_auth ?t1") (auto simp: proxy_to_target_def Let_def ctx)
    with False show ?thesis
      by (intro exI [of _ st] exI [of _ ?t1]) (cases "pt_auth ?t1"; simp add: effective_target_def Let_def)
  qed
  then obtain st1 target where f: "ap_sent st1 = ap_sent st" "ap_creds st1 = ap_creds st"
      "ap_config st1 = ap_config st" "ap_pool st1 = ap_pool st" "effective_target pe st req target0 target"
      "forward_to_upstream pe ?ctx target ?url req st1 = (st', resp)" by blast
  from forward_to_upstream_sent [OF f(6)] sent f(1) obtain raw bd st2 client ureq where
    "\<not> force_replace_missing (ap_creds st1) (pt_name target) (pt_auth target)"
    "to_bytes (pt_body_limit_bytes target) req = Some raw"
    "build_upstream_request pe st1 target (rq_method req) ?url (rq_headers req) bd (cx_agent_name ?ctx)
       = (st2, client, ureq)" "ap_sent st' = ap_sent st1 @ [(client, ureq)]" by auto
  with acl t0 ra f ctx show ?thesis by metis
qed

end
