(* ===== verification/Auth_Middleware.thy ===== *)
theory Auth_Middleware
  imports App_State
begin

text \<open>
  The authentication middleware of the agent listener, \<open>src/auth.rs\<close>: the
  unauthenticated paths, the client-certificate and bearer branches and the
  shared-token fallback.  The rest of the request path is the argument \<open>nxt\<close>.
\<close>

section \<open>Definitions\<close>

type_synonym handler = "Request \<Rightarrow> AppState \<Rightarrow> AppState \<times> Response"

text \<open>The authenticators share the agent table and the audit log of the state.\<close>

definition auth_view :: "AppState \<Rightarrow> AuthState" where
  "auth_view st = \<lparr> as_agents = ap_agents st, as_audit = ap_audit st \<rparr>"

definition auth_commit :: "AuthState \<Rightarrow> AppState \<Rightarrow> AppState" where
  "auth_commit a st = st\<lparr> ap_agents := as_agents a, ap_audit := as_audit a \<rparr>"

definition bypass_path :: "string \<Rightarrow> bool" where
  "bypass_path path \<longleftrightarrow> path \<in> set [''/livez'', ''/readyz'', ''/version'', ''/health'']"

definition transport_path :: "string \<Rightarrow> bool" where
  "transport_path path \<longleftrightarrow> path = ''/transport'' \<or> starts_with ''/transport/'' path"

definition run_bearer_branch :: "ProxyEnv \<Rightarrow> handler \<Rightarrow> handler" where
  "run_bearer_branch pe nxt req st =
     (let header = (case header_str ''authorization'' req of Some h \<Rightarrow> h | None \<Rightarrow> []) in
      case authenticate_bearer (ox_crypto (pe_oauth pe)) (pe_clk pe) header (auth_view st) of
        (a, Inr ident) \<Rightarrow>
          nxt (req\<lparr> rq_auth := Some AsBearer, rq_identity := Some ident \<rparr>) (auth_commit a st)
      | (a, Inl e) \<Rightarrow> (auth_commit a st, auth_error_response e))"

definition shared_bearer_branch :: "handler \<Rightarrow> handler" where
  "shared_bearer_branch nxt req st =
     (let pass = nxt (req\<lparr> rq_auth := Some AsBearer \<rparr>) st in
      case ac_inbound_auth (ap_config st) of
        Some ia \<Rightarrow>
          if ia_mode ia \<noteq> ''bearer'' then pass
          else (case ia_token ia of
                  None \<Rightarrow> pass
                | Some expected \<Rightarrow>
                    if Option.bind (header_str ''authorization'' req) (strip_prefix ''Bearer '') = Some expected
                    then pass
                    else (st, json_response 401 (JObj [(''error'',
                            JObj [(''message'', JStr ''Unauthorized''), (''type'', JStr ''auth_error'')])])))
      | None \<Rightarrow> pass)"

definition bearer_or_shared :: "ProxyEnv \<Rightarrow> handler \<Rightarrow> handler" where
  "bearer_or_shared pe nxt req st =
     (if ap_agent_auth st then run_bearer_branch pe nxt req st else shared_bearer_branch nxt req st)"

definition auth_middleware :: "ProxyEnv \<Rightarrow> handler \<Rightarrow> handler" where
  "auth_middleware pe nxt req st =
     (let path = rq_path req; mode = ac_auth_mode (ap_config st) in
      if bypass_path path then nxt req st
      else if transport_path path then nxt req st
      else if path = ''/skill'' \<and> hdr_get ''authorization'' (rq_headers req) = None then nxt req st
      else if mode = Mtls \<or> mode = Both then
        (case rq_peer_cert req of
           Some der \<Rightarrow>
             (case ap_mtls st of
                None \<Rightarrow> (st, auth_error_response MtlsMisconfigured)
              | Some v \<Rightarrow>
                  (case authenticate_cert (pe_pki pe) (pe_clk pe) v der (auth_view st) of
                     (a, Inr ident) \<Rightarrow>
                       nxt (req\<lparr> rq_auth := Some AsMtls, rq_identity := Some ident \<rparr>) (auth_commit a st)
                   | (a, Inl e) \<Rightarrow> (auth_commit a st, auth_error_response e)))
         | None \<Rightarrow>
             if mode = Mtls then (st, auth_error_response MissingCredential)
             else bearer_or_shared pe nxt req st)
      else bearer_or_shared pe nxt req st)"

section \<open>Lemmas\<close>

lemma auth_commit_frame [simp]:
  "ap_sent (auth_commit a st) = ap_sent st" "ap_config (auth_commit a st) = ap_config st"
  "ap_catalog (auth_commit a st) = ap_catalog st" "ap_kz (auth_commit a st) = ap_kz st"
  "auth_view (auth_commit a st) = a"
  by (simp_all add: auth_commit_def auth_view_def)

text \<open>
  How a request gets past the middleware of a deployment with per-agent
  authentication: on an open path as it came, or stamped with the identity of
  an active account.
\<close>

definition open_request :: "Request \<Rightarrow> bool" where
  "open_request req \<longleftrightarrow> bypass_path (rq_path req) \<or> transport_path (rq_path req) \<or>
     rq_path req = ''/skill'' \<and> hdr_get ''authorization'' (rq_headers req) = None"

inductive authenticated_run :: "handler \<Rightarrow> Request \<Rightarrow> AppState \<Rightarrow> AppState \<times> Response \<Rightarrow> bool" for nxt req st where
  admit: "active_account (auth_view st) ident \<Longrightarrow>
    authenticated_run nxt req st
      (nxt (req\<lparr> rq_auth := Some how, rq_identity := Some ident \<rparr>) (auth_commit a st))"
| reject: "authenticated_run nxt req st (auth_commit a st, auth_error_response e)"

lemma reject_unchanged: "authenticated_run nxt req st (st, auth_error_response e)"
  using authenticated_run.reject [of nxt req st "auth_view st" e]
  by (simp add: auth_commit_def auth_view_def)

lemma run_bearer_authenticated: "authenticated_run nxt req st (run_bearer_branch pe nxt req st)"
  by (auto simp: run_bearer_branch_def Let_def split: prod.splits sum.splits
           intro: authenticated_run.intros dest!: bearer.sound)

lemma auth_middleware_cases:
  assumes "ap_agent_auth st" "\<not> open_request req"
  shows "authenticated_run nxt req st (auth_middleware pe nxt req st)"
  using assms
  by (auto simp: auth_middleware_def bearer_or_shared_def open_request_def Let_def
           split: option.splits prod.splits sum.splits
           intro: authenticated_run.intros reject_unchanged run_bearer_authenticated dest!: mtls.sound)

lemma auth_middleware_open: "open_request req \<Longrightarrow> auth_middleware pe nxt req st = nxt req st"
  by (auto simp: auth_middleware_def open_request_def Let_def)

end
