(* ===== verification/Skill.thy ===== *)
theory Skill
  imports Agent_Auth
begin

text \<open>
  The agent-facing skill document, \<open>src/skill.rs\<close>: the embedded template, which
  is a parameter, and the personalised section rendered for an authenticated
  agent from the tools it may call.  A text is the list of its lines joined by
  line feeds.
\<close>

definition nl :: string where "nl = [CHR 0x0A]"

definition render_unauthenticated :: "string \<Rightarrow> string" where
  "render_unauthenticated template = template"

definition allowlist_str :: "AgentIdentity \<Rightarrow> string" where
  "allowlist_str ident =
     (case ai_tool_allowlist ident of
        Some v \<Rightarrow> ''`['' @ join_str '', '' v @ '']`''
      | None \<Rightarrow> ''`(unrestricted '' @ [CHR 0xE2, CHR 0x80, CHR 0x94] @ '' no allowlist set)`'')"

definition denylist_str :: "AgentIdentity \<Rightarrow> string" where
  "denylist_str ident =
     (case ai_tool_denylist ident of
        Some v \<Rightarrow> ''`['' @ join_str '', '' v @ '']`''
      | None \<Rightarrow> ''`(none)`'')"

definition one_line :: "string \<Rightarrow> string" where
  "one_line d = map (\<lambda>c. if c = CHR 0x0A then CHR '' '' else c) d"

definition tool_row :: "string \<times> string \<Rightarrow> string" where
  "tool_row t = ''| `'' @ fst t @ ''` | '' @ one_line (snd t) @ '' |'' @ nl"

definition tools_md :: "(string \<times> string) list \<Rightarrow> string" where
  "tools_md avail =
     (if avail = []
      then ''_No tools currently available to you._ Either your ACL excludes every active tool, or no tools are active in this deployment. Ask your operator to widen your allowlist or shrink your denylist.'' @ nl
      else ''| Tool | Description |'' @ nl @ ''|---|---|'' @ nl @ concat (map tool_row avail))"

definition codex_quirks_md :: "(string \<times> string) list \<Rightarrow> string" where
  "codex_quirks_md avail =
     (if list_ex (\<lambda>t. fst t = ''codex'') avail then join_str nl
     [[],
      ''### Codex quirks (because `codex` is in your ACL)'',
      [],
      ''As of v2.4.0, locksmith owns every codex-specific wire piece:'',
      [],
      ''- Authorization, ChatGPT-Account-ID, OpenAI-Beta, originator (when'',
      ''  missing) '' @ [CHR 0xE2, CHR 0x80, CHR 0x94] @ '' all injected automatically.'',
      ''- Body fields store / stream / instructions '' @ [CHR 0xE2, CHR 0x80, CHR 0x94] @ '' injected/overridden'',
      ''  automatically (instructions preserved if you supply your own).'',
      [],
      ''Your minimal codex call:'',
      [],
      ''```'',
      ''POST /api/codex/responses'',
      ''Authorization: Bearer $LOCKSMITH_TOKEN'',
      ''Content-Type: application/json'',
      [],
      ''{'' @ [CHR 0x22] @ ''model'' @ [CHR 0x22] @ '':'' @ [CHR 0x22] @ ''gpt-5.5'' @ [CHR 0x22] @ '','' @ [CHR 0x22] @ ''input'' @ [CHR 0x22] @ '':[{'' @ [CHR 0x22] @ ''type'' @ [CHR 0x22] @ '':'' @ [CHR 0x22] @ ''message'' @ [CHR 0x22] @ '','' @ [CHR 0x22] @ ''role'' @ [CHR 0x22] @ '':'' @ [CHR 0x22] @ ''user'' @ [CHR 0x22] @ '','' @ [CHR 0x22] @ ''content'' @ [CHR 0x22] @ '':[{'' @ [CHR 0x22] @ ''type'' @ [CHR 0x22] @ '':'' @ [CHR 0x22] @ ''input_text'' @ [CHR 0x22] @ '','' @ [CHR 0x22] @ ''text'' @ [CHR 0x22] @ '':'' @ [CHR 0x22] @ ''hi'' @ [CHR 0x22] @ ''}]}]}'',
      ''```'',
      [],
      ''Streaming-only '' @ [CHR 0xE2, CHR 0x80, CHR 0x94] @ '' codex `/responses` returns SSE. Your client must'',
      ''handle it (locksmith forces `stream: true` regardless of what you'',
      ''send). See the '' @ [CHR 0x22] @ ''Codex (OpenAI ChatGPT plan auth) '' @ [CHR 0xE2, CHR 0x80, CHR 0x94] @ '' special case'' @ [CHR 0x22],
      ''section above for the full integration boundary.'',
      []]
      else [])"

definition first_tool :: "(string \<times> string) list \<Rightarrow> string" where
  "first_tool avail = (case avail of (n, _) # _ \<Rightarrow> n | [] \<Rightarrow> ''<tool>'')"

definition render_authenticated :: "string \<Rightarrow> AgentIdentity \<Rightarrow> (string \<times> string) list \<Rightarrow> string" where
  "render_authenticated template ident avail = template @ join_str nl
     [[],
      [],
      ''---'',
      [],
      ''## Personalized for `'' @ ai_name ident @ ''`'',
      [],
      ''You'' @ [CHR 0x27] @ ''re authenticated as **'' @ ai_name ident @ ''** (`public_id='' @ ai_public_id ident @ ''`).'',
      [],
      ''### Tools available to you right now'',
      [],
      tools_md avail,
      [],
      ''To call one of these tools:'',
      [],
      ''```'',
      ''curl -fsS -H '' @ [CHR 0x22] @ ''Authorization: Bearer $LOCKSMITH_TOKEN'' @ [CHR 0x22] @ '' '' @ [CHR 0x5C],
      ''  http://<locksmith>/api/<tool>/<upstream-path>'',
      ''```'',
      [],
      ''The `<upstream-path>` is forwarded verbatim to the tool'' @ [CHR 0x27] @ ''s upstream '' @ [CHR 0xE2, CHR 0x80, CHR 0x94] @ '' for'',
      ''example, `/api/'' @ first_tool avail @ ''/v1/chat/completions` reaches the'',
      ''upstream'' @ [CHR 0x27] @ ''s `v1/chat/completions` endpoint. Locksmith strips your'',
      ''`Authorization` header and injects the configured upstream credential'',
      ''before forwarding.'',
      codex_quirks_md avail,
      ''### Your ACL'',
      [],
      ''- **Allowlist**: '' @ allowlist_str ident,
      ''- **Denylist**: '' @ denylist_str ident,
      [],
      ''Both are managed by your operator via `locksmith agent modify'',
      ai_public_id ident @ '' --allowlist ... --denylist ...`. Re-fetch this skill after a'',
      ''change to see the new tool list.'',
      [],
      ''### Audit-debug recipe (operator-facing)'',
      [],
      ''If you start getting 403 `tool_not_allowed`, your operator can trace:'',
      [],
      ''```'',
      ''locksmith audit query --event-class security --agent '' @ ai_public_id ident @ '' '' @ [CHR 0x5C],
      ''  --since-ms <ms>'',
      ''```'',
      [],
      ''Recent denies for you appear with `event=authz_denied` and'',
      ''`details.reason` set to either `not_in_allowlist` or `in_denylist`. 401s'',
      ''appear with `event=auth_failure` and `details.reason` carrying the'',
      ''specific failure mode (`missing_credential`, `malformed_token`,'',
      ''`wrong_namespace`, `unknown_public_id`, `secret_mismatch`, `expired`).'',
      []]"

end
