(* ===== verification/App.thy ===== *)
theory App
  imports Proxy Auth_Middleware Skill
begin

text \<open>
  The agent listener as one function, \<open>src/app.rs\<close>: the health and discovery
  handlers, the routes and the router behind the authentication middleware.
  Decoding of captured path parameters (axum) is \<open>pe_percent_decode\<close>.
\<close>

section \<open>Definitions\<close>

subsection \<open>Health\<close>

definition uptime_seconds :: "ProxyEnv \<Rightarrow> AppState \<Rightarrow> int" where
  "uptime_seconds pe st = (pe_clk pe - ap_started_at st) div 1000"

definition livez_handler :: "ProxyEnv \<Rightarrow> AppState \<Rightarrow> Response" where
  "livez_handler pe st =
     json_response 200 (JObj [(''status'', JStr ''live''), (''uptime_seconds'', JNum (uptime_seconds pe st))])"

definition unconfigured_tools :: "AppState \<Rightarrow> string list" where
  "unconfigured_tools st =
     map tc_name (filter (\<lambda>t. tc_auth t \<noteq> None \<and> ap_creds st (tc_name t) = None) (ac_tools (ap_config st)))"

definition readyz_handler :: "ProxyEnv \<Rightarrow> AppState \<Rightarrow> Response" where
  "readyz_handler pe st =
     (if unconfigured_tools st \<noteq> []
      then json_response 503 (JObj [(''status'', JStr ''not_ready''),
             (''reason'', JStr ''tool_credentials_unresolved''),
             (''tools'', JArr (map JStr (unconfigured_tools st)))])
      else json_response 200 (JObj [(''status'', JStr ''ready''),
             (''uptime_seconds'', JNum (uptime_seconds pe st))]))"

definition version_handler :: "ProxyEnv \<Rightarrow> Response" where
  "version_handler pe =
     json_response 200 (JObj [(''version'', JStr (pe_version pe)), (''name'', JStr ''agent-locksmith'')])"

subsection \<open>Discovery\<close>

definition append_kamiwaza_catalog_entries ::
  "ProxyEnv \<Rightarrow> AgentIdentity option \<Rightarrow> json list \<Rightarrow> AppState \<Rightarrow> AppState \<times> json list" where
  "append_kamiwaza_catalog_entries pe ident items st =
     (if \<not> is_configured (ap_config st) then (st, items)
      else (case discover_tools (pe_kz pe) (ap_config st) (ap_kz st) of
              (w, Inr tools) \<Rightarrow>
                (st\<lparr> ap_kz := w \<rparr>,
                 items @ map catalog_entry (filter (\<lambda>t. acl_visible ident (kt_slug t)) tools))
            | (w, Inl _) \<Rightarrow> (st\<lparr> ap_kz := w \<rparr>, items)))"

definition catalog_listing ::
  "ProxyEnv \<Rightarrow> AgentIdentity option \<Rightarrow> Kind \<Rightarrow> AppState \<Rightarrow> AppState \<times> json list" where
  "catalog_listing pe ident kind st =
     (case ap_registrations st of
        Some repo \<Rightarrow>
          (let items = list_public repo kind ident in
           if kind = Tool then append_kamiwaza_catalog_entries pe ident items st else (st, items))
      | None \<Rightarrow>
          if kind \<noteq> Tool then (st, [])
          else append_kamiwaza_catalog_entries pe ident
                 (map (\<lambda>t. public_json (tc_name t) (tc_description t))
                   (filter (\<lambda>t. acl_visible ident (tc_name t))
                     (active_tools_against (ap_creds st) (ap_config st)))) st)"

definition tools_handler :: "ProxyEnv \<Rightarrow> handler" where
  "tools_handler pe req st =
     (case catalog_listing pe (rq_identity req) Tool st of
        (st1, items) \<Rightarrow> (st1, json_response 200 (JObj [(''tools'', JArr items)])))"

definition models_handler :: "ProxyEnv \<Rightarrow> handler" where
  "models_handler pe req st =
     (case catalog_listing pe (rq_identity req) Model st of
        (st1, items) \<Rightarrow> (st1, json_response 200 (JObj [(''models'', JArr items)])))"

definition skill_response :: "string \<Rightarrow> string \<Rightarrow> Response" where
  "skill_response bd cache =
     \<lparr> rs_status = 200,
       rs_headers = [(''content-type'', ''text/markdown; charset=utf-8''), (''cache-control'', cache)],
       rs_body = Bytes bd \<rparr>"

definition listing_pair :: "json \<Rightarrow> (string \<times> string) option" where
  "listing_pair v =
     map_option (\<lambda>n. (n, case Option.bind (json_get ''description'' v) json_str of
                          Some d \<Rightarrow> d | None \<Rightarrow> []))
       (Option.bind (json_get ''name'' v) json_str)"

definition skill_handler :: "ProxyEnv \<Rightarrow> handler" where
  "skill_handler pe req st =
     (case rq_identity req of
        Some ident \<Rightarrow>
          (case catalog_listing pe (Some ident) Tool st of
             (st1, items) \<Rightarrow>
               (st1, skill_response
                  (render_authenticated (pe_skill_template pe) ident (List.map_filter listing_pair items))
                  ''private, no-cache, no-store''))
      | None \<Rightarrow> (st, skill_response (render_unauthenticated (pe_skill_template pe)) ''public, max-age=86400''))"

subsection \<open>Routes\<close>

datatype Route =
    RLivez | RReadyz | RVersion | RSkill | RTools | RModels
  | RApi string "string option"
  | RTransport string "string option"
  | RNotFound

text \<open>\<open>{tool_name}\<close> and \<open>{tool_name}/{*path}\<close>: both captures are non-empty.\<close>

definition captures :: "string \<Rightarrow> (string \<times> string option) option" where
  "captures rest =
     (case split_once (CHR ''/'') rest of
        None \<Rightarrow> if rest = [] then None else Some (rest, None)
      | Some (t, p) \<Rightarrow> if t = [] \<or> p = [] then None else Some (t, Some p))"

definition match_route :: "string \<Rightarrow> Route" where
  "match_route path =
     (if path = ''/livez'' \<or> path = ''/health'' then RLivez
      else if path = ''/readyz'' then RReadyz
      else if path = ''/version'' then RVersion
      else if path = ''/skill'' then RSkill
      else if path = ''/tools'' then RTools
      else if path = ''/models'' then RModels
      else (case Option.bind (strip_prefix ''/api/'' path) captures of
              Some (t, p) \<Rightarrow> RApi t p
            | None \<Rightarrow> (case Option.bind (strip_prefix ''/transport/'' path) captures of
                          Some (t, p) \<Rightarrow> RTransport t p
                        | None \<Rightarrow> RNotFound)))"

definition empty_response :: "nat \<Rightarrow> Response" where
  "empty_response st = \<lparr> rs_status = st, rs_headers = [], rs_body = NoBody \<rparr>"

definition get_only :: "Request \<Rightarrow> AppState \<times> Response \<Rightarrow> AppState \<Rightarrow> AppState \<times> Response" where
  "get_only req out st =
     (if rq_method req = ''GET'' then out
      else if rq_method req = ''HEAD'' then (fst out, (snd out)\<lparr> rs_body := NoBody \<rparr>)
      else (st, empty_response 405))"

definition with_captures ::
  "ProxyEnv \<Rightarrow> string \<Rightarrow> string option \<Rightarrow> (string \<Rightarrow> string \<Rightarrow> AppState \<Rightarrow> AppState \<times> Response)
    \<Rightarrow> AppState \<Rightarrow> AppState \<times> Response" where
  "with_captures pe t p h st =
     (case pe_percent_decode pe t of
        None \<Rightarrow> (st, empty_response 400)
      | Some tool \<Rightarrow>
          (case p of
             None \<Rightarrow> h tool [] st
           | Some raw \<Rightarrow> (case pe_percent_decode pe raw of
                            None \<Rightarrow> (st, empty_response 400)
                          | Some path \<Rightarrow> h tool path st)))"

definition dispatch :: "ProxyEnv \<Rightarrow> handler" where
  "dispatch pe req st =
     (case match_route (rq_path req) of
        RLivez \<Rightarrow> get_only req (st, livez_handler pe st) st
      | RReadyz \<Rightarrow> get_only req (st, readyz_handler pe st) st
      | RVersion \<Rightarrow> get_only req (st, version_handler pe) st
      | RSkill \<Rightarrow> get_only req (skill_handler pe req st) st
      | RTools \<Rightarrow> get_only req (tools_handler pe req st) st
      | RModels \<Rightarrow> get_only req (models_handler pe req st) st
      | RApi t p \<Rightarrow> with_captures pe t p (\<lambda>tool path. proxy_tool_request pe tool path req) st
      | RTransport t p \<Rightarrow>
          with_captures pe t p (\<lambda>tool path. credential_transport_request pe tool path req) st
      | RNotFound \<Rightarrow> (st, empty_response 404))"

text \<open>The whole listener: the router behind the middleware.\<close>

definition serve :: "ProxyEnv \<Rightarrow> handler" where
  "serve pe = auth_middleware pe (dispatch pe)"

end
