(* ===== verification/Proxy_Props.thy ===== *)
theory Proxy_Props
  imports Proxy
begin

text \<open>
  What the request path guarantees: the agent's own credential headers never
  matter, the credential that leaves is the configured one, the request
  allowlist and the tool ACL decide before anything is sent, an unusable OAuth
  session blocks the request, every outcome is audited, and a capped stream
  stays within its bound.  A concrete deployment at the front of the theory
  instantiates the hypotheses.
\<close>

section \<open>A concrete deployment\<close>

definition sample_config :: AppConfig where
  "sample_config =
     \<lparr> ac_auth_mode = Bearer, ac_inbound_auth = None, ac_egress_proxy = None, ac_kamiwaza = None,
       ac_upstream_ca_bundle = None,
       ac_tools = [\<lparr> tc_name = ''gh'', tc_description = [], tc_upstream = ''http://u'', tc_egress = Direct,
         tc_credential_handles = [], tc_request_allowlist = Some [\<lparr> tr_method = ''GET'', tr_path = ''/x'' \<rparr>],
         tc_auth = Some \<lparr> tac_header = ''x-key'', tac_force_replace = True, tac_value = Inline ''k'' \<rparr>,
         tc_timeouts = default_timeouts, tc_body_limit_bytes = 10, tc_response = None \<rparr>] \<rparr>"

definition sample_app :: AppState where
  "sample_app =
     \<lparr> ap_config = sample_config, ap_started_at = 0, ap_pool = Map.empty, ap_audit = Some [],
       ap_creds = [''gh'' \<mapsto> ''key''], ap_response_controls = Map.empty, ap_mtls = None,
       ap_agents = empty_agents, ap_agent_auth = True, ap_registrations = None, ap_catalog = [],
       ap_oauth = None, ap_agent_creds = None, ap_kz = empty_kz, ap_sent = [] \<rparr>"

definition sample_pe :: ProxyEnv where
  "sample_pe =
     \<lparr> pe_clk = 2000, pe_started = 1000, pe_env = (\<lambda>_. None),
       pe_url = (\<lambda>u. if u = ''http://u/x'' then Some \<lparr> url_path = ''/x'', url_query = None, url_fragment = None \<rparr>
                    else None),
       pe_json = \<lparr> jx_parse = (\<lambda>_. None), jx_print = (\<lambda>_. []) \<rparr>,
       pe_regex = \<lparr> re_ok = (\<lambda>_. True), re_find_iter = (\<lambda>_ _. []), re_replace_all = (\<lambda>_ t _. t),
                    re_utf8 = (\<lambda>_. True) \<rparr>,
       pe_oauth = \<lparr> ox_crypto = sample_crypto, ox_json = (\<lambda>_. None) \<rparr>,
       pe_token = (\<lambda>_ _. NetworkFailure), pe_nonces = (replicate 12 0, replicate 12 1),
       pe_client = \<lparr> ci_read = (\<lambda>_. None), ci_cert_ok = (\<lambda>_. True), ci_proxy_ok = (\<lambda>_. True),
                     ci_build_ok = (\<lambda>_. True) \<rparr>,
       pe_send = (\<lambda>_ _. Upstream 200 [] [Ready_Ok ''ok'']),
       pe_kz = sample_kz, pe_pki = undefined, pe_percent_decode = Some, pe_skill_template = [],
       pe_version = ''2'' \<rparr>"

definition sample_request :: Request where
  "sample_request =
     \<lparr> rq_method = ''GET'', rq_path = ''/api/gh/x'', rq_query = None,
       rq_headers = [(''authorization'', ''Bearer mine''), (''x-key'', ''mine''), (''accept'', ''a'')],
       rq_body = Some [], rq_peer_cert = None, rq_auth = Some AsBearer, rq_identity = Some sample_agent \<rparr>"

definition sample_ureq :: UpstreamRequest where
  "sample_ureq =
     \<lparr> ur_method = ''GET'', ur_url = ''http://u/x'', ur_headers = [(''accept'', ''a''), (''x-key'', ''key'')],
       ur_body = None \<rparr>"

definition sample_client :: HttpClient where
  "sample_client =
     \<lparr> hc_timeouts = Some default_timeouts, hc_follow_redirects = False, hc_extra_roots = [], hc_proxy = None \<rparr>"

lemmas sample_defs = sample_config_def sample_app_def sample_request_def sample_agent_def

lemma sample_pe_sel [simp]:
  "pe_url sample_pe ''http://u/x'' = Some \<lparr> url_path = ''/x'', url_query = None, url_fragment = None \<rparr>"
  "pe_send sample_pe c q = Upstream 200 [] [Ready_Ok ''ok'']"
  "build_client_for (pe_client sample_pe) to eg sample_config fl =
     \<lparr> hc_timeouts = Some to, hc_follow_redirects = fl, hc_extra_roots = [], hc_proxy = None \<rparr>"
  "pe_env sample_pe v = None"
  by (simp_all add: sample_pe_def build_client_for_def sample_config_def)

lemma sample_target:
  "resolve_target sample_app ''gh'' =
     Some \<lparr> pt_name = ''gh'', pt_upstream = ''http://u'', pt_body_limit_bytes = 10,
            pt_timeouts = default_timeouts, pt_egress = Direct,
            pt_auth = PHeader ''x-key'' ''config'' True None,
            pt_auth_source = ''registration_default'', pt_oauth_session_label = None \<rparr>"
  by (simp add: resolve_target_def sample_app_def sample_config_def lookup_active_def lookup_any_def
        active_tools_def looks_present_def from_tool_config_def)

lemma sample_build:
  "snd (build_upstream_request sample_pe sample_app
     \<lparr> pt_name = ''gh'', pt_upstream = ''http://u'', pt_body_limit_bytes = 10,
       pt_timeouts = default_timeouts, pt_egress = Direct,
       pt_auth = PHeader ''x-key'' ''config'' True None,
       pt_auth_source = ''registration_default'', pt_oauth_session_label = None \<rparr>
     ''GET'' ''http://u/x'' (rq_headers sample_request) [] (Some ''n'')) = (sample_client, sample_ureq)"
  by (simp add: build_upstream_request_def Let_def get_or_build_for_def of_parts_def sample_app_def
        sample_client_def sample_ureq_def sample_request_def injected_headers_def stripped_header_def
        is_chatgpt_codex_upstream_def contains_str_def starts_with_def to_lower_def ascii_lower_def
        split_beta sample_config_def [THEN arg_cong [of _ _ ac_tools], simplified])

lemma sample_allowed:
  "request_allowed (pe_url sample_pe) sample_config ''gh'' ''http://u/x'' sample_request"
  by (simp add: request_allowed_def tool_request_allowed_def sample_config_def sample_request_def
        is_literal_request_path_def starts_with_def contains_str_def is_ws_def is_ctl_def)

lemma sample_run:
  "ap_sent (fst (proxy_tool_request sample_pe ''gh'' ''x'' sample_request sample_app)) = [(sample_client, sample_ureq)]"
  "rs_status (snd (proxy_tool_request sample_pe ''gh'' ''x'' sample_request sample_app)) = 200"
proof -
  let ?t = "\<lparr> pt_name = ''gh'', pt_upstream = ''http://u'', pt_body_limit_bytes = 10,
       pt_timeouts = default_timeouts, pt_egress = Direct, pt_auth = PHeader ''x-key'' ''config'' True None,
       pt_auth_source = ''registration_default'', pt_oauth_session_label = None \<rparr>"
  let ?ctx = "snapshot (pe_started sample_pe) sample_request ''gh''"
  have url: "upstream_url_for ?t ''x'' sample_request = ''http://u/x''"
    by (simp add: upstream_url_for_def trim_end_matches_def sample_request_def)
  have gate: "(case rq_identity sample_request of Some ident \<Rightarrow> allows_tool ident ''gh'' | None \<Rightarrow> Inr ()) = Inr ()"
    by (simp add: sample_request_def sample_agent_def allows_tool_def)
  have ov: "apply_agent_credential_override (pe_env sample_pe) sample_app (rq_identity sample_request) ?t = ?t"
    by (simp add: apply_agent_credential_override_def sample_app_def)
  obtain st1 where b: "build_upstream_request sample_pe sample_app ?t ''GET'' ''http://u/x''
      (rq_headers sample_request) [] (Some ''n'') = (st1, sample_client, sample_ureq)"
    using sample_build by (metis prod.collapse)
  then have st1: "ap_sent st1 = []" "ap_response_controls st1 = Map.empty"
    by (auto simp: build_upstream_request_def Let_def sample_app_def split: prod.splits)
  have sel: "rq_method sample_request = ''GET''" "cx_agent_name ?ctx = Some ''n''"
      "to_bytes 10 sample_request = Some []" "ap_creds sample_app ''gh'' = Some ''key''"
      "ap_config sample_app = sample_config" "cx_tool_name ?ctx = ''gh''"
    by (simp_all add: sample_request_def snapshot_def sample_agent_def to_bytes_def sample_app_def)
  have nc: "\<not> is_chatgpt_codex_upstream ''http://u''"
    by (simp add: is_chatgpt_codex_upstream_def contains_str_def starts_with_def to_lower_def ascii_lower_def)
  have "proxy_tool_request sample_pe ''gh'' ''x'' sample_request sample_app =
        handle_upstream_response sample_pe ?ctx ?t (url_host ''http://u'') 200 [] [Ready_Ok ''ok'']
          (st1\<lparr> ap_sent := [(sample_client, sample_ureq)] \<rparr>)"
    using b st1 nc
    by (simp add: proxy_tool_request_def Let_def gate sample_target proxy_to_target_def url sel
          sample_allowed ov forward_to_upstream_def is_noop_def default_summary_def)
  then show "ap_sent (fst (proxy_tool_request sample_pe ''gh'' ''x'' sample_request sample_app)) = [(sample_client, sample_ureq)]"
    "rs_status (snd (proxy_tool_request sample_pe ''gh'' ''x'' sample_request sample_app)) = 200"
    using st1
    by (simp_all add: handle_upstream_response_def Let_def sel status_or_bad_gateway_def
          record_proxy_request_success_def)
qed

section \<open>Authorisation\<close>



section \<open>The agent's own credentials\<close>

definition credential_header :: "string \<Rightarrow> bool" where
  "credential_header n \<longleftrightarrow> to_lower n \<in> set [''host'', ''authorization'', ''x-api-key'', ''content-length'',
     ''transfer-encoding'']"

definition strip_credentials :: "headers \<Rightarrow> headers" where
  "strip_credentials hs = filter (\<lambda>(n, _). \<not> credential_header n) hs"

lemma filter_strip:
  assumes "\<And>n v. P (n, v) \<Longrightarrow> \<not> credential_header n"
  shows "filter P (strip_credentials hs) = filter P hs"
  unfolding strip_credentials_def filter_filter
  by (rule filter_cong) (use assms in auto)

lemma list_ex_strip:
  "list_ex (\<lambda>(n, _). eq_ignore_ascii_case n ''originator'') (strip_credentials hs) =
   list_ex (\<lambda>(n, _). eq_ignore_ascii_case n ''originator'') hs"
proof -
  have "to_lower ''originator'' = ''originator''" by (simp add: to_lower_def ascii_lower_def)
  then show ?thesis
    by (auto simp: list_ex_iff strip_credentials_def credential_header_def eq_ignore_ascii_case_def)
qed

lemma build_strip:
  "build_upstream_request pe st target meth url (strip_credentials hs) bd nm =
   build_upstream_request pe st target meth url hs bd nm"
proof -
  have "filter (\<lambda>(n, _). \<not> stripped_header codex extra (to_lower n)) (strip_credentials hs) =
        filter (\<lambda>(n, _). \<not> stripped_header codex extra (to_lower n)) hs" for codex extra
    by (rule filter_strip) (auto simp: stripped_header_def credential_header_def)
  then show ?thesis by (simp add: build_upstream_request_def list_ex_strip)
qed

lemma proxy_strip:
  "proxy_tool_request pe tool path (req\<lparr> rq_headers := strip_credentials (rq_headers req) \<rparr>) st =
   proxy_tool_request pe tool path req st"
proof -
  let ?r = "req\<lparr> rq_headers := strip_credentials (rq_headers req) \<rparr>"
  have sel: "rq_method ?r = rq_method req" "rq_path ?r = rq_path req" "rq_query ?r = rq_query req"
      "rq_body ?r = rq_body req" "rq_auth ?r = rq_auth req" "rq_identity ?r = rq_identity req"
      "rq_headers ?r = strip_credentials (rq_headers req)" by simp_all
  have ra: "request_allowed pu cfg n u ?r = request_allowed pu cfg n u req" for pu cfg n u
    unfolding request_allowed_def tool_request_allowed_def sel ..
  have kz: "handle_proxy_call env cfg tool ?r w = handle_proxy_call env cfg tool req w" for env cfg w
    unfolding handle_proxy_call_def to_bytes_def sel ..
  have fw: "forward_to_upstream pe ctx t u ?r st1 = forward_to_upstream pe ctx t u req st1" for ctx t u st1
    unfolding forward_to_upstream_def to_bytes_def sel build_strip ..
  show ?thesis
    unfolding proxy_tool_request_def snapshot_def proxy_to_target_def upstream_url_for_def sel ra kz fw ..
qed

text \<open>
  Property C2: the credentials an agent sends never have any effect.  Two
  requests that agree on everything but their \<open>Authorization\<close>, \<open>X-Api-Key\<close>,
  \<open>Host\<close>, \<open>Content-Length\<close> and \<open>Transfer-Encoding\<close> headers are handled
  identically: the same upstream request, the same response, the same state
  and audit rows.
\<close>

theorem agent_credentials_irrelevant:
  assumes "strip_credentials hs1 = strip_credentials hs2"
  shows "proxy_tool_request pe tool path (req\<lparr> rq_headers := hs1 \<rparr>) st =
         proxy_tool_request pe tool path (req\<lparr> rq_headers := hs2 \<rparr>) st"
  using proxy_strip [of pe tool path "req\<lparr> rq_headers := hs1 \<rparr>" st]
    proxy_strip [of pe tool path "req\<lparr> rq_headers := hs2 \<rparr>" st] assms
  by simp

theorem agent_credentials_irrelevant_witness:
  "proxy_tool_request sample_pe ''gh'' ''x'' (sample_request\<lparr> rq_headers := [(''authorization'', ''Bearer evil''), (''accept'', ''a'')] \<rparr>) sample_app =
   proxy_tool_request sample_pe ''gh'' ''x'' (sample_request\<lparr> rq_headers := [(''accept'', ''a''), (''x-api-key'', ''k'')] \<rparr>) sample_app"
  by (rule agent_credentials_irrelevant)
     (simp add: strip_credentials_def credential_header_def to_lower_def ascii_lower_def)

section \<open>The credential that leaves\<close>

lemma build_headers:
  assumes "build_upstream_request pe st target meth url hs bd nm = (st2, client, ureq)"
  shows "\<exists>codex_hs. ur_headers ureq =
           filter (\<lambda>(n, _). \<not> stripped_header (is_chatgpt_codex_upstream (pt_upstream target))
                     (strip_header_lower (pt_auth target)) (to_lower n)) hs @
           injected_headers st target @ codex_hs \<and>
           (\<forall>(n, v) \<in> set codex_hs. n = ''openai-beta'' \<or> n = ''originator'')"
    and "ur_method ureq = meth" "ur_url ureq = url"
    and "client = snd (get_or_build_for (pe_client pe) (pt_name target) (pt_timeouts target)
           (pt_egress target) (ap_config st) (ap_pool st))"
  using assms by (auto simp: build_upstream_request_def Let_def split: prod.splits if_splits)

lemma injected_headers_creds: "ap_creds st1 = ap_creds st \<Longrightarrow> injected_headers st1 t = injected_headers st t"
  by (cases "pt_auth t") (simp_all add: injected_headers_def)

lemma force_replace_injects:
  assumes "\<not> force_replace_missing (ap_creds st) (pt_name t) (pt_auth t)"
  shows "(\<forall>h m ov. pt_auth t = PHeader h m True ov \<longrightarrow> (\<exists>v. injected_headers st t = [(to_lower h, v)])) \<and>
         (\<forall>ov. pt_auth t = PBearer True ov \<longrightarrow>
            (\<exists>v. injected_headers st t = [(''authorization'', ''Bearer '' @ v)]))"
  using assms by (auto simp: injected_headers_def split: option.splits)

text \<open>
  Property C3: the credential that reaches the upstream is the one the proxy
  resolved.  In every request the proxy sends, each \<open>Authorization\<close> and
  \<open>X-Api-Key\<close> header is one that the resolved credential injects, and when the
  credential is marked \<open>force_replace\<close> it is present: the request never goes
  out with a placeholder or without its credential.
\<close>

theorem upstream_credential_is_resolved:
  assumes "proxy_tool_request pe tool path req st = (st', resp)" and "ap_sent st' \<noteq> ap_sent st"
  shows "\<exists>target0 target client ureq. resolve_target st tool = Some target0 \<and>
           effective_target pe st req target0 target \<and> ap_sent st' = ap_sent st @ [(client, ureq)] \<and>
           (\<forall>n v. (n, v) \<in> set (ur_headers ureq) \<longrightarrow> to_lower n = ''authorization'' \<or> to_lower n = ''x-api-key''
              \<longrightarrow> (n, v) \<in> set (injected_headers st target)) \<and>
           (\<forall>h m ov. pt_auth target = PHeader h m True ov \<longrightarrow> (\<exists>v. (to_lower h, v) \<in> set (ur_headers ureq))) \<and>
           (\<forall>ov. pt_auth target = PBearer True ov \<longrightarrow>
              (\<exists>v. (''authorization'', ''Bearer '' @ v) \<in> set (ur_headers ureq)))"
proof -
  from proxy_sends [OF assms] obtain target0 target raw bd st1 st2 client ureq where
    p: "resolve_target st tool = Some target0" "effective_target pe st req target0 target"
      "\<not> force_replace_missing (ap_creds st) (pt_name target) (pt_auth target)"
      "ap_creds st1 = ap_creds st"
      "build_upstream_request pe st1 target (rq_method req) (upstream_url_for target0 path req)
         (rq_headers req) bd (map_option ai_name (rq_identity req)) = (st2, client, ureq)"
      "ap_sent st' = ap_sent st @ [(client, ureq)]" by blast
  let ?codex = "is_chatgpt_codex_upstream (pt_upstream target)"
  let ?fwd = "filter (\<lambda>(n, _). \<not> stripped_header ?codex (strip_header_lower (pt_auth target)) (to_lower n))
                (rq_headers req)"
  from build_headers(1) [OF p(5)] injected_headers_creds [OF p(4), of target] obtain codex_hs where
    hs: "ur_headers ureq = ?fwd @ injected_headers st target @ codex_hs"
      "\<forall>(n, v) \<in> set codex_hs. n = ''openai-beta'' \<or> n = ''originator''" by auto
  have low: "to_lower ''openai-beta'' = ''openai-beta''" "to_lower ''originator'' = ''originator''"
    by (simp_all add: to_lower_def ascii_lower_def)
  have "(n, v) \<in> set (injected_headers st target)"
    if "(n, v) \<in> set (ur_headers ureq)" "to_lower n = ''authorization'' \<or> to_lower n = ''x-api-key''" for n v
  proof -
    have "(n, v) \<notin> set ?fwd" using that(2) by (auto simp: stripped_header_def)
    moreover have "(n, v) \<notin> set codex_hs" using that(2) hs(2) low by fastforce
    ultimately show ?thesis using that(1) unfolding hs(1) by auto
  qed
  then have own: "\<forall>n v. (n, v) \<in> set (ur_headers ureq) \<longrightarrow>
      to_lower n = ''authorization'' \<or> to_lower n = ''x-api-key'' \<longrightarrow> (n, v) \<in> set (injected_headers st target)"
    by blast
  have sub: "set (injected_headers st target) \<subseteq> set (ur_headers ureq)" unfolding hs(1) by auto
  have "\<exists>v. (to_lower h, v) \<in> set (ur_headers ureq)" if "pt_auth target = PHeader h m True ov" for h m ov
    using force_replace_injects [OF p(3)] that sub by fastforce
  moreover have "\<exists>v. (''authorization'', ''Bearer '' @ v) \<in> set (ur_headers ureq)"
    if "pt_auth target = PBearer True ov" for ov
    using force_replace_injects [OF p(3)] that sub by fastforce
  ultimately show ?thesis using p(1,2,6) own by blast
qed

theorem upstream_credential_is_resolved_witness:
  "(''x-key'', ''key'') \<in> set (ur_headers sample_ureq) \<and>
   list_all (\<lambda>(n, v). to_lower n \<noteq> ''authorization'') (ur_headers sample_ureq)"
proof -
  have s: "ap_sent (fst (proxy_tool_request sample_pe ''gh'' ''x'' sample_request sample_app)) \<noteq> ap_sent sample_app"
    unfolding sample_run by (simp add: sample_app_def)
  from upstream_credential_is_resolved [OF surjective_pairing s] obtain target0 target client ureq where
    u: "resolve_target sample_app ''gh'' = Some target0"
      "effective_target sample_pe sample_app sample_request target0 target"
      "ap_sent (fst (proxy_tool_request sample_pe ''gh'' ''x'' sample_request sample_app)) =
         ap_sent sample_app @ [(client, ureq)]"
      "\<And>n v. (n, v) \<in> set (ur_headers ureq) \<Longrightarrow> to_lower n = ''authorization'' \<Longrightarrow>
         (n, v) \<in> set (injected_headers sample_app target)"
    by blast
  have "pt_auth target = PHeader ''x-key'' ''config'' True None" "pt_name target = ''gh''"
    using u(2) u(1) [unfolded sample_target, symmetric]
    by (simp_all add: effective_target_def apply_agent_credential_override_def
          sample_app_def [THEN arg_cong [of _ _ ap_agent_creds], simplified])
  then have "injected_headers sample_app target = [(''x-key'', ''key'')]"
    by (simp add: injected_headers_def sample_app_def to_lower_def ascii_lower_def)
  moreover have "ureq = sample_ureq" using u(3) unfolding sample_run by (simp add: sample_app_def)
  ultimately have "to_lower n \<noteq> ''authorization''" if "(n, v) \<in> set (ur_headers sample_ureq)" for n v
    using u(4) [of n v] that by (auto simp: to_lower_def ascii_lower_def)
  then have "list_all (\<lambda>(n, v). to_lower n \<noteq> ''authorization'') (ur_headers sample_ureq)"
    by (auto simp: list_all_iff)
  moreover have "(''x-key'', ''key'') \<in> set (ur_headers sample_ureq)" by (simp add: sample_ureq_def)
  ultimately show ?thesis by blast
qed

section \<open>The request allowlist\<close>

definition catalog_ok :: "Catalog \<Rightarrow> bool" where
  "catalog_ok cat \<longleftrightarrow> (\<forall>(n, r) \<in> set cat. rg_name r = n)"

lemma resolve_target_name:
  assumes "catalog_ok (ap_catalog st)" "resolve_target st tool = Some t"
  shows "pt_name t = tool"
proof (cases "lookup_active tool (ap_catalog st)")
  case (Some r)
  then have "(tool, r) \<in> set (ap_catalog st)"
    by (auto simp: lookup_active_def lookup_any_def split: option.splits if_splits dest: map_of_SomeD)
  with assms Some show ?thesis
    by (auto simp: resolve_target_def from_registration_def catalog_ok_def)
next
  case None
  with assms(2) show ?thesis
    by (auto simp: resolve_target_def from_tool_config_def dest!: find_Some_in_set)
qed

lemma effective_target_frame:
  assumes "effective_target pe st req t0 t"
  shows "pt_name t = pt_name t0" "pt_timeouts t = pt_timeouts t0" "pt_egress t = pt_egress t0"
    "pt_upstream t = pt_upstream t0"
proof -
  have o: "pt_name (apply_agent_credential_override env st i t0) = pt_name t0"
      "pt_timeouts (apply_agent_credential_override env st i t0) = pt_timeouts t0"
      "pt_egress (apply_agent_credential_override env st i t0) = pt_egress t0"
      "pt_upstream (apply_agent_credential_override env st i t0) = pt_upstream t0" for env i
    by (simp_all add: apply_agent_credential_override_def apply_auth_override_def Let_def
          split: option.splits AuthSpec.splits)
  show "pt_name t = pt_name t0" "pt_timeouts t = pt_timeouts t0" "pt_egress t = pt_egress t0"
    "pt_upstream t = pt_upstream t0"
    using assms o unfolding effective_target_def Let_def
    by (cases "pt_auth (apply_agent_credential_override (pe_env pe) st (rq_identity req) t0)"; force)+
qed

text \<open>
  Property C6: a request allowlist bounds what reaches the upstream.  When a
  configured tool has an allowlist, every request the proxy sends for that name,
  also when a catalog registration owns it, matches one of its rules by method
  and by the exact path of the URL that is sent, has no query and no fragment,
  and goes through a client that follows no redirect.
\<close>

theorem allowlist_enforced:
  assumes "proxy_tool_request pe tool path req st = (st', resp)" and "ap_sent st' \<noteq> ap_sent st"
    and "t \<in> set (ac_tools (ap_config st))" "tc_name t = tool" "tc_request_allowlist t = Some rules"
    and "catalog_ok (ap_catalog st)" "pool_inv (pe_client pe) (ap_config st) (ap_pool st)"
  shows "\<exists>client ureq url. ap_sent st' = ap_sent st @ [(client, ureq)] \<and>
           pe_url pe (ur_url ureq) = Some url \<and> url_query url = None \<and> url_fragment url = None \<and>
           (\<exists>r \<in> set rules. tr_method r = ur_method ureq \<and> tr_path r = url_path url) \<and>
           is_literal_request_path (url_path url) \<and> \<not> hc_follow_redirects client"
proof -
  from proxy_sends [OF assms(1,2)] obtain target0 target raw bd st1 st2 client ureq where
    p: "resolve_target st tool = Some target0"
      "request_allowed (pe_url pe) (ap_config st) tool (upstream_url_for target0 path req) req"
      "effective_target pe st req target0 target" "ap_config st1 = ap_config st" "ap_pool st1 = ap_pool st"
      "build_upstream_request pe st1 target (rq_method req) (upstream_url_for target0 path req)
         (rq_headers req) bd (map_option ai_name (rq_identity req)) = (st2, client, ureq)"
      "ap_sent st' = ap_sent st @ [(client, ureq)]" by blast
  note b = build_headers(2-4) [OF p(6)]
  have "tool_request_allowed (pe_url pe) t (upstream_url_for target0 path req) req"
    using p(2) assms(3,4) by (simp add: request_allowed_def list_all_iff)
  then obtain url where url: "pe_url pe (ur_url ureq) = Some url" "url_query url = None"
      "url_fragment url = None" "is_literal_request_path (url_path url)"
      "\<exists>r \<in> set rules. tr_method r = ur_method ureq \<and> tr_path r = url_path url"
    using assms(5) b
    by (auto simp: tool_request_allowed_def list_ex_iff split: if_splits option.splits)
  have "pt_name target = tool"
    using resolve_target_name [OF assms(6) p(1)] effective_target_frame [OF p(3)] by simp
  then have "\<not> hc_follow_redirects client"
    using b(3) p(4,5) get_or_build_for_fresh(1) [OF assms(7)] assms(3-5)
    by (auto simp: of_parts_def list_ex_iff)
  with p(7) url show ?thesis by blast
qed

theorem allowlist_enforced_witness:
  "ap_sent (fst (proxy_tool_request sample_pe ''gh'' ''x'' sample_request sample_app)) =
     [(sample_client, sample_ureq)] \<and> \<not> hc_follow_redirects sample_client"
proof -
  have s: "ap_sent (fst (proxy_tool_request sample_pe ''gh'' ''x'' sample_request sample_app)) \<noteq> ap_sent sample_app"
    unfolding sample_run by (simp add: sample_app_def)
  obtain t where t: "t \<in> set (ac_tools (ap_config sample_app))" "tc_name t = ''gh''"
      "tc_request_allowlist t = Some [\<lparr> tr_method = ''GET'', tr_path = ''/x'' \<rparr>]"
    by (simp add: sample_app_def sample_config_def)
  have "catalog_ok (ap_catalog sample_app)"
      "pool_inv (pe_client sample_pe) (ap_config sample_app) (ap_pool sample_app)"
    by (simp_all add: sample_app_def catalog_ok_def)
  from allowlist_enforced [OF surjective_pairing s t this] sample_run show ?thesis
    by (auto simp: sample_app_def)
qed

section \<open>OAuth sessions\<close>

lemma resolve_oauth_token_InrD:
  assumes "resolve_oauth_token pe target label st = (st1, Inr auth)"
  shows "\<exists>rt s s1 tok mode. ap_oauth st = Some rt \<and>
           session_get (ox_crypto (pe_oauth pe)) (ort_key rt) (pt_name target) label (ort_sessions rt) = Inr (Some s) \<and>
           \<not> os_degraded s \<and>
           auth = POauth mode (audit_session_id (ox_crypto (pe_oauth pe)) s1) (Some tok) (os_account_id s1) \<and>
           os_access_token s1 = Some tok \<and>
           (if needs_refresh (secs_of (pe_clk pe)) s
            then \<exists>rt1. ap_oauth st1 = Some rt1 \<and>
              session_get (ox_crypto (pe_oauth pe)) (ort_key rt1) (pt_name target) label (ort_sessions rt1) = Inr (Some s1)
            else s1 = s \<and> st1 = st)"
proof -
  let ?ox = "pe_oauth pe" and ?now = "secs_of (pe_clk pe)"
  obtain rt where rt: "ap_oauth st = Some rt"
    using assms by (cases "ap_oauth st") (auto simp: resolve_oauth_token_def)
  obtain s where s: "session_get (ox_crypto ?ox) (ort_key rt) (pt_name target) label (ort_sessions rt) = Inr (Some s)"
    using assms rt by (auto simp: resolve_oauth_token_def Let_def split: sum.splits option.splits)
  have nd: "\<not> os_degraded s"
    using assms rt s by (auto simp: resolve_oauth_token_def Let_def)
  note nl = session_get_label [OF s]
  show ?thesis
  proof (cases "needs_refresh ?now s")
    case False
    then obtain tok where "os_access_token s = Some tok"
      by (auto simp: needs_refresh_def split: option.splits)
    with False assms rt s nd show ?thesis by (auto simp: resolve_oauth_token_def Let_def)
  next
    case True
    obtain t1 r where rs: "refresh_session ?ox (pe_token pe) ?now (pe_nonces pe) (ap_catalog st)
        (ort_key rt) s (ort_sessions rt) = (t1, r)" by fastforce
    then obtain s1 where r: "r = Inr s1"
      using assms rt s nd True by (cases r) (auto simp: resolve_oauth_token_def Let_def)
    from refresh_session_cases [OF rs] r nl obtain at ex rtk where
      t1: "t1 = update_tokens ?ox ?now (pe_nonces pe) (ort_key rt) (pt_name target) label at ex rtk (ort_sessions rt)"
        "session_get (ox_crypto ?ox) (ort_key rt) (pt_name target) label t1 = Inr (Some s1)" by auto
    obtain tok where "os_access_token s1 = Some tok"
      using updated_session_has_token t1 by blast
    with True assms rt s nd rs r t1(2) show ?thesis by (auto simp: resolve_oauth_token_def Let_def)
  qed
qed


section \<open>An authorised request is sent\<close>

lemma forward_sends:
  assumes "\<not> force_replace_missing (ap_creds st) (pt_name t) (pt_auth t)"
    and "to_bytes (pt_body_limit_bytes t) req = Some raw" "length raw \<le> MAX_BODY_BYTES"
  shows "\<exists>client ureq. ap_sent (fst (forward_to_upstream pe ctx t url req st)) = ap_sent st @ [(client, ureq)] \<and>
           ur_method ureq = rq_method req \<and> ur_url ureq = url"
proof -
  have "\<exists>q. (if is_chatgpt_codex_upstream (pt_upstream t) \<and> request_path_ends_with_responses (cx_request_path ctx)
             then fixup (pe_json pe) raw else Inr (raw, default_summary)) = Inr q"
    using assms(3) by (auto simp: fixup_def split: option.splits json.splits prod.splits)
  then obtain bd sm where q: "(if is_chatgpt_codex_upstream (pt_upstream t) \<and>
        request_path_ends_with_responses (cx_request_path ctx)
      then fixup (pe_json pe) raw else Inr (raw, default_summary)) = Inr (bd, sm)" by force
  obtain st1 client ureq where b: "build_upstream_request pe st t (rq_method req) url (rq_headers req) bd
      (cx_agent_name ctx) = (st1, client, ureq)" by (metis prod_cases3)
  have "ap_sent st1 = ap_sent st"
    using b by (auto simp: build_upstream_request_def Let_def split: prod.splits)
  with assms(1,2) q b build_headers(2,3) [OF b] show ?thesis
    by (cases "pe_send pe client ureq")
       (auto simp: forward_to_upstream_def Let_def record_upstream_error_def)
qed

lemma proxy_forwards:
  assumes "\<forall>ident. rq_identity req = Some ident \<longrightarrow> allows_tool ident tool = Inr ()"
    and "resolve_target st tool = Some target0"
    and "request_allowed (pe_url pe) (ap_config st) tool (upstream_url_for target0 path req) req"
  shows "proxy_tool_request pe tool path req st =
         proxy_to_target pe (snapshot (pe_started pe) req tool) target0 path req st"
    and "apply_agent_credential_override (pe_env pe) st (rq_identity req) target0 = t1 \<Longrightarrow>
         (\<forall>m sid tk acct. pt_auth t1 \<noteq> POauth m sid tk acct) \<Longrightarrow>
         proxy_tool_request pe tool path req st =
         forward_to_upstream pe (snapshot (pe_started pe) req tool) t1 (upstream_url_for target0 path req) req st"
    and "apply_agent_credential_override (pe_env pe) st (rq_identity req) target0 = t1 \<Longrightarrow>
         pt_auth t1 = POauth m sid tk acct \<Longrightarrow>
         resolve_oauth_token pe t1
           (case pt_oauth_session_label t1 of Some l \<Rightarrow> l | None \<Rightarrow> DEFAULT_SESSION_LABEL) st = (st1, Inr auth) \<Longrightarrow>
         proxy_tool_request pe tool path req st =
         forward_to_upstream pe (snapshot (pe_started pe) req tool) (t1\<lparr> pt_auth := auth \<rparr>)
           (upstream_url_for target0 path req) req st1"
proof -
  have gate: "(case rq_identity req of Some ident \<Rightarrow> allows_tool ident tool | None \<Rightarrow> Inr ()) = Inr ()"
    using assms(1) by (cases "rq_identity req") auto
  have ctx: "cx_tool_name (snapshot (pe_started pe) req tool) = tool" by (simp add: snapshot_def)
  show a: "proxy_tool_request pe tool path req st =
      proxy_to_target pe (snapshot (pe_started pe) req tool) target0 path req st"
    using gate assms(2) by (simp add: proxy_tool_request_def Let_def)
  show "proxy_tool_request pe tool path req st =
      forward_to_upstream pe (snapshot (pe_started pe) req tool) t1 (upstream_url_for target0 path req) req st"
    if "apply_agent_credential_override (pe_env pe) st (rq_identity req) target0 = t1"
      "\<forall>m sid tk acct. pt_auth t1 \<noteq> POauth m sid tk acct"
    using that assms(3) ctx unfolding a proxy_to_target_def Let_def by (cases "pt_auth t1") simp_all
  show "proxy_tool_request pe tool path req st =
      forward_to_upstream pe (snapshot (pe_started pe) req tool) (t1\<lparr> pt_auth := auth \<rparr>)
        (upstream_url_for target0 path req) req st1"
    if "apply_agent_credential_override (pe_env pe) st (rq_identity req) target0 = t1"
      "pt_auth t1 = POauth m sid tk acct"
      "resolve_oauth_token pe t1
         (case pt_oauth_session_label t1 of Some l \<Rightarrow> l | None \<Rightarrow> DEFAULT_SESSION_LABEL) st = (st1, Inr auth)"
    using that assms(3) ctx unfolding a proxy_to_target_def Let_def by simp
qed


lemma sample_override:
  "ap_agent_creds st = None \<Longrightarrow> apply_agent_credential_override env st i t = t"
  by (simp add: apply_agent_credential_override_def)


section \<open>An OAuth deployment\<close>

definition sample_registration :: Registration where
  "sample_registration =
     registration_new 0 ''cx'' Model [] ''http://u'' (OauthPkce ''id'' ''r'' [] ''a'' ''http://tok'' None)"

definition sample_session :: OauthSession where
  "sample_session =
     \<lparr> os_name = ''cx'', os_session_label = ''default'', os_refresh_token = ''rt'', os_access_token = Some ''at'',
       os_access_token_expires_at = None, os_scope = [], os_degraded = False, os_created_at = 1,
       os_updated_at = 1, os_account_id = None \<rparr>"

definition sample_sessions :: OauthTable where
  "sample_sessions =
     fst (session_create (pe_oauth sample_pe) 1 (pe_nonces sample_pe) (SealingKey (replicate 32 3))
            ''cx'' ''default'' ''rt'' (Some ''at'') None [] [])"

definition sample_oauth_app :: AppState where
  "sample_oauth_app =
     sample_app\<lparr> ap_catalog := [(''cx'', sample_registration)],
       ap_oauth := Some \<lparr> ort_sessions = sample_sessions, ort_key = SealingKey (replicate 32 3) \<rparr> \<rparr>"

definition sample_oauth_target :: ProxyTarget where
  "sample_oauth_target = from_registration sample_registration"

lemma sample_oauth_session:
  "session_get (ox_crypto (pe_oauth sample_pe)) (SealingKey (replicate 32 3)) ''cx'' ''default'' sample_sessions =
     Inr (Some sample_session)"
proof -
  let ?ox = "pe_oauth sample_pe"
  have "account_id_of ?ox ''at'' = None"
    by (simp add: account_id_of_def extract_chatgpt_account_id_def decode_jwt_payload_def sample_pe_def
          split: option.splits)
  then have "session_create ?ox 1 (pe_nonces sample_pe) (SealingKey (replicate 32 3)) ''cx'' ''default'' ''rt''
      (Some ''at'') None [] [] = (sample_sessions, Inr sample_session)"
    by (simp add: sample_sessions_def session_create_def Let_def sample_session_def)
  moreover have "aead_ok (ox_crypto ?ox)" "nonces_ok (pe_nonces sample_pe)"
    using sample_crypto_aead by (simp_all add: sample_pe_def nonces_ok_def)
  ultimately show ?thesis by (rule session_get_create [rotated 2])
qed

lemma sample_oauth_sel:
  "ap_agent_creds sample_oauth_app = None" "ap_config sample_oauth_app = sample_config"
  "ap_oauth sample_oauth_app = Some \<lparr> ort_sessions = sample_sessions, ort_key = SealingKey (replicate 32 3) \<rparr>"
  "ap_sent sample_oauth_app = []"
  "resolve_target sample_oauth_app ''cx'' = Some sample_oauth_target"
  "pt_name sample_oauth_target = ''cx''" "pt_oauth_session_label sample_oauth_target = None"
  "pt_auth sample_oauth_target = POauth ''oauth_pkce'' [] None None"
  by (simp_all add: sample_oauth_app_def sample_app_def resolve_target_def lookup_active_def lookup_any_def
        sample_oauth_target_def sample_registration_def registration_new_def from_registration_def)

lemma sample_oauth_allowed:
  "request_allowed (pe_url sample_pe) sample_config ''cx'' u sample_request"
  by (simp add: request_allowed_def sample_config_def)

lemma sample_acl: "rq_identity sample_request = Some ident \<Longrightarrow> allows_tool ident t = Inr ()"
  by (auto simp: sample_request_def sample_agent_def allows_tool_def)

lemma sample_oauth_resolved:
  "resolve_oauth_token sample_pe sample_oauth_target ''default'' sample_oauth_app =
     (sample_oauth_app, Inr (POauth ''oauth_pkce'' (audit_session_id (ox_crypto (pe_oauth sample_pe)) sample_session)
        (Some ''at'') None))"
  by (simp add: resolve_oauth_token_def sample_oauth_sel sample_oauth_session Let_def needs_refresh_def
        sample_session_def [THEN arg_cong [of _ _ os_degraded], simplified]
        sample_session_def [THEN arg_cong [of _ _ os_access_token], simplified]
        sample_session_def [THEN arg_cong [of _ _ os_account_id], simplified]
        sample_session_def [THEN arg_cong [of _ _ os_access_token_expires_at], simplified])

lemma sample_oauth_run:
  "\<exists>client ureq. ap_sent (fst (proxy_tool_request sample_pe ''cx'' ''x'' sample_request sample_oauth_app)) =
     [(client, ureq)]"
proof -
  let ?t = "sample_oauth_target"
  have run: "proxy_tool_request sample_pe ''cx'' ''x'' sample_request sample_oauth_app =
      forward_to_upstream sample_pe (snapshot (pe_started sample_pe) sample_request ''cx'')
        (?t\<lparr> pt_auth := POauth ''oauth_pkce'' (audit_session_id (ox_crypto (pe_oauth sample_pe)) sample_session)
           (Some ''at'') None \<rparr>) (upstream_url_for ?t ''x'' sample_request) sample_request sample_oauth_app"
    by (rule proxy_forwards(3) [where ?target0.0 = ?t and ?t1.0 = ?t])
       (simp_all add: sample_acl sample_oauth_sel sample_oauth_allowed sample_override
          sample_oauth_resolved DEFAULT_SESSION_LABEL_def)
  have "to_bytes (pt_body_limit_bytes ?t) sample_request = Some []"
    by (simp add: to_bytes_def sample_request_def)
  then show ?thesis
    unfolding run
    using forward_sends [of sample_oauth_app "?t\<lparr> pt_auth := POauth ''oauth_pkce''
        (audit_session_id (ox_crypto (pe_oauth sample_pe)) sample_session) (Some ''at'') None \<rparr>"
        sample_request "[]"]
    by (fastforce simp: sample_oauth_sel)
qed


text \<open>
  Property C16: a failed refresh closes the session.  With a working cipher,
  when resolving the token of a session fails because its refresh failed, the
  session is marked degraded, and every later resolution of it, whatever the
  token endpoint would then answer, is refused with the cause \<open>degraded\<close> and
  changes nothing, until an operator acts.
\<close>

theorem failed_refresh_closes_session:
  assumes "aead_ok (ox_crypto (pe_oauth pe))" "nonces_ok (pe_nonces pe)"
    and "ap_oauth st = Some rt" "sessions_inv (ort_sessions rt)"
    and "session_get (ox_crypto (pe_oauth pe)) (ort_key rt) (pt_name t) label (ort_sessions rt) = Inr (Some s)"
    and "\<not> os_degraded s"
    and "resolve_oauth_token pe t label st = (st1, Inl u)"
    and "ox_crypto (pe_oauth pe') = ox_crypto (pe_oauth pe)"
  shows "\<exists>u'. resolve_oauth_token pe' t label st1 = (st1, Inl u') \<and> ou_audit_cause u' = ''degraded'' \<and>
           rs_status (ou_response u') = 503"
proof -
  let ?now = "secs_of (pe_clk pe)" and ?ox = "pe_oauth pe"
  obtain t1 r where rs: "refresh_session ?ox (pe_token pe) ?now (pe_nonces pe) (ap_catalog st)
      (ort_key rt) s (ort_sessions rt) = (t1, r)" by fastforce
  obtain e where r: "r = Inl e"
    and st1: "st1 = st\<lparr> ap_oauth := Some (rt\<lparr> ort_sessions := mark_degraded ?now (pt_name t) label t1 \<rparr>) \<rparr>"
    using assms(3,5-7) rs by (auto simp: resolve_oauth_token_def Let_def split: if_splits sum.splits)
  have "t1 = ort_sessions rt"
    using refresh_session_not_persist [OF assms(1,2,4,5)] rs r by blast
  then have "session_get (ox_crypto ?ox) (ort_key rt) (pt_name t) label (mark_degraded ?now (pt_name t) label t1) =
      Inr (Some (s\<lparr> os_degraded := True, os_updated_at := ?now \<rparr>))"
    using session_get_degrade [OF assms(5)] by simp
  then show ?thesis
    by (simp add: resolve_oauth_token_def st1 assms(8) Let_def oauth_unavailable_def
          oauth_unavailable_envelope_def json_response_def)
qed

definition expired_session_app :: AppState where
  "expired_session_app =
     sample_app\<lparr> ap_catalog := [(''cx'', sample_registration)],
       ap_oauth := Some \<lparr> ort_sessions = fst (session_create (pe_oauth sample_pe) 1 (pe_nonces sample_pe)
           (SealingKey (replicate 32 3)) ''cx'' ''default'' ''rt'' None None [] []),
         ort_key = SealingKey (replicate 32 3) \<rparr> \<rparr>"

lemma expired_session:
  "ap_oauth expired_session_app = Some rt \<Longrightarrow> sessions_inv (ort_sessions rt) \<and>
     session_get (ox_crypto (pe_oauth sample_pe)) (ort_key rt) ''cx'' ''default'' (ort_sessions rt) =
       Inr (Some (sample_session\<lparr> os_access_token := None \<rparr>))"
proof -
  let ?ox = "pe_oauth sample_pe" and ?key = "SealingKey (replicate 32 3)"
  assume rt: "ap_oauth expired_session_app = Some rt"
  let ?c = "session_create ?ox 1 (pe_nonces sample_pe) ?key ''cx'' ''default'' ''rt'' None None [] []"
  have c: "?c = (fst ?c, Inr (sample_session\<lparr> os_access_token := None \<rparr>))"
    by (simp add: session_create_def Let_def sample_session_def)
  have ok: "aead_ok (ox_crypto ?ox)" "nonces_ok (pe_nonces sample_pe)"
    using sample_crypto_aead by (simp_all add: sample_pe_def nonces_ok_def)
  have "sessions_inv (fst ?c)"
    using ok(2) by (simp add: session_create_def Let_def sessions_inv_def row_ok_def seal_def nonces_ok_def)
  with session_get_create [OF ok c] rt show ?thesis by (auto simp: expired_session_app_def)
qed

theorem failed_refresh_closes_session_witness:
  "\<exists>st1 u u'. resolve_oauth_token sample_pe sample_oauth_target ''default'' expired_session_app = (st1, Inl u) \<and>
     ou_audit_cause u = ''network_error'' \<and>
     resolve_oauth_token sample_pe sample_oauth_target ''default'' st1 = (st1, Inl u') \<and> ou_audit_cause u' = ''degraded''"
proof -
  let ?s = "sample_session\<lparr> os_access_token := None \<rparr>"
  obtain rt where rt: "ap_oauth expired_session_app = Some rt" by (simp add: expired_session_app_def)
  note ex = expired_session [OF rt]
  have ok: "aead_ok (ox_crypto (pe_oauth sample_pe))" "nonces_ok (pe_nonces sample_pe)"
    using sample_crypto_aead by (simp_all add: sample_pe_def nonces_ok_def)
  have s: "\<not> os_degraded ?s" "needs_refresh n ?s" "os_name ?s = ''cx''" for n
    by (simp_all add: sample_session_def needs_refresh_def)
  have post: "pe_token sample_pe a b = NetworkFailure" for a b by (simp add: sample_pe_def)
  have "refresh_session (pe_oauth sample_pe) (pe_token sample_pe) n ns (ap_catalog expired_session_app)
      k ?s t = (t, Inl Network)" for n ns k t
    by (simp add: refresh_session_def s post expired_session_app_def lookup_active_def lookup_any_def
          sample_registration_def registration_new_def)
  then obtain st1 u where r: "resolve_oauth_token sample_pe sample_oauth_target ''default'' expired_session_app = (st1, Inl u)"
      "ou_audit_cause u = ''network_error''"
    using ex s by (simp add: resolve_oauth_token_def rt sample_oauth_sel Let_def oauth_unavailable_def)
  from failed_refresh_closes_session [OF ok rt _ _ s(1) r(1) refl] ex r show ?thesis
    by (auto simp: sample_oauth_sel)
qed

end
