(* ===== verification/Listener_Props.thy ===== *)
theory Listener_Props
  imports App Proxy_Props
begin

text \<open>
  The agent listener end to end: which requests reach an upstream through the
  middleware, the router and the proxy together, and what discovery shows.
\<close>

section \<open>What discovery shows\<close>

definition item_name :: "json \<Rightarrow> string option" where
  "item_name item = Option.bind (json_get ''name'' item) json_str"

lemma item_name_public [simp]: "item_name (public_json n d) = Some n"
  by (simp add: item_name_def public_json_def json_get_def obj_get_def json_str_def)

lemma item_name_entry [simp]: "item_name (catalog_entry t) = Some (kt_slug t)"
  by (simp add: item_name_def catalog_entry_def json_get_def obj_get_def json_str_def)

lemma append_kamiwaza_items:
  assumes "append_kamiwaza_catalog_entries pe ident items st = (st', out)"
  shows "set out \<subseteq> set items \<union> {catalog_entry t | t. acl_visible ident (kt_slug t)}"
    "ap_sent st' = ap_sent st"
  using assms by (auto simp: append_kamiwaza_catalog_entries_def split: if_splits prod.splits sum.splits)

lemma catalog_listing_sent: "ap_sent (fst (catalog_listing pe ident kind st)) = ap_sent st"
  using append_kamiwaza_items(2)
  by (auto simp: catalog_listing_def Let_def split: option.splits) (metis prod.collapse)+

text \<open>
  Tool and model discovery lists, for an authenticated agent, only
  names its ACL lets it call.
\<close>

theorem discovery_respects_acl:
  assumes "catalog_listing pe (Some ident) kind st = (st', items)" "item \<in> set items"
  shows "\<exists>n. item_name item = Some n \<and> allows_tool ident n = Inr ()"
proof -
  have vis: "acl_visible (Some ident) n \<longleftrightarrow> allows_tool ident n = Inr ()" for n by (simp add: acl_visible_def)
  have k: "\<exists>n. item_name i = Some n \<and> allows_tool ident n = Inr ()"
    if "append_kamiwaza_catalog_entries pe (Some ident) xs st = (st', out)" "i \<in> set out"
      "\<And>x. x \<in> set xs \<Longrightarrow> \<exists>n. item_name x = Some n \<and> allows_tool ident n = Inr ()" for xs out i
    using append_kamiwaza_items(1) [OF that(1)] that(2,3) vis by fastforce
  show ?thesis
  proof (cases "ap_registrations st")
    case (Some repo)
    have pub: "\<exists>n. item_name x = Some n \<and> allows_tool ident n = Inr ()"
      if "x \<in> set (list_public repo kd (Some ident))" for x kd
      using that vis by (auto simp: list_public_def)
    show ?thesis
      using assms Some pub k [of "list_public repo Tool (Some ident)" items item]
      by (auto simp: catalog_listing_def Let_def split: if_splits)
  next
    case None
    let ?xs = "map (\<lambda>t. public_json (tc_name t) (tc_description t)) (filter (\<lambda>t. acl_visible (Some ident) (tc_name t))
                 (active_tools_against (ap_creds st) (ap_config st)))"
    have "\<exists>n. item_name x = Some n \<and> allows_tool ident n = Inr ()" if "x \<in> set ?xs" for x
      using that vis by auto
    with assms None k [of ?xs items item] show ?thesis
      by (auto simp: catalog_listing_def split: if_splits)
  qed
qed

theorem discovery_respects_acl_witness:
  "allows_tool sample_agent ''gh'' = Inr () \<and>
   map item_name (snd (catalog_listing sample_pe (Some sample_agent) Tool sample_app)) = [Some ''gh'']"
proof -
  have cfg: "\<not> is_configured sample_config" by (simp add: is_configured_def sample_config_def)
  have items: "snd (catalog_listing sample_pe (Some sample_agent) Tool sample_app) = [public_json ''gh'' []]"
    using cfg
    by (simp add: catalog_listing_def append_kamiwaza_catalog_entries_def sample_app_def active_tools_against_def
          sample_config_def [THEN arg_cong [of _ _ ac_tools], simplified] acl_visible_def allows_tool_def sample_agent_def)
  then have "public_json ''gh'' [] \<in> set (snd (catalog_listing sample_pe (Some sample_agent) Tool sample_app))" by simp
  from discovery_respects_acl [OF surjective_pairing this] items show ?thesis by simp
qed

section \<open>Which requests reach an upstream\<close>

lemma get_only_sent:
  "ap_sent (fst out) = ap_sent st \<Longrightarrow> ap_sent (fst (get_only req out st)) = ap_sent st"
  by (simp add: get_only_def)

lemma discovery_handlers_sent:
  "ap_sent (fst (tools_handler pe req st)) = ap_sent st" "ap_sent (fst (models_handler pe req st)) = ap_sent st"
  "ap_sent (fst (skill_handler pe req st)) = ap_sent st"
  using catalog_listing_sent
  by (simp_all add: tools_handler_def models_handler_def skill_handler_def split_beta split: option.splits)

lemma with_captures_sends:
  assumes "ap_sent (fst (with_captures pe t p h st)) \<noteq> ap_sent st"
  shows "\<exists>tool path. pe_percent_decode pe t = Some tool \<and> ap_sent (fst (h tool path st)) \<noteq> ap_sent st"
  using assms by (auto simp: with_captures_def split: option.splits)

lemma dispatch_sends:
  assumes "ap_sent (fst (dispatch pe req st)) \<noteq> ap_sent st"
  shows "\<exists>t p tool path. pe_percent_decode pe t = Some tool \<and>
           (match_route (rq_path req) = RApi t p \<and>
              ap_sent (fst (proxy_tool_request pe tool path req st)) \<noteq> ap_sent st \<or>
            match_route (rq_path req) = RTransport t p \<and> credential_handle_matches st tool req \<and>
              ap_sent (fst (proxy_tool_request pe tool path req st)) \<noteq> ap_sent st)"
proof (cases "match_route (rq_path req)")
  case (RApi t p)
  with assms with_captures_sends show ?thesis by (auto simp: dispatch_def) metis
next
  case (RTransport t p)
  with assms obtain tool path where tp: "pe_percent_decode pe t = Some tool"
      "ap_sent (fst (credential_transport_request pe tool path req st)) \<noteq> ap_sent st"
    using with_captures_sends [of pe t p "\<lambda>tool path. credential_transport_request pe tool path req" st]
    by (auto simp: dispatch_def)
  then have "credential_handle_matches st tool req" "ap_sent (fst (proxy_tool_request pe tool path req st)) \<noteq> ap_sent st"
    by (auto simp: credential_transport_request_def split: if_splits)
  with tp RTransport show ?thesis by blast
qed (use assms in \<open>simp_all add: dispatch_def get_only_sent discovery_handlers_sent\<close>)

lemma api_route_path: "match_route path = RApi t p \<Longrightarrow> starts_with ''/api/'' path"
  by (auto simp: match_route_def strip_prefix_def split: if_splits option.splits)

lemma transport_route_path: "match_route path = RTransport t p \<Longrightarrow> transport_path path"
  by (auto simp: match_route_def transport_path_def strip_prefix_def split: if_splits option.splits)

lemma api_not_transport: "starts_with ''/api/'' path \<Longrightarrow> \<not> transport_path path"
  by (auto simp: transport_path_def starts_with_iff_prefix prefix_def)

lemma api_not_open: "starts_with ''/api/'' (rq_path req) \<Longrightarrow> \<not> open_request req"
  using api_not_transport by (auto simp: open_request_def bypass_path_def starts_with_def)

lemma credential_handle_frame:
  "credential_handle_matches (auth_commit a st) = credential_handle_matches st"
  by (simp add: credential_handle_matches_def fun_eq_iff)


definition sample_transport_app :: AppState where
  "sample_transport_app =
     sample_app\<lparr> ap_config := sample_config\<lparr> ac_tools :=
       [\<lparr> tc_name = ''tr'', tc_description = [], tc_upstream = ''http://u'', tc_egress = Direct,
          tc_credential_handles = [''h''], tc_request_allowlist = None, tc_auth = None,
          tc_timeouts = default_timeouts, tc_body_limit_bytes = 10, tc_response = None \<rparr>] \<rparr> \<rparr>"

definition sample_transport_req :: Request where
  "sample_transport_req =
     \<lparr> rq_method = ''GET'', rq_path = ''/transport/tr/x'', rq_query = None,
       rq_headers = [(''authorization'', ''Bearer h'')],
       rq_body = Some [], rq_peer_cert = None, rq_auth = None, rq_identity = None \<rparr>"

lemma sample_transport_handle: "credential_handle_matches sample_transport_app ''tr'' sample_transport_req"
  by (simp add: credential_handle_matches_def sample_transport_app_def sample_transport_req_def header_str_def
        hdr_get_def hdr_to_str_def strip_prefix_def starts_with_def trim_def) code_simp

lemma sample_transport_sends:
  "ap_sent (fst (serve sample_pe sample_transport_req sample_transport_app)) \<noteq> ap_sent sample_transport_app"
proof -
  let ?t = "\<lparr> pt_name = ''tr'', pt_upstream = ''http://u'', pt_body_limit_bytes = 10,
       pt_timeouts = default_timeouts, pt_egress = Direct, pt_auth = PNone,
       pt_auth_source = ''registration_default'', pt_oauth_session_label = None \<rparr>"
  have t: "resolve_target sample_transport_app ''tr'' = Some ?t"
    by (simp add: resolve_target_def sample_transport_app_def sample_app_def lookup_active_def lookup_any_def
          active_tools_def from_tool_config_def)
  have c: "\<forall>i. rq_identity sample_transport_req = Some i \<longrightarrow> allows_tool i ''tr'' = Inr ()"
    "request_allowed (pe_url sample_pe) (ap_config sample_transport_app) ''tr''
       (upstream_url_for ?t ''x'' sample_transport_req) sample_transport_req"
    "apply_agent_credential_override (pe_env sample_pe) sample_transport_app (rq_identity sample_transport_req) ?t = ?t"
    "to_bytes (pt_body_limit_bytes ?t) sample_transport_req = Some []"
    by (simp_all add: sample_transport_req_def sample_transport_app_def request_allowed_def tool_request_allowed_def
          sample_app_def sample_override to_bytes_def)
  have "\<exists>client ureq. ap_sent (fst (proxy_tool_request sample_pe ''tr'' ''x'' sample_transport_req sample_transport_app)) =
      ap_sent sample_transport_app @ [(client, ureq)]"
    using forward_sends [OF _ c(4), of sample_transport_app sample_pe
        "snapshot (pe_started sample_pe) sample_transport_req ''tr''" "upstream_url_for ?t ''x'' sample_transport_req"]
    unfolding proxy_forwards(2) [OF c(1) t c(2,3), simplified] by auto
  moreover have "serve sample_pe sample_transport_req sample_transport_app =
      proxy_tool_request sample_pe ''tr'' ''x'' sample_transport_req sample_transport_app"
    by (simp add: serve_def auth_middleware_open open_request_def transport_path_def dispatch_def match_route_def
          sample_transport_req_def [THEN arg_cong [of _ _ rq_path], simplified] starts_with_def strip_prefix_def
          captures_def with_captures_def sample_pe_def [THEN arg_cong [of _ _ pe_percent_decode], simplified]
          credential_transport_request_def sample_transport_handle)
  ultimately show ?thesis by auto
qed


end
