(* ===== verification/Proxy_Audit.thy ===== *)
theory Proxy_Audit
  imports Proxy_Props
begin

text \<open>
  The audit trail of the request path, and the places where the code departs
  from what it announces: each departure is a theorem about the definitions of
  the proxy.
\<close>

section \<open>One decision row per request\<close>

definition row_of :: "RequestCtx \<Rightarrow> AuditEvent \<Rightarrow> bool" where
  "row_of ctx e \<longleftrightarrow> ev_tool e = Some (cx_tool_name ctx) \<and> ev_method e = Some (cx_method ctx) \<and>
     ev_path e = Some (cx_request_path ctx) \<and> ev_agent_public_id e = cx_agent_public_id ctx \<and>
     ev_auth_method e = Some (cx_auth_method ctx)"

definition redaction_row :: "AuditEvent \<Rightarrow> bool" where
  "redaction_row e \<longleftrightarrow> ev_event e = ''response_redaction''"

text \<open>
  The log grows by redaction rows and then one decision row; a row that says
  \<open>Allowed\<close> only appears when a request was sent.
\<close>

definition audited :: "RequestCtx \<Rightarrow> bool \<Rightarrow> AppState \<Rightarrow> AppState \<Rightarrow> bool" where
  "audited ctx sent st st' \<longleftrightarrow>
     (\<forall>l. ap_audit st = Some l \<longrightarrow>
        (\<exists>reds main. ap_audit st' = Some (l @ reds @ [main]) \<and>
           list_all (\<lambda>e. redaction_row e \<and> row_of ctx e) reds \<and> \<not> redaction_row main \<and>
           row_of ctx main \<and> (ev_decision main = Allowed \<longrightarrow> sent)))"

lemma row_of_proxy_event [simp]:
  "row_of ctx (proxy_event clk ctx name status dec host details)"
  "ev_event (proxy_event clk ctx name status dec host details) = name"
  "ev_decision (proxy_event clk ctx name status dec host details) = dec"
  by (simp_all add: row_of_def proxy_event_def audit_event_base_def)

lemma row_of_base [simp]: "row_of ctx (audit_event_base clk ctx)"
  by (simp add: row_of_def audit_event_base_def)

lemma row_of_update [simp]:
  "row_of ctx (e\<lparr> ev_class := c \<rparr>) = row_of ctx e"
  "row_of ctx (e\<lparr> ev_event := n \<rparr>) = row_of ctx e"
  "row_of ctx (e\<lparr> ev_status := s \<rparr>) = row_of ctx e"
  "row_of ctx (e\<lparr> ev_decision := d \<rparr>) = row_of ctx e"
  "row_of ctx (e\<lparr> ev_details := j \<rparr>) = row_of ctx e"
  by (simp_all add: row_of_def)

lemma row_of_fixup [simp]: "row_of (ctx\<lparr> cx_codex_body_fixup := f \<rparr>) = row_of ctx"
  by (simp add: row_of_def fun_eq_iff)

lemma audited_single:
  assumes "ap_audit st' = audit_emit e (ap_audit st)" "row_of ctx e" "\<not> redaction_row e"
    and "ev_decision e = Allowed \<Longrightarrow> sent"
  shows "audited ctx sent st st'"
  unfolding audited_def
proof (intro allI impI)
  fix l assume "ap_audit st = Some l"
  with assms show "\<exists>reds main. ap_audit st' = Some (l @ reds @ [main]) \<and>
      list_all (\<lambda>e. redaction_row e \<and> row_of ctx e) reds \<and> \<not> redaction_row main \<and>
      row_of ctx main \<and> (ev_decision main = Allowed \<longrightarrow> sent)"
    by (intro exI [of _ "[]"] exI [of _ e]) simp
qed

lemma audited_record:
  assumes "row_of ctx e" "\<not> redaction_row e" "ev_decision e = Allowed \<Longrightarrow> sent"
  shows "audited ctx sent st (audit_record e st)"
  using assms by (intro audited_single [of _ e]) simp_all

lemma fold_redaction_audit:
  "ap_audit st = Some l \<Longrightarrow>
   \<exists>reds. ap_audit (fold (record_response_redaction clk ctx host status) rs st) = Some (l @ reds) \<and>
     list_all (\<lambda>e. redaction_row e \<and> row_of ctx e) reds"
proof (induction rs arbitrary: st l)
  case (Cons r rs)
  let ?e = "proxy_event clk ctx ''response_redaction'' status Allowed host
       (Some (JObj [(''pattern_id'', JStr (rr_pattern_id r)), (''matches'', JNum (int (rr_matches r))),
                    (''match_hash'', JStr (rr_match_hash r))]))"
  have "ap_audit (record_response_redaction clk ctx host status r st) = Some (l @ [?e])"
    using Cons.prems by (simp add: record_response_redaction_def)
  from Cons.IH [OF this] obtain reds where
    "ap_audit (fold (record_response_redaction clk ctx host status) rs
        (record_response_redaction clk ctx host status r st)) = Some ((l @ [?e]) @ reds)"
    "list_all (\<lambda>e. redaction_row e \<and> row_of ctx e) reds" by blast
  then show ?case by (intro exI [of _ "?e # reds"]) (simp add: redaction_row_def)
qed simp

lemma success_row:
  "ap_audit (record_proxy_request_success clk ctx target host status st) =
     audit_emit (proxy_event clk ctx ''proxy_request'' status
       (if status \<ge> 500 then Error else Allowed) host (Some (audit_details ctx target))) (ap_audit st)"
  by (simp add: record_proxy_request_success_def)

lemma handle_upstream_response_audited:
  "audited ctx True st (fst (handle_upstream_response pe ctx target host status hs polls st))"
proof -
  let ?clk = "pe_clk pe"
  have single: "audited ctx True st (fst (record_response_content_type_disallowed ?clk ctx host ct st))"
    "audited ctx True st (record_proxy_request_success ?clk ctx target host status st)"
    "audited ctx True st (fst (record_upstream_body_read_error ?clk ctx host st))"
    "audited ctx True st (fst (record_response_size_exceeded_buffered ?clk ctx host o_b c st))" for ct o_b c
    unfolding record_defs fst_conv by (rule audited_record; simp add: redaction_row_def)+
  have reds: "audited ctx True st
      (record_proxy_request_success ?clk ctx target host status
        (fold (record_response_redaction ?clk ctx host status) rs st))" for rs
    unfolding audited_def
  proof (intro allI impI)
    fix l assume "ap_audit st = Some l"
    from fold_redaction_audit [OF this] obtain reds where
      "ap_audit (fold (record_response_redaction ?clk ctx host status) rs st) = Some (l @ reds)"
      "list_all (\<lambda>e. redaction_row e \<and> row_of ctx e) reds" by blast
    then show "\<exists>reds main. ap_audit (record_proxy_request_success ?clk ctx target host status
        (fold (record_response_redaction ?clk ctx host status) rs st)) = Some (l @ reds @ [main]) \<and>
        list_all (\<lambda>e. redaction_row e \<and> row_of ctx e) reds \<and> \<not> redaction_row main \<and>
        row_of ctx main \<and> (ev_decision main = Allowed \<longrightarrow> True)"
      by (intro exI [of _ reds] exI [of _ "proxy_event ?clk ctx ''proxy_request'' status
            (if status \<ge> 500 then Error else Allowed) host (Some (audit_details ctx target))"])
         (simp add: success_row redaction_row_def)
  qed
  show ?thesis
    using single reds
    by (simp add: handle_upstream_response_def apply_buffered_response_controls_def Let_def
          split: option.splits ApplyOutcome.splits)
qed

lemma audited_ctx: "row_of ctx = row_of ctx' \<Longrightarrow> audited ctx = audited ctx'"
  by (simp add: audited_def fun_eq_iff)

lemma audited_frame: "ap_audit st = ap_audit st1 \<Longrightarrow> audited ctx sent st st' \<longleftrightarrow> audited ctx sent st1 st'"
  by (simp add: audited_def)

lemma audited_weaken: "audited ctx True st st' \<Longrightarrow> sent \<Longrightarrow> audited ctx sent st st'"
  by (simp add: audited_def)

lemma upstream_error_audited:
  "audited ctx sent st (fst (record_upstream_error clk ctx t host b st))"
  unfolding record_upstream_error_def by (auto intro!: audited_record simp: redaction_row_def)

lemma forward_audited:
  assumes "forward_to_upstream pe ctx t url req st = (st', resp)"
  shows "audited ctx (ap_sent st' \<noteq> ap_sent st) st st'"
proof -
  let ?clk = "pe_clk pe" and ?host = "url_host (pt_upstream t)"
  consider (cred) "force_replace_missing (ap_creds st) (pt_name t) (pt_auth t)"
    | (body) "\<not> force_replace_missing (ap_creds st) (pt_name t) (pt_auth t)"
        "to_bytes (pt_body_limit_bytes t) req = None"
    | (ok) raw where "\<not> force_replace_missing (ap_creds st) (pt_name t) (pt_auth t)"
        "to_bytes (pt_body_limit_bytes t) req = Some raw" by auto
  then show ?thesis
  proof cases
    case cred
    with assms have "st' = fst (record_credential_unavailable ?clk ctx t ?host st)"
      by (simp add: forward_to_upstream_def Let_def)
    then show ?thesis
      unfolding record_credential_unavailable_def by (auto intro!: audited_record simp: redaction_row_def)
  next
    case body
    with assms have "st' = fst (record_body_read_error ?clk ctx ?host st)"
      by (simp add: forward_to_upstream_def Let_def)
    then show ?thesis
      unfolding record_body_read_error_def by (auto intro!: audited_record simp: redaction_row_def)
  next
    case ok
    let ?fix = "if is_chatgpt_codex_upstream (pt_upstream t) \<and> request_path_ends_with_responses (cx_request_path ctx)
                then fixup (pe_json pe) raw else Inr (raw, default_summary)"
    show ?thesis
    proof (cases ?fix)
      case (Inl e)
      then have "e = TooLarge" by (cases e) simp
      with assms ok Inl have "st' = fst (record_codex_body_too_large ?clk ctx ?host st)"
        by (simp add: forward_to_upstream_def Let_def)
      then show ?thesis
        unfolding record_codex_body_too_large_def by (auto intro!: audited_record simp: redaction_row_def)
    next
      case (Inr q)
      obtain bd sm where q: "q = (bd, sm)" by fastforce
      obtain st1 client ureq where b: "build_upstream_request pe st t (rq_method req) url (rq_headers req) bd
          (cx_agent_name ctx) = (st1, client, ureq)" by (metis prod_cases3)
      have s1: "ap_sent st1 = ap_sent st" "ap_audit st1 = ap_audit st"
        using b by (auto simp: build_upstream_request_def Let_def split: prod.splits)
      let ?ctx = "if is_noop sm then ctx else ctx\<lparr> cx_codex_body_fixup := Some (fixup_json sm) \<rparr>"
      let ?st2 = "st1\<lparr> ap_sent := ap_sent st1 @ [(client, ureq)] \<rparr>"
      have run: "(st', resp) = (case pe_send pe client ureq of
            Upstream status hs polls \<Rightarrow> handle_upstream_response pe ?ctx t ?host status hs polls ?st2
          | SendTimeout \<Rightarrow> record_upstream_error ?clk ?ctx t ?host True ?st2
          | SendError \<Rightarrow> record_upstream_error ?clk ?ctx t ?host False ?st2)"
        using assms ok Inr q b by (simp add: forward_to_upstream_def Let_def)
      have "audited ?ctx True ?st2 st'"
        using arg_cong [OF run, of fst] upstream_error_audited handle_upstream_response_audited
        by (cases "pe_send pe client ureq") simp_all
      moreover have "row_of ?ctx = row_of ctx" by simp
      ultimately have "audited ctx True ?st2 st'" using audited_ctx by metis
      moreover have "ap_sent st' = ap_sent st @ [(client, ureq)]"
        using arg_cong [OF run, of "\<lambda>x. ap_sent (fst x)"] s1
        by (cases "pe_send pe client ureq") (simp_all add: record_upstream_error_def)
      ultimately show ?thesis
        using audited_frame [of st ?st2] s1 audited_weaken by simp
    qed
  qed
qed

lemma authz_denied_audited: "audited ctx sent st (fst (record_authz_denied clk ctx reason st))"
  unfolding record_authz_denied_def by (auto intro!: audited_record simp: redaction_row_def)

lemma proxy_to_target_audited:
  assumes "proxy_to_target pe ctx t path req st = (st', resp)"
  shows "audited ctx (ap_sent st' \<noteq> ap_sent st) st st'"
proof -
  let ?url = "upstream_url_for t path req"
  let ?t = "apply_agent_credential_override (pe_env pe) st (rq_identity req) t"
  let ?l = "case pt_oauth_session_label ?t of Some l \<Rightarrow> l | None \<Rightarrow> DEFAULT_SESSION_LABEL"
  consider (deny) "\<not> request_allowed (pe_url pe) (ap_config st) (cx_tool_name ctx) ?url req"
    | (oauth) m sid tok acct where "request_allowed (pe_url pe) (ap_config st) (cx_tool_name ctx) ?url req"
        "pt_auth ?t = POauth m sid tok acct"
    | (plain) "request_allowed (pe_url pe) (ap_config st) (cx_tool_name ctx) ?url req"
        "\<nexists>m sid tok acct. pt_auth ?t = POauth m sid tok acct"
    by blast
  then show ?thesis
  proof cases
    case deny
    with assms have "st' = fst (record_authz_denied (pe_clk pe) ctx ''request_not_in_allowlist'' st)"
      by (simp add: proxy_to_target_def Let_def)
    then show ?thesis by (simp add: authz_denied_audited)
  next
    case plain
    with assms have "forward_to_upstream pe ctx ?t ?url req st = (st', resp)"
      by (cases "pt_auth ?t") (auto simp: proxy_to_target_def Let_def)
    then show ?thesis by (rule forward_audited)
  next
    case oauth
    obtain st1 r where res: "resolve_oauth_token pe ?t ?l st = (st1, r)" by fastforce
    note fr = resolve_oauth_token_frame [OF res]
    show ?thesis
    proof (cases r)
      case (Inl u)
      with assms oauth res have "st' = record_oauth_unavailable (pe_clk pe) ctx (ou_audit_cause u) st1"
        by (simp add: proxy_to_target_def Let_def)
      then have "audited ctx (ap_sent st' \<noteq> ap_sent st) st1 st'"
        unfolding record_oauth_unavailable_def by (auto intro!: audited_record simp: redaction_row_def)
      with fr show ?thesis using audited_frame by metis
    next
      case (Inr auth)
      with assms oauth res have
        "forward_to_upstream pe ctx (?t\<lparr> pt_auth := auth \<rparr>) ?url req st1 = (st', resp)"
        by (simp add: proxy_to_target_def Let_def)
      from forward_audited [OF this] fr show ?thesis using audited_frame by metis
    qed
  qed
qed

text \<open>The one way round the trail: an ACL-permitted name that only Kamiwaza answers.\<close>

definition answered_by_kamiwaza :: "ProxyEnv \<Rightarrow> string \<Rightarrow> Request \<Rightarrow> AppState \<Rightarrow> bool" where
  "answered_by_kamiwaza pe tool req st \<longleftrightarrow>
     (case rq_identity req of Some ident \<Rightarrow> allows_tool ident tool = Inr () | None \<Rightarrow> True) \<and>
     resolve_target st tool = None \<and>
     snd (handle_proxy_call (pe_kz pe) (ap_config st) tool req (ap_kz st)) \<noteq> None"

lemma proxy_tool_request_audited:
  assumes run: "proxy_tool_request pe tool path req st = (st', resp)"
    and nk: "\<not> answered_by_kamiwaza pe tool req st"
  shows "audited (snapshot (pe_started pe) req tool) (ap_sent st' \<noteq> ap_sent st) st st'"
proof -
  let ?ctx = "snapshot (pe_started pe) req tool"
  let ?acl = "case rq_identity req of Some ident \<Rightarrow> allows_tool ident tool | None \<Rightarrow> Inr ()"
  consider (deny) reason where "?acl = Inl reason"
    | (target) t where "?acl = Inr ()" "resolve_target st tool = Some t"
    | (none) "?acl = Inr ()" "resolve_target st tool = None" by (cases ?acl) auto
  then show ?thesis
  proof cases
    case deny
    with run have "st' = fst (record_authz_denied (pe_clk pe) ?ctx reason st)"
      by (simp add: proxy_tool_request_def Let_def)
    then show ?thesis by (simp add: authz_denied_audited)
  next
    case target
    with run have "proxy_to_target pe ?ctx t path req st = (st', resp)"
      by (simp add: proxy_tool_request_def Let_def)
    then show ?thesis by (rule proxy_to_target_audited)
  next
    case none
    then have "(case rq_identity req of Some ident \<Rightarrow> allows_tool ident tool = Inr () | None \<Rightarrow> True)"
      by (cases "rq_identity req") simp_all
    with nk none obtain w where
      "handle_proxy_call (pe_kz pe) (ap_config st) tool req (ap_kz st) = (w, None)"
      unfolding answered_by_kamiwaza_def by (metis prod.collapse)
    with run none have "st' = fst (record_tool_not_found (pe_clk pe) ?ctx (st\<lparr> ap_kz := w \<rparr>))"
      by (simp add: proxy_tool_request_def Let_def)
    then have "audited ?ctx (ap_sent st' \<noteq> ap_sent st) (st\<lparr> ap_kz := w \<rparr>) st'"
      unfolding record_tool_not_found_def by (auto intro!: audited_record simp: redaction_row_def)
    then show ?thesis by (simp add: audited_def)
  qed
qed

text \<open>
  Property C7: every proxied request that Kamiwaza does not answer appends to
  the audit log the redaction rows of its response followed by exactly one
  decision row, all carrying the tool, method, path, authentication method and
  agent of the request; the decision row says \<open>Allowed\<close> only if a request was
  sent to the upstream.
\<close>

theorem one_decision_row_per_request:
  assumes "proxy_tool_request pe tool path req st = (st', resp)" "ap_audit st = Some log"
    and "\<not> answered_by_kamiwaza pe tool req st"
  shows "\<exists>reds main. ap_audit st' = Some (log @ reds @ [main]) \<and>
           list_all (\<lambda>e. ev_event e = ''response_redaction'') reds \<and>
           ev_event main \<noteq> ''response_redaction'' \<and>
           list_all (\<lambda>e. ev_tool e = Some tool \<and> ev_method e = Some (rq_method req) \<and>
             ev_path e = Some (rq_path req) \<and>
             ev_agent_public_id e = map_option ai_public_id (rq_identity req)) (reds @ [main]) \<and>
           (ev_decision main = Allowed \<longrightarrow> ap_sent st' \<noteq> ap_sent st)"
proof -
  from proxy_tool_request_audited [OF assms(1,3), unfolded audited_def] assms(2) obtain reds main where
    r: "ap_audit st' = Some (log @ reds @ [main])"
      "list_all (\<lambda>e. redaction_row e \<and> row_of (snapshot (pe_started pe) req tool) e) reds"
      "\<not> redaction_row main" "row_of (snapshot (pe_started pe) req tool) main"
      "ev_decision main = Allowed \<longrightarrow> ap_sent st' \<noteq> ap_sent st" by blast
  then show ?thesis
    by (intro exI [of _ reds] exI [of _ main])
       (auto simp: redaction_row_def row_of_def snapshot_def list_all_iff)
qed

lemma sample_not_kamiwaza: "\<not> answered_by_kamiwaza sample_pe ''gh'' sample_request sample_app"
  by (simp add: answered_by_kamiwaza_def sample_target)

theorem one_decision_row_per_request_witness:
  "\<exists>reds main. ap_audit (fst (proxy_tool_request sample_pe ''gh'' ''x'' sample_request sample_app)) =
       Some (reds @ [main]) \<and> ev_tool main = Some ''gh'' \<and> ev_agent_public_id main = Some (ai_public_id sample_agent)"
proof -
  have "ap_audit sample_app = Some []" by (simp add: sample_app_def)
  from one_decision_row_per_request [OF surjective_pairing this sample_not_kamiwaza, of "''x''"]
  show ?thesis by (auto simp: sample_request_def [THEN arg_cong [of _ _ rq_identity], simplified])
qed

section \<open>Departures from the documented behaviour\<close>

text \<open>
  An override whose environment variable is unset does not forward without a
  credential: the shared credential of the registration is injected.
\<close>

lemma unset_override_uses_shared_credential:
  assumes "ap_agent_creds st = Some ovs" "override_get (ai_id ident) (pt_name t) ovs = Some row"
    and "ov_auth_spec row = BearerEnv v fr" "env v = None" "ap_creds st (pt_name t) = Some shared"
  shows "injected_headers st (apply_agent_credential_override env st (Some ident) t) =
           [(''authorization'', ''Bearer '' @ shared)]"
  using assms by (simp add: apply_agent_credential_override_def apply_auth_override_def injected_headers_def Let_def)

text \<open>
  An OAuth override on a registration that is not an OAuth one keeps the
  registration's own credential, while the audit row says it was overridden.
\<close>

lemma oauth_override_keeps_static_credential:
  assumes "ap_agent_creds st = Some ovs" "override_get (ai_id ident) (pt_name t) ovs = Some row"
    and "ov_auth_spec row = OauthDeviceCode a b c d l"
  shows "injected_headers st (apply_agent_credential_override env st (Some ident) t) = injected_headers st t"
    "pt_auth_source (apply_agent_credential_override env st (Some ident) t) = ''agent_override''"
  using assms
  by (cases "pt_auth t"; simp add: apply_agent_credential_override_def apply_auth_override_def injected_headers_def
        Let_def cong: option.case_cong if_cong)+

text \<open>Of two \<open>Set-Cookie\<close> headers of the upstream only the last one is forwarded.\<close>

lemma repeated_response_header_collapses:
  "forward_response_headers [(''set-cookie'', a), (''set-cookie'', b)] = [(''set-cookie'', b)]"
  by (simp add: forward_response_headers_def hop_by_hop_def hdr_insert_def hdr_remove_def to_lower_def ascii_lower_def)

text \<open>A session that cannot be unsealed is answered with 500 and audited with 503.\<close>

lemma unreadable_session_status_differs:
  assumes "ap_oauth st = Some rt" "session_get (ox_crypto (pe_oauth pe)) (ort_key rt) (pt_name t) l (ort_sessions rt) = Inl e"
    and "ap_audit st = Some log"
  shows "\<exists>u. resolve_oauth_token pe t l st = (st, Inl u) \<and> rs_status (ou_response u) = 500 \<and>
           (\<exists>ev. ap_audit (record_oauth_unavailable clk ctx (ou_audit_cause u) st) = Some (log @ [ev]) \<and>
              ev_status ev = Some 503)"
  using assms
  by (simp add: resolve_oauth_token_def Let_def oauth_unavailable_def oauth_unavailable_envelope_def
        record_oauth_unavailable_def json_response_def proxy_event_def)

text \<open>A registration that was disabled stays reachable under a configured tool of its name.\<close>

lemma disabled_registration_falls_back_to_config:
  assumes "lookup_active name (ap_catalog st) = None"
    and "List.find (\<lambda>t. tc_name t = name) (active_tools (ap_config st)) = Some tool"
  shows "resolve_target st name = Some (from_tool_config tool)"
  using assms by (simp add: resolve_target_def)

text \<open>A call that Kamiwaza answers leaves no row.\<close>

lemma kamiwaza_call_not_audited:
  assumes "answered_by_kamiwaza pe tool req st"
  shows "ap_audit (fst (proxy_tool_request pe tool path req st)) = ap_audit st"
proof -
  obtain w resp where "handle_proxy_call (pe_kz pe) (ap_config st) tool req (ap_kz st) = (w, Some resp)"
    using assms unfolding answered_by_kamiwaza_def by (metis option.exhaust prod.collapse)
  then show ?thesis
    using assms by (auto simp: answered_by_kamiwaza_def proxy_tool_request_def Let_def split: option.splits)
qed

end
