(* ===== verification/Admin_Service.thy ===== *)
theory Admin_Service
  imports Agent_Creds Registrations_Api
begin

text \<open>
  The administration service of \<open>src/admin/service.rs\<close>: the operations that
  agents and operators reach through the administration listeners, over the
  agent table, the bootstrap-token table, the configuration and the audit log.
  Each operation is one definition that returns the new state and the result.
  The text of errors that come from the database or the hashing library is a
  parameter.  \<open>service_step\<close> interleaves the operations.
\<close>

section \<open>Definitions\<close>

datatype AdminError =
    InvalidBootstrap
  | AgentNameConflict
  | RotationInProgress
  | AgentNotFound
  | NotAuthorized
  | Backend string

fun admin_error_display :: "AdminError \<Rightarrow> string" where
  "admin_error_display InvalidBootstrap = ''invalid bootstrap token''"
| "admin_error_display AdminError.AgentNameConflict = ''agent name conflict''"
| "admin_error_display AdminError.RotationInProgress = ''rotation in progress''"
| "admin_error_display AdminError.AgentNotFound = ''agent not found''"
| "admin_error_display NotAuthorized = ''not authorized''"
| "admin_error_display (AdminError.Backend s) = ''backend: '' @ s"

fun repo_error_display :: "(RepoError \<Rightarrow> string) \<Rightarrow> RepoError \<Rightarrow> string" where
  "repo_error_display lib (RepoError.AgentNameConflict n) = ''agent name conflict: '' @ n"
| "repo_error_display lib (RepoError.RotationInProgress p) = ''rotation already in progress for agent '' @ p"
| "repo_error_display lib RepoError.AgentNotFound = ''agent not found''"
| "repo_error_display lib RepoError.InvalidCredential = ''invalid current credential''"
| "repo_error_display lib Hash = ''hash: '' @ lib Hash"
| "repo_error_display lib Sqlx = ''sqlx: '' @ lib Sqlx"
| "repo_error_display lib Json = ''json: '' @ lib Json"

fun admin_error_of_repo :: "(RepoError \<Rightarrow> string) \<Rightarrow> RepoError \<Rightarrow> AdminError" where
  "admin_error_of_repo lib (RepoError.AgentNameConflict _) = AdminError.AgentNameConflict"
| "admin_error_of_repo lib (RepoError.RotationInProgress _) = AdminError.RotationInProgress"
| "admin_error_of_repo lib RepoError.AgentNotFound = AdminError.AgentNotFound"
| "admin_error_of_repo lib RepoError.InvalidCredential = InvalidBootstrap"
| "admin_error_of_repo lib e = AdminError.Backend (repo_error_display lib e)"

record RegisterInput =
  ri_bootstrap_token :: string
  ri_name :: string
  ri_description :: "string option"
  ri_metadata :: "json option"

record RegisterOutput =
  ro_public_id :: string
  ro_token :: string
  ro_allowlist :: "string list option"

record AgentStatusOutput =
  so_public_id :: string
  so_name :: string
  so_description :: "string option"
  so_allowlist :: "string list option"
  so_denylist :: "string list option"
  so_registered_at :: int
  so_last_used_at :: "int option"
  so_expires_at :: "int option"

definition status_of_record :: "AgentRecord \<Rightarrow> AgentStatusOutput" where
  "status_of_record r =
     \<lparr> so_public_id = ag_public_id r, so_name = ag_name r, so_description = ag_description r,
       so_allowlist = ag_tool_allowlist r, so_denylist = ag_tool_denylist r,
       so_registered_at = ag_registered_at r, so_last_used_at = ag_last_used_at r,
       so_expires_at = ag_expires_at r \<rparr>"

record RotateOutput =
  rt_public_id :: string
  rt_token :: string

record CreateAgentInput =
  ci_name :: string
  ci_description :: "string option"
  ci_allowlist :: "string list option"
  ci_denylist :: "string list option"
  ci_metadata :: "json option"
  ci_expires_at :: "int option"

record ModifyAgentInput =
  mi_allowlist :: "string list option option"
  mi_denylist :: "string list option option"
  mi_metadata :: "json option option"
  mi_expires_at :: "int option option"

record MintBootstrapInput =
  mb_tool_allowlist :: "string list option"
  mb_expires_at :: "int option"
  mb_single_use :: bool

record MintBootstrapOutput =
  mo_public_id :: string
  mo_token :: string
  mo_scope :: BootstrapScope

record ToolInfo =
  ti_name :: string
  ti_description :: string
  ti_egress :: string
  ti_credential_present :: bool

record AdminService =
  sv_agents :: AgentTable
  sv_bootstrap :: BootstrapTable
  sv_config :: AppConfig
  sv_audit :: audit_log
  sv_resolved_creds :: "ResolvedCreds option"

definition service_with_audit :: "AgentTable \<Rightarrow> BootstrapTable \<Rightarrow> AppConfig \<Rightarrow> audit_log \<Rightarrow> AdminService" where
  "service_with_audit agents bootstrap cfg audit =
     \<lparr> sv_agents = agents, sv_bootstrap = bootstrap, sv_config = cfg, sv_audit = audit, sv_resolved_creds = None \<rparr>"

definition service_new :: "AgentTable \<Rightarrow> BootstrapTable \<Rightarrow> AppConfig \<Rightarrow> AdminService" where
  "service_new agents bootstrap cfg = service_with_audit agents bootstrap cfg None"

definition service_with_audit_and_creds ::
  "AgentTable \<Rightarrow> BootstrapTable \<Rightarrow> AppConfig \<Rightarrow> audit_log \<Rightarrow> ResolvedCreds \<Rightarrow> AdminService" where
  "service_with_audit_and_creds agents bootstrap cfg audit creds =
     \<lparr> sv_agents = agents, sv_bootstrap = bootstrap, sv_config = cfg, sv_audit = audit,
       sv_resolved_creds = Some creds \<rparr>"

text \<open>What the operations take from outside: the primitives, the clock, error texts and JSON text.\<close>

record AdminEnv =
  ae_crypto :: Crypto
  ae_clk :: int
  ae_lib :: "RepoError \<Rightarrow> string"
  ae_to_json :: "json \<Rightarrow> string"
  ae_from_json :: "string \<Rightarrow> json option"

definition ae_now :: "AdminEnv \<Rightarrow> int" where
  "ae_now ae = secs_of (ae_clk ae)"

definition credential_present :: "AdminService \<Rightarrow> ToolConfig \<Rightarrow> bool" where
  "credential_present s tool =
     (case tc_auth tool of
        None \<Rightarrow> False
      | Some auth \<Rightarrow>
          (case sv_resolved_creds s of
             Some resolved \<Rightarrow> resolved (tc_name tool) \<noteq> None
           | None \<Rightarrow> looks_present (tac_value auth)))"

definition admin_audit :: "AuditEvent \<Rightarrow> AdminService \<Rightarrow> AdminService" where
  "admin_audit ev s =
     s\<lparr> sv_audit := audit_emit
          (case ev_auth_method ev of
             Some _ \<Rightarrow> ev
           | None \<Rightarrow> ev\<lparr> ev_auth_method := Some
               (if ev_operator_name ev \<noteq> None then ''operator''
                else if ev_event ev = ''agent_register'' then ''bootstrap''
                else ''agent'') \<rparr>) (sv_audit s) \<rparr>"

definition audit_for_operator :: "OperatorIdentity \<Rightarrow> AuditEvent \<Rightarrow> AdminService \<Rightarrow> AdminService" where
  "audit_for_operator opr ev s =
     (let ev1 = (if ev_operator_name ev = None then ev\<lparr> ev_operator_name := Some (oi_name opr) \<rparr> else ev);
          ev2 = (if ev_auth_method ev1 = None
                 then ev1\<lparr> ev_auth_method := Some
                        (case oi_auth_method opr of Some m \<Rightarrow> m | None \<Rightarrow> ''operator'') \<rparr>
                 else ev1)
      in admin_audit ev2 s)"

definition admin_event :: "AdminEnv \<Rightarrow> EventClass \<Rightarrow> string \<Rightarrow> Decision \<Rightarrow> AuditEvent" where
  "admin_event ae cls name dec =
     default_event\<lparr> ev_ts_ms := ae_clk ae, ev_class := cls, ev_event := name, ev_decision := dec \<rparr>"

definition decision_of :: "('e, 'a) result \<Rightarrow> Decision" where
  "decision_of r = (case r of Inr _ \<Rightarrow> Allowed | Inl _ \<Rightarrow> Denied)"

definition error_details :: "AdminEnv \<Rightarrow> (RepoError, 'a) result \<Rightarrow> json option" where
  "error_details ae r =
     (case r of Inr _ \<Rightarrow> None
      | Inl e \<Rightarrow> Some (JObj [(''error'', JStr (repo_error_display (ae_lib ae) e))]))"

definition error_or_null :: "AdminEnv \<Rightarrow> (RepoError, 'a) result \<Rightarrow> json" where
  "error_or_null ae r =
     (case r of Inr _ \<Rightarrow> JNull | Inl e \<Rightarrow> JStr (repo_error_display (ae_lib ae) e))"

definition lift_repo :: "AdminEnv \<Rightarrow> (RepoError, 'a) result \<Rightarrow> (AdminError, 'a) result" where
  "lift_repo ae r = (case r of Inr x \<Rightarrow> Inr x | Inl e \<Rightarrow> Inl (admin_error_of_repo (ae_lib ae) e))"

subsection \<open>Agent self-service\<close>

definition bootstrap_public_id :: "AdminEnv \<Rightarrow> string \<Rightarrow> string option" where
  "bootstrap_public_id ae raw =
     (case parse (cr_unb64 (ae_crypto ae)) raw of
        Inr (ns, pid, _) \<Rightarrow> if ns = TokenNamespace.Bootstrap then Some (as_str pid) else None
      | Inl _ \<Rightarrow> None)"

text \<open>
  \<open>register_agent_inner\<close>: preview, insert, look up, consume; a failed consume
  revokes the inserted agent.
\<close>

definition register_agent_inner ::
  "AdminEnv \<Rightarrow> Entropy \<Rightarrow> RegisterInput \<Rightarrow> AdminService \<Rightarrow> AdminService \<times> (AdminError, RegisterOutput) result" where
  "register_agent_inner ae en inp s =
     (let cr = ae_crypto ae; now = ae_now ae; conv = admin_error_of_repo (ae_lib ae) in
      case parse (cr_unb64 cr) (ri_bootstrap_token inp) of
        Inl _ \<Rightarrow> (s, Inl InvalidBootstrap)
      | Inr (ns, pid, sec) \<Rightarrow>
          if ns \<noteq> TokenNamespace.Bootstrap then (s, Inl InvalidBootstrap)
          else
            (case preview_scope now (as_str pid) (sv_bootstrap s) of
               Inl e \<Rightarrow> (s, Inl (conv e))
             | Inr scope \<Rightarrow>
                 (case agent_create cr en now (ri_name inp) (ri_description inp) (sc_tool_allowlist scope)
                         None (ri_metadata inp) None (sv_agents s) of
                    (t1, Inl e) \<Rightarrow> (s\<lparr> sv_agents := t1 \<rparr>, Inl (conv e))
                  | (t1, Inr (agent_pid, agent_secret)) \<Rightarrow>
                      (case get_active_by_public_id agent_pid t1 of
                         None \<Rightarrow> (s\<lparr> sv_agents := t1 \<rparr>, Inl AdminError.AgentNotFound)
                       | Some agent \<Rightarrow>
                           (case consume cr now (as_str pid) (expose sec) (ag_id agent) (sv_bootstrap s) of
                              (b1, Inl e) \<Rightarrow>
                                (s\<lparr> sv_agents := fst (agent_revoke now agent_pid t1), sv_bootstrap := b1 \<rparr>,
                                 Inl (conv e))
                            | (b1, Inr _) \<Rightarrow>
                                (s\<lparr> sv_agents := t1, sv_bootstrap := b1 \<rparr>,
                                 Inr \<lparr> ro_public_id = agent_pid,
                                       ro_token = ''lk_'' @ ag_public_id agent @ ''.'' @ agent_secret,
                                       ro_allowlist = sc_tool_allowlist scope \<rparr>))))))"

definition register_agent ::
  "AdminEnv \<Rightarrow> Entropy \<Rightarrow> RegisterInput \<Rightarrow> AdminService \<Rightarrow> AdminService \<times> (AdminError, RegisterOutput) result" where
  "register_agent ae en inp s =
     (let bpid = bootstrap_public_id ae (ri_bootstrap_token inp) in
      case register_agent_inner ae en inp s of
        (s1, Inr out) \<Rightarrow>
          (admin_audit ((admin_event ae Operator ''agent_register'' Allowed)
             \<lparr> ev_agent_public_id := Some (ro_public_id out),
               ev_details := Some (JObj [(''via'', JStr ''bootstrap'')]) \<rparr>) s1, Inr out)
      | (s1, Inl e) \<Rightarrow>
          (let reuse = (e = InvalidBootstrap \<and>
                 (case bpid of
                    None \<Rightarrow> False
                  | Some pid \<Rightarrow> diagnose (ae_now ae) pid (sv_bootstrap s1) \<in>
                                 {BootstrapStatus.Used, BootstrapStatus.Revoked}))
           in (admin_audit
                 ((admin_event ae (if reuse then Security else Operator)
                     (if reuse then ''bootstrap_reuse_attempt'' else ''agent_register'') Denied)
                  \<lparr> ev_details := Some (JObj [(''error'', JStr (admin_error_display e)),
                                              (''bootstrap_public_id'', opt_str bpid)]) \<rparr>) s1,
               Inl e)))"

definition get_agent_status ::
  "AgentIdentity \<Rightarrow> AdminService \<Rightarrow> (AdminError, AgentStatusOutput) result" where
  "get_agent_status agent s =
     (case get_active_by_public_id (ai_public_id agent) (sv_agents s) of
        None \<Rightarrow> Inl AdminError.AgentNotFound
      | Some r \<Rightarrow> Inr (status_of_record r))"

definition rotate_agent ::
  "AdminEnv \<Rightarrow> Entropy \<Rightarrow> AgentIdentity \<Rightarrow> string \<Rightarrow> AdminService
    \<Rightarrow> AdminService \<times> (AdminError, RotateOutput) result" where
  "rotate_agent ae en agent current_secret s =
     (case agent_rotate (ae_crypto ae) en (ai_public_id agent) current_secret (sv_agents s) of
        (t, r) \<Rightarrow>
          (admin_audit ((admin_event ae Operator ''agent_rotate'' (decision_of r))
             \<lparr> ev_agent_public_id := Some (ai_public_id agent), ev_details := error_details ae r \<rparr>)
             (s\<lparr> sv_agents := t \<rparr>),
           map_sum id (\<lambda>new_secret. \<lparr> rt_public_id = ai_public_id agent,
                          rt_token = ''lk_'' @ ai_public_id agent @ ''.'' @ new_secret \<rparr>) (lift_repo ae r)))"

definition deregister_agent ::
  "AdminEnv \<Rightarrow> AgentIdentity \<Rightarrow> AdminService \<Rightarrow> AdminService \<times> (AdminError, unit) result" where
  "deregister_agent ae agent s =
     (case agent_revoke (ae_now ae) (ai_public_id agent) (sv_agents s) of
        (t, r) \<Rightarrow>
          (admin_audit ((admin_event ae Security ''agent_deregister'' (decision_of r))
             \<lparr> ev_agent_public_id := Some (ai_public_id agent), ev_details := error_details ae r \<rparr>)
             (s\<lparr> sv_agents := t \<rparr>), lift_repo ae r))"

definition tool_info :: "AdminService \<Rightarrow> ToolConfig \<Rightarrow> ToolInfo" where
  "tool_info s t =
     \<lparr> ti_name = tc_name t, ti_description = tc_description t,
       ti_egress = (case tc_egress t of Direct \<Rightarrow> ''direct'' | Proxied \<Rightarrow> ''proxied''),
       ti_credential_present = (credential_present s t \<or> tc_auth t = None) \<rparr>"

definition list_tools_for_agent :: "AgentIdentity \<Rightarrow> AdminService \<Rightarrow> ToolInfo list" where
  "list_tools_for_agent agent s =
     map (tool_info s)
       (filter (\<lambda>t. (case ai_tool_allowlist agent of None \<Rightarrow> True | Some l \<Rightarrow> list_ex (\<lambda>n. n = tc_name t) l) \<and>
                    (case ai_tool_denylist agent of None \<Rightarrow> True | Some l \<Rightarrow> \<not> list_ex (\<lambda>n. n = tc_name t) l))
          (ac_tools (sv_config s)))"

subsection \<open>Operators\<close>

definition list_agents :: "bool \<Rightarrow> AdminService \<Rightarrow> AgentRecord list" where
  "list_agents include_revoked s = agent_list include_revoked (sv_agents s)"

definition get_agent :: "string \<Rightarrow> AdminService \<Rightarrow> (AdminError, AgentRecord) result" where
  "get_agent public_id_or_name s =
     (case get_active_by_public_id public_id_or_name (sv_agents s) of
        Some r \<Rightarrow> Inr r
      | None \<Rightarrow>
          (case get_by_name public_id_or_name (sv_agents s) of
             Some r \<Rightarrow> Inr r
           | None \<Rightarrow> Inl AdminError.AgentNotFound))"

definition create_agent_as_operator ::
  "AdminEnv \<Rightarrow> Entropy \<Rightarrow> OperatorIdentity \<Rightarrow> CreateAgentInput \<Rightarrow> AdminService
    \<Rightarrow> AdminService \<times> (AdminError, RegisterOutput) result" where
  "create_agent_as_operator ae en opr inp s =
     (case agent_create (ae_crypto ae) en (ae_now ae) (ci_name inp) (ci_description inp) (ci_allowlist inp)
             (ci_denylist inp) (ci_metadata inp) (ci_expires_at inp) (sv_agents s) of
        (t, Inr (pid, secret)) \<Rightarrow>
          (audit_for_operator opr ((admin_event ae Operator ''agent_create'' Allowed)
             \<lparr> ev_agent_public_id := Some pid \<rparr>) (s\<lparr> sv_agents := t \<rparr>),
           Inr \<lparr> ro_public_id = pid, ro_token = ''lk_'' @ pid @ ''.'' @ secret,
                 ro_allowlist = ci_allowlist inp \<rparr>)
      | (t, Inl e) \<Rightarrow>
          (audit_for_operator opr ((admin_event ae Operator ''agent_create'' Denied)
             \<lparr> ev_details := Some (JObj [(''error'', JStr (repo_error_display (ae_lib ae) e)),
                                         (''name'', JStr (ci_name inp))]) \<rparr>) (s\<lparr> sv_agents := t \<rparr>),
           Inl (admin_error_of_repo (ae_lib ae) e)))"

definition modify_agent ::
  "AdminEnv \<Rightarrow> OperatorIdentity \<Rightarrow> string \<Rightarrow> ModifyAgentInput \<Rightarrow> AdminService
    \<Rightarrow> AdminService \<times> (AdminError, unit) result" where
  "modify_agent ae opr pid inp s =
     (case update_policy pid (mi_allowlist inp) (mi_denylist inp) (mi_metadata inp) (mi_expires_at inp)
             (sv_agents s) of
        (t, r) \<Rightarrow>
          (audit_for_operator opr ((admin_event ae Operator ''agent_modify'' (decision_of r))
             \<lparr> ev_agent_public_id := Some pid, ev_details := error_details ae r \<rparr>) (s\<lparr> sv_agents := t \<rparr>),
           lift_repo ae r))"

definition set_agent_cert_identity ::
  "AdminEnv \<Rightarrow> OperatorIdentity \<Rightarrow> string \<Rightarrow> string option \<Rightarrow> AdminService
    \<Rightarrow> AdminService \<times> (AdminError, unit) result" where
  "set_agent_cert_identity ae opr pid cert s =
     (case agent_set_cert_identity pid cert (sv_agents s) of
        (t, r) \<Rightarrow>
          (audit_for_operator opr ((admin_event ae Operator ''agent_set_cert_identity'' (decision_of r))
             \<lparr> ev_agent_public_id := Some pid,
               ev_details := Some (JObj [(''cert_identity'', opt_str cert), (''error'', error_or_null ae r)]) \<rparr>)
             (s\<lparr> sv_agents := t \<rparr>), lift_repo ae r))"

definition revoke_agent ::
  "AdminEnv \<Rightarrow> OperatorIdentity \<Rightarrow> string \<Rightarrow> AdminService \<Rightarrow> AdminService \<times> (AdminError, unit) result" where
  "revoke_agent ae opr pid s =
     (case agent_revoke (ae_now ae) pid (sv_agents s) of
        (t, r) \<Rightarrow>
          (audit_for_operator opr ((admin_event ae Security ''agent_revoke'' (decision_of r))
             \<lparr> ev_agent_public_id := Some pid, ev_details := error_details ae r \<rparr>) (s\<lparr> sv_agents := t \<rparr>),
           lift_repo ae r))"

definition names_json :: "string list option \<Rightarrow> json" where
  "names_json l = (case l of None \<Rightarrow> JNull | Some xs \<Rightarrow> JArr (map JStr xs))"

definition scope_json :: "BootstrapScope \<Rightarrow> json" where
  "scope_json sc =
     JObj [(''tool_allowlist'', names_json (sc_tool_allowlist sc)),
           (''expires_at'', case sc_expires_at sc of None \<Rightarrow> JNull | Some e \<Rightarrow> JNum e),
           (''single_use'', JBool (sc_single_use sc))]"

definition mint_bootstrap_token ::
  "AdminEnv \<Rightarrow> Entropy \<Rightarrow> OperatorIdentity \<Rightarrow> MintBootstrapInput \<Rightarrow> AdminService
    \<Rightarrow> AdminService \<times> (AdminError, MintBootstrapOutput) result" where
  "mint_bootstrap_token ae en opr inp s =
     (let scope = \<lparr> sc_tool_allowlist = mb_tool_allowlist inp, sc_expires_at = mb_expires_at inp,
                    sc_single_use = mb_single_use inp \<rparr> in
      case mint (ae_crypto ae) en (ae_now ae) scope (oi_name opr) (sv_bootstrap s) of
        (b, Inr (pid, secret)) \<Rightarrow>
          (audit_for_operator opr ((admin_event ae Operator ''bootstrap_mint'' Allowed)
             \<lparr> ev_details := Some (JObj [(''bootstrap_public_id'', JStr pid), (''scope'', scope_json scope)]) \<rparr>)
             (s\<lparr> sv_bootstrap := b \<rparr>),
           Inr \<lparr> mo_public_id = pid, mo_token = ''lkbt_'' @ pid @ ''.'' @ secret, mo_scope = scope \<rparr>)
      | (b, Inl e) \<Rightarrow>
          (audit_for_operator opr ((admin_event ae Operator ''bootstrap_mint'' Denied)
             \<lparr> ev_details := Some (JObj [(''error'', JStr (repo_error_display (ae_lib ae) e))]) \<rparr>)
             (s\<lparr> sv_bootstrap := b \<rparr>),
           Inl (admin_error_of_repo (ae_lib ae) e)))"

definition list_bootstrap_tokens :: "AdminService \<Rightarrow> BootstrapTokenRecord list" where
  "list_bootstrap_tokens s = bt_list (sv_bootstrap s)"

definition revoke_bootstrap_token ::
  "AdminEnv \<Rightarrow> OperatorIdentity \<Rightarrow> string \<Rightarrow> AdminService \<Rightarrow> AdminService \<times> (AdminError, unit) result" where
  "revoke_bootstrap_token ae opr pid s =
     (case bt_revoke (ae_now ae) pid (sv_bootstrap s) of
        (b, r) \<Rightarrow>
          (audit_for_operator opr ((admin_event ae Security ''bootstrap_revoke'' (decision_of r))
             \<lparr> ev_details := Some (JObj [(''bootstrap_public_id'', JStr pid), (''error'', error_or_null ae r)]) \<rparr>)
             (s\<lparr> sv_bootstrap := b \<rparr>), lift_repo ae r))"

text \<open>The audit table as the rows of the recorded events.\<close>

definition repo_of_log :: "(json \<Rightarrow> string) \<Rightarrow> AuditEvent list \<Rightarrow> AuditRepository" where
  "repo_of_log to_json l = \<lparr> au_rows = map (row_of_event to_json) l, au_sink = None \<rparr>"

definition query_audit ::
  "AdminEnv \<Rightarrow> AuditFilter \<Rightarrow> AuditPage \<Rightarrow> AdminService \<Rightarrow> (AdminError, AuditEvent list) result" where
  "query_audit ae f page s =
     (case sv_audit s of
        None \<Rightarrow> Inl (AdminError.Backend ''audit_disabled'')
      | Some l \<Rightarrow> lift_repo ae (audit_query (ae_from_json ae) (agent_name_of (sv_agents s)) f page
                                  (repo_of_log (ae_to_json ae) l)))"

definition list_tools_for_operator :: "AdminService \<Rightarrow> ToolInfo list" where
  "list_tools_for_operator s = map (tool_info s) (ac_tools (sv_config s))"

subsection \<open>The operations as steps\<close>

inductive service_step :: "AdminService \<Rightarrow> AdminService \<Rightarrow> bool" where
  register: "service_step s (fst (register_agent ae en inp s))"
| rotate: "service_step s (fst (rotate_agent ae en agent sec s))"
| deregister: "service_step s (fst (deregister_agent ae agent s))"
| create: "service_step s (fst (create_agent_as_operator ae en opr cinp s))"
| modify: "service_step s (fst (modify_agent ae opr pid minp s))"
| set_cert: "service_step s (fst (set_agent_cert_identity ae opr pid cert s))"
| revoke: "service_step s (fst (revoke_agent ae opr pid s))"
| mint: "service_step s (fst (mint_bootstrap_token ae en opr binp s))"
| revoke_bootstrap: "service_step s (fst (revoke_bootstrap_token ae opr pid s))"
| authenticate: "authenticate_bearer cr clk header \<lparr> as_agents = sv_agents s, as_audit = sv_audit s \<rparr> = (a, r)
    \<Longrightarrow> service_step s (s\<lparr> sv_agents := as_agents a, sv_audit := as_audit a \<rparr>)"
| operator_bearer: "operator_authenticate_bearer cr clk recs header (sv_audit s) = (log, r')
    \<Longrightarrow> service_step s (s\<lparr> sv_audit := log \<rparr>)"
| operator_cert: "authenticate_cert_identity clk recs ident (sv_audit s) = (log, r')
    \<Longrightarrow> service_step s (s\<lparr> sv_audit := log \<rparr>)"
| refresh_creds: "service_step s (s\<lparr> sv_resolved_creds := creds \<rparr>)"

definition service_inv :: "AdminService \<Rightarrow> bool" where
  "service_inv s \<longleftrightarrow> agents_inv (sv_agents s) \<and> bt_inv (sv_bootstrap s)"

section \<open>Lemmas\<close>

inductive_cases service_stepE: "service_step s s'"

lemma admin_audit_frame [simp]:
  "sv_agents (admin_audit ev s) = sv_agents s" "sv_bootstrap (admin_audit ev s) = sv_bootstrap s"
  "sv_agents (audit_for_operator opr ev s) = sv_agents s"
  "sv_bootstrap (audit_for_operator opr ev s) = sv_bootstrap s"
  by (simp_all add: admin_audit_def audit_for_operator_def Let_def)

lemma admin_audit_row:
  "sv_audit s = Some l \<Longrightarrow>
   \<exists>e. sv_audit (admin_audit ev s) = Some (l @ [e]) \<and> ev_event e = ev_event ev \<and> ev_class e = ev_class ev \<and>
       ev_decision e = ev_decision ev \<and> ev_operator_name e = ev_operator_name ev \<and>
       ev_agent_public_id e = ev_agent_public_id ev"
  by (simp add: admin_audit_def split: option.splits)

lemma audit_for_operator_row:
  assumes "sv_audit s = Some l" "ev_operator_name ev = None"
  shows "\<exists>e. sv_audit (audit_for_operator opr ev s) = Some (l @ [e]) \<and> ev_event e = ev_event ev \<and>
       ev_class e = ev_class ev \<and> ev_decision e = ev_decision ev \<and>
       ev_operator_name e = Some (oi_name opr) \<and> ev_agent_public_id e = ev_agent_public_id ev"
  using assms by (simp add: audit_for_operator_def admin_audit_def Let_def split: option.splits)

subsection \<open>The operations reach the tables by their statements\<close>

lemma agent_rotate_cases:
  "fst (agent_rotate cr en pid sec t) = t \<or>
   (\<exists>h h'. fst (agent_rotate cr en pid sec t) = fst (rotate_commit pid h h' t))"
proof -
  have "fst (case p of (t', Inl e) \<Rightarrow> (t', Inl e) | (t', Inr u) \<Rightarrow> (t', Inr x)) = fst p"
    for p :: "AgentTable \<times> (RepoError, unit) result" and x :: string
    by (simp split: prod.splits sum.splits)
  then show ?thesis
    by (auto simp: agent_rotate_def Let_def split: sum.splits)
qed

lemma agent_rotate_steps: "agent_step\<^sup>*\<^sup>* t (fst (agent_rotate cr en pid sec t))"
  using agent_rotate_cases [of cr en pid sec t] by (metis agent_step.commit r_into_rtranclp rtranclp.rtrancl_refl)

lemma consume_steps: "bt_step\<^sup>*\<^sup>* b (fst (consume cr now pid sec aid b))"
  by (cases "consume_read cr now pid sec b") (auto simp: consume_def intro: bt_step.mark)

lemma register_inner_steps:
  "agent_step\<^sup>*\<^sup>* (sv_agents s) (sv_agents (fst (register_agent_inner ae en inp s)))"
  "bt_step\<^sup>*\<^sup>* (sv_bootstrap s) (sv_bootstrap (fst (register_agent_inner ae en inp s)))"
proof -
  let ?cr = "ae_crypto ae" and ?now = "ae_now ae"
  have c: "agent_step\<^sup>*\<^sup>* (sv_agents s) t1"
    if "agent_create ?cr en ?now n d al dl md ex (sv_agents s) = (t1, r)" for n d al dl md ex t1 r
    using agent_step.create [of "sv_agents s" ?cr en ?now n d al dl md ex] that by auto
  have v: "agent_step\<^sup>*\<^sup>* t0 t \<Longrightarrow> agent_step\<^sup>*\<^sup>* t0 (fst (agent_revoke ?now pid t))" for pid t t0
    by (rule rtranclp.rtrancl_into_rtrancl, assumption) (rule agent_step.revoke)
  have b: "bt_step\<^sup>*\<^sup>* (sv_bootstrap s) b1" if "consume ?cr ?now pid sec aid (sv_bootstrap s) = (b1, r)" for pid sec aid b1 r
    using consume_steps [of "sv_bootstrap s" ?cr ?now pid sec aid] that by simp
  show "agent_step\<^sup>*\<^sup>* (sv_agents s) (sv_agents (fst (register_agent_inner ae en inp s)))"
    "bt_step\<^sup>*\<^sup>* (sv_bootstrap s) (sv_bootstrap (fst (register_agent_inner ae en inp s)))"
    using b
    by (auto simp: register_agent_inner_def Let_def split: sum.splits prod.splits option.splits intro: c v)
qed

lemma register_steps:
  "agent_step\<^sup>*\<^sup>* (sv_agents s) (sv_agents (fst (register_agent ae en inp s)))"
  "bt_step\<^sup>*\<^sup>* (sv_bootstrap s) (sv_bootstrap (fst (register_agent ae en inp s)))"
  using register_inner_steps [where s = s and ae = ae and en = en and inp = inp]
  by (auto simp: register_agent_def Let_def split: sum.splits prod.splits)

lemmas service_defs = rotate_agent_def deregister_agent_def create_agent_as_operator_def modify_agent_def
  set_agent_cert_identity_def revoke_agent_def mint_bootstrap_token_def revoke_bootstrap_token_def

lemma authenticate_steps:
  assumes "authenticate_bearer cr clk header st = (st', r)"
  shows "agent_step\<^sup>*\<^sup>* (as_agents st) (as_agents st')"
proof (cases r)
  case (Inl e)
  with assms show ?thesis by (auto dest!: authenticate_bearer_InlD simp: audit_failure_def)
next
  case (Inr ident)
  with assms show ?thesis
    by (auto dest!: authenticate_bearer_InrD auth_resolve_InrD intro!: r_into_rtranclp agent_step.touch)
qed

lemma service_step_tables:
  assumes "service_step s s'"
  shows "agent_step\<^sup>*\<^sup>* (sv_agents s) (sv_agents s') \<and> bt_step\<^sup>*\<^sup>* (sv_bootstrap s) (sv_bootstrap s')"
  using assms
proof cases
  case (rotate ae en agent sec)
  then show ?thesis
    using agent_rotate_steps [of "sv_agents s" "ae_crypto ae" en "ai_public_id agent" sec]
    by (simp add: rotate_agent_def split_beta)
next
  case (create ae en opr cinp)
  then show ?thesis
    using agent_step.create [of "sv_agents s" "ae_crypto ae" en "ae_now ae" "ci_name cinp" "ci_description cinp"
        "ci_allowlist cinp" "ci_denylist cinp" "ci_metadata cinp" "ci_expires_at cinp"]
    by (auto simp: create_agent_as_operator_def split: prod.splits sum.splits)
next
  case (mint ae en opr binp)
  then show ?thesis
    using bt_step.mint [of "sv_bootstrap s" "ae_crypto ae" en "ae_now ae"
        "\<lparr> sc_tool_allowlist = mb_tool_allowlist binp, sc_expires_at = mb_expires_at binp,
           sc_single_use = mb_single_use binp \<rparr>" "oi_name opr"]
    by (auto simp: mint_bootstrap_token_def Let_def split: prod.splits sum.splits)
next
  case (authenticate cr clk header a r)
  then show ?thesis using authenticate_steps [OF authenticate(2)] by simp
qed (simp_all add: register_steps service_defs split_beta agent_step.intros bt_step.intros r_into_rtranclp)

lemma service_inv_step: "service_step s s' \<Longrightarrow> service_inv s \<Longrightarrow> service_inv s'"
  unfolding service_inv_def
  using service_step_tables agents.reach_inv bootstrap.reach_inv by blast

interpretation service: invariant_system service_step service_inv
  by unfold_locales (rule service_inv_step)

interpretation service_revocation: stable_fact service_step service_inv "\<lambda>s. revoked pid (sv_agents s)" for pid
  by unfold_locales (metis service_step_tables service_inv_def agent_revocation.reach_fact)

interpretation service_use: stable_fact service_step service_inv "\<lambda>s. bt_used pid (sv_bootstrap s)" for pid
  by unfold_locales (metis service_step_tables service_inv_def bootstrap_use.reach_fact)

end
