(* ===== verification/Admin_Uds.thy ===== *)
theory Admin_Uds
  imports Admin_Service Oauth_Refresh Mtls Request
begin

text \<open>
  The administration router of \<open>src/admin/uds.rs\<close>, which the Unix-socket and
  HTTPS listeners share: the agent and operator authentication middlewares, the
  handlers over the administration service, the registration and OAuth
  sub-routers and the routes.  The registration-only listener of
  \<open>src/admin/bootstrap_listener.rs\<close> comes last.  The extractors of the web
  framework (query string, JSON body) are parameters that either yield the
  typed input or the response that rejects the request.
\<close>

section \<open>Definitions\<close>

record OperatorMtlsContext =
  om_auth_mode :: AuthMode
  om_validator :: MtlsValidator

record UdsState =
  us_admin :: AdminService
  us_operators :: "OperatorRecord list"
  us_operator_mtls :: "OperatorMtlsContext option"
  us_registrations :: "AdminRegs option"
  us_oauth :: "(OauthTable \<times> SealingKey) option"
  us_agent_creds :: "OverrideTable option"

record AuditQueryParams =
  aq_since_ms :: "int option"
  aq_until_ms :: "int option"
  aq_agent :: "string option"
  aq_tool :: "string option"
  aq_event_class :: "string option"
  aq_decision :: "string option"
  aq_limit :: "nat option"
  aq_offset :: "nat option"

record UdsEnv =
  ue_ae :: AdminEnv
  ue_en :: Entropy
  ue_env :: env
  ue_pki :: Pki
  ue_ox :: OauthExt
  ue_post :: token_endpoint
  ue_ns1 :: "bytes \<times> bytes"
  ue_ns2 :: "bytes \<times> bytes"
  ue_register :: "Request \<Rightarrow> (Response, RegisterInput) result"
  ue_rotate :: "Request \<Rightarrow> (Response, string) result"
  ue_create :: "Request \<Rightarrow> (Response, CreateAgentInput) result"
  ue_modify :: "Request \<Rightarrow> (Response, ModifyAgentInput) result"
  ue_cert :: "Request \<Rightarrow> (Response, string option) result"
  ue_mint :: "Request \<Rightarrow> (Response, MintBootstrapInput) result"
  ue_spec :: "Request \<Rightarrow> (Response, AuthSpec) result"
  ue_put :: "Request \<Rightarrow> (Response, PutBody) result"
  ue_refresh_token :: "Request \<Rightarrow> (Response, string) result"
  ue_include_revoked :: "Request \<Rightarrow> (Response, bool) result"
  ue_audit_query :: "Request \<Rightarrow> (Response, AuditQueryParams) result"
  ue_label :: "Request \<Rightarrow> (Response, string option) result"
  ue_percent_decode :: "string \<Rightarrow> string option"

type_synonym uds_handler = "Request \<Rightarrow> UdsState \<Rightarrow> UdsState \<times> Response"

definition with_input :: "(Response, 'a) result \<Rightarrow> ('a \<Rightarrow> UdsState \<Rightarrow> UdsState \<times> Response) \<Rightarrow> UdsState \<Rightarrow> UdsState \<times> Response" where
  "with_input r h s = (case r of Inl resp \<Rightarrow> (s, resp) | Inr x \<Rightarrow> h x s)"

subsection \<open>Errors\<close>

definition error_response :: "AuthError \<Rightarrow> Response" where
  "error_response e =
     json_response (auth_status e) (JObj [(''error'', JObj [(''code'', JStr (auth_code e)),
                                                           (''message'', JStr (auth_message e))])])"

fun admin_status :: "AdminError \<Rightarrow> nat \<times> string" where
  "admin_status InvalidBootstrap = (401, ''invalid_credential'')"
| "admin_status AdminError.AgentNameConflict = (409, ''agent_name_conflict'')"
| "admin_status AdminError.RotationInProgress = (409, ''rotation_in_progress'')"
| "admin_status AdminError.AgentNotFound = (404, ''agent_not_found'')"
| "admin_status NotAuthorized = (403, ''forbidden'')"
| "admin_status (AdminError.Backend _) = (500, ''backend_error'')"

definition admin_err_response :: "AdminError \<Rightarrow> Response" where
  "admin_err_response e =
     (case admin_status e of (st, code) \<Rightarrow>
        json_response st (JObj [(''error'', JObj [(''code'', JStr code),
                                                   (''message'', JStr (admin_error_display e))])]))"

definition with_admin :: "AdminService \<Rightarrow> UdsState \<Rightarrow> UdsState" where
  "with_admin a s = s\<lparr> us_admin := a \<rparr>"

text \<open>The shape of most handlers: run the service, answer its result.\<close>

definition answer :: "('a \<Rightarrow> Response) \<Rightarrow> AdminService \<times> (AdminError, 'a) result \<Rightarrow> UdsState \<Rightarrow> UdsState \<times> Response" where
  "answer ok r s =
     (case r of
        (a, Inr x) \<Rightarrow> (with_admin a s, ok x)
      | (a, Inl e) \<Rightarrow> (with_admin a s, admin_err_response e))"

subsection \<open>Middlewares\<close>

definition agent_auth_middleware :: "UdsEnv \<Rightarrow> (AgentIdentity \<Rightarrow> uds_handler) \<Rightarrow> uds_handler" where
  "agent_auth_middleware ue nxt req s =
     (case header_str ''authorization'' req of
        None \<Rightarrow> (s, error_response MissingCredential)
      | Some header \<Rightarrow>
          (let a = us_admin s in
           case authenticate_bearer (ae_crypto (ue_ae ue)) (ae_clk (ue_ae ue)) header
                  \<lparr> as_agents = sv_agents a, as_audit = sv_audit a \<rparr> of
             (x, Inr ident) \<Rightarrow> nxt ident req (with_admin (a\<lparr> sv_agents := as_agents x, sv_audit := as_audit x \<rparr>) s)
           | (x, Inl e) \<Rightarrow> (with_admin (a\<lparr> sv_agents := as_agents x, sv_audit := as_audit x \<rparr>) s, error_response e)))"

definition operator_bearer :: "UdsEnv \<Rightarrow> (OperatorIdentity \<Rightarrow> uds_handler) \<Rightarrow> uds_handler" where
  "operator_bearer ue nxt req s =
     (case header_str ''authorization'' req of
        None \<Rightarrow> (s, error_response MissingCredential)
      | Some header \<Rightarrow>
          (let a = us_admin s in
           case operator_authenticate_bearer (ae_crypto (ue_ae ue)) (ae_clk (ue_ae ue)) (us_operators s) header (sv_audit a) of
             (log, Inr opr) \<Rightarrow> nxt opr req (with_admin (a\<lparr> sv_audit := log \<rparr>) s)
           | (log, Inl e) \<Rightarrow> (with_admin (a\<lparr> sv_audit := log \<rparr>) s, error_response e)))"

definition operator_cert :: "UdsEnv \<Rightarrow> MtlsValidator \<Rightarrow> string \<Rightarrow> (OperatorIdentity \<Rightarrow> uds_handler) \<Rightarrow> uds_handler" where
  "operator_cert ue v der nxt req s =
     (case mtls_validate (ue_pki ue) (ae_now (ue_ae ue)) v der of
        Inl _ \<Rightarrow> (s, error_response AuthError.InvalidCredential)
      | Inr i \<Rightarrow>
          (let a = us_admin s in
           case authenticate_cert_identity (ae_clk (ue_ae ue)) (us_operators s) (mi_value i) (sv_audit a) of
             (log, Inr opr) \<Rightarrow> nxt opr req (with_admin (a\<lparr> sv_audit := log \<rparr>) s)
           | (log, Inl e) \<Rightarrow> (with_admin (a\<lparr> sv_audit := log \<rparr>) s, error_response e)))"

definition operator_auth_middleware :: "UdsEnv \<Rightarrow> (OperatorIdentity \<Rightarrow> uds_handler) \<Rightarrow> uds_handler" where
  "operator_auth_middleware ue nxt req s =
     (case us_operator_mtls s of
        None \<Rightarrow> operator_bearer ue nxt req s
      | Some m \<Rightarrow>
          (case (om_auth_mode m, rq_peer_cert req) of
             (Mtls, None) \<Rightarrow> (s, error_response MissingCredential)
           | (Mtls, Some der) \<Rightarrow> operator_cert ue (om_validator m) der nxt req s
           | (Both, Some der) \<Rightarrow> operator_cert ue (om_validator m) der nxt req s
           | (Both, None) \<Rightarrow> operator_bearer ue nxt req s
           | (Bearer, _) \<Rightarrow> operator_bearer ue nxt req s))"

subsection \<open>Agent handlers\<close>

definition register_json :: "RegisterOutput \<Rightarrow> json" where
  "register_json out = JObj [(''public_id'', JStr (ro_public_id out)), (''token'', JStr (ro_token out)),
                             (''allowlist'', names_json (ro_allowlist out))]"

definition handle_register :: "UdsEnv \<Rightarrow> uds_handler" where
  "handle_register ue req s =
     with_input (ue_register ue req) (\<lambda>inp s.
       answer (\<lambda>out. json_response 200 (register_json out))
         (register_agent (ue_ae ue) (ue_en ue) inp (us_admin s)) s) s"

definition status_json :: "AgentStatusOutput \<Rightarrow> json" where
  "status_json o_st =
     JObj [(''public_id'', JStr (so_public_id o_st)), (''name'', JStr (so_name o_st)),
           (''description'', opt_str (so_description o_st)), (''allowlist'', names_json (so_allowlist o_st)),
           (''denylist'', names_json (so_denylist o_st)), (''registered_at'', JNum (so_registered_at o_st)),
           (''last_used_at'', opt_int (so_last_used_at o_st)), (''expires_at'', opt_int (so_expires_at o_st))]"

definition handle_status :: "AgentIdentity \<Rightarrow> uds_handler" where
  "handle_status agent req s =
     answer (\<lambda>out. json_response 200 (status_json out)) (us_admin s, get_agent_status agent (us_admin s)) s"

definition handle_rotate :: "UdsEnv \<Rightarrow> AgentIdentity \<Rightarrow> uds_handler" where
  "handle_rotate ue agent req s =
     with_input (ue_rotate ue req) (\<lambda>current_secret s.
       answer (\<lambda>out. json_response 200 (JObj [(''public_id'', JStr (rt_public_id out)), (''token'', JStr (rt_token out))]))
         (rotate_agent (ue_ae ue) (ue_en ue) agent current_secret (us_admin s)) s) s"

definition handle_deregister :: "UdsEnv \<Rightarrow> AgentIdentity \<Rightarrow> uds_handler" where
  "handle_deregister ue agent req s =
     answer (\<lambda>_. no_content) (deregister_agent (ue_ae ue) agent (us_admin s)) s"

definition tools_json :: "ToolInfo list \<Rightarrow> json" where
  "tools_json ts =
     JObj [(''tools'', JArr (map (\<lambda>t. JObj [(''name'', JStr (ti_name t)), (''description'', JStr (ti_description t)),
       (''egress'', JStr (ti_egress t)), (''credential_present'', JBool (ti_credential_present t))]) ts))]"

definition handle_agent_tools :: "AgentIdentity \<Rightarrow> uds_handler" where
  "handle_agent_tools agent req s =
     (s, json_response 200 (tools_json (list_tools_for_agent agent (us_admin s))))"

subsection \<open>Operator handlers\<close>

definition agent_json :: "AgentRecord \<Rightarrow> json" where
  "agent_json a =
     JObj [(''public_id'', JStr (ag_public_id a)), (''name'', JStr (ag_name a)),
           (''description'', opt_str (ag_description a)), (''tool_allowlist'', names_json (ag_tool_allowlist a)),
           (''tool_denylist'', names_json (ag_tool_denylist a)), (''registered_at'', JNum (ag_registered_at a)),
           (''last_used_at'', opt_int (ag_last_used_at a)), (''expires_at'', opt_int (ag_expires_at a)),
           (''revoked_at'', opt_int (ag_revoked_at a)), (''cert_identity'', opt_str (ag_cert_identity a))]"

definition op_list_agents :: "UdsEnv \<Rightarrow> uds_handler" where
  "op_list_agents ue req s =
     with_input (ue_include_revoked ue req) (\<lambda>incl s.
       (s, json_response 200 (JObj [(''agents'', JArr (map agent_json (list_agents incl (us_admin s))))]))) s"

definition op_get_agent :: "string \<Rightarrow> uds_handler" where
  "op_get_agent ident req s =
     answer (\<lambda>a. json_response 200 (agent_json a)) (us_admin s, get_agent ident (us_admin s)) s"

definition op_create_agent :: "UdsEnv \<Rightarrow> OperatorIdentity \<Rightarrow> uds_handler" where
  "op_create_agent ue opr req s =
     with_input (ue_create ue req) (\<lambda>inp s.
       answer (\<lambda>out. json_response 200 (register_json out))
         (create_agent_as_operator (ue_ae ue) (ue_en ue) opr inp (us_admin s)) s) s"

definition op_modify_agent :: "UdsEnv \<Rightarrow> OperatorIdentity \<Rightarrow> string \<Rightarrow> uds_handler" where
  "op_modify_agent ue opr ident req s =
     with_input (ue_modify ue req) (\<lambda>inp s.
       answer (\<lambda>_. no_content) (modify_agent (ue_ae ue) opr ident inp (us_admin s)) s) s"

definition op_revoke_agent :: "UdsEnv \<Rightarrow> OperatorIdentity \<Rightarrow> string \<Rightarrow> uds_handler" where
  "op_revoke_agent ue opr ident req s =
     answer (\<lambda>_. no_content) (revoke_agent (ue_ae ue) opr ident (us_admin s)) s"

definition op_set_agent_cert_identity :: "UdsEnv \<Rightarrow> OperatorIdentity \<Rightarrow> string \<Rightarrow> uds_handler" where
  "op_set_agent_cert_identity ue opr ident req s =
     with_input (ue_cert ue req) (\<lambda>cert s.
       answer (\<lambda>_. no_content) (set_agent_cert_identity (ue_ae ue) opr ident cert (us_admin s)) s) s"

definition op_mint_bootstrap :: "UdsEnv \<Rightarrow> OperatorIdentity \<Rightarrow> uds_handler" where
  "op_mint_bootstrap ue opr req s =
     with_input (ue_mint ue req) (\<lambda>inp s.
       answer (\<lambda>out. json_response 200 (JObj [(''public_id'', JStr (mo_public_id out)), (''token'', JStr (mo_token out)),
                                                (''scope'', scope_json (mo_scope out))]))
         (mint_bootstrap_token (ue_ae ue) (ue_en ue) opr inp (us_admin s)) s) s"

definition bootstrap_json :: "BootstrapTokenRecord \<Rightarrow> json" where
  "bootstrap_json t =
     JObj [(''public_id'', JStr (bt_public_id t)), (''scope'', scope_json (bt_scope t)),
           (''created_by'', JStr (bt_created_by t)), (''created_at'', JNum (bt_created_at t)),
           (''expires_at'', opt_int (bt_expires_at t)), (''used_at'', opt_int (bt_used_at t)),
           (''used_by_agent_id'', opt_int (bt_used_by_agent_id t)), (''revoked_at'', opt_int (bt_revoked_at t))]"

definition op_list_bootstrap :: uds_handler where
  "op_list_bootstrap req s =
     (s, json_response 200 (JObj [(''tokens'', JArr (map bootstrap_json (list_bootstrap_tokens (us_admin s))))]))"

definition op_revoke_bootstrap :: "UdsEnv \<Rightarrow> OperatorIdentity \<Rightarrow> string \<Rightarrow> uds_handler" where
  "op_revoke_bootstrap ue opr ident req s =
     answer (\<lambda>_. no_content) (revoke_bootstrap_token (ue_ae ue) opr ident (us_admin s)) s"

definition op_list_tools :: uds_handler where
  "op_list_tools req s = (s, json_response 200 (tools_json (list_tools_for_operator (us_admin s))))"

definition event_json :: "AuditEvent \<Rightarrow> json" where
  "event_json e =
     JObj [(''ts_ms'', JNum (ev_ts_ms e)), (''event_class'', JStr (event_class_str (ev_class e))),
           (''event'', JStr (ev_event e)), (''agent_public_id'', opt_str (ev_agent_public_id e)),
           (''agent_name'', opt_str (ev_agent_name e)), (''operator_name'', opt_str (ev_operator_name e)),
           (''tool'', opt_str (ev_tool e)), (''upstream_host'', opt_str (ev_upstream_host e)),
           (''method'', opt_str (ev_method e)), (''path'', opt_str (ev_path e)),
           (''status'', opt_int (map_option uint (ev_status e))),
           (''latency_ms'', opt_int (map_option uint (ev_latency_ms e))),
           (''decision'', JStr (decision_str (ev_decision e))), (''auth_method'', opt_str (ev_auth_method e)),
           (''origin_ip'', opt_str (ev_origin_ip e)),
           (''details'', case ev_details e of None \<Rightarrow> JNull | Some d \<Rightarrow> d)]"

definition bad_param :: "string \<Rightarrow> string \<Rightarrow> Response" where
  "bad_param code msg =
     json_response 400 (JObj [(''error'', JObj [(''code'', JStr code), (''message'', JStr msg)])])"

text \<open>The two enumerated parameters, with the rejected value.\<close>

definition query_class :: "string option \<Rightarrow> (string, EventClass option) result" where
  "query_class p =
     (case p of
        None \<Rightarrow> Inr None
      | Some x \<Rightarrow> (case parse_event_class x of Inr c \<Rightarrow> Inr (Some c) | Inl _ \<Rightarrow> Inl x))"

definition query_decision :: "string option \<Rightarrow> (string, Decision option) result" where
  "query_decision p =
     (case p of
        None \<Rightarrow> Inr None
      | Some x \<Rightarrow> (case parse_decision x of Inr d \<Rightarrow> Inr (Some d) | Inl _ \<Rightarrow> Inl x))"

definition op_query_audit :: "UdsEnv \<Rightarrow> uds_handler" where
  "op_query_audit ue req s =
     with_input (ue_audit_query ue req) (\<lambda>q s.
       case query_class (aq_event_class q) of
         Inl other \<Rightarrow> (s, bad_param ''invalid_event_class'' (''unknown event_class: '' @ other))
       | Inr cls \<Rightarrow>
           (case query_decision (aq_decision q) of
              Inl other \<Rightarrow> (s, bad_param ''invalid_decision'' (''unknown decision: '' @ other))
            | Inr dec \<Rightarrow>
                answer (\<lambda>rows. json_response 200 (JObj [(''events'', JArr (map event_json rows))]))
                  (us_admin s, query_audit (ue_ae ue)
                     \<lparr> af_since_ms = aq_since_ms q, af_until_ms = aq_until_ms q, af_agent_public_id = aq_agent q,
                       af_tool = aq_tool q, af_event_class = cls, af_decision = dec \<rparr>
                     \<lparr> ap_limit = (case aq_limit q of Some n \<Rightarrow> n | None \<Rightarrow> 100),
                       ap_offset = (case aq_offset q of Some n \<Rightarrow> n | None \<Rightarrow> 0) \<rparr> (us_admin s)) s)) s"

subsection \<open>Per-agent credential overrides\<close>

definition with_overrides ::
  "string \<Rightarrow> (OverrideTable \<Rightarrow> AgentRecord \<Rightarrow> UdsState \<times> Response) \<Rightarrow> UdsState \<Rightarrow> UdsState \<times> Response" where
  "with_overrides ident h s =
     (case us_agent_creds s of
        None \<Rightarrow> (s, admin_err_response (AdminError.Backend ''agent_credential_overrides not wired''))
      | Some creds \<Rightarrow>
          (case get_agent ident (us_admin s) of
             Inl e \<Rightarrow> (s, admin_err_response e)
           | Inr agent \<Rightarrow> h creds agent))"

definition op_set_agent_credential :: "UdsEnv \<Rightarrow> string \<Rightarrow> string \<Rightarrow> uds_handler" where
  "op_set_agent_credential ue ident reg req s =
     with_input (ue_spec ue req) (\<lambda>spec s.
       with_overrides ident (\<lambda>creds agent.
         (s\<lparr> us_agent_creds := Some (override_set (ae_now (ue_ae ue)) (ag_id agent) reg spec creds) \<rparr>,
          json_response 200 (JObj [(''agent_public_id'', JStr (ag_public_id agent)), (''registration'', JStr reg),
                                   (''auth_spec'', auth_to_json spec)]))) s) s"

definition op_unset_agent_credential :: "string \<Rightarrow> string \<Rightarrow> uds_handler" where
  "op_unset_agent_credential ident reg req s =
     with_overrides ident (\<lambda>creds agent.
       (s\<lparr> us_agent_creds := Some (fst (override_delete (ag_id agent) reg creds)) \<rparr>, no_content)) s"

definition op_list_agent_credentials :: "string \<Rightarrow> uds_handler" where
  "op_list_agent_credentials ident req s =
     with_overrides ident (\<lambda>creds agent.
       (s, json_response 200 (JObj [(''agent_public_id'', JStr (ag_public_id agent)),
         (''overrides'', JArr (map (\<lambda>o_row. JObj [(''registration'', JStr (ov_registration o_row)),
            (''auth_spec'', auth_to_json (ov_auth_spec o_row)), (''created_at'', JNum (ov_created_at o_row)),
            (''updated_at'', JNum (ov_updated_at o_row))]) (list_for_agent (ag_id agent) creds)))]))) s"

subsection \<open>Routes\<close>

datatype AdminRoute =
    ARegister | AStatus | ARotate | ADeregister | ATools
  | OAgents | OAgent string | ORevoke string | OCertIdentity string
  | OCredentials string | OCredential string string
  | OBootstrapTokens | OBootstrapRevoke string | OToolsLegacy | OAudit
  | ORegs Kind | OReg Kind string | OEnable Kind string
  | OOauth | OOauthName string | OOauthBootstrap string
  | ANotFound

definition kind_of_segment :: "string \<Rightarrow> Kind option" where
  "kind_of_segment seg =
     (if seg = ''tools'' then Some Tool else if seg = ''models'' then Some Model
      else if seg = ''infra'' then Some Infra else None)"

definition agent_route :: "string list \<Rightarrow> AdminRoute" where
  "agent_route segs =
     (case segs of
        [p] \<Rightarrow> if p = ''register'' then ARegister else if p = ''status'' then AStatus
               else if p = ''rotate'' then ARotate else if p = ''deregister'' then ADeregister
               else if p = ''tools'' then ATools else ANotFound
      | _ \<Rightarrow> ANotFound)"

definition registrations_route :: "string list \<Rightarrow> AdminRoute" where
  "registrations_route segs =
     (case segs of
        [k] \<Rightarrow> (case kind_of_segment k of Some kind \<Rightarrow> ORegs kind | None \<Rightarrow> ANotFound)
      | [k, n] \<Rightarrow> (case kind_of_segment k of
                     Some kind \<Rightarrow> if n = [] then ANotFound else OReg kind n | None \<Rightarrow> ANotFound)
      | [k, n, e] \<Rightarrow> (case kind_of_segment k of
                        Some kind \<Rightarrow> if n \<noteq> [] \<and> e = ''enable'' then OEnable kind n else ANotFound
                      | None \<Rightarrow> ANotFound)
      | _ \<Rightarrow> ANotFound)"

definition oauth_route :: "string list \<Rightarrow> AdminRoute" where
  "oauth_route segs =
     (case segs of
        [] \<Rightarrow> OOauth
      | [n] \<Rightarrow> if n = [] then ANotFound else OOauthName n
      | [n, b] \<Rightarrow> if n \<noteq> [] \<and> b = ''bootstrap'' then OOauthBootstrap n else ANotFound
      | _ \<Rightarrow> ANotFound)"

definition agents_route :: "string list \<Rightarrow> AdminRoute" where
  "agents_route segs =
     (case segs of
        [] \<Rightarrow> OAgents
      | [n] \<Rightarrow> if n = [] then ANotFound else OAgent n
      | [n, a] \<Rightarrow> if n = [] then ANotFound
                  else if a = ''revoke'' then ORevoke n else if a = ''cert_identity'' then OCertIdentity n
                  else if a = ''credentials'' then OCredentials n else ANotFound
      | [n, a, r] \<Rightarrow> if n \<noteq> [] \<and> a = ''credentials'' \<and> r \<noteq> [] then OCredential n r else ANotFound
      | _ \<Rightarrow> ANotFound)"

definition operator_route :: "UdsState \<Rightarrow> string list \<Rightarrow> AdminRoute" where
  "operator_route s segs =
     (case segs of
        [] \<Rightarrow> ANotFound
      | p # rest \<Rightarrow>
          if p = ''agents'' then agents_route rest
          else if p = ''bootstrap_tokens'' then
            (case rest of
               [] \<Rightarrow> OBootstrapTokens
             | [n, r] \<Rightarrow> if n \<noteq> [] \<and> r = ''revoke'' then OBootstrapRevoke n else ANotFound
             | _ \<Rightarrow> ANotFound)
          else if p = ''tools-legacy'' \<and> rest = [] then OToolsLegacy
          else if p = ''audit'' \<and> rest = [] then OAudit
          else if p = ''oauth'' then (if us_oauth s = None then ANotFound else oauth_route rest)
          else if us_registrations s = None then ANotFound
          else registrations_route segs)"

definition admin_route :: "UdsState \<Rightarrow> string \<Rightarrow> AdminRoute" where
  "admin_route s path =
     (case split_on (CHR ''/'') path of
        e # a # g # segs \<Rightarrow>
          if e \<noteq> [] \<or> a \<noteq> ''admin'' then ANotFound
          else if g = ''agent'' then agent_route segs
          else if g = ''operator'' then operator_route s segs
          else ANotFound
      | _ \<Rightarrow> ANotFound)"

text \<open>A handler mounted for one method; \<open>get\<close> also answers \<open>HEAD\<close>.\<close>

definition on_methods :: "(string \<times> uds_handler) list \<Rightarrow> uds_handler" where
  "on_methods hs req s =
     (case map_of hs (rq_method req) of
        Some h \<Rightarrow> h req s
      | None \<Rightarrow>
          (case (if rq_method req = ''HEAD'' then map_of hs ''GET'' else None) of
             Some h \<Rightarrow> (case h req s of (s', r) \<Rightarrow> (s', r\<lparr> rs_body := NoBody \<rparr>))
           | None \<Rightarrow> (s, \<lparr> rs_status = 405, rs_headers = [], rs_body = NoBody \<rparr>)))"

text \<open>
  The registration handlers run on the shared repository and caches; the
  resolved credentials they refresh are the ones the administration service
  reads.  The daemon wires the OAuth state together with that repository, so
  the OAuth handlers read registrations and catalog from it.
\<close>

definition on_regs :: "(AdminRegs \<Rightarrow> AdminRegs \<times> Response) \<Rightarrow> UdsState \<Rightarrow> UdsState \<times> Response" where
  "on_regs h s =
     (case us_registrations s of
        None \<Rightarrow> (s, \<lparr> rs_status = 404, rs_headers = [], rs_body = NoBody \<rparr>)
      | Some r \<Rightarrow>
          (case h r of (r', resp) \<Rightarrow>
             (s\<lparr> us_registrations := Some r',
                 us_admin := (us_admin s)\<lparr> sv_resolved_creds :=
                   (case sv_resolved_creds (us_admin s) of
                      None \<Rightarrow> None
                    | Some c \<Rightarrow> (case ad_creds r' of Some c' \<Rightarrow> Some c' | None \<Rightarrow> Some c)) \<rparr> \<rparr>, resp)))"

definition on_oauth :: "(OauthAdminState \<Rightarrow> OauthAdminState \<times> Response) \<Rightarrow> UdsState \<Rightarrow> UdsState \<times> Response" where
  "on_oauth h s =
     (case (us_oauth s, us_registrations s) of
        (Some (t, key), Some r) \<Rightarrow>
          (case h \<lparr> oa_registrations = ad_repo r, oa_sessions = t, oa_key = key,
                    oa_catalog = (case ad_catalog r of Some c \<Rightarrow> c | None \<Rightarrow> []) \<rparr> of
             (o', resp) \<Rightarrow> (s\<lparr> us_oauth := Some (oa_sessions o', key) \<rparr>, resp))
      | _ \<Rightarrow> (s, \<lparr> rs_status = 404, rs_headers = [], rs_body = NoBody \<rparr>))"

text \<open>A path capture, percent-decoded.\<close>

definition with_name :: "UdsEnv \<Rightarrow> string \<Rightarrow> (string \<Rightarrow> uds_handler) \<Rightarrow> uds_handler" where
  "with_name ue raw h req s =
     (case ue_percent_decode ue raw of
        None \<Rightarrow> (s, \<lparr> rs_status = 400, rs_headers = [], rs_body = NoBody \<rparr>)
      | Some n \<Rightarrow> h n req s)"

text \<open>The methods mounted on a route.\<close>

definition agent_mount :: "UdsEnv \<Rightarrow> AdminRoute \<Rightarrow> AgentIdentity \<Rightarrow> (string \<times> uds_handler) list" where
  "agent_mount ue route agent =
     (case route of
        AStatus \<Rightarrow> [(''GET'', handle_status agent)]
      | ARotate \<Rightarrow> [(''POST'', handle_rotate ue agent)]
      | ADeregister \<Rightarrow> [(''POST'', handle_deregister ue agent)]
      | ATools \<Rightarrow> [(''GET'', handle_agent_tools agent)]
      | _ \<Rightarrow> [])"

definition operator_mount :: "UdsEnv \<Rightarrow> AdminRoute \<Rightarrow> OperatorIdentity \<Rightarrow> (string \<times> uds_handler) list" where
  "operator_mount ue route opr =
     (let now = ae_now (ue_ae ue); ox = ue_ox ue; env = ue_env ue in
      case route of
        OAgents \<Rightarrow> [(''GET'', op_list_agents ue), (''POST'', op_create_agent ue opr)]
      | OAgent n \<Rightarrow> [(''GET'', with_name ue n op_get_agent),
                                (''PATCH'', with_name ue n (op_modify_agent ue opr))]
      | ORevoke n \<Rightarrow> [(''POST'', with_name ue n (op_revoke_agent ue opr))]
      | OCertIdentity n \<Rightarrow> [(''PATCH'', with_name ue n (op_set_agent_cert_identity ue opr))]
      | OCredentials n \<Rightarrow> [(''GET'', with_name ue n op_list_agent_credentials)]
      | OCredential n r \<Rightarrow>
          [(''PUT'', with_name ue n (\<lambda>n. with_name ue r (op_set_agent_credential ue n))),
           (''DELETE'', with_name ue n (\<lambda>n. with_name ue r (op_unset_agent_credential n)))]
      | OBootstrapTokens \<Rightarrow> [(''GET'', op_list_bootstrap), (''POST'', op_mint_bootstrap ue opr)]
      | OBootstrapRevoke n \<Rightarrow> [(''POST'', with_name ue n (op_revoke_bootstrap ue opr))]
      | OToolsLegacy \<Rightarrow> [(''GET'', op_list_tools)]
      | OAudit \<Rightarrow> [(''GET'', op_query_audit ue)]
      | ORegs k \<Rightarrow> [(''GET'', \<lambda>req. on_regs (\<lambda>r. (r, op_list k r)))]
      | OReg k n \<Rightarrow>
          [(''GET'', with_name ue n (\<lambda>n req. on_regs (\<lambda>r. (r, op_get k n r)))),
           (''PUT'', with_name ue n (\<lambda>n req. with_input (ue_put ue req) (\<lambda>b. on_regs (op_put env now k n b)))),
           (''DELETE'', with_name ue n (\<lambda>n req. on_regs (op_delete env now k n)))]
      | OEnable k n \<Rightarrow> [(''POST'', with_name ue n (\<lambda>n req. on_regs (op_enable env now k n)))]
      | OOauth \<Rightarrow> [(''GET'', \<lambda>req. on_oauth (\<lambda>o_st. (o_st, op_oauth_list o_st)))]
      | OOauthName n \<Rightarrow>
          [(''GET'', with_name ue n (\<lambda>n req. with_input (ue_label ue req)
              (\<lambda>l. on_oauth (\<lambda>o_st. (o_st, op_oauth_status ox n l o_st))))),
           (''DELETE'', with_name ue n (\<lambda>n req. with_input (ue_label ue req) (\<lambda>l. on_oauth (op_oauth_revoke n l))))]
      | OOauthBootstrap n \<Rightarrow>
          [(''POST'', with_name ue n (\<lambda>n req. with_input (ue_label ue req) (\<lambda>l. with_input (ue_refresh_token ue req)
              (\<lambda>tok. on_oauth (op_oauth_bootstrap ox (ue_post ue) now (ue_ns1 ue) (ue_ns2 ue) n l tok)))))]
      | _ \<Rightarrow> [])"

definition agent_handler :: "UdsEnv \<Rightarrow> AdminRoute \<Rightarrow> AgentIdentity \<Rightarrow> uds_handler" where
  "agent_handler ue route agent = on_methods (agent_mount ue route agent)"

definition operator_handler :: "UdsEnv \<Rightarrow> AdminRoute \<Rightarrow> OperatorIdentity \<Rightarrow> uds_handler" where
  "operator_handler ue route opr = on_methods (operator_mount ue route opr)"

definition operator_routes :: "AdminRoute \<Rightarrow> bool" where
  "operator_routes r \<longleftrightarrow> r \<notin> {ARegister, AStatus, ARotate, ADeregister, ATools, ANotFound}"

definition admin_serve :: "UdsEnv \<Rightarrow> uds_handler" where
  "admin_serve ue req s =
     (let route = admin_route s (rq_path req) in
      if route = ANotFound then (s, \<lparr> rs_status = 404, rs_headers = [], rs_body = NoBody \<rparr>)
      else if route = ARegister then handle_register ue req s
      else if operator_routes route
      then operator_auth_middleware ue (operator_handler ue route) req s
      else agent_auth_middleware ue (agent_handler ue route) req s)"

subsection \<open>The socket\<close>

text \<open>
  What lies at the path of the socket; a socket carries its permission bits.
  The flags say which of the calls on the file system succeed; binding also
  fails when something is at the path.  The result is what is left at the path
  and whether the router is served.
\<close>

datatype FsNode = Absent | SocketFile nat | OtherFile

record SocketIo =
  so_metadata :: bool
  so_remove :: bool
  so_mkdir :: bool
  so_bind :: bool
  so_chmod :: bool
  so_default_mode :: nat

definition uds_bind :: "SocketIo \<Rightarrow> FsNode \<Rightarrow> FsNode \<times> bool" where
  "uds_bind io node =
     (if node \<noteq> Absent \<and> \<not> so_metadata io then (node, False)
      else
        let stale = (case node of SocketFile _ \<Rightarrow> True | _ \<Rightarrow> False) in
        if stale \<and> \<not> so_remove io then (node, False)
        else
          let node' = (if stale then Absent else node) in
          if \<not> so_mkdir io then (node', False)
          else if node' \<noteq> Absent \<or> \<not> so_bind io then (node', False)
          else if \<not> so_chmod io then (SocketFile (so_default_mode io), False)
          else (SocketFile 0x1B0, True))"

subsection \<open>The registration-only listener\<close>

definition bootstrap_serve :: "UdsEnv \<Rightarrow> Request \<Rightarrow> AdminService \<Rightarrow> AdminService \<times> Response" where
  "bootstrap_serve ue req a =
     (if rq_path req \<noteq> ''/admin/agent/register'' then (a, \<lparr> rs_status = 404, rs_headers = [], rs_body = NoBody \<rparr>)
      else if rq_method req \<noteq> ''POST'' then (a, \<lparr> rs_status = 405, rs_headers = [], rs_body = NoBody \<rparr>)
      else (case ue_register ue req of
              Inl resp \<Rightarrow> (a, resp)
            | Inr inp \<Rightarrow>
                (case register_agent (ue_ae ue) (ue_en ue) inp a of
                   (a', Inr out) \<Rightarrow> (a', json_response 200 (register_json out))
                 | (a', Inl e) \<Rightarrow>
                     (a', json_response (if e = InvalidBootstrap then 401
                                         else if e = AdminError.AgentNameConflict then 409
                                         else if e = AdminError.AgentNotFound then 404 else 500)
                       (JObj [(''error'', JObj
                          [(''code'', JStr (if e = InvalidBootstrap then ''invalid_credential''
                                            else if e = AdminError.AgentNameConflict then ''agent_name_conflict''
                                            else if e = AdminError.AgentNotFound then ''agent_not_found''
                                            else ''backend_error'')),
                           (''message'', JStr (admin_error_display e))])])))))"

end
