(* ===== verification/Cli.thy ===== *)
theory Cli
  imports Admin_Uds Codex_Body
begin

text \<open>
  The decisions of the \<open>locksmith\<close> command line, \<open>src/cli\<close>: exit codes, how a
  response of the daemon becomes a result, the option parsers and the request
  bodies they build.  Reading arguments, sockets and printing are left out.
  JSON text is the codec parameter of the proxy.
\<close>

section \<open>Definitions\<close>

datatype CliError =
    MissingOpToken
  | MissingAgentToken
  | MalformedAgentToken
  | Transport
  | HttpsTransport string
  | InvalidAdminUrl string
  | Server nat string
  | Decode
  | Io
  | Usage string

fun exit_code :: "CliError \<Rightarrow> nat" where
  "exit_code MissingOpToken = 3"
| "exit_code MissingAgentToken = 3"
| "exit_code MalformedAgentToken = 3"
| "exit_code (Server st _) =
     (if st = 401 \<or> st = 403 then 3 else if st = 404 then 4 else if st = 409 then 5 else 1)"
| "exit_code (InvalidAdminUrl _) = 2"
| "exit_code (Usage _) = 2"
| "exit_code _ = 1"

text \<open>\<open>CliClient::json\<close> and \<open>unit\<close> on the status and body the transport returned.\<close>

definition client_json :: "JsonCodec \<Rightarrow> nat \<Rightarrow> string \<Rightarrow> (CliError, json) result" where
  "client_json jx status bs =
     (if \<not> (200 \<le> status \<and> status < 300) then Inl (Server status bs)
      else (case jx_parse jx bs of Some v \<Rightarrow> Inr v | None \<Rightarrow> Inl Decode))"

definition client_unit :: "nat \<Rightarrow> string \<Rightarrow> (CliError, unit) result" where
  "client_unit status bs =
     (if \<not> (200 \<le> status \<and> status < 300) then Inl (Server status bs) else Inr ())"

definition rotate_secret :: "string option \<Rightarrow> string \<Rightarrow> (CliError, string) result" where
  "rotate_secret given token =
     (case given of
        Some s \<Rightarrow> Inr s
      | None \<Rightarrow> (case split_once (CHR ''.'') token of
                    Some (_, sec) \<Rightarrow> Inr sec | None \<Rightarrow> Inl MalformedAgentToken))"

subsection \<open>Registrations\<close>

definition parse_metadata_kv :: "string \<Rightarrow> (string, string \<times> string) result" where
  "parse_metadata_kv s =
     (case split_once (CHR ''='') s of
        None \<Rightarrow> Inl (''metadata must be key=value, got: '' @ s)
      | Some (k, v) \<Rightarrow> if k = [] then Inl (''metadata key empty in: '' @ s) else Inr (k, v))"

definition parse_auth_spec :: "string option \<Rightarrow> (CliError, json option) result" where
  "parse_auth_spec spec =
     (case spec of
        None \<Rightarrow> Inr None
      | Some raw \<Rightarrow>
          (let s = trim raw in
           if s = ''none'' then Inr (Some (JObj [(''kind'', JStr ''none'')]))
           else (case strip_prefix ''bearer='' s of
             Some rest \<Rightarrow>
               if rest = [] then Inl (Usage (''--auth bearer=<ENV_VAR>: missing env var name in: '' @ s))
               else Inr (Some (JObj [(''kind'', JStr ''bearer''), (''env_var'', JStr rest)]))
           | None \<Rightarrow>
               (case strip_prefix ''header:'' s of
                  Some rest \<Rightarrow>
                    (case split_once (CHR ''='') rest of
                       None \<Rightarrow> Inl (Usage (''--auth header:<NAME>=<ENV_VAR>: missing '' @ [CHR 0x27] @ ''='' @ [CHR 0x27] @ '' in: '' @ s))
                     | Some (header, env_var) \<Rightarrow>
                         if header = [] \<or> env_var = []
                         then Inl (Usage (''--auth header:<NAME>=<ENV_VAR>: name and env-var must be non-empty in: '' @ s))
                         else Inr (Some (JObj [(''kind'', JStr ''header''), (''header'', JStr header),
                                               (''env_var'', JStr env_var)])))
                | None \<Rightarrow> Inl (Usage (''--auth must be one of: none | bearer=<ENV_VAR> | header:<NAME>=<ENV_VAR>; got: '' @ s))))))"

record PutOpts =
  po_upstream :: string
  po_auth :: "string option"
  po_egress :: "string option"
  po_timeout_request :: "nat option"
  po_timeout_idle :: "nat option"
  po_body_limit :: "nat option"
  po_metadata :: "(string \<times> string) list"
  po_description :: "string option"

definition opt_field :: "string \<Rightarrow> ('a \<Rightarrow> json) \<Rightarrow> 'a option \<Rightarrow> (string \<times> json) list" where
  "opt_field k f x = (case x of None \<Rightarrow> [] | Some v \<Rightarrow> [(k, f v)])"

definition do_put_body :: "PutOpts \<Rightarrow> (CliError, json) result" where
  "do_put_body o_put =
     (case parse_auth_spec (po_auth o_put) of
        Inl e \<Rightarrow> Inl e
      | Inr auth \<Rightarrow>
          Inr (JObj ([(''upstream'', JStr (po_upstream o_put))] @
            opt_field ''description'' JStr (po_description o_put) @
            opt_field ''auth'' (\<lambda>a. a) auth @
            opt_field ''egress'' JStr (po_egress o_put) @
            (if po_timeout_request o_put \<noteq> None \<or> po_timeout_idle o_put \<noteq> None
             then [(''timeouts'', JObj (opt_field ''request_seconds'' (\<lambda>n. JNum (int n)) (po_timeout_request o_put) @
                                        opt_field ''idle_seconds'' (\<lambda>n. JNum (int n)) (po_timeout_idle o_put)))]
             else []) @
            opt_field ''body_limit_bytes'' (\<lambda>n. JNum (int n)) (po_body_limit o_put) @
            (if po_metadata o_put = [] then []
             else [(''metadata'', JObj (fold (\<lambda>(k, v) m. obj_insert k (JStr v) m) (po_metadata o_put) []))]))))"

subsection \<open>Agents\<close>

record SetCredentialArgs =
  sa_id :: string
  sa_registration :: string
  sa_auth :: "string option"
  sa_no_auth :: bool
  sa_oauth_session :: "string option"

definition label_char :: "char \<Rightarrow> bool" where
  "label_char c \<longleftrightarrow> is_alnum c \<or> c = CHR ''-'' \<or> c = CHR ''_''"

definition quoted :: "string \<Rightarrow> string" where
  "quoted s = [CHR 0x27] @ s @ [CHR 0x27]"

text \<open>\<open>dbg\<close> is the \<open>Debug\<close> rendering of a string.\<close>

definition bad_label :: "(string \<Rightarrow> string) \<Rightarrow> string \<Rightarrow> CliError" where
  "bad_label dbg label =
     Usage (''session label must be ascii alphanumeric / '' @ quoted ''-'' @ '' / '' @ quoted ''_'' @ ''; got: '' @ dbg label)"

definition build_auth_spec :: "(string \<Rightarrow> string) \<Rightarrow> SetCredentialArgs \<Rightarrow> (CliError, json) result" where
  "build_auth_spec dbg args =
     (if sa_no_auth args then Inr (JObj [(''kind'', JStr ''none'')])
      else (case sa_oauth_session args of
        Some label \<Rightarrow>
          if \<not> list_all label_char label then Inl (bad_label dbg label)
          else Inr (JObj [(''kind'', JStr ''oauth_device_code''), (''client_id'', JStr []), (''scopes'', JArr []),
                          (''device_url'', JStr []), (''token_url'', JStr []), (''session_label'', JStr label)])
      | None \<Rightarrow>
          (case sa_auth args of
             None \<Rightarrow> Inl (Usage ''must provide one of: --auth bearer=ENV, --auth header=H:ENV, --no-auth, --oauth-session LABEL'')
           | Some auth \<Rightarrow>
               (case strip_prefix ''bearer='' auth of
                  Some env_var \<Rightarrow>
                    if env_var = [] then Inl (Usage ''--auth bearer= requires an env var name'')
                    else Inr (JObj [(''kind'', JStr ''bearer''), (''env_var'', JStr env_var)])
                | None \<Rightarrow>
                    (case strip_prefix ''header='' auth of
                       Some rest \<Rightarrow>
                         (case split_once (CHR '':'') rest of
                            None \<Rightarrow> Inl (Usage ''--auth header= requires <Header-Name>:<ENV_VAR>'')
                          | Some (header, env_var) \<Rightarrow>
                              if header = [] \<or> env_var = []
                              then Inl (Usage ''--auth header= requires non-empty header and env var'')
                              else Inr (JObj [(''kind'', JStr ''header''), (''header'', JStr header),
                                              (''env_var'', JStr env_var)]))
                     | None \<Rightarrow> Inl (Usage (''--auth must start with '' @ quoted ''bearer='' @ '' or '' @ quoted ''header='' @ ''; got: '' @ dbg auth)))))))"

definition option_replace :: "string list option \<Rightarrow> string list option option" where
  "option_replace inp =
     (case inp of
        None \<Rightarrow> None
      | Some v \<Rightarrow> if length v = 1 \<and> v ! 0 = ''-'' then Some None else Some (Some v))"

text \<open>The field of the \<open>PATCH\<close> body: \<open>json!\<close> writes both kinds of absence as \<open>null\<close>.\<close>

definition patch_field :: "string list option option \<Rightarrow> json" where
  "patch_field x = (case x of None \<Rightarrow> JNull | Some y \<Rightarrow> names_json y)"

definition with_label_query :: "(string \<Rightarrow> string) \<Rightarrow> string \<Rightarrow> string option \<Rightarrow> (CliError, string) result" where
  "with_label_query dbg path label =
     (case label of
        None \<Rightarrow> Inr path
      | Some l \<Rightarrow>
          if l = ''default'' then Inr path
          else if \<not> list_all label_char l then Inl (bad_label dbg l)
          else Inr (path @ (if CHR ''?'' \<in> set path then ''&'' else ''?'') @ ''label='' @ l))"

section \<open>Lemmas\<close>

text \<open>Every failure the service reports reaches the shell with its documented exit code.\<close>

lemma admin_exit_codes:
  "exit_code (Server (fst (admin_status e)) bd) =
     (case e of InvalidBootstrap \<Rightarrow> 3 | NotAuthorized \<Rightarrow> 3 | AdminError.AgentNotFound \<Rightarrow> 4
      | AdminError.AgentNameConflict \<Rightarrow> 5 | AdminError.RotationInProgress \<Rightarrow> 5 | AdminError.Backend _ \<Rightarrow> 1)"
  by (cases e) simp_all

text \<open>
  Deleting or enabling a registration asks for a JSON document, and the daemon
  answers 204 without a body: a completed deletion is reported as a failure.
\<close>

lemma delete_reports_failure:
  assumes "jx_parse jx [] = None"
  shows "client_json jx (rs_status no_content) [] = Inl Decode" "exit_code Decode = 1"
  using assms by (simp_all add: client_json_def no_content_def)

text \<open>
  \<open>agent modify --allowlist -\<close> asks to clear the list.  Where the reader of the
  body takes \<open>null\<close> for an absent field, as an optional field does, the daemon
  changes nothing and answers success.
\<close>

lemma clear_flag_changes_nothing:
  assumes "dec JNull = None"
  shows "update_policy pid (dec (patch_field (option_replace (Some [''-''])))) (dec (patch_field (option_replace None)))
           None None t = (t, Inr ())"
  using assms by (simp add: update_policy_def option_replace_def patch_field_def names_json_def)

end
