(* ===== verification/Cli_Commands.thy ===== *)
theory Cli_Commands
  imports Cli
begin

text \<open>
  The subcommands of the \<open>locksmith\<close> command line, \<open>src/cli/commands\<close>, and its
  entry point \<open>src/cli/main.rs\<close>.  Every online subcommand sends one request; it
  is modelled as the request it builds and the value it prints from the answer.
  The transport is a parameter, which \<open>Cli_Props\<close> instantiates with the
  administration router itself; the commands that work without a daemon are in
  \<open>Cli_Offline\<close>.  Argument parsing is a library; its \<open>conflicts_with\<close>
  declarations appear as branches that are not reachable.
\<close>

section \<open>Definitions\<close>

record CliRequest =
  cq_method :: string
  cq_path :: string
  cq_token :: string
  cq_body :: "json option"

text \<open>
  What a command does with the answer: decode it and print a part of it or
  nothing, or ignore it and print a fixed value or nothing.
\<close>

datatype Answer = Decodes "json \<Rightarrow> json option" | Ignores "json option"

type_synonym CliCall = "CliRequest \<times> Answer"

definition op_token :: "env \<Rightarrow> (CliError, string) result" where
  "op_token env = (case env ''LOCKSMITH_OP_TOKEN'' of Some t \<Rightarrow> Inr t | None \<Rightarrow> Inl MissingOpToken)"

definition agent_token :: "env \<Rightarrow> (CliError, string) result" where
  "agent_token env = (case env ''LOCKSMITH_AGENT_TOKEN'' of Some t \<Rightarrow> Inr t | None \<Rightarrow> Inl MissingAgentToken)"

definition with_token :: "(CliError, string) result \<Rightarrow> (string \<Rightarrow> (CliError, CliCall) result) \<Rightarrow> (CliError, CliCall) result" where
  "with_token tok k = (case tok of Inl e \<Rightarrow> Inl e | Inr t \<Rightarrow> k t)"

definition call :: "string \<Rightarrow> string \<Rightarrow> string \<Rightarrow> json option \<Rightarrow> Answer \<Rightarrow> CliCall" where
  "call meth path tok bd ans = (\<lparr> cq_method = meth, cq_path = path, cq_token = tok, cq_body = bd \<rparr>, ans)"

text \<open>Indexing a \<open>serde_json\<close> value: absent members read as \<open>null\<close>.\<close>

definition json_index :: "string \<Rightarrow> json \<Rightarrow> json" where
  "json_index k j = (case json_get k j of Some v \<Rightarrow> v | None \<Rightarrow> JNull)"

subsection \<open>Agents\<close>

datatype AgentCmd =
    AgList bool
  | AgGet string
  | AgRegister string "string option" "string list option" "string list option"
  | AgModify string "string list option" "string list option"
  | AgRevoke string "string option"
  | AgSetCertIdentity string "string option" bool
  | AgSetCredential SetCredentialArgs
  | AgUnsetCredential string string
  | AgCredentials string

fun agent_call :: "(string \<Rightarrow> string) \<Rightarrow> string \<Rightarrow> AgentCmd \<Rightarrow> (CliError, CliCall) result" where
  "agent_call dbg tok (AgList incl) =
     Inr (call ''GET'' (if incl then ''/admin/operator/agents?include_revoked=true'' else ''/admin/operator/agents'')
            tok None (Decodes (Some \<circ> json_index ''agents'')))"
| "agent_call dbg tok (AgGet i) =
     Inr (call ''GET'' (''/admin/operator/agents/'' @ i) tok None (Decodes Some))"
| "agent_call dbg tok (AgRegister name descr allow deny) =
     Inr (call ''POST'' ''/admin/operator/agents'' tok
            (Some (JObj [(''name'', JStr name), (''description'', opt_str descr),
                         (''allowlist'', names_json allow), (''denylist'', names_json deny)])) (Decodes Some))"
| "agent_call dbg tok (AgModify i allow deny) =
     Inr (call ''PATCH'' (''/admin/operator/agents/'' @ i) tok
            (Some (JObj [(''allowlist'', patch_field (option_replace allow)),
                         (''denylist'', patch_field (option_replace deny))])) (Ignores None))"
| "agent_call dbg tok (AgRevoke i reason) =
     Inr (call ''POST'' (''/admin/operator/agents/'' @ i @ ''/revoke'') tok None (Ignores None))"
| "agent_call dbg tok (AgSetCertIdentity i cert clear) =
     Inr (call ''PATCH'' (''/admin/operator/agents/'' @ i @ ''/cert_identity'') tok
            (Some (JObj [(''cert_identity'', if clear \<or> cert = Some ''-'' then JNull else opt_str cert)])) (Ignores None))"
| "agent_call dbg tok (AgSetCredential args) =
     (case build_auth_spec dbg args of
        Inl e \<Rightarrow> Inl e
      | Inr spec \<Rightarrow>
          Inr (call ''PUT'' (''/admin/operator/agents/'' @ sa_id args @ ''/credentials/'' @ sa_registration args) tok
                 (Some (JObj [(''auth_spec'', spec)])) (Decodes Some)))"
| "agent_call dbg tok (AgUnsetCredential i reg) =
     Inr (call ''DELETE'' (''/admin/operator/agents/'' @ i @ ''/credentials/'' @ reg) tok None
            (Ignores (Some (JObj [(''agent'', JStr i), (''registration'', JStr reg), (''removed'', JBool True)]))))"
| "agent_call dbg tok (AgCredentials i) =
     Inr (call ''GET'' (''/admin/operator/agents/'' @ i @ ''/credentials'') tok None (Decodes (Some \<circ> json_index ''overrides'')))"

subsection \<open>Bootstrap tokens\<close>

datatype BootstrapCmd =
    BtMint "string list option" bool "int option"
  | BtList
  | BtRevoke string

fun bootstrap_call :: "string \<Rightarrow> BootstrapCmd \<Rightarrow> CliCall" where
  "bootstrap_call tok (BtMint allow reusable expires) =
     call ''POST'' ''/admin/operator/bootstrap_tokens'' tok
       (Some (JObj [(''tool_allowlist'', names_json allow), (''single_use'', JBool (\<not> reusable)),
                    (''expires_at'', opt_int expires)])) (Decodes Some)"
| "bootstrap_call tok BtList =
     call ''GET'' ''/admin/operator/bootstrap_tokens'' tok None (Decodes (Some \<circ> json_index ''tokens''))"
| "bootstrap_call tok (BtRevoke i) =
     call ''POST'' (''/admin/operator/bootstrap_tokens/'' @ i @ ''/revoke'') tok None (Ignores None)"

subsection \<open>Registrations\<close>

datatype RegCmd = RgList | RgGet string | RgPut string PutOpts | RgDelete string | RgEnable string

definition reg_path :: "Kind \<Rightarrow> string \<Rightarrow> string" where
  "reg_path kind name = ''/admin/operator/'' @ url_segment kind @ ''/'' @ name"

fun registration_call :: "Kind \<Rightarrow> string \<Rightarrow> RegCmd \<Rightarrow> (CliError, CliCall) result" where
  "registration_call kind tok RgList =
     Inr (call ''GET'' (''/admin/operator/'' @ url_segment kind) tok None
            (Decodes (Some \<circ> json_index (trim_end_matches (CHR ''s'') (url_segment kind) @ ''s''))))"
| "registration_call kind tok (RgGet name) =
     Inr (call ''GET'' (reg_path kind name) tok None (Decodes Some))"
| "registration_call kind tok (RgPut name opts) =
     (case do_put_body opts of
        Inl e \<Rightarrow> Inl e
      | Inr bd \<Rightarrow> Inr (call ''PUT'' (reg_path kind name) tok (Some bd) (Decodes Some)))"
| "registration_call kind tok (RgDelete name) =
     Inr (call ''DELETE'' (reg_path kind name) tok None (Decodes (\<lambda>j. None)))"
| "registration_call kind tok (RgEnable name) =
     Inr (call ''POST'' (reg_path kind name @ ''/enable'') tok None (Decodes (\<lambda>j. None)))"

text \<open>The \<open>run\<close> functions of \<open>tool\<close>, \<open>model\<close> and \<open>infra\<close> differ in the kind they hand on.\<close>

definition tool_call :: "string \<Rightarrow> RegCmd \<Rightarrow> (CliError, CliCall) result" where
  "tool_call = registration_call Tool"

definition model_call :: "string \<Rightarrow> RegCmd \<Rightarrow> (CliError, CliCall) result" where
  "model_call = registration_call Model"

definition infra_call :: "string \<Rightarrow> RegCmd \<Rightarrow> (CliError, CliCall) result" where
  "infra_call = registration_call Infra"

fun kind_call :: "Kind \<Rightarrow> string \<Rightarrow> RegCmd \<Rightarrow> (CliError, CliCall) result" where
  "kind_call Tool = tool_call"
| "kind_call Model = model_call"
| "kind_call Infra = infra_call"

subsection \<open>OAuth sessions\<close>

record BootstrapArgs =
  ba_name :: string
  ba_label :: "string option"
  ba_refresh_token :: "string option"
  ba_refresh_token_stdin :: bool

datatype OauthCmd =
    OaBootstrap BootstrapArgs
  | OaStatus string "string option"
  | OaRevoke string "string option"
  | OaList

text \<open>\<open>inp\<close> is what reading standard input yields.  Both token options at once is excluded by the parser.\<close>

definition refresh_token_arg :: "(CliError, string) result \<Rightarrow> BootstrapArgs \<Rightarrow> (CliError, string) result" where
  "refresh_token_arg inp args =
     (case (ba_refresh_token args, ba_refresh_token_stdin args) of
        (Some t, _) \<Rightarrow> Inr t
      | (None, True) \<Rightarrow> inp
      | (None, False) \<Rightarrow>
          Inl (Usage ''must provide either --refresh-token <TOKEN> or --refresh-token-stdin''))"

definition oauth_bootstrap ::
  "(string \<Rightarrow> string) \<Rightarrow> (CliError, string) result \<Rightarrow> (CliError, string) result \<Rightarrow> BootstrapArgs \<Rightarrow> (CliError, CliCall) result" where
  "oauth_bootstrap dbg inp tok args =
     (case refresh_token_arg inp args of
        Inl e \<Rightarrow> Inl e
      | Inr t \<Rightarrow>
          if trim t = [] then Inl (Usage ''refresh token is empty'')
          else with_token tok (\<lambda>op.
            case with_label_query dbg (''/admin/operator/oauth/'' @ ba_name args @ ''/bootstrap'') (ba_label args) of
              Inl e \<Rightarrow> Inl e
            | Inr path \<Rightarrow> Inr (call ''POST'' path op (Some (JObj [(''refresh_token'', JStr (trim t))])) (Decodes Some))))"

fun oauth_call ::
  "(string \<Rightarrow> string) \<Rightarrow> (CliError, string) result \<Rightarrow> (CliError, string) result \<Rightarrow> OauthCmd \<Rightarrow> (CliError, CliCall) result" where
  "oauth_call dbg inp tok (OaBootstrap args) = oauth_bootstrap dbg inp tok args"
| "oauth_call dbg inp tok (OaStatus name label) =
     with_token tok (\<lambda>op.
       case with_label_query dbg (''/admin/operator/oauth/'' @ name) label of
         Inl e \<Rightarrow> Inl e
       | Inr path \<Rightarrow> Inr (call ''GET'' path op None (Decodes Some)))"
| "oauth_call dbg inp tok (OaRevoke name label) =
     with_token tok (\<lambda>op.
       case with_label_query dbg (''/admin/operator/oauth/'' @ name) label of
         Inl e \<Rightarrow> Inl e
       | Inr path \<Rightarrow>
           Inr (call ''DELETE'' path op None
             (Ignores (Some (JObj [(''name'', JStr name),
                (''label'', JStr (case label of Some l \<Rightarrow> l | None \<Rightarrow> ''default'')), (''revoked'', JBool True)])))))"
| "oauth_call dbg inp tok OaList =
     with_token tok (\<lambda>op. Inr (call ''GET'' ''/admin/operator/oauth'' op None (Decodes (Some \<circ> json_index ''sessions''))))"

subsection \<open>Audit, export and self-service\<close>

definition query_pair :: "string \<Rightarrow> ('a \<Rightarrow> string) \<Rightarrow> 'a option \<Rightarrow> string list" where
  "query_pair k f x = (case x of None \<Rightarrow> [] | Some v \<Rightarrow> [k @ ''='' @ f v])"

definition audit_call :: "string \<Rightarrow> AuditQueryParams \<Rightarrow> CliCall" where
  "audit_call tok q =
     (let qs = query_pair ''agent'' (\<lambda>v. v) (aq_agent q) @ query_pair ''tool'' (\<lambda>v. v) (aq_tool q) @
               query_pair ''event_class'' (\<lambda>v. v) (aq_event_class q) @
               query_pair ''decision'' (\<lambda>v. v) (aq_decision q) @
               query_pair ''since_ms'' show_int (aq_since_ms q) @ query_pair ''until_ms'' show_int (aq_until_ms q) @
               query_pair ''limit'' digits (aq_limit q) @ query_pair ''offset'' digits (aq_offset q)
      in call ''GET'' (if qs = [] then ''/admin/operator/audit'' else ''/admin/operator/audit?'' @ join_str ''&'' qs)
           tok None (Decodes (Some \<circ> json_index ''events'')))"

definition export_agents_call :: "string \<Rightarrow> CliCall" where
  "export_agents_call tok =
     call ''GET'' ''/admin/operator/agents?include_revoked=true'' tok None (Decodes (Some \<circ> json_index ''agents''))"

definition status_call :: "string \<Rightarrow> CliCall" where
  "status_call tok = call ''GET'' ''/admin/agent/status'' tok None (Decodes Some)"

definition rotate_call :: "string option \<Rightarrow> string \<Rightarrow> (CliError, CliCall) result" where
  "rotate_call given tok =
     (case rotate_secret given tok of
        Inl e \<Rightarrow> Inl e
      | Inr sec \<Rightarrow> Inr (call ''POST'' ''/admin/agent/rotate'' tok (Some (JObj [(''current_secret'', JStr sec)])) (Decodes Some)))"

subsection \<open>Dispatch\<close>

text \<open>The online subcommands of \<open>Cmd\<close>; the three registration groups share \<open>Registration\<close>.\<close>

datatype Cmd =
    Agent AgentCmd
  | Bootstrap BootstrapCmd
  | Registration Kind RegCmd
  | Oauth OauthCmd
  | Audit AuditQueryParams
  | ExportAgents
  | Status
  | Rotate "string option"

record CliEnv =
  ce_env :: env
  ce_debug :: "string \<Rightarrow> string"
  ce_stdin :: "(CliError, string) result"
  ce_json :: JsonCodec

definition cmd_call :: "CliEnv \<Rightarrow> Cmd \<Rightarrow> (CliError, CliCall) result" where
  "cmd_call ce cmd =
     (let op = op_token (ce_env ce) in
      case cmd of
        Agent c \<Rightarrow> with_token op (\<lambda>t. agent_call (ce_debug ce) t c)
      | Bootstrap c \<Rightarrow> with_token op (\<lambda>t. Inr (bootstrap_call t c))
      | Registration k c \<Rightarrow> with_token op (\<lambda>t. kind_call k t c)
      | Oauth c \<Rightarrow> oauth_call (ce_debug ce) (ce_stdin ce) op c
      | Audit q \<Rightarrow> with_token op (\<lambda>t. Inr (audit_call t q))
      | ExportAgents \<Rightarrow> with_token op (\<lambda>t. Inr (export_agents_call t))
      | Status \<Rightarrow> with_token (agent_token (ce_env ce)) (\<lambda>t. Inr (status_call t))
      | Rotate given \<Rightarrow> with_token (agent_token (ce_env ce)) (rotate_call given))"

text \<open>A transport delivers a request and returns status and body, or fails.\<close>

type_synonym 's transport = "CliRequest \<Rightarrow> 's \<Rightarrow> 's \<times> (CliError, nat \<times> string) result"

definition settle :: "JsonCodec \<Rightarrow> Answer \<Rightarrow> nat \<Rightarrow> string \<Rightarrow> (CliError, json option) result" where
  "settle jx ans st bs =
     (case ans of
        Decodes f \<Rightarrow> (case client_json jx st bs of Inl e \<Rightarrow> Inl e | Inr j \<Rightarrow> Inr (f j))
      | Ignores v \<Rightarrow> (case client_unit st bs of Inl e \<Rightarrow> Inl e | Inr _ \<Rightarrow> Inr v))"

definition cmd_run :: "CliEnv \<Rightarrow> 's transport \<Rightarrow> Cmd \<Rightarrow> 's \<Rightarrow> 's \<times> (CliError, json option) result" where
  "cmd_run ce send cmd s =
     (case cmd_call ce cmd of
        Inl e \<Rightarrow> (s, Inl e)
      | Inr (q, ans) \<Rightarrow>
          (case send q s of
             (s', Inl e) \<Rightarrow> (s', Inl e)
           | (s', Inr (st, bs)) \<Rightarrow> (s', settle (ce_json ce) ans st bs)))"

text \<open>
  The choice of transport; \<open>load_ca\<close> and \<open>build\<close> are the failures, if any, of loading
  the CA bundle and of building the client.
\<close>

datatype Endpoint = Uds string | Https string

definition from_options ::
  "string \<Rightarrow> string option \<Rightarrow> (string \<Rightarrow> CliError option) \<Rightarrow> CliError option \<Rightarrow> string option \<Rightarrow> (CliError, Endpoint) result" where
  "from_options sock admin_url load_ca build ca_bundle =
     (case admin_url of
        None \<Rightarrow> Inr (Uds sock)
      | Some url \<Rightarrow>
          if \<not> (starts_with ''https://'' url \<or> starts_with ''http://'' url)
          then Inl (InvalidAdminUrl (''must start with https:// (got '' @ url @ '')''))
          else (case Option.bind ca_bundle load_ca of
                  Some e \<Rightarrow> Inl e
                | None \<Rightarrow>
                    (case build of
                       Some e \<Rightarrow> Inl e
                     | None \<Rightarrow> Inr (Https (trim_end_matches (CHR ''/'') url)))))"

definition cli_main :: "CliEnv \<Rightarrow> (CliError, Endpoint) result \<Rightarrow> (Endpoint \<Rightarrow> 's transport) \<Rightarrow> Cmd \<Rightarrow> 's \<Rightarrow> 's \<times> nat" where
  "cli_main ce ep send cmd s =
     (case ep of
        Inl e \<Rightarrow> (s, exit_code e)
      | Inr tr \<Rightarrow>
          (case cmd_run ce (send tr) cmd s of
             (s', Inr _) \<Rightarrow> (s', 0)
           | (s', Inl e) \<Rightarrow> (s', exit_code e)))"

end
