(* ===== verification/Cli_Offline.thy ===== *)
theory Cli_Offline
  imports Cli
begin

text \<open>
  The parts of the command line that need no daemon: the output tables of
  \<open>src/cli/output.rs\<close>, minting an operator credential
  (\<open>src/cli/commands/bootstrap_operator.rs\<close>) together with the loading of the
  operators file (\<open>src/auth_v2/operator.rs\<close>), and the block-list file commands of
  \<open>src/cli/commands/mtls.rs\<close>.  YAML and pretty-printed JSON are parameters.
  Cells are measured in bytes, so the tables are those of ASCII output.
\<close>

section \<open>Definitions\<close>

subsection \<open>Output\<close>

datatype Format = Table | JsonFormat | Yaml

definition render_scalar :: "JsonCodec \<Rightarrow> json \<Rightarrow> string" where
  "render_scalar jx v =
     (case v of
        JNull \<Rightarrow> ''-''
      | JBool b \<Rightarrow> if b then ''true'' else ''false''
      | JNum n \<Rightarrow> show_int n
      | JReal s \<Rightarrow> s
      | JStr s \<Rightarrow> s
      | _ \<Rightarrow> jx_print jx v)"

definition pad_right :: "nat \<Rightarrow> string \<Rightarrow> string" where
  "pad_right w s = s @ replicate (w - length s) (CHR '' '')"

definition table_columns :: "json list \<Rightarrow> string list" where
  "table_columns items =
     (case items of JObj m # _ \<Rightarrow> sort (remdups (map fst m)) | _ \<Rightarrow> [])"

definition table_cells :: "JsonCodec \<Rightarrow> string list \<Rightarrow> json \<Rightarrow> string list" where
  "table_cells jx cols item =
     map (\<lambda>c. case json_get c item of Some v \<Rightarrow> render_scalar jx v | None \<Rightarrow> ''-'') cols"

text \<open>Every row widens the columns it does not fit in.\<close>

definition table_widths :: "string list \<Rightarrow> string list list \<Rightarrow> nat list" where
  "table_widths cols rows =
     fold (\<lambda>row ws. map2 max ws (map length row)) rows (map length cols)"

definition table_line :: "nat list \<Rightarrow> string list \<Rightarrow> string" where
  "table_line ws cells = join_str ''  '' (map2 pad_right ws cells)"

definition print_array_table :: "JsonCodec \<Rightarrow> json list \<Rightarrow> string list" where
  "print_array_table jx items =
     (if items = [] then [''(no rows)'']
      else let cols = table_columns items in
        if cols = [] then map (render_scalar jx) items
        else let rows = map (table_cells jx cols) items;
                 ws = table_widths cols rows;
                 header = map2 pad_right ws cols
             in join_str ''  '' header #
                join_str ''  '' (map (\<lambda>h. replicate (length h) (CHR ''-'')) header) #
                map (table_line ws) rows)"

definition print_table :: "JsonCodec \<Rightarrow> json \<Rightarrow> string list" where
  "print_table jx v =
     (case v of
        JObj m \<Rightarrow>
          map (\<lambda>k. k @ '': '' @ render_scalar jx (case obj_get k m of Some x \<Rightarrow> x | None \<Rightarrow> JNull))
            (sort (remdups (map fst m)))
      | JArr items \<Rightarrow> print_array_table jx items
      | _ \<Rightarrow> [render_scalar jx v])"

definition print_value :: "JsonCodec \<Rightarrow> (json \<Rightarrow> string) \<Rightarrow> (json \<Rightarrow> string) \<Rightarrow> Format \<Rightarrow> json \<Rightarrow> string list" where
  "print_value jx pretty yaml fmt v =
     (case fmt of JsonFormat \<Rightarrow> [pretty v] | Yaml \<Rightarrow> [yaml v] | Table \<Rightarrow> print_table jx v)"

definition print_export :: "(json \<Rightarrow> string) \<Rightarrow> (json \<Rightarrow> string) \<Rightarrow> Format \<Rightarrow> json \<Rightarrow> string list" where
  "print_export pretty yaml fmt v = (case fmt of JsonFormat \<Rightarrow> [pretty v] | _ \<Rightarrow> [yaml v])"

subsection \<open>Operator credentials\<close>

definition operator_header :: "string \<Rightarrow> string list" where
  "operator_header name =
     [''# Locksmith operator credentials.'',
      ''# Generated by `locksmith bootstrap-operator --name '' @ name @ ''` '' @ [CHR 0xE2, CHR 0x80, CHR 0x94] @ '' see'',
      ''# agent-locksmith/docs/user/concepts/agent-identity-and-acl.md'',
      ''# for the full credential lifecycle.'',
      ''#'',
      ''# Re-running bootstrap-operator OVERWRITES the cleartext wire'',
      ''# token (only the argon2 hash is stored here). Save the wire'',
      ''# token from stderr to LOCKSMITH_OP_TOKEN at install time.'']"

definition operator_entry :: "string \<Rightarrow> string \<Rightarrow> string \<Rightarrow> string list" where
  "operator_entry name pid h =
     [''operators:'',
      ''  - name: '' @ name,
      ''    public_id: '' @ [CHR 0x22] @ pid @ [CHR 0x22],
      ''    token_hash: '' @ [CHR 0x22] @ h @ [CHR 0x22]]"

text \<open>The lines on standard output, and the wire token shown on standard error.\<close>

definition bootstrap_operator ::
  "Crypto \<Rightarrow> Entropy \<Rightarrow> string \<Rightarrow> bool \<Rightarrow> (CliError, string list \<times> string) result" where
  "bootstrap_operator cr en name hdr =
     (let tok = generate (cr_b64 cr) TokenNamespace.Operator (en_id en) (en_secret en) in
      case argon2_hash cr (en_salt en) (expose (tk_secret tok)) of
        Inl _ \<Rightarrow> Inl (Usage ''argon2 hash failed'')
      | Inr h \<Rightarrow>
          Inr ((if hdr then operator_header name else []) @ operator_entry name (as_str (tk_public_id tok)) h,
               wire_format tok))"

subsection \<open>The block-list file\<close>

text \<open>
  \<open>file\<close> is the text that reading the list yields, \<open>None\<close> when reading fails;
  the result is the text written back.
\<close>

definition blocklist_revoke :: "string \<Rightarrow> string option \<Rightarrow> string option \<Rightarrow> string" where
  "blocklist_revoke serial reason file =
     (let raw = (case file of Some t \<Rightarrow> t | None \<Rightarrow> []);
          existing = (if raw \<noteq> [] \<and> \<not> ends_with [CHR 0x0A] raw then raw @ [CHR 0x0A] else raw);
          note = (case reason of Some r \<Rightarrow> ''# '' @ r @ [CHR 0x0A] | None \<Rightarrow> [])
      in existing @ note @ to_lower (trim serial) @ [CHR 0x0A])"

definition list_blocklist :: "string option \<Rightarrow> string list" where
  "list_blocklist file =
     filter (\<lambda>l. l \<noteq> [] \<and> \<not> starts_with ''#'' l)
       (map trim (text_lines (case file of Some t \<Rightarrow> t | None \<Rightarrow> [])))"

section \<open>Lemmas\<close>

lemma pad_right_length [simp]: "length (pad_right w s) = max w (length s)"
  by (simp add: pad_right_def)

lemma table_widths_length:
  "list_all (\<lambda>r. length r = length cols) rows \<Longrightarrow> length (table_widths cols rows) = length cols"
proof -
  have "list_all (\<lambda>r. length r = length ws) rows \<Longrightarrow>
      length (fold (\<lambda>row ws. map2 max ws (map length row)) rows ws) = length ws" for ws :: "nat list"
    by (induction rows arbitrary: ws) simp_all
  from this [of "map length cols"] show "list_all (\<lambda>r. length r = length cols) rows \<Longrightarrow> ?thesis"
    by (simp add: table_widths_def)
qed

lemma table_widths_fit:
  assumes "list_all (\<lambda>r. length r = length cols) rows" "i < length cols"
  shows "length (cols ! i) \<le> table_widths cols rows ! i \<and>
         (\<forall>row \<in> set rows. length (row ! i) \<le> table_widths cols rows ! i)"
proof -
  let ?step = "\<lambda>row ws. map2 max ws (map length row)"
  have "ws ! i \<le> fold ?step rows ws ! i \<and> (\<forall>row \<in> set rows. length (row ! i) \<le> fold ?step rows ws ! i)"
    if "list_all (\<lambda>r. length r = length ws) rows" "i < length ws" for ws :: "nat list"
    using that
  proof (induction rows arbitrary: ws)
    case (Cons row rows)
    let ?ws = "?step row ws"
    have len: "length ?ws = length ws" using Cons.prems(1) by simp
    have at: "?ws ! i = max (ws ! i) (length (row ! i))" using Cons.prems by simp
    have "?ws ! i \<le> fold ?step rows ?ws ! i \<and> (\<forall>row \<in> set rows. length (row ! i) \<le> fold ?step rows ?ws ! i)"
      by (rule Cons.IH) (use Cons.prems len in simp_all)
    with at show ?case by auto
  qed simp
  from this [of "map length cols"] assms show ?thesis by (simp add: table_widths_def)
qed

lemma join_length:
  "map length xs = map length ys \<Longrightarrow> length (join_str sep xs) = length (join_str sep ys)"
  by (induction sep xs arbitrary: ys rule: join_str.induct) (auto simp: map_eq_Cons_conv)

lemma padded_lengths:
  assumes "length cells = length ws" "\<forall>i < length ws. length (cells ! i) \<le> ws ! i"
  shows "map length (map2 pad_right ws cells) = ws"
  using assms by (intro nth_equalityI) (auto simp: max_def)

text \<open>Every line of a table has the width of its header.\<close>

lemma table_is_aligned:
  assumes "table_columns items \<noteq> []" "line \<in> set (print_array_table jx items)"
  shows "length line = length (hd (print_array_table jx items))"
proof -
  let ?cols = "table_columns items"
  let ?rows = "map (table_cells jx ?cols) items"
  let ?ws = "table_widths ?cols ?rows"
  have ne: "items \<noteq> []" using assms(1) by (auto simp: table_columns_def)
  have rows: "list_all (\<lambda>r. length r = length ?cols) ?rows"
    by (simp add: list_all_iff table_cells_def)
  have len: "length ?ws = length ?cols" by (rule table_widths_length [OF rows])
  have hdr: "map length (map2 pad_right ?ws ?cols) = ?ws"
    using table_widths_fit [OF rows] len by (intro padded_lengths) auto
  have row: "map length (map2 pad_right ?ws r) = ?ws" if "r \<in> set ?rows" for r
    using that table_widths_fit [OF rows] len rows by (intro padded_lengths) (auto simp: list_all_iff)
  have out: "print_array_table jx items =
      join_str ''  '' (map2 pad_right ?ws ?cols) #
      join_str ''  '' (map (\<lambda>h. replicate (length h) (CHR ''-'')) (map2 pad_right ?ws ?cols)) #
      map (table_line ?ws) ?rows"
    using ne assms(1) by (simp add: print_array_table_def Let_def)
  have rule: "map length (map (\<lambda>h. replicate (length h) (CHR ''-'')) (map2 pad_right ?ws ?cols)) = ?ws"
    using hdr by (simp add: comp_def)
  from assms(2) show ?thesis
    unfolding out
    by (auto simp: table_line_def hdr row rule simp del: map_map map2_map_map intro!: join_length)
qed

subsection \<open>Operator credentials\<close>

text \<open>
  The operator credential round trip: the token printed by
  \<open>bootstrap-operator\<close> authenticates, under the given name, against the
  operators loaded from the printed file, whenever the YAML reader reads that
  file back as the one entry it states; and no other secret under that public
  id does.
\<close>

theorem minted_operator_authenticates:
  assumes "argon2_ok cr" "b64_ok cr" "entropy_ok en"
    and "bootstrap_operator cr en name hdr = Inr (out, wire)"
    and "argon2_hash cr (en_salt en) (cr_b64 cr (en_secret en)) = Inr h"
    and "yaml (join_str [CHR 0x0A] out) =
           Some [\<lparr> or_name = name, or_public_id = cr_b64 cr (en_id en), or_token_hash = h,
                   or_scope = None, or_cert_identity = None \<rparr>]"
  shows "\<exists>rs. operators_load cr salt yaml (Some (join_str [CHR 0x0A] out)) = Inr rs \<and>
           snd (operator_authenticate_bearer cr clk rs (''Bearer '' @ wire) log) =
             Inr \<lparr> oi_name = name, oi_scope = None, oi_auth_method = None \<rparr> \<and>
           (\<forall>sec. sec \<noteq> cr_b64 cr (en_secret en) \<longrightarrow> argon2_verify cr h sec = Inr False)"
proof -
  have wire: "wire = wire_format (generate (cr_b64 cr) TokenNamespace.Operator (en_id en) (en_secret en))"
    using assms(4) by (auto simp: bootstrap_operator_def Let_def split: sum.splits)
  obtain d where decoy: "argon2_hash cr salt ''decoy-operator-secret-for-constant-time-on-miss'' = Inr d"
    by (rule argon2_hash_ok [OF assms(1)])
  have verify: "argon2_verify cr h sec = Inr (sec = cr_b64 cr (en_secret en))" for sec
    using argon2_hash_verify [OF assms(1,5)] by auto
  show ?thesis
    using parse_generated_entropy [OF assms(2,3), of TokenNamespace.Operator] assms(6) decoy verify
    by (simp add: operators_load_def operator_authenticate_bearer_def wire strip_prefix_def starts_with_def Let_def)
qed

subsection \<open>The block list\<close>

lemma ascii_lower_other:
  assumes "(of_char d :: nat) < 65"
  shows "ascii_lower c = d \<longleftrightarrow> c = d" "d = ascii_lower c \<longleftrightarrow> d = c"
proof -
  show "ascii_lower c = d \<longleftrightarrow> c = d"
  proof (cases "65 \<le> (of_char c :: nat) \<and> (of_char c :: nat) \<le> 90")
    case True
    then have "(of_char (ascii_lower c) :: nat) = of_char c + 32"
      by (simp add: ascii_lower_def Let_def)
    with True assms show ?thesis by auto
  next
    case False
    then have "ascii_lower c = c" by (auto simp: ascii_lower_def Let_def)
    then show ?thesis by simp
  qed
  then show "d = ascii_lower c \<longleftrightarrow> d = c" by auto
qed

lemma newline_lower: "CHR 0x0A \<in> set (to_lower s) \<longleftrightarrow> CHR 0x0A \<in> set s"
  by (induction s) (simp_all add: to_lower_def ascii_lower_other(2))

lemma starts_with_hash_lower: "starts_with ''#'' (to_lower s) = starts_with ''#'' s"
  by (cases s) (simp_all add: starts_with_def to_lower_def ascii_lower_other(1))

lemma ends_with_snoc: "ends_with [c] s \<longleftrightarrow> (\<exists>a. s = a @ [c])"
  by (cases s rule: rev_cases) (auto simp: ends_with_def starts_with_def)

text \<open>
  Revoking a serial on the command line takes effect in the block
  list the daemon reads back: the serial is listed, in any case, and every
  serial listed before still is.
\<close>

theorem cli_revocation_reaches_blocklist:
  assumes "trim serial \<noteq> []" "CHR 0x0A \<notin> set (trim serial)" "\<not> starts_with ''#'' (trim serial)"
    and "to_lower serial' = to_lower (trim serial)"
  shows "blocklist_contains (blocklist_open (Some (blocklist_revoke serial reason file, m))) serial' \<and>
         (\<forall>raw s. file = Some raw \<and> blocklist_contains (blocklist_open (Some (raw, m'))) s \<longrightarrow>
            blocklist_contains (blocklist_open (Some (blocklist_revoke serial reason file, m))) s)"
proof -
  let ?nl = "CHR 0x0A"
  let ?raw = "case file of Some t \<Rightarrow> t | None \<Rightarrow> []"
  let ?note = "case reason of Some r \<Rightarrow> ''# '' @ r @ [?nl] | None \<Rightarrow> []"
  let ?line = "to_lower (trim serial)"
  let ?new = "blocklist_revoke serial reason file"
  have line: "?nl \<notin> set ?line" using assms(2) by (simp add: newline_lower)
  have split_line: "split_on ?nl (?line @ [?nl]) = [?line, []]"
    using split_on_seg [OF line, of "[]"] by simp
  have tail: "?line \<in> set (split_on ?nl (?note @ ?line @ [?nl]))"
  proof (cases reason)
    case (Some r)
    have "split_on ?nl ((''# '' @ r) @ ?nl # (?line @ [?nl])) = split_on ?nl (''# '' @ r) @ [?line, []]"
      unfolding split_on_append [of ?nl "''# '' @ r"] split_line ..
    then show ?thesis by (simp add: Some del: split_on.simps)
  qed (use split_line in simp)
  have new: "set (split_on ?nl ?raw) - {[]} \<subseteq> set (split_on ?nl ?new) \<and> ?line \<in> set (split_on ?nl ?new)"
  proof (cases "ends_with [?nl] ?raw \<or> ?raw = []")
    case True
    then consider "?raw = []" | a where "?raw = a @ [?nl]"
      by (auto simp: ends_with_snoc)
    then show ?thesis
    proof cases
      case (2 a)
      have "?new = a @ ?nl # (?note @ ?line @ [?nl])"
        using True 2 by (simp add: blocklist_revoke_def Let_def)
      then show ?thesis using tail 2 by (simp add: split_on_append) blast
    qed (use tail in \<open>simp add: blocklist_revoke_def Let_def\<close>)
  next
    case False
    then have "?new = ?raw @ ?nl # (?note @ ?line @ [?nl])"
      by (simp add: blocklist_revoke_def Let_def)
    then show ?thesis using tail by (simp add: split_on_append) blast
  qed
  have contains: "blocklist_contains (blocklist_open (Some (t, k))) s \<longleftrightarrow>
      (\<exists>l \<in> set (split_on ?nl t). trim l \<noteq> [] \<and> \<not> starts_with ''#'' (trim l) \<and> to_lower (trim l) = to_lower s)" for t k s
    unfolding blocklist_contains_def blocklist_open_def blocklist_read_def
    by (force simp: image_iff)
  have "trim ?line = ?line" by (simp add: trim_to_lower)
  moreover have "\<not> starts_with ''#'' ?line" using assms(3) by (simp add: starts_with_hash_lower)
  ultimately have "blocklist_contains (blocklist_open (Some (?new, m))) serial'"
    unfolding contains using new assms(1,4) by (intro bexI [of _ ?line]) (simp_all, simp add: to_lower_def)
  moreover have "blocklist_contains (blocklist_open (Some (?new, m))) s"
    if "file = Some raw" "blocklist_contains (blocklist_open (Some (raw, m'))) s" for raw s
    using that new unfolding contains by (fastforce simp: trim_def trim_start_def trim_end_def)
  ultimately show ?thesis by blast
qed

text \<open>
  A list that cannot be read, for instance because it is not valid UTF-8, is
  taken for an empty one and replaced: the revocations it held are lost.
\<close>

lemma unreadable_blocklist_is_replaced:
  "blocklist_revoke ''ab'' None None = ''ab'' @ [CHR 0x0A]"
  by (simp add: blocklist_revoke_def trim_def trim_start_def trim_end_def is_ws_def to_lower_def ascii_lower_def)

theorem cli_revocation_reaches_blocklist_witness:
  "blocklist_contains (blocklist_open (Some (blocklist_revoke ''0AFF'' (Some ''lost'') (Some ''00bb''), 7))) ''0aff'' \<and>
   blocklist_contains (blocklist_open (Some (blocklist_revoke ''0AFF'' (Some ''lost'') (Some ''00bb''), 7))) ''00BB''"
proof -
  have serial: "trim ''0AFF'' \<noteq> []" "CHR 0x0A \<notin> set (trim ''0AFF'')" "\<not> starts_with ''#'' (trim ''0AFF'')"
      "to_lower ''0aff'' = to_lower (trim ''0AFF'')"
    by code_simp+
  have old: "blocklist_contains (blocklist_open (Some (''00bb'', 3))) ''00BB''" by code_simp
  from cli_revocation_reaches_blocklist [OF serial, of "Some ''lost''" "Some ''00bb''" 7 3] old
  show ?thesis by blast
qed

definition sample_operator_file :: "string list" where
  "sample_operator_file =
     operator_entry ''alice'' (b64url_encode (en_id sample_entropy)) (''$argon2id$'' @ b64url_encode (en_secret sample_entropy))"

definition sample_yaml :: "string \<Rightarrow> OperatorRecord list option" where
  "sample_yaml t =
     (if t = join_str [CHR 0x0A] sample_operator_file
      then Some [\<lparr> or_name = ''alice'', or_public_id = b64url_encode (en_id sample_entropy),
                   or_token_hash = ''$argon2id$'' @ b64url_encode (en_secret sample_entropy),
                   or_scope = None, or_cert_identity = None \<rparr>]
      else None)"

theorem minted_operator_authenticates_witness:
  "\<exists>out wire rs. bootstrap_operator sample_crypto sample_entropy ''alice'' False = Inr (out, wire) \<and>
     operators_load sample_crypto [] sample_yaml (Some (join_str [CHR 0x0A] out)) = Inr rs \<and>
     snd (operator_authenticate_bearer sample_crypto 0 rs (''Bearer '' @ wire) None) =
       Inr \<lparr> oi_name = ''alice'', oi_scope = None, oi_auth_method = None \<rparr>"
proof -
  let ?wire = "wire_format (generate b64url_encode TokenNamespace.Operator (en_id sample_entropy) (en_secret sample_entropy))"
  let ?h = "''$argon2id$'' @ b64url_encode (en_secret sample_entropy)"
  have b64: "cr_b64 sample_crypto = b64url_encode" by (simp add: sample_crypto_def)
  have hash: "argon2_hash sample_crypto (en_salt sample_entropy) (b64url_encode (en_secret sample_entropy)) = Inr ?h"
    by (simp add: argon2_hash_def sample_crypto_def)
  have run: "bootstrap_operator sample_crypto sample_entropy ''alice'' False = Inr (sample_operator_file, ?wire)"
    by (simp only: bootstrap_operator_def Let_def b64 generate_def StructuredToken.simps Secret.sel PublicId.sel hash
          sum.case sample_operator_file_def if_False append_Nil)
  have yaml: "sample_yaml (join_str [CHR 0x0A] sample_operator_file) =
      Some [\<lparr> or_name = ''alice'', or_public_id = cr_b64 sample_crypto (en_id sample_entropy), or_token_hash = ?h,
              or_scope = None, or_cert_identity = None \<rparr>]"
    by (simp add: sample_yaml_def b64)
  have hash': "argon2_hash sample_crypto (en_salt sample_entropy) (cr_b64 sample_crypto (en_secret sample_entropy)) = Inr ?h"
    using hash by (simp only: b64)
  from minted_operator_authenticates [OF sample_crypto_argon2 sample_crypto_b64 sample_entropy_ok run hash',
      of sample_yaml "[]" 0 None, OF yaml] run
  show ?thesis by blast
qed

end
