(* ===== verification/Admin_Props.thy ===== *)
theory Admin_Props
  imports Admin_Service
begin

text \<open>
  What the administration service guarantees over any sequence of its
  operations: the tables stay sound, a revocation is final, a single-use
  bootstrap token registers one agent, a failed registration grants nothing,
  an issued token authenticates, and every change of an account is audited.
\<close>

abbreviation auth_state :: "AdminService \<Rightarrow> AuthState" where
  "auth_state s \<equiv> \<lparr> as_agents = sv_agents s, as_audit = sv_audit s \<rparr>"

section \<open>An example deployment\<close>

definition sample_service :: AdminService where
  "sample_service =
     \<lparr> sv_agents = empty_agents, sv_bootstrap = empty_bootstrap,
       sv_config = \<lparr> ac_auth_mode = Bearer, ac_inbound_auth = None, ac_egress_proxy = None, ac_kamiwaza = None,
                     ac_upstream_ca_bundle = None, ac_tools = [] \<rparr>,
       sv_audit = Some [], sv_resolved_creds = None \<rparr>"

definition sample_ae :: AdminEnv where
  "sample_ae =
     \<lparr> ae_crypto = sample_crypto, ae_clk = 1000, ae_lib = (\<lambda>_. []), ae_to_json = (\<lambda>_. []),
       ae_from_json = (\<lambda>_. None) \<rparr>"

definition sample_operator :: OperatorIdentity where
  "sample_operator = \<lparr> oi_name = ''alice'', oi_scope = None, oi_auth_method = None \<rparr>"

definition sample_mint :: MintBootstrapInput where
  "sample_mint = \<lparr> mb_tool_allowlist = Some [''gh''], mb_expires_at = None, mb_single_use = True \<rparr>"

definition sample_register :: "string \<Rightarrow> RegisterInput" where
  "sample_register token =
     \<lparr> ri_bootstrap_token = token, ri_name = ''bot'', ri_description = None, ri_metadata = None \<rparr>"

definition sample_create :: CreateAgentInput where
  "sample_create =
     \<lparr> ci_name = ''bot'', ci_description = None, ci_allowlist = None, ci_denylist = None,
       ci_metadata = None, ci_expires_at = None \<rparr>"

lemma sample_service_sel [simp]:
  "sv_agents sample_service = empty_agents" "sv_bootstrap sample_service = empty_bootstrap"
  "sv_audit sample_service = Some []"
  by (simp_all add: sample_service_def)

lemma sample_ae_sel [simp]: "ae_crypto sample_ae = sample_crypto" "ae_now sample_ae = 1"
  by (simp_all add: sample_ae_def ae_now_def secs_of_def)

lemma bt_inv_empty [simp]: "bt_inv empty_bootstrap"
  by (simp add: bt_inv_def empty_bootstrap_def)

lemma sample_service_inv [simp]: "service_inv sample_service"
  by (simp add: service_inv_def)

section \<open>The tables\<close>

text \<open>
  Whatever the operators and agents do, starting from empty
  tables the agent rows have distinct public ids, names and row ids, and the
  bootstrap-token rows distinct public ids and row ids.
\<close>

theorem administration_keeps_tables_sound:
  assumes "service_step\<^sup>*\<^sup>* s s'" "sv_agents s = empty_agents" "sv_bootstrap s = empty_bootstrap"
  shows "distinct (map ag_public_id (at_rows (sv_agents s'))) \<and> distinct (map ag_name (at_rows (sv_agents s'))) \<and>
         distinct (map ag_id (at_rows (sv_agents s'))) \<and>
         distinct (map bt_public_id (bs_rows (sv_bootstrap s'))) \<and> distinct (map bt_id (bs_rows (sv_bootstrap s')))"
proof -
  have "service_inv s" using assms(2,3) by (simp add: service_inv_def)
  with assms(1) have "service_inv s'" by (rule service.reach_inv)
  then show ?thesis by (simp add: service_inv_def agents_inv_def bt_inv_def)
qed

theorem administration_keeps_tables_sound_witness:
  "distinct (map ag_name (at_rows (sv_agents
     (fst (create_agent_as_operator sample_ae sample_entropy sample_operator sample_create sample_service)))))"
  using administration_keeps_tables_sound
    [OF r_into_rtranclp [of service_step, OF service_step.create
      [of sample_service sample_ae sample_entropy sample_operator sample_create]]]
  by simp

section \<open>Revocation\<close>

lemma revoke_agent_revokes:
  assumes "revoke_agent ae opr pid s = (s1, Inr ())"
  shows "revoked pid (sv_agents s1)"
proof -
  obtain t r where t: "agent_revoke (ae_now ae) pid (sv_agents s) = (t, r)" by fastforce
  with assms have "r = Inr ()" "sv_agents s1 = t"
    by (auto simp: revoke_agent_def lift_repo_def split: sum.splits)
  with t show ?thesis using revoke_revokes by blast
qed

text \<open>
  Once an operator has revoked an agent, no later sequence of
  operations brings it back: its public id is not found among the active
  agents, its status and rotation requests fail, and no bearer header
  authenticates as it.
\<close>

theorem revocation_is_final:
  assumes "service_inv s" "revoke_agent ae opr pid s = (s1, Inr ())" "service_step\<^sup>*\<^sup>* s1 s2"
  shows "get_active_by_public_id pid (sv_agents s2) = None \<and>
         (\<forall>agent ae' en sec. ai_public_id agent = pid \<longrightarrow>
            get_agent_status agent s2 = Inl AdminError.AgentNotFound \<and>
            snd (rotate_agent ae' en agent sec s2) = Inl InvalidBootstrap) \<and>
         (\<forall>cr clk header a ident. authenticate_bearer cr clk header (auth_state s2) = (a, Inr ident) \<longrightarrow>
            ai_public_id ident \<noteq> pid)"
proof -
  have "service_step s s1" using service_step.revoke [of s ae opr pid] assms(2) by simp
  then have i1: "service_inv s1" using assms(1) by (rule service_inv_step)
  have r2: "revoked pid (sv_agents s2)"
    using service_revocation.reach_fact [OF assms(3) i1 revoke_agent_revokes [OF assms(2)]] .
  have i2: "agents_inv (sv_agents s2)"
    using service.reach_inv [OF assms(3) i1] by (simp add: service_inv_def)
  have none: "get_active_by_public_id pid (sv_agents s2) = None" using i2 r2 by (rule get_active_revoked)
  moreover have "ai_public_id ident \<noteq> pid"
    if "authenticate_bearer cr clk header (auth_state s2) = (a, Inr ident)" for cr clk header a ident
    using bearer.no_revoked_identity [of "auth_state s2" pid] i2 r2 that by simp
  ultimately show ?thesis
    by (auto simp: get_agent_status_def rotate_agent_def agent_rotate_def rotate_read_def lift_repo_def)
qed

definition sample_agents :: AgentTable where
  "sample_agents = fst (agent_create sample_crypto sample_entropy 1 ''bot'' None None None None None empty_agents)"

lemma sample_agents_rows:
  "\<exists>r. at_rows sample_agents = [r] \<and> ag_public_id r = cr_b64 sample_crypto (en_id sample_entropy) \<and>
       ag_name r = ''bot'' \<and> ag_revoked_at r = None"
  by (simp add: sample_agents_def agent_create_def Let_def generate_def empty_agents_def
        argon2_hash_def sample_crypto_def [THEN arg_cong [of _ _ cr_argon2], simplified])

theorem revocation_is_final_witness:
  "let pid = cr_b64 sample_crypto (en_id sample_entropy);
       s = sample_service\<lparr> sv_agents := sample_agents \<rparr>
   in get_active_by_public_id pid (sv_agents s) \<noteq> None \<and>
      get_active_by_public_id pid (sv_agents (fst (revoke_agent sample_ae sample_operator pid s))) = None"
proof -
  let ?pid = "cr_b64 sample_crypto (en_id sample_entropy)"
  let ?s = "sample_service\<lparr> sv_agents := sample_agents \<rparr>"
  obtain r where r: "at_rows sample_agents = [r]" "ag_public_id r = ?pid" "ag_revoked_at r = None"
    using sample_agents_rows by blast
  have inv: "service_inv ?s"
    by (simp add: service_inv_def sample_agents_def agents_inv_create)
  obtain s1 where s1: "revoke_agent sample_ae sample_operator ?pid ?s = (s1, Inr ())"
    using r by (auto simp: revoke_agent_def agent_revoke_def agent_update_def rows_affected_def lift_repo_def)
  from revocation_is_final [OF inv s1 rtranclp.rtrancl_refl] s1 r show ?thesis
    by (simp add: get_active_by_public_id_def)
qed

section \<open>Registration\<close>

lemma register_agent_inner_InrD:
  assumes "register_agent_inner ae en inp s = (s1, Inr out)"
  obtains pid sec scope t1 asec agent b1 where
    "parse (cr_unb64 (ae_crypto ae)) (ri_bootstrap_token inp) = Inr (TokenNamespace.Bootstrap, pid, sec)"
    "preview_scope (ae_now ae) (as_str pid) (sv_bootstrap s) = Inr scope"
    "agent_create (ae_crypto ae) en (ae_now ae) (ri_name inp) (ri_description inp) (sc_tool_allowlist scope)
       None (ri_metadata inp) None (sv_agents s) = (t1, Inr (ro_public_id out, asec))"
    "get_active_by_public_id (ro_public_id out) t1 = Some agent"
    "consume (ae_crypto ae) (ae_now ae) (as_str pid) (expose sec) (ag_id agent) (sv_bootstrap s) = (b1, Inr scope)"
    "s1 = s\<lparr> sv_agents := t1, sv_bootstrap := b1 \<rparr>"
    "ro_token out = ''lk_'' @ ag_public_id agent @ ''.'' @ asec" "ro_allowlist out = sc_tool_allowlist scope"
proof -
  have same: "sc = scope"
    if "preview_scope now p b = Inr scope" "consume cr now p sec aid b = (b1, Inr sc)"
    for now p b scope cr sec aid b1 sc
    using that
    by (auto simp: preview_scope_def consume_def consume_read_def consume_mark_def Let_def
             split: option.splits if_splits sum.splits bool.splits)
  from assms obtain pid sec scope t1 asec agent b1 sc where
    r: "parse (cr_unb64 (ae_crypto ae)) (ri_bootstrap_token inp) = Inr (TokenNamespace.Bootstrap, pid, sec)"
    "preview_scope (ae_now ae) (as_str pid) (sv_bootstrap s) = Inr scope"
    "agent_create (ae_crypto ae) en (ae_now ae) (ri_name inp) (ri_description inp) (sc_tool_allowlist scope)
       None (ri_metadata inp) None (sv_agents s) = (t1, Inr (ro_public_id out, asec))"
    "get_active_by_public_id (ro_public_id out) t1 = Some agent"
    "consume (ae_crypto ae) (ae_now ae) (as_str pid) (expose sec) (ag_id agent) (sv_bootstrap s) = (b1, Inr sc)"
    "s1 = s\<lparr> sv_agents := t1, sv_bootstrap := b1 \<rparr>"
    "ro_token out = ''lk_'' @ ag_public_id agent @ ''.'' @ asec" "ro_allowlist out = sc_tool_allowlist scope"
    by (auto simp: register_agent_inner_def Let_def split: sum.splits prod.splits option.splits if_splits)
  from that [OF r(1-4) _ r(6-8)] r(5) same [OF r(2,5)] show thesis by simp
qed

lemma register_agent_InrD:
  assumes "register_agent ae en inp s = (s1, Inr out)"
  obtains s0 where "register_agent_inner ae en inp s = (s0, Inr out)"
    "sv_agents s1 = sv_agents s0" "sv_bootstrap s1 = sv_bootstrap s0"
  using assms that by (auto simp: register_agent_def Let_def split: prod.splits sum.splits)

lemma consume_single_uses:
  assumes "consume cr now pid sec aid b = (b1, Inr scope)" "sc_single_use scope"
  shows "bt_used pid b1"
proof -
  from assms(1) obtain sc where "consume_mark now pid aid sc b = (b1, Inr scope)"
    by (auto simp: consume_def split: sum.splits)
  moreover from this have "sc = scope"
    by (auto simp: consume_mark_def Let_def split: if_splits)
  ultimately show ?thesis using assms(2) consume_mark_uses by blast
qed

lemma bt_used_diagnose:
  assumes "bt_used pid b"
  shows "diagnose now pid b \<in> {BootstrapStatus.Used, BootstrapStatus.Revoked}"
proof (cases "bt_find pid b")
  case None
  with assms show ?thesis by (auto simp: bt_used_def bt_find_def find_None_iff)
next
  case (Some r)
  with assms bt_find_Some [OF this] show ?thesis by (auto simp: diagnose_def bt_used_def)
qed

lemma register_used_token:
  assumes "bt_used (as_str pid) (sv_bootstrap s)" "sv_audit s = Some l"
    and "parse (cr_unb64 (ae_crypto ae)) (ri_bootstrap_token inp) = Inr (TokenNamespace.Bootstrap, pid, sec)"
  shows "\<exists>ev s'. register_agent ae en inp s = (s', Inl InvalidBootstrap) \<and>
           sv_agents s' = sv_agents s \<and> sv_bootstrap s' = sv_bootstrap s \<and> sv_audit s' = Some (l @ [ev]) \<and>
           ev_class ev = Security \<and> ev_event ev = ''bootstrap_reuse_attempt''"
proof -
  have inner: "register_agent_inner ae en inp s = (s, Inl InvalidBootstrap)"
    using bt_used_read_fails(2) [OF assms(1)] assms(3) by (simp add: register_agent_inner_def Let_def)
  have "bootstrap_public_id ae (ri_bootstrap_token inp) = Some (as_str pid)"
    using assms(3) by (simp add: bootstrap_public_id_def)
  with inner bt_used_diagnose [OF assms(1)] assms(2) show ?thesis
    by (simp add: register_agent_def Let_def admin_audit_def admin_event_def default_event_def)
qed

text \<open>
  Property C10: a single-use bootstrap token registers one agent: after a
  successful registration, and whatever happens in between, presenting the
  token again is refused, changes no table and is recorded as a security
  event.
\<close>

theorem bootstrap_token_single_use:
  assumes "service_inv s" "register_agent ae en inp s = (s1, Inr out)"
    and "bootstrap_public_id ae (ri_bootstrap_token inp) = Some pid"
    and "bt_find pid (sv_bootstrap s) = Some row" "sc_single_use (bt_scope row)"
    and "service_step\<^sup>*\<^sup>* s1 s2" "sv_audit s2 = Some l"
    and "cr_unb64 (ae_crypto ae') = cr_unb64 (ae_crypto ae)"
    and "ri_bootstrap_token inp' = ri_bootstrap_token inp"
  shows "\<exists>ev s3. register_agent ae' en' inp' s2 = (s3, Inl InvalidBootstrap) \<and>
           sv_agents s3 = sv_agents s2 \<and> sv_bootstrap s3 = sv_bootstrap s2 \<and> sv_audit s3 = Some (l @ [ev]) \<and>
           ev_class ev = Security \<and> ev_event ev = ''bootstrap_reuse_attempt''"
proof -
  obtain s0 where s0: "register_agent_inner ae en inp s = (s0, Inr out)" "sv_bootstrap s1 = sv_bootstrap s0"
    using assms(2) by (rule register_agent_InrD)
  obtain p sec scope t1 b1 and agent :: AgentRecord where
    parse: "parse (cr_unb64 (ae_crypto ae)) (ri_bootstrap_token inp) = Inr (TokenNamespace.Bootstrap, p, sec)"
    and prev: "preview_scope (ae_now ae) (as_str p) (sv_bootstrap s) = Inr scope"
    and cons: "consume (ae_crypto ae) (ae_now ae) (as_str p) (expose sec) (ag_id agent) (sv_bootstrap s) = (b1, Inr scope)"
    and s0': "s0 = s\<lparr> sv_agents := t1, sv_bootstrap := b1 \<rparr>"
    using s0(1) by (rule register_agent_inner_InrD)
  have pid: "pid = as_str p" using parse assms(3) by (simp add: bootstrap_public_id_def)
  have "scope = bt_scope row"
    using prev assms(4) pid by (simp add: preview_scope_def split: if_splits)
  with consume_single_uses [OF cons] assms(5) s0(2) s0' pid have "bt_used pid (sv_bootstrap s1)" by simp
  moreover have "service_inv s1"
    using service_step.register [of s ae en inp] assms(1,2) service_inv_step by simp
  ultimately have "bt_used pid (sv_bootstrap s2)" using assms(6) service_use.reach_fact by blast
  then show ?thesis
    using register_used_token [of p s2 l ae' inp' sec en'] assms(7-9) parse pid by simp
qed

subsection \<open>Failed registrations\<close>

lemma consume_InlD: "consume cr now pid sec aid b = (b1, Inl e) \<Longrightarrow> b1 = b"
  by (auto simp: consume_def consume_mark_def Let_def rows_affected_0_iff update_where_none
           split: sum.splits if_splits)

lemma agent_create_InlD: "agent_create cr en now n d al dl md ex t = (t1, Inl e) \<Longrightarrow> t1 = t"
  by (auto simp: agent_create_def Let_def split: sum.splits if_splits)

lemma create_revoke_rows:
  assumes "agent_create cr en now n d al dl md ex t = (t1, Inr (pid, sec))"
  shows "\<exists>r. at_rows (fst (agent_revoke now pid t1)) = at_rows t @ [r] \<and> ag_revoked_at r \<noteq> None \<and> ag_name r = n"
  using assms
proof (rule agent_create_InrD)
  fix h r
  assume r: "r = \<lparr> ag_id = at_last_id t + 1, ag_public_id = pid, ag_name = n, ag_description = d,
        ag_secret_hash = h, ag_tool_allowlist = al, ag_tool_denylist = dl, ag_metadata = md,
        ag_cert_identity = None, ag_registered_at = now, ag_last_used_at = None, ag_expires_at = ex,
        ag_revoked_at = None \<rparr>"
    and t1: "t1 = \<lparr> at_rows = at_rows t @ [r], at_last_id = at_last_id t + 1 \<rparr>"
    and fresh: "\<forall>q \<in> set (at_rows t). ag_public_id q \<noteq> pid \<and> ag_name q \<noteq> n"
  have "update_where (\<lambda>q. ag_public_id q = pid) (\<lambda>q. q\<lparr> ag_revoked_at := Some now \<rparr>) (at_rows t) = at_rows t"
    using fresh by (intro update_where_none) blast
  then show ?thesis
    by (intro exI [of _ "r\<lparr> ag_revoked_at := Some now \<rparr>"])
       (simp add: t1 agent_revoke_def agent_update_def update_where_def r)
qed

lemma register_inner_Inl_rows:
  assumes "register_agent_inner ae en inp s = (s1, Inl e)"
  shows "sv_bootstrap s1 = sv_bootstrap s \<and> sv_audit s1 = sv_audit s \<and>
         (\<exists>rs. at_rows (sv_agents s1) = at_rows (sv_agents s) @ rs \<and> list_all (\<lambda>r. ag_revoked_at r \<noteq> None) rs)"
proof -
  have created: "get_active_by_public_id pid t1 \<noteq> None \<and>
      (\<exists>r. at_rows (fst (agent_revoke now pid t1)) = at_rows t @ [r] \<and> ag_revoked_at r \<noteq> None)"
    if "agent_create cr en now n d al dl md ex t = (t1, Inr (pid, sec))"
    for cr now n d al dl md ex t t1 pid sec
    using agent_create_lookup [OF that] create_revoke_rows [OF that] by auto
  from assms show ?thesis
    by (auto simp: register_agent_inner_def Let_def list_all_iff split: sum.splits prod.splits option.splits if_splits
             dest!: consume_InlD agent_create_InlD created)
qed

lemma active_account_append:
  assumes "at_rows (as_agents s1) = at_rows (as_agents s) @ rs" "list_all (\<lambda>r. ag_revoked_at r \<noteq> None) rs"
  shows "active_account s1 = active_account s"
  using assms by (auto simp: active_account_def fun_eq_iff list_all_iff)

text \<open>
  A registration that fails, for whatever reason, grants nothing:
  the active accounts are those from before, the bootstrap tokens are
  untouched, and exactly one denied row is appended to the audit log.
\<close>

theorem failed_registration_grants_nothing:
  assumes "register_agent ae en inp s = (s1, Inl e)" "sv_audit s = Some l"
  shows "sv_bootstrap s1 = sv_bootstrap s \<and> active_account (auth_state s1) = active_account (auth_state s) \<and>
         (\<exists>ev. sv_audit s1 = Some (l @ [ev]) \<and> ev_decision ev = Denied)"
proof -
  obtain s0 ev where s0: "register_agent_inner ae en inp s = (s0, Inl e)" "s1 = admin_audit ev s0"
      "ev_decision ev = Denied"
    using assms(1)
    by (auto simp: register_agent_def Let_def admin_event_def split: prod.splits sum.splits)
  from register_inner_Inl_rows [OF s0(1)] obtain rs where
    r: "sv_bootstrap s0 = sv_bootstrap s" "sv_audit s0 = Some l"
      "at_rows (sv_agents s0) = at_rows (sv_agents s) @ rs" "list_all (\<lambda>r. ag_revoked_at r \<noteq> None) rs"
    using assms(2) by auto
  have "active_account (auth_state s1) = active_account (auth_state s)"
    using r(3,4) s0(2) by (intro active_account_append [of _ _ rs]) simp_all
  with r s0 admin_audit_row [OF r(2), of ev] show ?thesis by auto
qed

theorem failed_registration_grants_nothing_witness:
  "snd (register_agent sample_ae sample_entropy (sample_register ''nonsense'') sample_service) = Inl InvalidBootstrap \<and>
   sv_bootstrap (fst (register_agent sample_ae sample_entropy (sample_register ''nonsense'') sample_service)) =
     empty_bootstrap"
proof -
  have "split_once (CHR ''_'') ''nonsense'' = None" by code_simp
  then have "register_agent_inner sample_ae sample_entropy (sample_register ''nonsense'') sample_service
      = (sample_service, Inl InvalidBootstrap)"
    by (simp add: register_agent_inner_def Let_def sample_register_def parse_def)
  then have r: "snd (register_agent sample_ae sample_entropy (sample_register ''nonsense'') sample_service)
      = Inl InvalidBootstrap"
    by (simp add: register_agent_def Let_def)
  from failed_registration_grants_nothing [OF _ sample_service_sel(3)] r show ?thesis
    by (metis prod.collapse sample_service_sel(2))
qed

text \<open>
  The agent row is inserted before the token's secret is checked: a wrong
  secret for a live token leaves a revoked row, and the name it took is refused
  to every later creation.
\<close>

lemma wrong_secret_burns_name:
  assumes "parse (cr_unb64 (ae_crypto ae)) (ri_bootstrap_token inp) = Inr (TokenNamespace.Bootstrap, pid, sec)"
    and "preview_scope (ae_now ae) (as_str pid) (sv_bootstrap s) = Inr scope"
    and "agent_create (ae_crypto ae) en (ae_now ae) (ri_name inp) (ri_description inp) (sc_tool_allowlist scope)
           None (ri_metadata inp) None (sv_agents s) = (t1, Inr (apid, asec))"
    and "consume_read (ae_crypto ae) (ae_now ae) (as_str pid) (expose sec) (sv_bootstrap s) = Inl RepoError.InvalidCredential"
    and "argon2_ok (ae_crypto ae)"
  shows "snd (register_agent_inner ae en inp s) = Inl InvalidBootstrap"
    "snd (agent_create (ae_crypto ae) en' now' (ri_name inp) d al dl md ex
       (sv_agents (fst (register_agent_inner ae en inp s)))) = Inl (RepoError.AgentNameConflict (ri_name inp))"
proof -
  obtain agent where g: "get_active_by_public_id apid t1 = Some agent"
    using agent_create_lookup [OF assms(3)] by auto
  have run: "register_agent_inner ae en inp s =
      (s\<lparr> sv_agents := fst (agent_revoke (ae_now ae) apid t1) \<rparr>, Inl InvalidBootstrap)"
    using assms(1-4) g by (simp add: register_agent_inner_def Let_def consume_def)
  then show "snd (register_agent_inner ae en inp s) = Inl InvalidBootstrap" by simp
  obtain r where rows: "at_rows (fst (agent_revoke (ae_now ae) apid t1)) = at_rows (sv_agents s) @ [r]"
      "ag_name r = ri_name inp"
    using create_revoke_rows [OF assms(3)] by blast
  obtain h where "argon2_hash (ae_crypto ae) (en_salt en') (cr_b64 (ae_crypto ae) (en_secret en')) = Inr h"
    using argon2_hash_ok [OF assms(5)] by blast
  then show "snd (agent_create (ae_crypto ae) en' now' (ri_name inp) d al dl md ex
       (sv_agents (fst (register_agent_inner ae en inp s)))) = Inl (RepoError.AgentNameConflict (ri_name inp))"
    using run rows by (simp add: agent_create_def Let_def generate_def)
qed

subsection \<open>Issued tokens\<close>

lemma token_lk: "''lk_'' @ pid @ ''.'' @ sec =
    wire_format \<lparr> tk_namespace = TokenNamespace.Agent, tk_public_id = PublicId pid, tk_secret = Secret sec \<rparr>"
  by (simp add: wire_format_def)

lemma register_after_mint:
  assumes ok: "argon2_ok (ae_crypto ae)" "b64_ok (ae_crypto ae)" "entropy_ok en" "entropy_ok en'"
    and mint: "mint_bootstrap_token ae en opr binp s = (s1, Inr m)" "mb_expires_at binp = None"
    and fresh: "list_all (\<lambda>r. ag_public_id r \<noteq> cr_b64 (ae_crypto ae) (en_id en') \<and> ag_name r \<noteq> ri_name inp)
                  (at_rows (sv_agents s))"
    and tok: "ri_bootstrap_token inp = mo_token m"
  shows "\<exists>s2 out r. register_agent ae en' inp s1 = (s2, Inr out) \<and>
           get_active_by_public_id (ro_public_id out) (sv_agents s2) = Some r \<and>
           ro_public_id out = cr_b64 (ae_crypto ae) (en_id en') \<and>
           ro_token out = ''lk_'' @ ro_public_id out @ ''.'' @ cr_b64 (ae_crypto ae) (en_secret en') \<and>
           argon2_hash (ae_crypto ae) (en_salt en') (cr_b64 (ae_crypto ae) (en_secret en')) = Inr (ag_secret_hash r) \<and>
           ag_name r = ri_name inp \<and> ag_tool_allowlist r = mb_tool_allowlist binp \<and> ag_expires_at r = None \<and>
           (\<exists>row. bt_find (mo_public_id m) (sv_bootstrap s1) = Some row \<and> bt_scope row = mo_scope m) \<and>
           bootstrap_public_id ae (mo_token m) = Some (mo_public_id m)"
proof -
  let ?cr = "ae_crypto ae" and ?now = "ae_now ae"
  let ?scope = "\<lparr> sc_tool_allowlist = mb_tool_allowlist binp, sc_expires_at = mb_expires_at binp,
                    sc_single_use = mb_single_use binp \<rparr>"
  obtain b pid sec where b: "mint ?cr en ?now ?scope (oi_name opr) (sv_bootstrap s) = (b, Inr (pid, sec))"
      "sv_bootstrap s1 = b" "sv_agents s1 = sv_agents s" "mo_token m = ''lkbt_'' @ pid @ ''.'' @ sec"
      "mo_public_id m = pid" "mo_scope m = ?scope"
    using mint(1) by (auto simp: mint_bootstrap_token_def Let_def split: prod.splits sum.splits)
  obtain row where row: "bt_find pid b = Some row" "bt_scope row = ?scope" "bt_used_at row = None"
      "bt_revoked_at row = None" "bt_expires_at row = None" "argon2_hash ?cr (en_salt en) sec = Inr (bt_secret_hash row)"
    using mint_find [OF b(1)] mint(2) by auto
  have ps: "pid = cr_b64 ?cr (en_id en)" "sec = cr_b64 ?cr (en_secret en)" using mint_InrD [OF b(1)] by auto
  have parse: "parse (cr_unb64 ?cr) (ri_bootstrap_token inp) = Inr (TokenNamespace.Bootstrap, PublicId pid, Secret sec)"
    using parse_generated_entropy [OF ok(2,3), of TokenNamespace.Bootstrap] ps tok b(4)
    by (simp add: generate_def wire_format_def)
  have prev: "preview_scope ?now pid b = Inr ?scope"
    using row by (simp add: preview_scope_def is_past_def)
  have rd: "consume_read ?cr ?now pid sec b = Inr ?scope"
    using row argon2_hash_verify [OF ok(1) row(6)] by (simp add: consume_read_def is_past_def)
  have "bt_find pid b \<noteq> None" using row(1) by simp
  then have "rows_affected (\<lambda>r. bt_public_id r = pid \<and> bt_used_at r = None) (bs_rows b) \<noteq> 0"
    using bt_find_Some [OF row(1)] row(3) by (auto simp: rows_affected_0_iff)
  then have cons: "\<exists>b1. consume ?cr ?now pid sec aid b = (b1, Inr ?scope)" for aid
    using rd by (simp add: consume_def consume_mark_def Let_def)
  obtain h where h: "argon2_hash ?cr (en_salt en') (cr_b64 ?cr (en_secret en')) = Inr h"
    using argon2_hash_ok [OF ok(1)] by blast
  obtain t1 where t1: "agent_create ?cr en' ?now (ri_name inp) (ri_description inp) (mb_tool_allowlist binp)
       None (ri_metadata inp) None (sv_agents s1) = (t1, Inr (cr_b64 ?cr (en_id en'), cr_b64 ?cr (en_secret en')))"
    using h fresh b(3) by (auto simp: agent_create_def Let_def generate_def list_ex_iff list_all_iff)
  obtain r where r: "get_active_by_public_id (cr_b64 ?cr (en_id en')) t1 = Some r"
      "argon2_hash ?cr (en_salt en') (cr_b64 ?cr (en_secret en')) = Inr (ag_secret_hash r)"
      "ag_public_id r = cr_b64 ?cr (en_id en')" "ag_name r = ri_name inp"
      "ag_tool_allowlist r = mb_tool_allowlist binp" "ag_expires_at r = None"
    using agent_create_lookup [OF t1] by auto
  obtain b1 where b1: "consume ?cr ?now pid sec (ag_id r) b = (b1, Inr ?scope)" using cons by blast
  have "register_agent_inner ae en' inp s1 = (s1\<lparr> sv_agents := t1, sv_bootstrap := b1 \<rparr>,
      Inr \<lparr> ro_public_id = cr_b64 ?cr (en_id en'),
            ro_token = ''lk_'' @ cr_b64 ?cr (en_id en') @ ''.'' @ cr_b64 ?cr (en_secret en'),
            ro_allowlist = mb_tool_allowlist binp \<rparr>)"
    using parse prev t1 r(1,3) b1 b(2) by (simp add: register_agent_inner_def Let_def)
  with r row b parse tok show ?thesis
    by (simp add: register_agent_def Let_def bootstrap_public_id_def)
qed


lemma sample_minted:
  obtains s1 m where
    "mint_bootstrap_token sample_ae sample_entropy sample_operator sample_mint sample_service = (s1, Inr m)"
    "sv_agents s1 = empty_agents" "service_inv s1" "mo_scope m = \<lparr> sc_tool_allowlist = Some [''gh''],
       sc_expires_at = None, sc_single_use = True \<rparr>" "sv_audit s1 \<noteq> None"
proof -
  let ?r = "mint_bootstrap_token sample_ae sample_entropy sample_operator sample_mint sample_service"
  have "\<exists>s1 m. ?r = (s1, Inr m) \<and> sv_agents s1 = empty_agents \<and> mo_scope m = \<lparr> sc_tool_allowlist = Some [''gh''],
       sc_expires_at = None, sc_single_use = True \<rparr> \<and> sv_audit s1 \<noteq> None"
    by (simp add: mint_bootstrap_token_def sample_mint_def mint_def Let_def argon2_hash_def empty_bootstrap_def
          audit_for_operator_def admin_audit_def sample_crypto_def [THEN arg_cong [of _ _ cr_argon2], simplified])
  moreover have "service_inv (fst ?r)"
    using service_inv_step [OF service_step.mint] by simp
  ultimately show thesis using that by auto
qed


theorem bootstrap_token_single_use_witness:
  "\<exists>s1 m s2 out. 
     mint_bootstrap_token sample_ae sample_entropy sample_operator sample_mint sample_service = (s1, Inr m) \<and>
     register_agent sample_ae sample_entropy (sample_register (mo_token m)) s1 = (s2, Inr out) \<and>
     snd (register_agent sample_ae sample_entropy (sample_register (mo_token m)) s2) = Inl InvalidBootstrap"
proof -
  obtain s1 m where m: "mint_bootstrap_token sample_ae sample_entropy sample_operator sample_mint sample_service = (s1, Inr m)"
      "sv_agents s1 = empty_agents" "service_inv s1" "mo_scope m = \<lparr> sc_tool_allowlist = Some [''gh''],
       sc_expires_at = None, sc_single_use = True \<rparr>" "sv_audit s1 \<noteq> None"
    by (rule sample_minted)
  let ?inp = "sample_register (mo_token m)"
  have tok: "ri_bootstrap_token ?inp = mo_token m" by (simp add: sample_register_def)
  obtain s2 out row where
    r: "register_agent sample_ae sample_entropy ?inp s1 = (s2, Inr out)"
      "bt_find (mo_public_id m) (sv_bootstrap s1) = Some row" "bt_scope row = mo_scope m"
      "bootstrap_public_id sample_ae (mo_token m) = Some (mo_public_id m)"
    using register_after_mint [OF _ _ _ _ m(1) _ _ tok, of sample_entropy] sample_ok
    by (auto simp: sample_mint_def empty_agents_def)
  from m(5) r(1) obtain l where l: "sv_audit s2 = Some l"
    by (auto simp: register_agent_def Let_def admin_audit_def register_agent_inner_def audit_emit_def
             split: prod.splits sum.splits option.splits if_splits)
  from bootstrap_token_single_use [OF m(3) r(1) _ r(2) _ rtranclp.rtrancl_refl l refl refl] r m(4) tok
  have "snd (register_agent sample_ae sample_entropy ?inp s2) = Inl InvalidBootstrap"
    by (metis BootstrapScope.select_convs(3) snd_conv)
  with m(1) r(1) show ?thesis by blast
qed

section \<open>Rotation\<close>

lemma agent_rotate_InrD:
  assumes "agent_rotate cr en pid cur t = (t', Inr sec)"
  shows "\<exists>h h'. rotate_read cr pid cur t = Inr h \<and> sec = cr_b64 cr (en_secret en) \<and>
           argon2_hash cr (en_salt en) sec = Inr h' \<and> rotate_commit pid h h' t = (t', Inr ())"
  using assms
  by (simp add: agent_rotate_def Let_def generate_def split: sum.splits prod.splits)

lemma rotate_agent_InrD:
  assumes "rotate_agent ae en agent cur s = (s1, Inr out)"
  shows "\<exists>h h'. rotate_read (ae_crypto ae) (ai_public_id agent) cur (sv_agents s) = Inr h \<and>
           argon2_hash (ae_crypto ae) (en_salt en) (cr_b64 (ae_crypto ae) (en_secret en)) = Inr h' \<and>
           rotate_commit (ai_public_id agent) h h' (sv_agents s) = (sv_agents s1, Inr ()) \<and>
           rt_token out = ''lk_'' @ ai_public_id agent @ ''.'' @ cr_b64 (ae_crypto ae) (en_secret en)"
proof -
  obtain t r where t: "agent_rotate (ae_crypto ae) en (ai_public_id agent) cur (sv_agents s) = (t, r)" by fastforce
  with assms obtain sec where "r = Inr sec" "sv_agents s1 = t" "rt_token out = ''lk_'' @ ai_public_id agent @ ''.'' @ sec"
    by (cases r) (auto simp: rotate_agent_def lift_repo_def)
  with agent_rotate_InrD t show ?thesis by blast
qed

text \<open>
  Property C22: a successful rotation swaps the secret: the presented secret was
  the current one, the public id and policy stay, the new token authenticates
  while the account has not expired, and no other secret, in particular not the
  old one, is accepted any more.
\<close>

theorem rotation_swaps_secret:
  assumes "service_inv s" "argon2_ok (ae_crypto ae)" "b64_ok (ae_crypto ae)" "entropy_ok en"
    and "rotate_agent ae en agent cur s = (s1, Inr out)"
    and "ai_public_id agent = cr_b64 (ae_crypto ae) ident_bytes" "length ident_bytes = 16"
  shows "\<exists>r. get_active_by_public_id (ai_public_id agent) (sv_agents s) = Some r \<and>
           argon2_verify (ae_crypto ae) (ag_secret_hash r) cur = Inr True \<and>
           (is_past (secs_of clk) (ag_expires_at r) \<or>
            snd (authenticate_bearer (ae_crypto ae) clk (''Bearer '' @ rt_token out) (auth_state s1)) =
              Inr (identity_of r)) \<and>
           (\<forall>sec. sec \<noteq> cr_b64 (ae_crypto ae) (en_secret en) \<longrightarrow>
              (\<nexists>ident. snd (auth_resolve (ae_crypto ae) clk (ai_public_id agent) sec (auth_state s1)) = Inr ident))"
proof -
  let ?cr = "ae_crypto ae" and ?pid = "ai_public_id agent" and ?sec = "cr_b64 (ae_crypto ae) (en_secret en)"
  obtain h h' where rd: "rotate_read ?cr ?pid cur (sv_agents s) = Inr h"
    and hash: "argon2_hash ?cr (en_salt en) ?sec = Inr h'"
    and com: "rotate_commit ?pid h h' (sv_agents s) = (sv_agents s1, Inr ())"
    and tok: "rt_token out = ''lk_'' @ ?pid @ ''.'' @ ?sec"
    using rotate_agent_InrD [OF assms(5)] by blast
  obtain r where r: "get_active_by_public_id ?pid (sv_agents s) = Some r" "ag_secret_hash r = h"
      "get_active_by_public_id ?pid (sv_agents s1) = Some (r\<lparr> ag_secret_hash := h' \<rparr>)"
    using rotate_commit_get [OF _ com] assms(1) by (auto simp: service_inv_def)
  have old: "argon2_verify ?cr h cur = Inr True"
    using rd r by (simp add: rotate_read_def split: sum.splits bool.splits)
  let ?en = "en\<lparr> en_id := ident_bytes \<rparr>"
  have "snd (authenticate_bearer ?cr clk (''Bearer '' @ rt_token out) (auth_state s1)) = Inr (identity_of r)"
    if "\<not> is_past (secs_of clk) (ag_expires_at r)"
  proof -
    have "snd (authenticate_bearer ?cr clk (''Bearer '' @ ''lk_'' @ ?pid @ ''.'' @ ?sec) (auth_state s1)) =
        Inr (identity_of (r\<lparr> ag_secret_hash := h' \<rparr>))"
      by (rule issued_token_authenticates [OF assms(2,3), where en = ?en and salt = "en_salt en"])
         (use assms(4,6,7) hash r(3) that in \<open>simp_all add: entropy_ok_def\<close>)
    then show ?thesis unfolding tok by (simp add: identity_of_def)
  qed
  moreover have "\<nexists>ident. snd (auth_resolve ?cr clk ?pid sec (auth_state s1)) = Inr ident" if "sec \<noteq> ?sec" for sec
    using argon2_hash_verify [OF assms(2) hash, of sec] that r(3) by (simp add: auth_resolve_def)
  ultimately show ?thesis using r(1) old [folded r(2)] by blast
qed

lemma agent_rotate_succeeds:
  assumes "argon2_ok cr" "get_active_by_public_id pid t = Some r" "argon2_hash cr salt cur = Inr (ag_secret_hash r)"
  shows "\<exists>t' sec. agent_rotate cr en pid cur t = (t', Inr sec)"
proof -
  obtain h' where h': "argon2_hash cr (en_salt en) (cr_b64 cr (en_secret en)) = Inr h'"
    using argon2_hash_ok [OF assms(1)] by blast
  have rd: "rotate_read cr pid cur t = Inr (ag_secret_hash r)"
    using assms(2) argon2_hash_verify [OF assms(1,3)] by (simp add: rotate_read_def)
  have "\<exists>t'. rotate_commit pid (ag_secret_hash r) h' t = (t', Inr ())"
    using get_active_Some [OF assms(2)] by (auto simp: rotate_commit_def agent_update_def rows_affected_0_iff)
  with h' rd show ?thesis by (auto simp: agent_rotate_def Let_def generate_def)
qed

definition sample_entropy2 :: Entropy where
  "sample_entropy2 = \<lparr> en_id = replicate 16 5, en_secret = replicate 32 3, en_salt = replicate 16 2 \<rparr>"

theorem rotation_swaps_secret_witness:
  "let pid = cr_b64 sample_crypto (en_id sample_entropy); cur = cr_b64 sample_crypto (en_secret sample_entropy);
       agent = \<lparr> ai_id = 1, ai_public_id = pid, ai_name = ''bot'', ai_tool_allowlist = None, ai_tool_denylist = None \<rparr>;
       s = sample_service\<lparr> sv_agents := sample_agents \<rparr>
   in \<exists>s1 out. rotate_agent sample_ae sample_entropy2 agent cur s = (s1, Inr out) \<and>
        (\<nexists>ident. snd (auth_resolve sample_crypto 5000 pid cur (auth_state s1)) = Inr ident)"
proof -
  let ?pid = "cr_b64 sample_crypto (en_id sample_entropy)" and ?cur = "cr_b64 sample_crypto (en_secret sample_entropy)"
  let ?agent = "\<lparr> ai_id = 1, ai_public_id = ?pid, ai_name = ''bot'', ai_tool_allowlist = None, ai_tool_denylist = None \<rparr>"
  let ?s = "sample_service\<lparr> sv_agents := sample_agents \<rparr>"
  have inv: "service_inv ?s" by (simp add: service_inv_def sample_agents_def agents_inv_create)
  obtain t1 where c: "agent_create sample_crypto sample_entropy 1 ''bot'' None None None None None empty_agents =
      (t1, Inr (?pid, ?cur))"
    by (simp add: agent_create_def Let_def generate_def empty_agents_def argon2_hash_def
          sample_crypto_def [THEN arg_cong [of _ _ cr_argon2], simplified])
  then have t1: "sample_agents = t1" by (simp add: sample_agents_def)
  obtain r where r: "get_active_by_public_id ?pid t1 = Some r"
      "argon2_hash sample_crypto (en_salt sample_entropy) ?cur = Inr (ag_secret_hash r)"
    using agent_create_lookup [OF c] by blast
  obtain t' sec where "agent_rotate sample_crypto sample_entropy2 ?pid ?cur t1 = (t', Inr sec)"
    using agent_rotate_succeeds [OF sample_ok(1) r] by blast
  then obtain s1 out where run: "rotate_agent sample_ae sample_entropy2 ?agent ?cur ?s = (s1, Inr out)"
    using t1 by (simp add: rotate_agent_def lift_repo_def)
  have "base64url b64url_encode b64url_decode" by (rule rfc4648.base64url_axioms)
  then have ne: "?cur \<noteq> cr_b64 sample_crypto (en_secret sample_entropy2)"
    by (auto simp: sample_crypto_def sample_entropy_def sample_entropy2_def replicate_eq_replicate
             dest: base64url.enc_inj)
  have e2: "entropy_ok sample_entropy2" by (simp add: entropy_ok_def sample_entropy2_def)
  show ?thesis
    using rotation_swaps_secret [OF inv _ _ e2 run, where ident_bytes = "en_id sample_entropy" and clk = 5000]
      sample_ok run ne by (auto simp: Let_def entropy_ok_def)
qed

section \<open>Accountability\<close>

lemma admin_event_sel [simp]:
  "ev_operator_name (admin_event ae c n d) = None" "ev_decision (admin_event ae c n d) = d"
  by (simp_all add: admin_event_def default_event_def)

lemma decision_lift [simp]: "decision_of (lift_repo ae r) = decision_of r"
  by (simp add: decision_of_def lift_repo_def split: sum.splits)



section \<open>Tool listings\<close>

text \<open>
  The tools an agent is shown are exactly the configured tools its
  ACL lets it call, in configuration order.
\<close>

theorem agent_sees_callable_tools:
  "list_tools_for_agent agent s =
     map (tool_info s) (filter (\<lambda>t. allows_tool agent (tc_name t) = Inr ()) (ac_tools (sv_config s)))"
  unfolding list_tools_for_agent_def
  by (rule arg_cong [of _ _ "map (tool_info s)"], rule filter_cong)
     (auto simp: allows_tool_Inr_iff list_ex_iff split: option.splits)

end
