(* ===== verification/Admin_Uds_Props.thy ===== *)
theory Admin_Uds_Props
  imports Admin_Uds Admin_Props
begin

text \<open>
  What the administration router guarantees: its requests act on the service
  only through the service's operations, operator routes change nothing without
  an operator credential, and an agent's self-service reaches its own account
  only.
\<close>

section \<open>Requests act through the service\<close>

definition acts_through :: "uds_handler \<Rightarrow> bool" where
  "acts_through h \<longleftrightarrow> (\<forall>req s. service_step\<^sup>*\<^sup>* (us_admin s) (us_admin (fst (h req s))))"

lemma acts_throughI: "(\<And>req s. service_step\<^sup>*\<^sup>* (us_admin s) (us_admin (fst (h req s)))) \<Longrightarrow> acts_through h"
  by (simp add: acts_through_def)

lemma acts_throughD: "acts_through h \<Longrightarrow> service_step\<^sup>*\<^sup>* (us_admin s) (us_admin (fst (h req s)))"
  by (simp add: acts_through_def)

lemma acts_const [simp]: "acts_through (\<lambda>req s. (s, resp req s))"
  by (simp add: acts_through_def)

lemma with_input_admin:
  "(\<And>x s. service_step\<^sup>*\<^sup>* (us_admin s) (us_admin (fst (h x s)))) \<Longrightarrow>
   service_step\<^sup>*\<^sup>* (us_admin s) (us_admin (fst (with_input r h s)))"
  by (simp add: with_input_def split: sum.splits)

lemma acts_with_input: "(\<And>x. acts_through (h x)) \<Longrightarrow> acts_through (\<lambda>req. with_input (r req) (\<lambda>x. h x req))"
  by (simp add: acts_through_def with_input_admin)

lemma acts_with_name: "(\<And>n. acts_through (h n)) \<Longrightarrow> acts_through (with_name ue raw h)"
  by (simp add: acts_through_def with_name_def split: option.splits)

lemma answer_admin: "us_admin (fst (answer ok r s)) = fst r"
  by (simp add: answer_def with_admin_def split: prod.splits sum.splits)

lemma answer_steps:
  "service_step\<^sup>*\<^sup>* (us_admin s) (fst r) \<Longrightarrow> service_step\<^sup>*\<^sup>* (us_admin s) (us_admin (fst (answer ok r s)))"
  by (simp add: answer_admin)

lemma on_regs_steps: "service_step\<^sup>*\<^sup>* (us_admin s) (us_admin (fst (on_regs h s)))"
  by (auto simp: on_regs_def split: option.splits prod.splits
           intro!: r_into_rtranclp service_step.refresh_creds)

lemma on_oauth_admin [simp]: "us_admin (fst (on_oauth h s)) = us_admin s"
  by (simp add: on_oauth_def split: option.splits prod.splits)

lemma with_overrides_admin:
  "(\<And>c a. us_admin (fst (h c a)) = us_admin s) \<Longrightarrow> us_admin (fst (with_overrides ident h s)) = us_admin s"
  by (simp add: with_overrides_def split: option.splits sum.splits)

lemma acts_on_methods:
  assumes "list_all (\<lambda>(m, h). acts_through h) hs"
  shows "acts_through (on_methods hs)"
proof (rule acts_throughI)
  fix req and s :: UdsState
  have h: "service_step\<^sup>*\<^sup>* (us_admin s) (us_admin (fst (h req s)))" if "map_of hs m = Some h" for m h
    using assms map_of_SomeD [OF that] by (auto simp: list_all_iff dest: acts_throughD)
  show "service_step\<^sup>*\<^sup>* (us_admin s) (us_admin (fst (on_methods hs req s)))"
  proof (cases "map_of hs (rq_method req)")
    case (Some g)
    then show ?thesis using h by (simp add: on_methods_def)
  next
    case None
    then show ?thesis
      using h [of "''GET''"] by (cases "map_of hs ''GET''") (simp_all add: on_methods_def split_beta)
  qed
qed

lemmas service_steps = service_step.intros(1-9) [THEN r_into_rtranclp [of service_step]]

lemma agent_handlers_act:
  "acts_through (handle_register ue)" "acts_through (handle_status agent)" "acts_through (handle_rotate ue agent)"
  "acts_through (handle_deregister ue agent)" "acts_through (handle_agent_tools agent)"
  by (auto intro!: acts_throughI with_input_admin answer_steps service_steps
           simp: handle_register_def handle_status_def handle_rotate_def handle_deregister_def handle_agent_tools_def)

lemma operator_handlers_act:
  "acts_through (op_list_agents ue)" "acts_through (op_get_agent n)" "acts_through (op_create_agent ue opr)"
  "acts_through (op_modify_agent ue opr n)" "acts_through (op_revoke_agent ue opr n)"
  "acts_through (op_set_agent_cert_identity ue opr n)" "acts_through (op_mint_bootstrap ue opr)"
  "acts_through op_list_bootstrap" "acts_through (op_revoke_bootstrap ue opr n)" "acts_through op_list_tools"
  by (auto intro!: acts_throughI with_input_admin answer_steps service_steps
           simp: op_list_agents_def op_get_agent_def op_create_agent_def op_modify_agent_def op_revoke_agent_def
             op_set_agent_cert_identity_def op_mint_bootstrap_def op_list_bootstrap_def op_revoke_bootstrap_def
             op_list_tools_def)

lemma other_handlers_act:
  "acts_through (op_query_audit ue)" "acts_through (op_set_agent_credential ue n r)"
  "acts_through (op_unset_agent_credential n r)" "acts_through (op_list_agent_credentials n)"
  by (auto intro!: acts_throughI with_input_admin
           simp: op_query_audit_def op_set_agent_credential_def op_unset_agent_credential_def
             op_list_agent_credentials_def with_overrides_admin answer_admin split: sum.splits)

lemmas handlers_act = agent_handlers_act operator_handlers_act other_handlers_act

lemma acts_regs: "acts_through (\<lambda>req. on_regs (h req))"
  by (rule acts_throughI) (rule on_regs_steps)

lemma acts_oauth: "acts_through (\<lambda>req. on_oauth (h req))"
  by (rule acts_throughI) simp

lemma agent_handler_acts: "acts_through (agent_handler ue route agent)"
  by (simp add: agent_handler_def agent_mount_def acts_on_methods handlers_act split: AdminRoute.split)

lemma operator_handler_acts: "acts_through (operator_handler ue route opr)"
  by (cases route)
     (simp_all add: operator_handler_def operator_mount_def Let_def acts_on_methods handlers_act acts_with_name acts_regs acts_oauth
        acts_with_input)

section \<open>Who gets in\<close>

text \<open>A request that carries the credential of an operator on this listener.\<close>

definition operator_credential :: "UdsEnv \<Rightarrow> UdsState \<Rightarrow> Request \<Rightarrow> OperatorIdentity \<Rightarrow> bool" where
  "operator_credential ue s req opr \<longleftrightarrow>
     (\<exists>r \<in> set (us_operators s). oi_name opr = or_name r \<and>
        ((\<exists>pid sec. header_str ''authorization'' req = Some (''Bearer '' @ wire_format
              \<lparr> tk_namespace = TokenNamespace.Operator, tk_public_id = pid, tk_secret = sec \<rparr>) \<and>
            as_str pid = or_public_id r \<and>
            argon2_verify (ae_crypto (ue_ae ue)) (or_token_hash r) (expose sec) = Inr True \<and>
            (case us_operator_mtls s of None \<Rightarrow> True | Some m \<Rightarrow> om_auth_mode m \<noteq> Mtls)) \<or>
         (\<exists>m der i. us_operator_mtls s = Some m \<and> om_auth_mode m \<noteq> Bearer \<and> rq_peer_cert req = Some der \<and>
            mtls_validate (ue_pki ue) (ae_now (ue_ae ue)) (om_validator m) der = Inr i \<and>
            or_cert_identity r = Some (mi_value i))))"

lemma operator_authenticate_bearer_InrD:
  assumes "operator_authenticate_bearer cr clk recs header log = (log', Inr opr)"
  shows "\<exists>r pid sec. r \<in> set recs \<and> oi_name opr = or_name r \<and> as_str pid = or_public_id r \<and>
           header = ''Bearer '' @ wire_format \<lparr> tk_namespace = TokenNamespace.Operator, tk_public_id = pid, tk_secret = sec \<rparr> \<and>
           argon2_verify cr (or_token_hash r) (expose sec) = Inr True"
proof -
  from assms obtain raw pid sec r where
    h: "header = ''Bearer '' @ raw" and p: "parse (cr_unb64 cr) raw = Inr (TokenNamespace.Operator, pid, sec)"
    and f: "List.find (\<lambda>r. or_public_id r = as_str pid) recs = Some r"
    and v: "argon2_verify cr (or_token_hash r) (expose sec) = Inr True" "oi_name opr = or_name r"
    by (auto simp: operator_authenticate_bearer_def Let_def strip_prefix_iff
             split: option.splits sum.splits if_splits bool.splits)
  have "r \<in> set recs \<and> or_public_id r = as_str pid" using find_Some_in_set [OF f] .
  moreover from p have "raw = wire_format \<lparr> tk_namespace = TokenNamespace.Operator, tk_public_id = pid, tk_secret = sec \<rparr>"
    by (simp add: parse_Inr_iff)
  ultimately show ?thesis using h v by (intro exI [of _ r] exI [of _ pid] exI [of _ sec]) simp
qed

lemma authenticate_cert_identity_InrD:
  assumes "authenticate_cert_identity clk recs ident log = (log', Inr opr)"
  shows "\<exists>r. r \<in> set recs \<and> oi_name opr = or_name r \<and> or_cert_identity r = Some ident"
  using assms find_Some_in_set [of "\<lambda>r. or_cert_identity r = Some ident" recs]
  by (auto simp: authenticate_cert_identity_def split: option.splits)

lemma auth_errors:
  "operator_authenticate_bearer cr clk recs header log = (log', Inl e) \<Longrightarrow> auth_status e \<in> {401, 500}"
  "authenticate_cert_identity clk recs ident log = (log', Inl e) \<Longrightarrow> auth_status e \<in> {401, 500}"
  by (auto simp: operator_authenticate_bearer_def authenticate_cert_identity_def Let_def
           split: option.splits sum.splits if_splits bool.splits prod.splits)

inductive operator_run :: "UdsEnv \<Rightarrow> (OperatorIdentity \<Rightarrow> uds_handler) \<Rightarrow> Request \<Rightarrow> UdsState \<Rightarrow> UdsState \<times> Response \<Rightarrow> bool"
  for ue nxt req s where
  admit: "operator_credential ue s req opr \<Longrightarrow> service_step\<^sup>*\<^sup>* (us_admin s) ((us_admin s)\<lparr> sv_audit := log \<rparr>) \<Longrightarrow>
    operator_run ue nxt req s (nxt opr req (with_admin ((us_admin s)\<lparr> sv_audit := log \<rparr>) s))"
| reject: "auth_status e \<in> {401, 500} \<Longrightarrow> service_step\<^sup>*\<^sup>* (us_admin s) ((us_admin s)\<lparr> sv_audit := log \<rparr>) \<Longrightarrow>
    operator_run ue nxt req s (with_admin ((us_admin s)\<lparr> sv_audit := log \<rparr>) s, error_response e)"

lemma operator_reject_unchanged:
  "auth_status e \<in> {401, 500} \<Longrightarrow> operator_run ue nxt req s (s, error_response e)"
  using operator_run.reject [of e s "sv_audit (us_admin s)" ue nxt req] by (simp add: with_admin_def)

lemma operator_bearer_run:
  assumes "case us_operator_mtls s of None \<Rightarrow> True | Some m \<Rightarrow> om_auth_mode m \<noteq> Mtls"
  shows "operator_run ue nxt req s (operator_bearer ue nxt req s)"
proof (cases "header_str ''authorization'' req")
  case None
  then show ?thesis by (simp add: operator_bearer_def operator_reject_unchanged)
next
  case (Some header)
  let ?a = "us_admin s"
  obtain log r where r: "operator_authenticate_bearer (ae_crypto (ue_ae ue)) (ae_clk (ue_ae ue)) (us_operators s)
      header (sv_audit ?a) = (log, r)" by fastforce
  have step: "service_step\<^sup>*\<^sup>* ?a (?a\<lparr> sv_audit := log \<rparr>)"
    by (rule r_into_rtranclp [of service_step]) (rule service_step.operator_bearer [OF r])
  show ?thesis
  proof (cases r)
    case (Inl e)
    with r Some have "operator_bearer ue nxt req s = (with_admin (?a\<lparr> sv_audit := log \<rparr>) s, error_response e)"
      by (simp add: operator_bearer_def Let_def)
    with auth_errors(1) [of _ _ _ _ _ _ e] r Inl step show ?thesis by (simp add: operator_run.reject)
  next
    case (Inr opr)
    with operator_authenticate_bearer_InrD [of _ _ _ _ _ log opr] r Some assms
    have "operator_credential ue s req opr" unfolding operator_credential_def by blast
    moreover from r Inr Some have "operator_bearer ue nxt req s = nxt opr req (with_admin (?a\<lparr> sv_audit := log \<rparr>) s)"
      by (simp add: operator_bearer_def Let_def)
    ultimately show ?thesis using step by (simp add: operator_run.admit)
  qed
qed

lemma operator_cert_run:
  assumes "us_operator_mtls s = Some m" "om_auth_mode m \<noteq> Bearer" "rq_peer_cert req = Some der"
  shows "operator_run ue nxt req s (operator_cert ue (om_validator m) der nxt req s)"
proof (cases "mtls_validate (ue_pki ue) (ae_now (ue_ae ue)) (om_validator m) der")
  case (Inl e)
  then show ?thesis by (simp add: operator_cert_def operator_reject_unchanged)
next
  case (Inr i)
  let ?a = "us_admin s"
  obtain log r where r: "authenticate_cert_identity (ae_clk (ue_ae ue)) (us_operators s) (mi_value i) (sv_audit ?a)
      = (log, r)" by fastforce
  have step: "service_step\<^sup>*\<^sup>* ?a (?a\<lparr> sv_audit := log \<rparr>)"
    by (rule r_into_rtranclp [of service_step]) (rule service_step.operator_cert [OF r])
  show ?thesis
  proof (cases r)
    case (Inl e)
    with r Inr have "operator_cert ue (om_validator m) der nxt req s =
        (with_admin (?a\<lparr> sv_audit := log \<rparr>) s, error_response e)"
      by (simp add: operator_cert_def Let_def)
    with auth_errors(2) [of _ _ _ _ _ e] r Inl step show ?thesis by (simp add: operator_run.reject)
  next
    case Inr': (Inr opr)
    with authenticate_cert_identity_InrD [of _ _ _ _ log opr] r Inr assms
    have "operator_credential ue s req opr" unfolding operator_credential_def by blast
    moreover from r Inr' Inr have "operator_cert ue (om_validator m) der nxt req s =
        nxt opr req (with_admin (?a\<lparr> sv_audit := log \<rparr>) s)"
      by (simp add: operator_cert_def Let_def)
    ultimately show ?thesis using step by (simp add: operator_run.admit)
  qed
qed

lemma operator_middleware_run: "operator_run ue nxt req s (operator_auth_middleware ue nxt req s)"
proof (cases "us_operator_mtls s")
  case None
  then show ?thesis by (simp add: operator_auth_middleware_def operator_bearer_run)
next
  case (Some m)
  then show ?thesis
    by (cases "om_auth_mode m"; cases "rq_peer_cert req")
       (simp_all add: operator_auth_middleware_def operator_bearer_run operator_reject_unchanged
          operator_cert_run [OF Some])
qed

text \<open>
  Property C8: on every operator route, a request without the credential of an
  operator (a bearer token whose secret matches the operator's hash, or, where
  the listener takes client certificates, a valid certificate bound to an
  operator) changes nothing but the audit log and is answered with 401, or 500
  when the hash check itself fails.
\<close>

theorem operator_routes_need_operator:
  assumes "admin_serve ue req s = (s', resp)" "operator_routes (admin_route s (rq_path req))"
    and "\<forall>opr. \<not> operator_credential ue s req opr"
  shows "\<exists>log. s' = s\<lparr> us_admin := (us_admin s)\<lparr> sv_audit := log \<rparr> \<rparr> \<and> rs_status resp \<in> {401, 500}"
proof -
  let ?route = "admin_route s (rq_path req)"
  have "admin_serve ue req s = operator_auth_middleware ue (operator_handler ue ?route) req s"
    using assms(2) by (auto simp: admin_serve_def Let_def operator_routes_def)
  with assms(1) operator_middleware_run [of ue "operator_handler ue ?route" req s]
  have "operator_run ue (operator_handler ue ?route) req s (s', resp)" by simp
  then show ?thesis
  proof cases
    case (admit opr log)
    with assms(3) show ?thesis by blast
  next
    case (reject e log)
    then show ?thesis by (auto simp: with_admin_def error_response_def json_response_def)
  qed
qed

definition sample_ue :: UdsEnv where
  "sample_ue =
     \<lparr> ue_ae = sample_ae, ue_en = sample_entropy, ue_env = (\<lambda>_. None),
       ue_pki = \<lparr> pk_parse = (\<lambda>_. Inl ''no''), pk_ee = (\<lambda>_. Inl ''no''), pk_anchor_ok = (\<lambda>_. False),
                  pk_verify = (\<lambda>_ _ _. False) \<rparr>,
       ue_ox = \<lparr> ox_crypto = sample_crypto, ox_json = (\<lambda>_. None) \<rparr>, ue_post = (\<lambda>_ _. NetworkFailure),
       ue_ns1 = (replicate 12 0, replicate 12 1), ue_ns2 = (replicate 12 2, replicate 12 3),
       ue_register = (\<lambda>_. Inl no_content), ue_rotate = (\<lambda>_. Inl no_content), ue_create = (\<lambda>_. Inr sample_create),
       ue_modify = (\<lambda>_. Inl no_content), ue_cert = (\<lambda>_. Inr None), ue_mint = (\<lambda>_. Inr sample_mint),
       ue_spec = (\<lambda>_. Inr NoAuth), ue_put = (\<lambda>_. Inl no_content), ue_refresh_token = (\<lambda>_. Inl no_content),
       ue_include_revoked = (\<lambda>_. Inr False), ue_audit_query = (\<lambda>_. Inl no_content), ue_label = (\<lambda>_. Inr None),
       ue_percent_decode = Some \<rparr>"

definition sample_uds :: UdsState where
  "sample_uds =
     \<lparr> us_admin = sample_service, us_operators = [], us_operator_mtls = None, us_registrations = None,
       us_oauth = None, us_agent_creds = Some [] \<rparr>"

definition sample_admin_req :: Request where
  "sample_admin_req =
     \<lparr> rq_method = ''POST'', rq_path = ''/admin/operator/agents/x/revoke'', rq_query = None, rq_headers = [],
       rq_body = Some [], rq_peer_cert = None, rq_auth = None, rq_identity = None \<rparr>"

lemma sample_admin_route: "admin_route sample_uds (rq_path sample_admin_req) = ORevoke ''x''"
  by (simp add: admin_route_def operator_route_def agents_route_def sample_admin_req_def)

theorem operator_routes_need_operator_witness:
  "\<exists>log. fst (admin_serve sample_ue sample_admin_req sample_uds) =
     sample_uds\<lparr> us_admin := (us_admin sample_uds)\<lparr> sv_audit := log \<rparr> \<rparr> \<and>
     rs_status (snd (admin_serve sample_ue sample_admin_req sample_uds)) \<in> {401, 500}"
proof -
  have "operator_routes (admin_route sample_uds (rq_path sample_admin_req))"
    by (simp add: sample_admin_route operator_routes_def)
  moreover have "\<forall>opr. \<not> operator_credential sample_ue sample_uds sample_admin_req opr"
    by (simp add: operator_credential_def sample_uds_def)
  ultimately show ?thesis using operator_routes_need_operator [OF surjective_pairing] by blast
qed

section \<open>Self-service\<close>

definition only_row :: "string \<Rightarrow> AgentTable \<Rightarrow> AgentTable \<Rightarrow> bool" where
  "only_row pid t t' \<longleftrightarrow>
     filter (\<lambda>r. ag_public_id r \<noteq> pid) (at_rows t') = filter (\<lambda>r. ag_public_id r \<noteq> pid) (at_rows t)"

lemma only_row_refl [simp]: "only_row pid t t"
  by (simp add: only_row_def)

lemma only_row_trans: "only_row pid t t1 \<Longrightarrow> only_row pid t1 t2 \<Longrightarrow> only_row pid t t2"
  by (simp add: only_row_def)

lemma filter_update_where:
  assumes "\<And>r. p r \<Longrightarrow> key r = k" "\<And>r. key (f r) = key r"
  shows "filter (\<lambda>r. key r \<noteq> k) (update_where p f rows) = filter (\<lambda>r. key r \<noteq> k) rows"
  using assms by (induction rows) (auto simp: update_where_def)

lemma only_row_update:
  assumes "\<And>r. p r \<Longrightarrow> ag_public_id r = pid" "\<And>r. ag_public_id (f r) = ag_public_id r"
  shows "only_row pid t (t\<lparr> at_rows := update_where p f (at_rows t) \<rparr>)"
  using filter_update_where [of p ag_public_id pid f, OF assms] by (simp add: only_row_def)

lemma only_row_ops:
  "only_row pid t (touch_last_used now pid t)" "only_row pid t (fst (agent_revoke now pid t))"
  "only_row pid t (fst (rotate_commit pid h h' t))"
  unfolding touch_last_used_def agent_revoke_def rotate_commit_def agent_update_def fst_conv
  by (rule only_row_update; simp)+

lemma only_row_rotate: "only_row pid t (fst (agent_rotate cr en pid sec t))"
  using agent_rotate_cases [of cr en pid sec t] only_row_ops(3) by (metis only_row_refl)

text \<open>The part of the state a self-service request cannot touch.\<close>

definition same_elsewhere :: "UdsState \<Rightarrow> UdsState \<Rightarrow> bool" where
  "same_elsewhere s s' \<longleftrightarrow>
     sv_bootstrap (us_admin s') = sv_bootstrap (us_admin s) \<and> us_registrations s' = us_registrations s \<and>
     us_oauth s' = us_oauth s \<and> us_agent_creds s' = us_agent_creds s \<and> us_operators s' = us_operators s"

definition own_account :: "AgentIdentity \<Rightarrow> uds_handler \<Rightarrow> bool" where
  "own_account agent h \<longleftrightarrow>
     (\<forall>req s. same_elsewhere s (fst (h req s)) \<and>
        only_row (ai_public_id agent) (sv_agents (us_admin s)) (sv_agents (us_admin (fst (h req s)))))"

lemma same_elsewhere_answer:
  "sv_bootstrap (fst r) = sv_bootstrap (us_admin s) \<Longrightarrow> same_elsewhere s (fst (answer ok r s))"
  by (cases r) (auto simp: same_elsewhere_def answer_def with_admin_def split: sum.splits)

lemma service_self_frame:
  "sv_bootstrap (fst (rotate_agent ae en agent sec a)) = sv_bootstrap a"
  "sv_bootstrap (fst (deregister_agent ae agent a)) = sv_bootstrap a"
  "sv_agents (fst (rotate_agent ae en agent sec a)) =
     fst (agent_rotate (ae_crypto ae) en (ai_public_id agent) sec (sv_agents a))"
  "sv_agents (fst (deregister_agent ae agent a)) = fst (agent_revoke (ae_now ae) (ai_public_id agent) (sv_agents a))"
  by (simp_all add: rotate_agent_def deregister_agent_def split_beta)

lemma same_elsewhere_refl [simp]: "same_elsewhere s s"
  by (simp add: same_elsewhere_def)

lemma self_handlers_own:
  "own_account agent (handle_status agent)" "own_account agent (handle_rotate ue agent)"
  "own_account agent (handle_deregister ue agent)" "own_account agent (handle_agent_tools agent)"
  by (simp_all add: own_account_def handle_status_def handle_rotate_def handle_deregister_def handle_agent_tools_def
        with_input_def same_elsewhere_answer answer_admin service_self_frame only_row_rotate only_row_ops
        split: sum.splits)

lemma own_account_methods:
  assumes "own_account agent h"
  shows "own_account agent (on_methods [(m, h)])"
  using assms by (simp add: own_account_def on_methods_def split_beta)

text \<open>
  Serving starts only behind a socket for owner and group, and a file that is
  not a socket is neither removed nor changed.
\<close>

lemma uds_bind_spec:
  "(snd (uds_bind io node) \<longrightarrow> fst (uds_bind io node) = SocketFile 0x1B0) \<and>
   (node = OtherFile \<longrightarrow> uds_bind io node = (OtherFile, False))"
  by (auto simp: uds_bind_def Let_def split: FsNode.splits)

lemma own_account_unmounted: "own_account agent (on_methods [])"
  by (simp add: own_account_def on_methods_def only_row_def)

lemma agent_handler_own: "own_account agent (agent_handler ue route agent)"
  by (simp add: agent_handler_def agent_mount_def own_account_methods own_account_unmounted self_handlers_own split: AdminRoute.split)

text \<open>
  Property C9: the agent routes that need an agent token act on the account of
  that token only: either no agent row changes, or the request carries a bearer
  token whose public id is that of an active account, and every row of another
  public id, the bootstrap tokens, the registrations, the OAuth sessions and
  the overrides are untouched.
\<close>

theorem self_service_reaches_own_account:
  assumes "admin_serve ue req s = (s', resp)"
    and "admin_route s (rq_path req) \<in> {AStatus, ARotate, ADeregister, ATools}"
  shows "same_elsewhere s s' \<and>
         (sv_agents (us_admin s') = sv_agents (us_admin s) \<or>
          (\<exists>pid sec ident. header_str ''authorization'' req = Some (''Bearer '' @ wire_format
               \<lparr> tk_namespace = TokenNamespace.Agent, tk_public_id = pid, tk_secret = sec \<rparr>) \<and>
             active_account (auth_state (us_admin s)) ident \<and> ai_public_id ident = as_str pid \<and>
             only_row (as_str pid) (sv_agents (us_admin s)) (sv_agents (us_admin s'))))"
proof -
  let ?route = "admin_route s (rq_path req)" and ?a = "us_admin s"
  have run: "agent_auth_middleware ue (agent_handler ue ?route) req s = (s', resp)"
    using assms by (auto simp: admin_serve_def Let_def operator_routes_def)
  show ?thesis
  proof (cases "header_str ''authorization'' req")
    case None
    with run show ?thesis by (simp add: agent_auth_middleware_def)
  next
    case (Some header)
    obtain x r where r: "authenticate_bearer (ae_crypto (ue_ae ue)) (ae_clk (ue_ae ue)) header (auth_state ?a) = (x, r)"
      by fastforce
    let ?s1 = "with_admin (?a\<lparr> sv_agents := as_agents x, sv_audit := as_audit x \<rparr>) s"
    have s1: "same_elsewhere s ?s1" by (simp add: same_elsewhere_def with_admin_def)
    show ?thesis
    proof (cases r)
      case (Inl e)
      with run r Some have "s' = ?s1" by (simp add: agent_auth_middleware_def Let_def)
      moreover have "as_agents x = sv_agents ?a" using bearer.failure_frame r Inl by fastforce
      ultimately show ?thesis using s1 by (simp add: with_admin_def)
    next
      case (Inr ident)
      with r obtain pid sec rec where
        h: "header = ''Bearer '' @ wire_format \<lparr> tk_namespace = TokenNamespace.Agent, tk_public_id = pid, tk_secret = sec \<rparr>"
        and g: "get_active_by_public_id (as_str pid) (sv_agents ?a) = Some rec" and i: "ident = identity_of rec"
        and x: "x = (auth_state ?a)\<lparr> as_agents := touch_last_used (secs_of (ae_clk (ue_ae ue))) (ag_public_id rec) (sv_agents ?a) \<rparr>"
        by (auto dest!: authenticate_bearer_InrD auth_resolve_InrD)
      have pid: "ag_public_id rec = as_str pid" "ai_public_id ident = as_str pid"
        using get_active_Some [OF g] i by (auto simp: identity_of_def)
      have s': "s' = fst (agent_handler ue ?route ident req ?s1)"
        using run r Inr Some by (simp add: agent_auth_middleware_def Let_def)
      have own: "same_elsewhere ?s1 s'" "only_row (as_str pid) (as_agents x) (sv_agents (us_admin s'))"
        using agent_handler_own [of ident ue ?route, unfolded own_account_def, rule_format, of ?s1 req] pid(2)
        unfolding s' by (simp_all add: with_admin_def)
      have "only_row (as_str pid) (sv_agents ?a) (as_agents x)"
        unfolding x pid(1) by (simp add: only_row_ops)
      then have "only_row (as_str pid) (sv_agents ?a) (sv_agents (us_admin s'))" using own(2) by (rule only_row_trans)
      moreover have "same_elsewhere s s'" using s1 own(1) by (simp add: same_elsewhere_def)
      moreover have "active_account (auth_state ?a) ident" using bearer.sound r Inr by blast
      ultimately show ?thesis using Some h pid(2) by blast
    qed
  qed
qed

theorem self_service_reaches_own_account_witness:
  "same_elsewhere sample_uds
     (fst (admin_serve sample_ue (sample_admin_req\<lparr> rq_path := ''/admin/agent/deregister'' \<rparr>) sample_uds))"
proof -
  have "admin_route sample_uds (rq_path (sample_admin_req\<lparr> rq_path := ''/admin/agent/deregister'' \<rparr>)) = ADeregister"
    by (simp add: admin_route_def agent_route_def)
  with self_service_reaches_own_account [OF surjective_pairing,
      where req = "sample_admin_req\<lparr> rq_path := ''/admin/agent/deregister'' \<rparr>" and s = sample_uds and ue = sample_ue]
  show ?thesis by simp
qed

section \<open>Runs of the administration listener\<close>

lemma agent_middleware_steps:
  assumes "\<And>ident. acts_through (nxt ident)"
  shows "acts_through (agent_auth_middleware ue nxt)"
proof (rule acts_throughI)
  fix req and s :: UdsState
  let ?a = "us_admin s"
  show "service_step\<^sup>*\<^sup>* ?a (us_admin (fst (agent_auth_middleware ue nxt req s)))"
  proof (cases "header_str ''authorization'' req")
    case None
    then show ?thesis by (simp add: agent_auth_middleware_def)
  next
    case (Some header)
    obtain x r where r: "authenticate_bearer (ae_crypto (ue_ae ue)) (ae_clk (ue_ae ue)) header (auth_state ?a) = (x, r)"
      by fastforce
    let ?a1 = "?a\<lparr> sv_agents := as_agents x, sv_audit := as_audit x \<rparr>"
    have step: "service_step ?a ?a1" using r by (rule service_step.authenticate)
    show ?thesis
    proof (cases r)
      case (Inl e)
      with r Some step show ?thesis by (auto simp: agent_auth_middleware_def Let_def with_admin_def)
    next
      case (Inr ident)
      have "service_step\<^sup>*\<^sup>* ?a1 (us_admin (fst (nxt ident req (with_admin ?a1 s))))"
        using acts_throughD [OF assms, of "with_admin ?a1 s" ident req] by (simp add: with_admin_def)
      with step have "service_step\<^sup>*\<^sup>* ?a (us_admin (fst (nxt ident req (with_admin ?a1 s))))"
        by (rule converse_rtranclp_into_rtranclp)
      with r Inr Some show ?thesis by (simp add: agent_auth_middleware_def Let_def)
    qed
  qed
qed

lemma operator_middleware_steps:
  assumes "\<And>opr. acts_through (nxt opr)"
  shows "acts_through (operator_auth_middleware ue nxt)"
proof (rule acts_throughI)
  fix req and s :: UdsState
  have "operator_run ue nxt req s (operator_auth_middleware ue nxt req s)" by (rule operator_middleware_run)
  then show "service_step\<^sup>*\<^sup>* (us_admin s) (us_admin (fst (operator_auth_middleware ue nxt req s)))"
  proof cases
    case (admit opr log)
    have "service_step\<^sup>*\<^sup>* ((us_admin s)\<lparr> sv_audit := log \<rparr>)
        (us_admin (fst (nxt opr req (with_admin ((us_admin s)\<lparr> sv_audit := log \<rparr>) s))))"
      using acts_throughD [OF assms, of "with_admin ((us_admin s)\<lparr> sv_audit := log \<rparr>) s" opr req]
      by (simp add: with_admin_def)
    with admit show ?thesis by simp
  qed (simp add: with_admin_def)
qed

lemma admin_serve_steps: "service_step\<^sup>*\<^sup>* (us_admin s) (us_admin (fst (admin_serve ue req s)))"
proof -
  let ?route = "admin_route s (rq_path req)"
  have "acts_through (operator_auth_middleware ue (operator_handler ue ?route))"
    "acts_through (agent_auth_middleware ue (agent_handler ue ?route))"
    by (simp_all add: operator_middleware_steps agent_middleware_steps operator_handler_acts agent_handler_acts)
  then show ?thesis
    by (simp add: admin_serve_def Let_def acts_throughD handlers_act)
qed

subsection \<open>Sequences of requests\<close>

fun admin_run :: "(UdsEnv \<times> Request) list \<Rightarrow> UdsState \<Rightarrow> UdsState" where
  "admin_run [] s = s"
| "admin_run ((ue, req) # rest) s = admin_run rest (fst (admin_serve ue req s))"

lemma admin_run_steps: "service_step\<^sup>*\<^sup>* (us_admin s) (us_admin (admin_run rs s))"
proof (induction rs arbitrary: s)
  case (Cons p rs)
  obtain ue req where p: "p = (ue, req)" by fastforce
  have "service_step\<^sup>*\<^sup>* (us_admin s) (us_admin (fst (admin_serve ue req s)))" by (rule admin_serve_steps)
  also have "service_step\<^sup>*\<^sup>* \<dots> (us_admin (admin_run rs (fst (admin_serve ue req s))))" by (rule Cons.IH)
  finally show ?case by (simp add: p)
qed simp

lemma answer_no_content:
  assumes "answer (\<lambda>_. no_content) (a, r) s = (s1, resp)" "rs_status resp < 300"
  shows "r = Inr () \<and> us_admin s1 = a"
proof (cases r)
  case (Inl e)
  with assms show ?thesis
    by (cases e) (auto simp: answer_def with_admin_def admin_err_response_def json_response_def)
qed (use assms in \<open>auto simp: answer_def with_admin_def\<close>)

lemma revoke_request_revokes:
  assumes "admin_route s (rq_path req) = ORevoke n" "rq_method req = ''POST''" "ue_percent_decode ue n = Some pid"
    and "admin_serve ue req s = (s1, resp)" "rs_status resp < 300"
  shows "revoked pid (sv_agents (us_admin s1))"
proof -
  have "operator_routes (ORevoke n)" by (simp add: operator_routes_def)
  then have "admin_serve ue req s = operator_auth_middleware ue (operator_handler ue (ORevoke n)) req s"
    using assms(1) by (simp add: admin_serve_def)
  then have "operator_run ue (operator_handler ue (ORevoke n)) req s (s1, resp)"
    using assms(4) operator_middleware_run [of ue "operator_handler ue (ORevoke n)" req s] by simp
  then show ?thesis
  proof cases
    case (admit opr log)
    let ?a = "(us_admin s)\<lparr> sv_audit := log \<rparr>"
    obtain a r where r: "revoke_agent (ue_ae ue) opr pid ?a = (a, r)" by fastforce
    have "(s1, resp) = answer (\<lambda>_. no_content) (a, r) (with_admin ?a s)"
      using admit(1) assms(2,3) r
      by (simp add: operator_handler_def operator_mount_def Let_def on_methods_def with_name_def op_revoke_agent_def with_admin_def)
    from answer_no_content [OF this [symmetric] assms(5)] revoke_agent_revokes r show ?thesis by blast
  next
    case (reject e log)
    with assms(5) show ?thesis by (cases e) (auto simp: error_response_def json_response_def)
  qed
qed


section \<open>The registrations behind the router\<close>

text \<open>Registrations with a catalog in step with the table.\<close>

definition live_regs :: "AdminRegs \<Rightarrow> bool" where
  "live_regs r \<longleftrightarrow> admin_inv r \<and> ad_catalog r \<noteq> None"

definition regs_sound :: "UdsState \<Rightarrow> bool" where
  "regs_sound s \<longleftrightarrow> (\<exists>r. us_registrations s = Some r \<and> live_regs r)"

definition keeps_regs :: "uds_handler \<Rightarrow> bool" where
  "keeps_regs h \<longleftrightarrow> (\<forall>req s. regs_sound s \<longrightarrow> regs_sound (fst (h req s)))"

lemma keeps_regs_frame: "(\<And>req s. us_registrations (fst (h req s)) = us_registrations s) \<Longrightarrow> keeps_regs h"
  by (simp add: keeps_regs_def regs_sound_def)

lemma uds_frame [simp]:
  "us_registrations (with_admin a s) = us_registrations s" "us_registrations (fst (answer ok r s)) = us_registrations s"
  "us_registrations (fst (on_oauth g s)) = us_registrations s"
  by (auto simp: with_admin_def answer_def on_oauth_def split: prod.splits sum.splits option.splits)

lemma with_input_frame:
  "(\<And>x s. us_registrations (fst (h x s)) = us_registrations s) \<Longrightarrow>
   us_registrations (fst (with_input r h s)) = us_registrations s"
  by (simp add: with_input_def split: sum.splits)

lemma agent_handlers_keep:
  "keeps_regs (handle_register ue)" "keeps_regs (handle_status agent)" "keeps_regs (handle_rotate ue agent)"
  "keeps_regs (handle_deregister ue agent)" "keeps_regs (handle_agent_tools agent)"
  by (auto intro!: keeps_regs_frame with_input_frame
           simp: handle_register_def handle_status_def handle_rotate_def handle_deregister_def handle_agent_tools_def)

lemma operator_handlers_keep:
  "keeps_regs (op_list_agents ue)" "keeps_regs (op_get_agent n)" "keeps_regs (op_create_agent ue opr)"
  "keeps_regs (op_modify_agent ue opr n)" "keeps_regs (op_revoke_agent ue opr n)"
  "keeps_regs (op_set_agent_cert_identity ue opr n)" "keeps_regs (op_mint_bootstrap ue opr)"
  "keeps_regs op_list_bootstrap" "keeps_regs (op_revoke_bootstrap ue opr n)" "keeps_regs op_list_tools"
  by (auto intro!: keeps_regs_frame with_input_frame
           simp: op_list_agents_def op_get_agent_def op_create_agent_def op_modify_agent_def op_revoke_agent_def
             op_set_agent_cert_identity_def op_mint_bootstrap_def op_list_bootstrap_def op_revoke_bootstrap_def
             op_list_tools_def)

lemma with_overrides_frame:
  "(\<And>c a. us_registrations (fst (h c a)) = us_registrations s) \<Longrightarrow>
   us_registrations (fst (with_overrides ident h s)) = us_registrations s"
  by (simp add: with_overrides_def split: option.splits sum.splits)

lemma other_handlers_keep:
  "keeps_regs (op_query_audit ue)" "keeps_regs (op_set_agent_credential ue n r)"
  "keeps_regs (op_unset_agent_credential n r)" "keeps_regs (op_list_agent_credentials n)"
  by (auto intro!: keeps_regs_frame with_input_frame with_overrides_frame
           simp: op_query_audit_def op_set_agent_credential_def op_unset_agent_credential_def
             op_list_agent_credentials_def split: sum.splits)

lemmas handlers_keep_regs = agent_handlers_keep operator_handlers_keep other_handlers_keep

lemma on_regs_sound:
  "(\<And>r. live_regs r \<Longrightarrow> live_regs (fst (h r))) \<Longrightarrow> regs_sound s \<Longrightarrow> regs_sound (fst (on_regs h s))"
  by (auto simp: on_regs_def regs_sound_def split: option.splits prod.splits) (metis fst_conv)

lemma regs_ops_sound:
  assumes "live_regs r"
  shows "live_regs (fst (op_put env now k n b r))" "live_regs (fst (op_delete env now k n r))"
    "live_regs (fst (op_enable env now k n r))"
proof -
  have inv: "admin_inv r" and cat: "ad_catalog r \<noteq> None" using assms by (simp_all add: live_regs_def)
  have "ad_catalog (fst (op_put env now k n b r)) \<noteq> None" "ad_catalog (fst (op_delete env now k n r)) \<noteq> None"
    "ad_catalog (fst (op_enable env now k n r)) \<noteq> None"
    using cat by (auto simp: op_put_def op_delete_def op_enable_def Let_def refresh_runtime_def
      split: option.splits sum.splits prod.splits if_splits)
  then show "live_regs (fst (op_put env now k n b r))" "live_regs (fst (op_delete env now k n r))"
    "live_regs (fst (op_enable env now k n r))"
    using admin_inv_step [OF admin_step.put inv] admin_inv_step [OF admin_step.del inv]
      admin_inv_step [OF admin_step.enable inv] by (simp_all add: live_regs_def)
qed

lemma keeps_regs_rules:
  "(\<And>n. keeps_regs (h n)) \<Longrightarrow> keeps_regs (with_name ue raw h)"
  "(\<And>x. keeps_regs (g x)) \<Longrightarrow> keeps_regs (\<lambda>req. with_input (i req) (\<lambda>x. g x req))"
  "keeps_regs (\<lambda>req. on_oauth (p req))"
  "(\<And>req r. live_regs r \<Longrightarrow> live_regs (fst (q req r))) \<Longrightarrow> keeps_regs (\<lambda>req. on_regs (q req))"
  by (auto simp: keeps_regs_def with_name_def with_input_def on_regs_sound split: option.splits sum.splits)
     (simp add: regs_sound_def)

lemma keeps_regs_methods:
  assumes "list_all (\<lambda>(m, h). keeps_regs h) hs"
  shows "keeps_regs (on_methods hs)"
proof -
  have h: "keeps_regs h" if "map_of hs m = Some h" for m h
    using assms map_of_SomeD [OF that] by (auto simp: list_all_iff)
  show ?thesis
    unfolding keeps_regs_def
  proof (intro allI impI)
    fix req and s :: UdsState
    assume "regs_sound s"
    with h have g: "map_of hs m = Some g \<Longrightarrow> regs_sound (fst (g req s))" for m g by (auto simp: keeps_regs_def)
    show "regs_sound (fst (on_methods hs req s))"
    proof (cases "map_of hs (rq_method req)")
      case None
      then show ?thesis
        using g [of "''GET''"] \<open>regs_sound s\<close>
        by (cases "map_of hs ''GET''") (simp_all add: on_methods_def split_beta)
    qed (use g in \<open>simp add: on_methods_def\<close>)
  qed
qed

lemma agent_handler_regs: "keeps_regs (agent_handler ue route agent)"
  by (cases route) (simp_all add: agent_handler_def agent_mount_def keeps_regs_methods handlers_keep_regs)

lemma operator_handler_regs: "keeps_regs (operator_handler ue route opr)"
  by (cases route)
     (simp_all add: operator_handler_def operator_mount_def Let_def keeps_regs_methods handlers_keep_regs
        keeps_regs_rules regs_ops_sound)

lemma admin_serve_regs:
  assumes "regs_sound s"
  shows "regs_sound (fst (admin_serve ue req s))"
proof -
  let ?route = "admin_route s (rq_path req)"
  have admin: "regs_sound (with_admin a s)" for a using assms by (simp add: regs_sound_def)
  have op: "regs_sound (fst (operator_auth_middleware ue (operator_handler ue ?route) req s))"
  proof -
    have "operator_run ue (operator_handler ue ?route) req s (operator_auth_middleware ue (operator_handler ue ?route) req s)"
      by (rule operator_middleware_run)
    then show ?thesis
      by cases (use operator_handler_regs admin in \<open>auto simp: keeps_regs_def\<close>)
  qed
  have "regs_sound (fst (agent_auth_middleware ue (agent_handler ue ?route) req s))"
    using agent_handler_regs admin assms
    by (auto simp: agent_auth_middleware_def Let_def keeps_regs_def split: option.splits prod.splits sum.splits)
  with op assms handlers_keep_regs(1) [of ue] show ?thesis
    by (simp add: admin_serve_def Let_def keeps_regs_def)
qed

lemma admin_run_regs: "regs_sound s \<Longrightarrow> regs_sound (admin_run rs s)"
  by (induction rs arbitrary: s) (auto simp: admin_serve_regs)
end
