(* ===== verification/Cli_Props.thy ===== *)
theory Cli_Props
  imports Cli_Commands Cli_Offline Admin_Uds_Props
begin

text \<open>
  The command line against the administration router: the request a command
  builds is one the router serves, and a command that reports success had its
  effect.  The transport is the one-shot client of \<open>src/admin/uds_client.rs\<close>
  connected to the router.
\<close>

section \<open>Definitions\<close>

text \<open>The request target: a fragment is dropped, the query starts at the first question mark.\<close>

definition uri_target :: "string \<Rightarrow> string" where
  "uri_target uri = takeWhile (\<lambda>c. c \<noteq> CHR 0x23) uri"

definition path_of :: "string \<Rightarrow> string" where
  "path_of uri = takeWhile (\<lambda>c. c \<noteq> CHR ''?'') (uri_target uri)"

definition query_of :: "string \<Rightarrow> string option" where
  "query_of uri = map_option snd (split_once (CHR ''?'') (uri_target uri))"

definition http_request :: "JsonCodec \<Rightarrow> CliRequest \<Rightarrow> Request" where
  "http_request jx q =
     \<lparr> rq_method = cq_method q, rq_path = path_of (cq_path q), rq_query = query_of (cq_path q),
       rq_headers = [(''host'', ''locksmith.local''), (''authorization'', ''Bearer '' @ cq_token q)] @
         (if cq_body q = None then [] else [(''content-type'', ''application/json'')]),
       rq_body = Some (case cq_body q of None \<Rightarrow> [] | Some j \<Rightarrow> jx_print jx j),
       rq_peer_cert = None, rq_auth = None, rq_identity = None \<rparr>"

definition body_text :: "JsonCodec \<Rightarrow> body \<Rightarrow> string" where
  "body_text jx b = (case b of JsonBody j \<Rightarrow> jx_print jx j | Bytes t \<Rightarrow> t | _ \<Rightarrow> [])"

text \<open>\<open>builds\<close> says which requests the request builder accepts.\<close>

definition uds_request :: "JsonCodec \<Rightarrow> (CliRequest \<Rightarrow> bool) \<Rightarrow> UdsEnv \<Rightarrow> UdsState transport" where
  "uds_request jx builds ue q s =
     (if \<not> builds q then (s, Inl Transport)
      else case admin_serve ue (http_request jx q) s of
             (s', resp) \<Rightarrow> (s', Inr (rs_status resp, body_text jx (rs_body resp))))"

text \<open>The path segments a command takes from its arguments.\<close>

fun agent_segments :: "AgentCmd \<Rightarrow> string list" where
  "agent_segments (AgGet i) = [i]"
| "agent_segments (AgModify i _ _) = [i]"
| "agent_segments (AgRevoke i _) = [i]"
| "agent_segments (AgSetCertIdentity i _ _) = [i]"
| "agent_segments (AgSetCredential a) = [sa_id a, sa_registration a]"
| "agent_segments (AgUnsetCredential i r) = [i, r]"
| "agent_segments (AgCredentials i) = [i]"
| "agent_segments _ = []"

fun cmd_segments :: "Cmd \<Rightarrow> string list" where
  "cmd_segments (Agent c) = agent_segments c"
| "cmd_segments (Bootstrap c) = (case c of BtRevoke i \<Rightarrow> [i] | _ \<Rightarrow> [])"
| "cmd_segments (Registration k c) =
     (case c of RgList \<Rightarrow> [] | RgGet n \<Rightarrow> [n] | RgPut n _ \<Rightarrow> [n] | RgDelete n \<Rightarrow> [n] | RgEnable n \<Rightarrow> [n])"
| "cmd_segments (Oauth c) =
     (case c of OaBootstrap a \<Rightarrow> [ba_name a] | OaStatus n _ \<Rightarrow> [n] | OaRevoke n _ \<Rightarrow> [n] | OaList \<Rightarrow> [])"
| "cmd_segments _ = []"

text \<open>An argument that stays one path segment.\<close>

definition plain_segment :: "string \<Rightarrow> bool" where
  "plain_segment i \<longleftrightarrow> i \<noteq> [] \<and> set i \<inter> {CHR ''/'', CHR ''?'', CHR 0x23} = {}"

text \<open>A method mounted on a route of the router, for whoever authenticates there.\<close>

definition serves :: "UdsEnv \<Rightarrow> AdminRoute \<Rightarrow> string \<Rightarrow> bool" where
  "serves ue route m \<longleftrightarrow>
     (if operator_routes route then \<forall>opr. m \<in> fst ` set (operator_mount ue route opr)
      else \<forall>agent. m \<in> fst ` set (agent_mount ue route agent))"

section \<open>Lemmas\<close>

lemma path_of_append:
  "set a \<inter> {CHR ''?'', CHR 0x23} = {} \<Longrightarrow> path_of (a @ b) = a @ path_of b"
  by (induction a) (auto simp: path_of_def uri_target_def)

lemma path_of_stop [simp]: "path_of [] = []" "path_of (CHR ''?'' # b) = []"
  by (simp_all add: path_of_def uri_target_def)

lemma path_of_plain: "set a \<inter> {CHR ''?'', CHR 0x23} = {} \<Longrightarrow> path_of a = a"
  using path_of_append [of a "[]"] by simp

lemma plain_path: "plain_segment i \<Longrightarrow> path_of (i @ b) = i @ path_of b"
  by (rule path_of_append) (auto simp: plain_segment_def)

lemma plain_split:
  assumes "plain_segment i"
  shows "split_on (CHR ''/'') i = [i]" "split_on (CHR ''/'') (i @ CHR ''/'' # b) = i # split_on (CHR ''/'') b"
  using assms by (simp_all add: plain_segment_def split_on_none split_on_seg)

lemma serves_operator:
  "serves ue OAgents ''GET''" "serves ue OAgents ''POST''" "serves ue (OAgent n) ''GET''" "serves ue (OAgent n) ''PATCH''"
  "serves ue (ORevoke n) ''POST''" "serves ue (OCertIdentity n) ''PATCH''" "serves ue (OCredentials n) ''GET''"
  "serves ue (OCredential n r) ''PUT''" "serves ue (OCredential n r) ''DELETE''"
  "serves ue OBootstrapTokens ''GET''" "serves ue OBootstrapTokens ''POST''" "serves ue (OBootstrapRevoke n) ''POST''"
  "serves ue OAudit ''GET''" "serves ue (ORegs k) ''GET''" "serves ue (OReg k n) ''GET''" "serves ue (OReg k n) ''PUT''"
  "serves ue (OReg k n) ''DELETE''" "serves ue (OEnable k n) ''POST''" "serves ue OOauth ''GET''"
  "serves ue (OOauthName n) ''GET''" "serves ue (OOauthName n) ''DELETE''" "serves ue (OOauthBootstrap n) ''POST''"
  by (simp_all add: serves_def operator_routes_def operator_mount_def Let_def)

lemma serves_agent: "serves ue AStatus ''GET''" "serves ue ARotate ''POST''"
  by (simp_all add: serves_def operator_routes_def agent_mount_def)

lemma operator_path:
  assumes "CHR ''/'' \<notin> set p"
  shows "admin_route s (''/admin/operator/'' @ p @ CHR ''/'' # rest) =
           operator_route s (p # split_on (CHR ''/'') rest)"
    "admin_route s (''/admin/operator/'' @ p) = operator_route s [p]"
proof -
  have "split_on (CHR ''/'') (''/admin/operator/'' @ x) = [] # ''admin'' # ''operator'' # split_on (CHR ''/'') x" for x
    using split_on_append [of "CHR ''/''" "''/admin/operator''" x] by simp
  with assms show "admin_route s (''/admin/operator/'' @ p @ CHR ''/'' # rest) =
           operator_route s (p # split_on (CHR ''/'') rest)"
    "admin_route s (''/admin/operator/'' @ p) = operator_route s [p]"
    by (simp_all add: admin_route_def split_on_seg split_on_none del: append_Cons)
qed


text \<open>Where a path below a group of operator routes leads.\<close>

lemma agents_paths:
  "admin_route s (path_of (''/admin/operator/agents/'' @ x)) = agents_route (split_on (CHR ''/'') (path_of x))"
  "admin_route s ''/admin/operator/agents'' = OAgents"
  using operator_path(1) [of "''agents''" s "path_of x"] operator_path(2) [of "''agents''" s]
    path_of_append [of "''/admin/operator/agents/''" x]
  by (simp_all add: operator_route_def agents_route_def)

lemma bootstrap_paths:
  assumes "plain_segment i"
  shows "admin_route s (path_of (''/admin/operator/bootstrap_tokens/'' @ i @ ''/revoke'')) = OBootstrapRevoke i"
proof -
  have "path_of (''/admin/operator/bootstrap_tokens/'' @ i @ ''/revoke'') = ''/admin/operator/bootstrap_tokens/'' @ i @ ''/revoke''"
    by (subst path_of_append, simp) (use assms in \<open>simp add: plain_path path_of_plain\<close>)
  then show ?thesis
    using assms operator_path(1) [of "''bootstrap_tokens''" s "i @ ''/revoke''"] plain_split(2) [OF assms, of "''revoke''"]
    by (simp add: operator_route_def plain_segment_def)
qed

lemma oauth_paths:
  assumes "us_oauth s \<noteq> None"
  shows "admin_route s (path_of (''/admin/operator/oauth/'' @ x)) = oauth_route (split_on (CHR ''/'') (path_of x))"
    "admin_route s ''/admin/operator/oauth'' = OOauth"
  using assms operator_path(1) [of "''oauth''" s "path_of x"] operator_path(2) [of "''oauth''" s]
    path_of_append [of "''/admin/operator/oauth/''" x]
  by (simp_all add: operator_route_def oauth_route_def del: not_None_eq)

lemma registration_paths:
  assumes "us_registrations s \<noteq> None"
  shows "admin_route s (path_of (reg_path k x)) = registrations_route (url_segment k # split_on (CHR ''/'') (path_of x))"
    "admin_route s (''/admin/operator/'' @ url_segment k) = ORegs k"
proof -
  have p: "path_of (reg_path k x) = ''/admin/operator/'' @ url_segment k @ CHR ''/'' # path_of x"
    using path_of_append [of "''/admin/operator/'' @ url_segment k @ ''/''" x] by (cases k) (simp_all add: reg_path_def)
  have r: "operator_route s (url_segment k # segs) = registrations_route (url_segment k # segs)" for segs
    using assms by (cases k) (simp_all add: operator_route_def del: not_None_eq)
  have k: "CHR ''/'' \<notin> set (url_segment k)" by (cases k) simp_all
  show "admin_route s (path_of (reg_path k x)) = registrations_route (url_segment k # split_on (CHR ''/'') (path_of x))"
    unfolding p operator_path(1) [OF k] r ..
  show "admin_route s (''/admin/operator/'' @ url_segment k) = ORegs k"
    unfolding operator_path(2) [OF k] r by (cases k) (simp_all add: registrations_route_def kind_of_segment_def)
qed

lemma fixed_paths:
  "admin_route s ''/admin/operator/audit'' = OAudit" "admin_route s ''/admin/agent/status'' = AStatus"
  "admin_route s ''/admin/agent/rotate'' = ARotate" "admin_route s ''/admin/operator/bootstrap_tokens'' = OBootstrapTokens"
  by (simp_all add: admin_route_def operator_route_def agent_route_def)

text \<open>A label query never changes the path.\<close>

lemma label_path:
  assumes "with_label_query dbg path label = Inr p" "set path \<inter> {CHR ''?'', CHR 0x23} = {}"
  shows "path_of p = path"
  using assms by (auto simp: with_label_query_def path_of_plain path_of_append split: option.splits if_splits)

lemma plain_facts:
  "plain_segment i \<Longrightarrow> i \<noteq> []" "plain_segment i \<Longrightarrow> path_of i = i"
  "plain_segment i \<Longrightarrow> set i \<inter> {CHR ''?'', CHR 0x23} = {}"
  by (auto simp: plain_segment_def path_of_plain)

lemma suffix_paths:
  "path_of ''/revoke'' = ''/revoke''" "path_of ''/cert_identity'' = ''/cert_identity''"
  "path_of ''/credentials'' = ''/credentials''" "path_of ''/enable'' = ''/enable''"
  "path_of (''/credentials/'' @ x) = ''/credentials/'' @ path_of x"
  "path_of ''/admin/operator/agents'' = ''/admin/operator/agents''"
  using path_of_append [of "''/credentials/''" x] by (simp_all add: path_of_plain)

lemma revoked_query_path: "path_of ''/admin/operator/agents?include_revoked=true'' = ''/admin/operator/agents''"
  by (simp add: path_of_def uri_target_def)

lemmas agent_paths = revoked_query_path agents_paths [unfolded append.simps] suffix_paths [unfolded append.simps]
  plain_path plain_split plain_facts

lemma agent_call_served:
  assumes "agent_call dbg tok c = Inr (q, ans)" "list_all plain_segment (agent_segments c)"
  shows "serves ue (admin_route s (path_of (cq_path q))) (cq_method q)"
  using assms
  by (cases c) (auto simp: call_def agent_paths agents_route_def serves_operator split: sum.splits if_splits)

lemma kind_call_eq: "kind_call k = registration_call k"
  by (cases k) (simp_all add: tool_call_def model_call_def infra_call_def)

lemma registration_call_served:
  assumes "registration_call k tok c = Inr (q, ans)" "list_all plain_segment (cmd_segments (Registration k c))"
    "us_registrations s \<noteq> None"
  shows "serves ue (admin_route s (path_of (cq_path q))) (cq_method q)"
proof (cases c)
  case RgList
  have "path_of (''/admin/operator/'' @ url_segment k) = ''/admin/operator/'' @ url_segment k"
    by (rule path_of_plain) (cases k, simp_all)
  with RgList assms(1) registration_paths(2) [OF assms(3)] show ?thesis by (auto simp: call_def serves_operator)
next
  case (RgEnable n)
  have p: "reg_path k n @ ''/enable'' = reg_path k (n @ ''/enable'')" for k by (simp add: reg_path_def)
  show ?thesis
    using assms RgEnable registration_paths(1) [OF assms(3), of k "n @ ''/enable''"]
    by (cases k) (auto simp: call_def p agent_paths registrations_route_def kind_of_segment_def serves_operator)
qed (cases k; use assms registration_paths(1) [OF assms(3)] in
      \<open>auto simp: call_def agent_paths registrations_route_def kind_of_segment_def serves_operator split: sum.splits\<close>)+

lemma oauth_label_path:
  assumes "with_label_query dbg (''/admin/operator/oauth/'' @ x) label = Inr p" "set x \<inter> {CHR ''?'', CHR 0x23} = {}"
    "us_oauth s \<noteq> None"
  shows "admin_route s (path_of p) = oauth_route (split_on (CHR ''/'') x)"
proof -
  have "path_of p = ''/admin/operator/oauth/'' @ x" by (rule label_path [OF assms(1)]) (use assms(2) in auto)
  with oauth_paths(1) [OF assms(3), of x] path_of_plain [OF assms(2)] path_of_append [of "''/admin/operator/oauth/''" x]
  show ?thesis by simp
qed

lemma oauth_call_served:
  assumes "oauth_call dbg inp tok c = Inr (q, ans)" "list_all plain_segment (cmd_segments (Oauth c))" "us_oauth s \<noteq> None"
  shows "serves ue (admin_route s (path_of (cq_path q))) (cq_method q)"
proof (cases c)
  case (OaBootstrap args)
  with assms(1) obtain p where q: "cq_path q = p" "cq_method q = ''POST''"
    "with_label_query dbg (''/admin/operator/oauth/'' @ ba_name args @ ''/bootstrap'') (ba_label args) = Inr p"
    by (auto simp: oauth_bootstrap_def with_token_def call_def split: sum.splits if_splits)
  have "plain_segment (ba_name args)" using assms(2) OaBootstrap by simp
  then show ?thesis
    using oauth_label_path [OF q(3) _ assms(3)]
    by (auto simp: q plain_facts(1,3) plain_split oauth_route_def serves_operator)
next
  case (OaStatus n label)
  with assms(1) obtain p where q: "cq_path q = p" "cq_method q = ''GET''"
    "with_label_query dbg (''/admin/operator/oauth/'' @ n) label = Inr p"
    by (auto simp: with_token_def call_def split: sum.splits)
  have "plain_segment n" using assms(2) OaStatus by simp
  then show ?thesis
    using oauth_label_path [OF q(3) _ assms(3)] by (auto simp: q plain_facts(1,3) plain_split oauth_route_def serves_operator)
next
  case (OaRevoke n label)
  with assms(1) obtain p where q: "cq_path q = p" "cq_method q = ''DELETE''"
    "with_label_query dbg (''/admin/operator/oauth/'' @ n) label = Inr p"
    by (auto simp: with_token_def call_def split: sum.splits)
  have "plain_segment n" using assms(2) OaRevoke by simp
  then show ?thesis
    using oauth_label_path [OF q(3) _ assms(3)] by (auto simp: q plain_facts(1,3) plain_split oauth_route_def serves_operator)
next
  case OaList
  with assms(1) oauth_paths(2) [OF assms(3)] show ?thesis
    by (auto simp: with_token_def call_def path_of_plain serves_operator split: sum.splits)
qed

lemma audit_call_served:
  "audit_call tok a = (q, ans) \<Longrightarrow> serves ue (admin_route s (path_of (cq_path q))) (cq_method q)"
  using path_of_append [of "''/admin/operator/audit''"]
  by (auto simp: audit_call_def Let_def call_def path_of_plain fixed_paths serves_operator split: if_splits)


text \<open>A command that exits with 0 had its request built, sent and answered with a success status.\<close>

lemma exit_code_not_zero: "exit_code e \<noteq> 0"
  by (cases e) simp_all

lemma cli_main_success:
  assumes "cli_main ce ep (\<lambda>_. uds_request (ce_json ce) builds ue) cmd s = (s', 0)"
  obtains q ans resp where "cmd_call ce cmd = Inr (q, ans)" "builds q"
    "admin_serve ue (http_request (ce_json ce) q) s = (s', resp)" "200 \<le> rs_status resp" "rs_status resp < 300"
  using assms
  by (auto simp: cli_main_def cmd_run_def uds_request_def settle_def client_json_def client_unit_def exit_code_not_zero
      split: sum.splits prod.splits if_splits Answer.splits option.splits)

lemma revoke_call:
  assumes "cmd_call ce (Agent (AgRevoke n reason)) = Inr (q, ans)" "plain_segment n"
  shows "admin_route s (rq_path (http_request jx q)) = ORevoke n" "rq_method (http_request jx q) = ''POST''"
  using assms
  by (auto simp: cmd_call_def with_token_def call_def http_request_def agent_paths agents_route_def split: sum.splits)

text \<open>
  Property C25: a revocation the command line reports as done is done.  When
  \<open>agent revoke\<close> over the administration socket exits with 0, the agent is not
  active, and stays inactive through any later requests to the router.
\<close>

theorem cli_revoke_takes_effect:
  assumes "service_inv (us_admin s)" "plain_segment n" "ue_percent_decode ue n = Some pid"
    and "cli_main ce ep (\<lambda>_. uds_request (ce_json ce) builds ue) (Agent (AgRevoke n reason)) s = (s', 0)"
  shows "get_active_by_public_id pid (sv_agents (us_admin (admin_run later s'))) = None"
proof -
  from cli_main_success [OF assms(4)] obtain q ans resp where
    q: "cmd_call ce (Agent (AgRevoke n reason)) = Inr (q, ans)"
    and serve: "admin_serve ue (http_request (ce_json ce) q) s = (s', resp)" "rs_status resp < 300"
    by blast
  have rev: "revoked pid (sv_agents (us_admin s'))"
    by (rule revoke_request_revokes [OF revoke_call [OF q assms(2)] assms(3) serve])
  have inv: "service_inv (us_admin s')"
    using admin_serve_steps [of s ue "http_request (ce_json ce) q"] assms(1) serve(1) service.reach_inv by fastforce
  show ?thesis
    using service.reach_inv [OF admin_run_steps inv] service_revocation.reach_fact [OF admin_run_steps inv rev]
    by (intro get_active_revoked) (simp_all add: service_inv_def)
qed

text \<open>And an operator's command does succeed on an account in the table.\<close>

lemma cli_revoke_succeeds:
  assumes "ce_env ce ''LOCKSMITH_OP_TOKEN'' = Some tok" "plain_segment n" "ue_percent_decode ue n = Some pid"
    and "builds (fst (call ''POST'' (''/admin/operator/agents/'' @ n @ ''/revoke'') tok None (Ignores None)))"
    and "us_operator_mtls s = None" "hdr_to_str (''Bearer '' @ tok) = Some (''Bearer '' @ tok)"
    and "operator_authenticate_bearer (ae_crypto (ue_ae ue)) (ae_clk (ue_ae ue)) (us_operators s) (''Bearer '' @ tok)
           (sv_audit (us_admin s)) = (log, Inr opr)"
    and "snd (agent_revoke (ae_now (ue_ae ue)) pid (sv_agents (us_admin s))) = Inr ()"
  shows "snd (cli_main ce (Inr e) (\<lambda>_. uds_request (ce_json ce) builds ue) (Agent (AgRevoke n reason)) s) = 0"
proof -
  let ?c = "call ''POST'' (''/admin/operator/agents/'' @ n @ ''/revoke'') tok None (Ignores None)"
  let ?r = "http_request (ce_json ce) (fst ?c)"
  let ?a = "(us_admin s)\<lparr> sv_audit := log \<rparr>"
  have c: "cmd_call ce (Agent (AgRevoke n reason)) = Inr ?c"
    using assms(1) by (simp add: cmd_call_def op_token_def with_token_def)
  then have c': "cmd_call ce (Agent (AgRevoke n reason)) = Inr (fst ?c, snd ?c)" by simp
  have "header_str ''authorization'' ?r = Some (''Bearer '' @ tok)"
    using assms(6) by (simp add: header_str_def http_request_def hdr_get_def call_def)
  then have "admin_serve ue ?r s =
      operator_handler ue (ORevoke n) opr ?r (with_admin ?a s)"
    using assms(5,7) revoke_call(1) [OF c' assms(2), of s "ce_json ce"]
    by (simp add: admin_serve_def operator_routes_def operator_auth_middleware_def operator_bearer_def Let_def)
  also have "\<dots> = answer (\<lambda>_. no_content) (revoke_agent (ue_ae ue) opr pid ?a) (with_admin ?a s)"
    using assms(3) revoke_call(2) [OF c' assms(2), of "ce_json ce"]
    by (simp add: operator_handler_def operator_mount_def Let_def on_methods_def with_name_def op_revoke_agent_def with_admin_def)
  finally have "rs_status (snd (admin_serve ue ?r s)) = 204"
    using assms(8) by (simp add: answer_def revoke_agent_def lift_repo_def no_content_def split: prod.splits)
  then show ?thesis
    using c assms(4)
    by (simp add: cli_main_def cmd_run_def uds_request_def settle_def client_unit_def call_def split_beta)
qed

definition sample_cli :: CliEnv where
  "sample_cli =
     \<lparr> ce_env = (\<lambda>v. if v = ''LOCKSMITH_OP_TOKEN''
         then Some (wire_format (generate b64url_encode TokenNamespace.Operator (replicate 16 7) (replicate 32 9))) else None),
       ce_debug = id, ce_stdin = Inr [], ce_json = \<lparr> jx_parse = (\<lambda>_. None), jx_print = (\<lambda>_. []) \<rparr> \<rparr>"

definition sample_cli_uds :: UdsState where
  "sample_cli_uds = sample_uds\<lparr>
     us_admin := sample_service\<lparr> sv_agents := \<lparr> at_rows =
       [\<lparr> ag_id = 1, ag_public_id = ''x'', ag_name = ''bot'', ag_description = None, ag_secret_hash = ''h'',
          ag_tool_allowlist = None, ag_tool_denylist = None, ag_metadata = None, ag_cert_identity = None,
          ag_registered_at = 0, ag_last_used_at = None, ag_expires_at = None, ag_revoked_at = None \<rparr>], at_last_id = 1 \<rparr> \<rparr>,
     us_operators := [\<lparr> or_name = ''alice'', or_public_id = b64url_encode (replicate 16 7),
       or_token_hash = ''$argon2id$'' @ b64url_encode (replicate 32 9), or_scope = None, or_cert_identity = None \<rparr>] \<rparr>"

abbreviation sample_cli_run :: "UdsState \<times> nat" where
  "sample_cli_run \<equiv> cli_main sample_cli (Inr (Uds ''admin.sock''))
     (\<lambda>_. uds_request (ce_json sample_cli) (\<lambda>_. True) sample_ue) (Agent (AgRevoke ''x'' None)) sample_cli_uds"

lemma sample_cli_exit: "snd sample_cli_run = 0"
proof -
  let ?tok = "wire_format (generate b64url_encode TokenNamespace.Operator (replicate 16 7) (replicate 32 9))"
  have "hdr_to_str (''Bearer '' @ ?tok) = Some (''Bearer '' @ ?tok)" by code_simp
  moreover have "parse b64url_decode ?tok =
      Inr (TokenNamespace.Operator, PublicId (b64url_encode (replicate 16 7)), Secret (b64url_encode (replicate 32 9)))"
    using parse_generated_entropy [OF sample_crypto_b64 sample_entropy_ok, of TokenNamespace.Operator]
    by (simp add: sample_crypto_def sample_entropy_def)
  then have "operator_authenticate_bearer sample_crypto clk (us_operators sample_cli_uds) (''Bearer '' @ ?tok) log =
      (log, Inr \<lparr> oi_name = ''alice'', oi_scope = None, oi_auth_method = None \<rparr>)" for clk log
    by (simp add: operator_authenticate_bearer_def strip_prefix_def starts_with_def Let_def sample_cli_uds_def
          argon2_verify_def sample_crypto_def)
  ultimately show ?thesis
    by (intro cli_revoke_succeeds [where tok = ?tok and pid = "''x''"])
      (simp_all add: sample_cli_def plain_segment_def sample_ue_def sample_ae_def sample_cli_uds_def sample_uds_def
        agent_revoke_def agent_update_def rows_affected_def)
qed

theorem cli_revoke_takes_effect_witness:
  "snd sample_cli_run = 0 \<and>
   get_active_by_public_id ''x'' (sv_agents (us_admin (admin_run [(sample_ue, sample_admin_req)] (fst sample_cli_run)))) = None"
proof -
  have inv: "service_inv (us_admin sample_cli_uds)"
    by (simp add: sample_cli_uds_def service_inv_def agents_inv_def)
  have n: "plain_segment ''x''" "ue_percent_decode sample_ue ''x'' = Some ''x''"
    by (simp_all add: plain_segment_def sample_ue_def)
  have "sample_cli_run = (fst sample_cli_run, 0)" using sample_cli_exit by (simp add: prod_eq_iff)
  from cli_revoke_takes_effect [OF inv n this] sample_cli_exit show ?thesis by blast
qed

end
