(* ===== verification/Agent_Listener.thy ===== *)
theory Agent_Listener
  imports Mtls Request Config
begin

text \<open>
  The TLS front of the agent listener and of the administration HTTPS listener,
  \<open>src/agent_listener.rs\<close>: the server configuration built from the certificate,
  key and CA files, and the per-connection handler that stamps the peer
  certificate into every request.  PEM and key parsing, the trust-anchor store
  and the handshake belong to the TLS library and are parameters.
\<close>

section \<open>Definitions\<close>

record TlsIo =
  tl_read :: "string \<Rightarrow> string option"
  tl_certs :: "string \<Rightarrow> string list option"
  tl_private_key :: "string \<Rightarrow> string option option"
  tl_pem :: "string \<Rightarrow> (string \<times> string) list option"
  tl_add_root :: "string \<Rightarrow> bool"
  tl_verifier_ok :: "string list \<Rightarrow> bool"
  tl_single_cert_ok :: "string list \<Rightarrow> string \<Rightarrow> bool"

text \<open>\<open>tls_client_required\<close> is false for the verifier that also admits clients without a certificate.\<close>

record ServerConfig =
  tls_client_roots :: "string list"
  tls_client_required :: bool
  tls_chain :: "string list"
  tls_key :: string

text \<open>The last branch is the \<open>unreachable!\<close> of the bearer mode.\<close>

datatype TlsError = TlsIoError | TlsInvalid string | TlsPanic

definition build_server_config ::
  "TlsIo \<Rightarrow> string \<Rightarrow> string \<Rightarrow> string \<Rightarrow> AuthMode \<Rightarrow> (TlsError, ServerConfig) result" where
  "build_server_config io cert_path key_path ca_pem mode =
     (case (tl_read io cert_path, tl_read io key_path) of
        (Some cert_pem, Some key_pem) \<Rightarrow>
          (case tl_certs io cert_pem of
             None \<Rightarrow> Inl (TlsInvalid ''server cert parse'')
           | Some [] \<Rightarrow> Inl (TlsInvalid ''no CERTIFICATE PEM blocks'')
           | Some chain \<Rightarrow>
               (case tl_private_key io key_pem of
                  None \<Rightarrow> Inl (TlsInvalid ''server key parse'')
                | Some None \<Rightarrow> Inl (TlsInvalid ''no PRIVATE KEY block'')
                | Some (Some key) \<Rightarrow>
                    (case tl_pem io ca_pem of
                       None \<Rightarrow> Inl (TlsInvalid ''ca bundle parse'')
                     | Some blocks \<Rightarrow>
                         let roots = filter (tl_add_root io) (map snd (filter (\<lambda>b. fst b = ''CERTIFICATE'') blocks)) in
                         if roots = [] then Inl (TlsInvalid ''ca bundle: no usable trust anchors'')
                         else if mode = Bearer then Inl TlsPanic
                         else if \<not> tl_verifier_ok io roots then Inl (TlsInvalid ''client cert verifier'')
                         else if \<not> tl_single_cert_ok io chain key then Inl (TlsInvalid ''server config'')
                         else Inr \<lparr> tls_client_roots = roots, tls_client_required = (mode = Mtls),
                                    tls_chain = chain, tls_key = key \<rparr>)))
      | _ \<Rightarrow> Inl TlsIoError)"

text \<open>
  One connection: \<open>handshake\<close> is the outcome of the TLS handshake under the
  configuration, \<open>None\<close> when it fails, else the chain the client presented.
  Every request on the connection is served with the leaf certificate stamped in.
\<close>

type_synonym handshake = "ServerConfig \<Rightarrow> string list option \<Rightarrow> string list option option"

fun serve_requests :: "(Request \<Rightarrow> 's \<Rightarrow> 's \<times> Response) \<Rightarrow> string option \<Rightarrow> Request list \<Rightarrow> 's \<Rightarrow> 's \<times> Response list" where
  "serve_requests app peer [] s = (s, [])"
| "serve_requests app peer (r # rs) s =
     (case app (r\<lparr> rq_peer_cert := peer \<rparr>) s of
        (s', resp) \<Rightarrow> (case serve_requests app peer rs s' of (s'', resps) \<Rightarrow> (s'', resp # resps)))"

definition handle_conn ::
  "handshake \<Rightarrow> ServerConfig \<Rightarrow> (Request \<Rightarrow> 's \<Rightarrow> 's \<times> Response) \<Rightarrow> string list option \<Rightarrow> Request list \<Rightarrow> 's \<Rightarrow> 's \<times> Response list" where
  "handle_conn hs cfg app presented reqs s =
     (case hs cfg presented of
        None \<Rightarrow> (s, [])
      | Some peers \<Rightarrow>
          serve_requests app (Option.bind peers (\<lambda>cs. case cs of [] \<Rightarrow> None | c # _ \<Rightarrow> Some c)) reqs s)"

text \<open>
  The accept loop.  A turn of its biased \<open>select!\<close> says whether the shutdown
  future is resolved and what \<open>accept\<close> yields: nothing yet, a failure, or a
  connection, which is spawned.  The result is what was spawned and whether the
  loop has ended.
\<close>

record 'c AcceptTurn =
  at_shutdown :: bool
  at_accept :: "'c option option"

fun accept_loop :: "'c AcceptTurn list \<Rightarrow> 'c list \<times> bool" where
  "accept_loop [] = ([], False)"
| "accept_loop (t # ts) =
     (if at_shutdown t then ([], True)
      else (case at_accept t of
              Some (Some c) \<Rightarrow> (case accept_loop ts of (cs, fin) \<Rightarrow> (c # cs, fin))
            | _ \<Rightarrow> accept_loop ts))"

definition bind_and_serve_mtls ::
  "TlsIo \<Rightarrow> bool \<Rightarrow> string \<Rightarrow> string \<Rightarrow> string \<Rightarrow> AuthMode \<Rightarrow> 'c AcceptTurn list
    \<Rightarrow> (TlsError, ServerConfig \<times> 'c list \<times> bool) result" where
  "bind_and_serve_mtls io bind_ok cert_path key_path ca_pem mode turns =
     (case build_server_config io cert_path key_path ca_pem mode of
        Inl e \<Rightarrow> Inl e
      | Inr cfg \<Rightarrow> if bind_ok then Inr (cfg, accept_loop turns) else Inl TlsIoError)"


section \<open>Lemmas\<close>

text \<open>
  Since the branch of the shutdown comes first, a connection that is ready in the
  same turn is not taken, and nothing after that turn matters.
\<close>

lemma accept_loop_stops:
  assumes "\<forall>t \<in> set before. \<not> at_shutdown t" "at_shutdown t"
  shows "accept_loop (before @ t # after) = (map (the \<circ> the \<circ> at_accept) (filter (\<lambda>t. \<exists>c. at_accept t = Some (Some c)) before), True)"
  using assms by (induction before) (auto split: option.splits)

text \<open>
  What the handshake guarantees: it reports the chain the client presented, and
  under a verifier that requires a client certificate it fails without one.
\<close>

definition tls_handshake :: "handshake \<Rightarrow> bool" where
  "tls_handshake hs \<longleftrightarrow>
     (\<forall>cfg presented peers. hs cfg presented = Some peers \<longrightarrow>
        peers = presented \<and> (tls_client_required cfg \<longrightarrow> (\<exists>c cs. presented = Some (c # cs))))"

lemma build_server_config_InrD:
  assumes "build_server_config io cert key ca mode = Inr cfg"
  shows "mode \<noteq> Bearer" "tls_client_required cfg \<longleftrightarrow> mode = Mtls" "tls_client_roots cfg \<noteq> []"
    "\<exists>v. validator_new (tl_pem io) ca = Inr v \<and> set (tls_client_roots cfg) \<subseteq> set (mv_roots v)"
  using assms
  by (auto simp: build_server_config_def validator_new_def Let_def split: option.splits list.splits if_splits)

lemma serve_requests_cong:
  assumes "\<And>r s. app (r\<lparr> rq_peer_cert := peer \<rparr>) s = app' (r\<lparr> rq_peer_cert := peer \<rparr>) s"
  shows "serve_requests app peer rs s = serve_requests app' peer rs s"
  using assms by (induction rs arbitrary: s) (auto split: prod.splits)


definition sample_tls :: TlsIo where
  "sample_tls =
     \<lparr> tl_read = Some, tl_certs = (\<lambda>c. Some [c]), tl_private_key = (\<lambda>k. Some (Some k)),
       tl_pem = (\<lambda>t. Some [(''CERTIFICATE'', t)]), tl_add_root = (\<lambda>_. True), tl_verifier_ok = (\<lambda>_. True),
       tl_single_cert_ok = (\<lambda>_ _. True) \<rparr>"

definition sample_handshake :: handshake where
  "sample_handshake cfg presented =
     (if tls_client_required cfg \<and> (presented = None \<or> presented = Some []) then None else Some presented)"

definition sample_conn_request :: Request where
  "sample_conn_request =
     \<lparr> rq_method = ''GET'', rq_path = ''/tools'', rq_query = None, rq_headers = [], rq_body = Some [],
       rq_peer_cert = None, rq_auth = None, rq_identity = None \<rparr>"

definition count_requests :: "Request \<Rightarrow> nat \<Rightarrow> nat \<times> Response" where
  "count_requests r n = (n + 1, \<lparr> rs_status = 200, rs_headers = [], rs_body = NoBody \<rparr>)"

end
