(* ===== verification/Shutdown.thy ===== *)
theory Shutdown
  imports Interfaces
begin

text \<open>
  The shutdown coordinator, \<open>src/shutdown.rs\<close>: a latched flag and a notifier
  that wakes every waiting \<open>shutdown_signal\<close>.  Callers of \<open>trigger\<close> and the
  futures of \<open>shutdown_signal\<close> run concurrently; one atomic action of one of
  them is a step.  The notifier counts its \<open>notify_waiters\<close> calls, and a
  \<open>Notified\<close> future is ready once a call has happened after its creation, which
  is the documented guarantee of the library.  The drain window is an argument
  of the functions that use it.
\<close>

section \<open>Definitions\<close>

definition DEFAULT_DRAIN_WINDOW_SECS :: nat where
  "DEFAULT_DRAIN_WINDOW_SECS = 30"

text \<open>
  Where a \<open>shutdown_signal\<close> future is: before the first load of the flag, before
  creating its \<open>Notified\<close>, before the second load, awaiting, or done.
\<close>

datatype Waiter = Start | Unset | Registered nat | Waiting nat | Resolved

text \<open>Where a caller of \<open>trigger\<close> is: before the store, before the notification, or done.\<close>

datatype Trigger = Before | Stored | Fired

record ShutdownCoordinator =
  sc_triggered :: bool
  sc_calls :: nat
  sc_waiters :: "Waiter list"
  sc_triggers :: "Trigger list"

definition coordinator_new :: ShutdownCoordinator where
  "coordinator_new = \<lparr> sc_triggered = False, sc_calls = 0, sc_waiters = [], sc_triggers = [] \<rparr>"

text \<open>
  The task that \<open>install\<close> spawns waits for a signal and then acts as a caller of
  \<open>trigger\<close>.  Given the times at which the two signals and a Ctrl-C arrive, if
  ever, \<open>wait_for_signal\<close> returns at the time below.
\<close>

definition coordinator_install :: ShutdownCoordinator where
  "coordinator_install = coordinator_new\<lparr> sc_triggers := [Before] \<rparr>"

fun earliest :: "nat option \<Rightarrow> nat option \<Rightarrow> nat option" where
  "earliest None t = t"
| "earliest t None = t"
| "earliest (Some a) (Some b) = Some (min a b)"

definition wait_for_signal :: "bool \<Rightarrow> bool \<Rightarrow> nat option \<Rightarrow> nat option \<Rightarrow> nat option \<Rightarrow> nat option" where
  "wait_for_signal term_ok int_ok sigterm sigint ctrl_c =
     (if \<not> term_ok then ctrl_c else if \<not> int_ok then ctrl_c else earliest sigterm sigint)"

definition is_triggered :: "ShutdownCoordinator \<Rightarrow> bool" where
  "is_triggered c = sc_triggered c"

fun poll_signal :: "bool \<Rightarrow> nat \<Rightarrow> Waiter \<Rightarrow> Waiter" where
  "poll_signal triggered calls Start = (if triggered then Resolved else Unset)"
| "poll_signal triggered calls Unset = Registered calls"
| "poll_signal triggered calls (Registered g) = (if triggered then Resolved else Waiting g)"
| "poll_signal triggered calls (Waiting g) = (if g < calls then Resolved else Waiting g)"
| "poll_signal triggered calls Resolved = Resolved"

fun advance_trigger :: "Trigger \<Rightarrow> Trigger" where
  "advance_trigger Before = Stored"
| "advance_trigger Stored = Fired"
| "advance_trigger Fired = Fired"

text \<open>One action: a new future, a new caller of \<open>trigger\<close>, or the next action of one of them.\<close>

datatype Act = Subscribe | CallTrigger | Poll nat | Advance nat

fun act :: "Act \<Rightarrow> ShutdownCoordinator \<Rightarrow> ShutdownCoordinator" where
  "act Subscribe c = c\<lparr> sc_waiters := sc_waiters c @ [Start] \<rparr>"
| "act CallTrigger c = c\<lparr> sc_triggers := sc_triggers c @ [Before] \<rparr>"
| "act (Poll i) c =
     (if i < length (sc_waiters c)
      then c\<lparr> sc_waiters := (sc_waiters c)[i := poll_signal (sc_triggered c) (sc_calls c) (sc_waiters c ! i)] \<rparr>
      else c)"
| "act (Advance i) c =
     (if i < length (sc_triggers c)
      then c\<lparr> sc_triggered := (sc_triggers c ! i = Before \<or> sc_triggered c),
              sc_calls := (if sc_triggers c ! i = Stored then sc_calls c + 1 else sc_calls c),
              sc_triggers := (sc_triggers c)[i := advance_trigger (sc_triggers c ! i)] \<rparr>
      else c)"

inductive coord_step :: "ShutdownCoordinator \<Rightarrow> ShutdownCoordinator \<Rightarrow> bool" where
  step: "coord_step c (act a c)"

fun coord_run :: "Act list \<Rightarrow> ShutdownCoordinator \<Rightarrow> ShutdownCoordinator" where
  "coord_run [] c = c"
| "coord_run (a # as) c = coord_run as (act a c)"

subsection \<open>Draining\<close>

text \<open>
  \<open>task\<close> is the time at which the awaited task is finished and its result,
  \<open>None\<close> when it never is.  The result carries the time of the return; \<open>None\<close> in
  it is \<open>DrainTimeout\<close>.
\<close>

definition drain_or_timeout :: "nat \<Rightarrow> nat \<Rightarrow> (nat \<times> 'a) option \<Rightarrow> nat \<times> 'a option" where
  "drain_or_timeout window now task =
     (case task of
        None \<Rightarrow> (now + window, None)
      | Some (done, out) \<Rightarrow> if done \<le> now + window then (max now done, Some out) else (now + window, None))"

text \<open>\<open>signal\<close> is the time at which the shutdown signal is observed, if ever.\<close>

definition await_shutdown_then_drain :: "nat \<Rightarrow> nat option \<Rightarrow> (nat \<times> 'a) option \<Rightarrow> (nat \<times> 'a option) option" where
  "await_shutdown_then_drain window signal task = map_option (\<lambda>now. drain_or_timeout window now task) signal"


section \<open>Lemmas\<close>

text \<open>
  The flag is set exactly when a caller has passed its store, the count is
  positive once a notification has gone out, and a future only waits if it was
  registered before the first notification.
\<close>

definition waiter_inv :: "bool \<Rightarrow> nat \<Rightarrow> Waiter \<Rightarrow> bool" where
  "waiter_inv triggered calls w =
     (case w of Registered g \<Rightarrow> g \<le> calls | Waiting g \<Rightarrow> g = 0 | Resolved \<Rightarrow> triggered | _ \<Rightarrow> True)"

definition trigger_inv :: "bool \<Rightarrow> nat \<Rightarrow> Trigger list \<Rightarrow> bool" where
  "trigger_inv triggered calls ts \<longleftrightarrow>
     (triggered \<longleftrightarrow> (\<exists>t \<in> set ts. t \<noteq> Before)) \<and> (0 < calls \<longleftrightarrow> Fired \<in> set ts)"

definition coord_inv :: "ShutdownCoordinator \<Rightarrow> bool" where
  "coord_inv c \<longleftrightarrow>
     trigger_inv (sc_triggered c) (sc_calls c) (sc_triggers c) \<and>
     list_all (waiter_inv (sc_triggered c) (sc_calls c)) (sc_waiters c)"

lemma waiter_inv_mono:
  "waiter_inv t n w \<Longrightarrow> (t \<Longrightarrow> t') \<Longrightarrow> n \<le> n' \<Longrightarrow> waiter_inv t' n' w"
  by (auto simp: waiter_inv_def split: Waiter.splits)

lemma waiter_inv_poll:
  "waiter_inv t n w \<Longrightarrow> (0 < n \<Longrightarrow> t) \<Longrightarrow> waiter_inv t n (poll_signal t n w)"
  by (cases w) (auto simp: waiter_inv_def)

lemma list_all_update: "list_all P xs \<Longrightarrow> P x \<Longrightarrow> list_all P (xs[i := x])"
  by (auto simp: list_all_iff dest: set_update_subset_insert [THEN subsetD])

lemma advance_not_before [simp]: "advance_trigger t \<noteq> Before" "advance_trigger t = Fired \<longleftrightarrow> t \<noteq> Before"
  by (cases t; simp)+

lemma coord_inv_calls: "coord_inv c \<Longrightarrow> 0 < sc_calls c \<Longrightarrow> sc_triggered c"
  by (auto simp: coord_inv_def trigger_inv_def)

lemma advance_trigger_inv:
  assumes "trigger_inv triggered calls ts" "i < length ts"
  shows "trigger_inv True (if ts ! i = Stored then calls + 1 else calls) (ts[i := advance_trigger (ts ! i)])"
    "ts ! i = Before \<or> triggered"
proof -
  let ?ts = "ts[i := advance_trigger (ts ! i)]"
  have split: "ts = take i ts @ ts ! i # drop (Suc i) ts" using assms(2) by (rule id_take_nth_drop)
  have new: "?ts = take i ts @ advance_trigger (ts ! i) # drop (Suc i) ts" using assms(2) by (simp add: upd_conv_take_nth_drop)
  have old: "Fired \<in> set ts \<longleftrightarrow> ts ! i = Fired \<or> Fired \<in> set (take i ts) \<or> Fired \<in> set (drop (Suc i) ts)"
    by (subst split) auto
  show "trigger_inv True (if ts ! i = Stored then calls + 1 else calls) ?ts"
    using assms(1) old unfolding trigger_inv_def new by (cases "ts ! i") auto
  show "ts ! i = Before \<or> triggered"
    using assms by (auto simp: trigger_inv_def)
qed

lemma call_trigger_inv: "trigger_inv triggered calls ts \<Longrightarrow> trigger_inv triggered calls (ts @ [Before])"
  by (auto simp: trigger_inv_def)

lemma act_inv:
  assumes "coord_inv c"
  shows "coord_inv (act a c)"
proof (cases a)
  case (Poll i)
  have all: "list_all (waiter_inv (sc_triggered c) (sc_calls c)) (sc_waiters c)"
    using assms by (simp add: coord_inv_def)
  show ?thesis
  proof (cases "i < length (sc_waiters c)")
    case True
    then have "waiter_inv (sc_triggered c) (sc_calls c) (sc_waiters c ! i)" using all by (simp add: list_all_length)
    from list_all_update [OF all waiter_inv_poll [OF this coord_inv_calls [OF assms]]] Poll True assms
    show ?thesis by (simp add: coord_inv_def)
  qed (use Poll assms in simp)
next
  case (Advance i)
  show ?thesis
  proof (cases "i < length (sc_triggers c)")
    case True
    have t: "trigger_inv (sc_triggered c) (sc_calls c) (sc_triggers c)" using assms by (simp add: coord_inv_def)
    have c': "act a c = c\<lparr> sc_triggered := True, sc_calls := (if sc_triggers c ! i = Stored then sc_calls c + 1 else sc_calls c),
        sc_triggers := (sc_triggers c)[i := advance_trigger (sc_triggers c ! i)] \<rparr>"
      using advance_trigger_inv(2) [OF t True] Advance True by (simp del: disj_not1)
    have "list_all (waiter_inv True (sc_calls (act a c))) (sc_waiters c)"
      using assms unfolding c' by (auto simp: coord_inv_def list_all_iff intro: waiter_inv_mono)
    with advance_trigger_inv(1) [OF t True] show ?thesis by (simp add: coord_inv_def c')
  qed (use Advance assms in simp)
next
  case Subscribe
  with assms show ?thesis by (simp add: coord_inv_def waiter_inv_def)
next
  case CallTrigger
  with assms show ?thesis by (simp add: coord_inv_def call_trigger_inv)
qed

interpretation coordinator: invariant_system coord_step coord_inv
  by unfold_locales (auto elim!: coord_step.cases intro: act_inv)

lemma coord_new_inv: "coord_inv coordinator_new"
  by (simp add: coord_inv_def trigger_inv_def coordinator_new_def)

lemma coord_run_steps: "coord_step\<^sup>*\<^sup>* c (coord_run as c)"
proof (induction as arbitrary: c)
  case (Cons a as)
  have "coord_step c (act a c)" by (rule coord_step.step)
  from converse_rtranclp_into_rtranclp [OF this Cons.IH] show ?case by simp
qed simp

lemma install_reachable: "coord_step\<^sup>*\<^sup>* coordinator_new coordinator_install"
  using coord_run_steps [of coordinator_new "[CallTrigger]"] by (simp add: coordinator_install_def coordinator_new_def)

text \<open>How many polls a future still needs once the notification has gone out.\<close>

fun polls_left :: "Waiter \<Rightarrow> nat" where
  "polls_left Unset = 2"
| "polls_left Resolved = 0"
| "polls_left _ = 1"

lemma polls_left_0 [simp]: "polls_left w = 0 \<longleftrightarrow> w = Resolved"
  by (cases w) simp_all

lemma poll_progress:
  assumes "waiter_inv True calls w" "0 < calls"
  shows "polls_left (poll_signal True calls w) \<le> polls_left w - 1"
  using assms by (cases w) (simp_all add: waiter_inv_def)

lemma act_frame:
  assumes "i < length (sc_waiters c)"
  shows "i < length (sc_waiters (act a c))" "a \<noteq> Poll i \<Longrightarrow> sc_waiters (act a c) ! i = sc_waiters c ! i"
  using assms by (cases a; auto simp: nth_append)+

lemma fired_stays: "Fired \<in> set (sc_triggers c) \<Longrightarrow> Fired \<in> set (sc_triggers (act a c))"
proof (cases a)
  case (Advance j)
  assume f: "Fired \<in> set (sc_triggers c)"
  then obtain k where k: "k < length (sc_triggers c)" "sc_triggers c ! k = Fired" by (auto simp: in_set_conv_nth)
  then have "sc_triggers (act a c) ! k = Fired" "k < length (sc_triggers (act a c))"
    by (auto simp: Advance nth_list_update)
  then show ?thesis by (metis nth_mem)
qed auto

lemma polled_resolves:
  assumes "coord_inv c" "Fired \<in> set (sc_triggers c)" "i < length (sc_waiters c)"
    and "polls_left (sc_waiters c ! i) \<le> count_list as (Poll i)"
  shows "sc_waiters (coord_run as c) ! i = Resolved"
  using assms
proof (induction as arbitrary: c)
  case (Cons a as)
  have nxt: "coord_inv (act a c)" "Fired \<in> set (sc_triggers (act a c))" "i < length (sc_waiters (act a c))"
    using Cons.prems(1-3) by (simp_all add: act_inv fired_stays act_frame(1))
  have "polls_left (sc_waiters (act a c) ! i) \<le> count_list as (Poll i)"
  proof (cases "a = Poll i")
    case True
    have "0 < sc_calls c" using Cons.prems(1,2) by (simp add: coord_inv_def trigger_inv_def)
    moreover from this have "sc_triggered c" by (rule coord_inv_calls [OF Cons.prems(1)])
    moreover have "waiter_inv (sc_triggered c) (sc_calls c) (sc_waiters c ! i)"
      using Cons.prems(1,3) by (simp add: coord_inv_def list_all_length)
    ultimately show ?thesis
      using poll_progress [of "sc_calls c" "sc_waiters c ! i"] True Cons.prems(3,4) by simp
  qed (use Cons.prems(3,4) act_frame(2) in simp)
  from Cons.IH [OF nxt this] show ?case by simp
qed simp

text \<open>
  Property C26: a shutdown reaches every listener.  However the callers of
  \<open>trigger\<close> and the \<open>shutdown_signal\<close> futures interleave, once one call of
  \<open>trigger\<close> has completed, every future, whether created before, during or after
  the call, is resolved after two more of its own steps, whatever else runs in
  between.
\<close>

theorem shutdown_reaches_every_listener:
  assumes "coord_step\<^sup>*\<^sup>* coordinator_new c" "Fired \<in> set (sc_triggers c)" "i < length (sc_waiters c)"
    and "2 \<le> count_list as (Poll i)"
  shows "sc_waiters (coord_run as c) ! i = Resolved"
proof -
  have "coord_inv c" using coordinator.reach_inv [OF assms(1) coord_new_inv] .
  moreover have "polls_left (sc_waiters c ! i) \<le> 2" by (cases "sc_waiters c ! i") simp_all
  ultimately show ?thesis using polled_resolves assms(2-4) by (meson order_trans)
qed

text \<open>The trigger falls between the two loads of the flag, and the notification after the registration.\<close>

definition racing :: "Act list" where
  "racing = [Subscribe, CallTrigger, Poll 0, Poll 0, Poll 0, Advance 0, Subscribe, Poll 1, Advance 0]"

theorem shutdown_reaches_every_listener_witness:
  "sc_waiters (coord_run racing coordinator_new) ! 0 = Waiting 0 \<and>
   sc_waiters (coord_run [Poll 0, Subscribe, Poll 0] (coord_run racing coordinator_new)) ! 0 = Resolved"
proof -
  have c: "sc_waiters (coord_run racing coordinator_new) = [Waiting 0, Resolved]"
    "sc_triggers (coord_run racing coordinator_new) = [Fired]"
    by (simp_all add: racing_def coordinator_new_def)
  from shutdown_reaches_every_listener [OF coord_run_steps, of racing 0 "[Poll 0, Subscribe, Poll 0]"]
  show ?thesis by (simp add: c del: coord_run.simps)
qed

text \<open>
  Nothing shuts down on its own.  A \<open>shutdown_signal\<close> future only
  resolves after a call of \<open>trigger\<close> has set the flag, so no listener leaves its
  accept loop and no drain window starts before.
\<close>

theorem no_shutdown_without_trigger:
  assumes "coord_step\<^sup>*\<^sup>* coordinator_new c" "Resolved \<in> set (sc_waiters c)"
  shows "is_triggered c \<and> (\<exists>t \<in> set (sc_triggers c). t \<noteq> Before)"
proof -
  have "coord_inv c" using coordinator.reach_inv [OF assms(1) coord_new_inv] .
  with assms(2) have "sc_triggered c" by (auto simp: coord_inv_def list_all_iff waiter_inv_def)
  with \<open>coord_inv c\<close> show ?thesis by (auto simp: coord_inv_def trigger_inv_def is_triggered_def)
qed

theorem no_shutdown_without_trigger_witness:
  "is_triggered (coord_run racing coordinator_new)"
  using no_shutdown_without_trigger [OF coord_run_steps, of racing]
  by (simp add: racing_def coordinator_new_def)

text \<open>
  The drain window runs from the signal.  The drain returns if and
  only if the signal is observed; it returns no earlier than the signal and at
  most the window after it; and it reports a timeout exactly when the task is not
  finished by then, however long it had been running before the signal.
\<close>

theorem drain_window_starts_at_signal:
  "(await_shutdown_then_drain window None task = None) \<and>
   (\<exists>t r. await_shutdown_then_drain window (Some now) task = Some (t, r) \<and> now \<le> t \<and> t \<le> now + window \<and>
      (r = None \<longleftrightarrow> (case task of None \<Rightarrow> True | Some (done, _) \<Rightarrow> now + window < done)) \<and>
      (\<forall>done out. task = Some (done, out) \<and> done \<le> now \<longrightarrow> t = now \<and> r = Some out))"
  by (auto simp: await_shutdown_then_drain_def drain_or_timeout_def split: option.splits)

theorem drain_window_starts_at_signal_witness:
  "\<exists>t r. await_shutdown_then_drain DEFAULT_DRAIN_WINDOW_SECS (Some 1000) (Some (900, ())) = Some (t, r) \<and> t = 1000"
  using drain_window_starts_at_signal [of DEFAULT_DRAIN_WINDOW_SECS "Some (900, ())" 1000] by auto
end
