(* ===== verification/Daemon.thy ===== *)
theory Daemon
  imports Admin_Uds App Agent_Listener Shutdown Audit_Sink
begin

text \<open>
  The daemon, \<open>src/daemon.rs\<close> and \<open>src/main.rs\<close>: the checks of the
  configuration, the administration substrate built over the opened database,
  the state of the agent listener, the administration listeners, the audit
  retention sweeper, and the wait for shutdown.  Opening and migrating the
  database, files, sockets and the decoders are parameters, gathered in
  \<open>DaemonEnv\<close>.
\<close>

section \<open>Definitions\<close>

subsection \<open>Configuration\<close>

record AuditConfig =
  au_retention_days :: nat
  au_sweep_interval_seconds :: nat
  au_jsonl_path :: "string option"
  au_jsonl_max_bytes :: nat
  au_jsonl_keep_files :: nat

definition audit_config_default :: AuditConfig where
  "audit_config_default =
     \<lparr> au_retention_days = 90, au_sweep_interval_seconds = 3600, au_jsonl_path = None,
       au_jsonl_max_bytes = 100 * 1024 * 1024, au_jsonl_keep_files = 14 \<rparr>"

record MtlsConfig =
  mc_ca_bundle_path :: string
  mc_server_cert_path :: "string option"
  mc_server_key_path :: "string option"
  mc_crl_url :: "string option"
  mc_crl_refresh_interval_seconds :: nat
  mc_blocklist_path :: "string option"
  mc_blocklist_reload_interval_seconds :: nat

record AdminHttpsConfig =
  ah_enabled :: bool
  ah_host :: string
  ah_port :: nat
  ah_cert_path :: string
  ah_key_path :: string
  ah_auth_mode :: AuthMode
  ah_ca_bundle_path :: "string option"

record BootstrapOnlyConfig =
  bo_enabled :: bool
  bo_host :: string
  bo_port :: nat
  bo_cert_path :: string
  bo_key_path :: string

text \<open>The authentication mode of \<open>listen\<close> is a field of \<open>AppConfig\<close>, where the request path reads it.\<close>

record ListenConfig =
  li_host :: string
  li_port :: nat
  li_admin_socket :: "string option"
  li_admin_https :: "AdminHttpsConfig option"
  li_mtls :: "MtlsConfig option"
  li_bootstrap_only :: "BootstrapOnlyConfig option"

record DaemonConfig =
  dc_app :: AppConfig
  dc_listen :: ListenConfig
  dc_drain_window_seconds :: nat
  dc_operator_credentials_path :: "string option"
  dc_database :: "string option"
  dc_audit :: "AuditConfig option"

subsection \<open>What the daemon takes from outside\<close>

record Database =
  db_agents :: AgentTable
  db_bootstrap :: BootstrapTable
  db_registrations :: RegTable
  db_overrides :: OverrideTable
  db_oauth :: OauthTable
  db_audit :: "AuditEvent list"

text \<open>
  \<open>dn_seed_file\<close> is \<open>None\<close> for a missing file and \<open>Some None\<close> for an unreadable
  one; \<open>dn_split_path\<close> is the parent and the file name of a path; \<open>dn_parse_ip\<close>
  an address in canonical form; \<open>dn_bind\<close> whether a TCP address can be bound.
\<close>

record DaemonEnv =
  dn_env :: env
  dn_now :: int
  dn_crypto :: Crypto
  dn_agent_salt :: bytes
  dn_operator_salt :: bytes
  dn_read :: "string \<Rightarrow> string option"
  dn_seed_file :: "string \<Rightarrow> string option option"
  dn_sealed :: "string \<Rightarrow> (nat \<times> string) option"
  dn_utf8 :: "string \<Rightarrow> bool"
  dn_parent_ok :: "string \<Rightarrow> bool"
  dn_open_and_migrate :: "string \<Rightarrow> Database option"
  dn_seed_yaml :: "string \<Rightarrow> SeedCatalog option"
  dn_operators_yaml :: "string \<Rightarrow> OperatorRecord list option"
  dn_split_path :: "string \<Rightarrow> (string \<times> string) option"
  dn_sink_io :: SinkIo
  dn_sink_dir :: "string \<Rightarrow> DirFile list"
  dn_sink_mkdir :: bool
  dn_sink_stat :: bool
  dn_key_b64 :: "string \<Rightarrow> bytes option"
  dn_pem :: "string \<Rightarrow> (string \<times> string) list option"
  dn_regex :: RegexEngine
  dn_parse_ip :: "string \<Rightarrow> string option"
  dn_bind :: "string \<times> nat \<Rightarrow> bool"

datatype DaemonError =
    AdminConfig string
  | DatabaseError
  | OperatorCreds
  | IoError
  | ServerError string

subsection \<open>The administration substrate\<close>

record AdminSetup =
  st_uds :: UdsState
  st_registrations :: RegTable
  st_catalog :: Catalog
  st_creds :: ResolvedCreds
  st_oauth :: "OauthRuntime option"
  st_sink :: "SinkState option"

definition load_seed :: "DaemonEnv \<Rightarrow> RegTable \<Rightarrow> RegTable \<times> (DaemonError, unit) result" where
  "load_seed dn t =
     (case seed_path_from_env (dn_env dn) of
        None \<Rightarrow> (t, Inr ())
      | Some path \<Rightarrow>
          (case load_or_skip (dn_seed_yaml dn) (dn_now dn) (dn_seed_file dn path) t of
             (t', Inr _) \<Rightarrow> (t', Inr ())
           | (t', Inl _) \<Rightarrow> (t', Inl (AdminConfig ''seed catalog load failed''))))"

definition import_legacy :: "DaemonEnv \<Rightarrow> AppConfig \<Rightarrow> RegTable \<Rightarrow> RegTable \<times> (DaemonError, unit) result" where
  "import_legacy dn cfg t =
     (case bootstrap_from_config_tools (dn_now dn) (ac_tools cfg) (0, 0, 0) t of
        (t', Inr _) \<Rightarrow> (t', Inr ())
      | (t', Inl _) \<Rightarrow> (t', Inl (AdminConfig ''legacy config.tools bootstrap'')))"

definition open_sink :: "DaemonEnv \<Rightarrow> AuditConfig option \<Rightarrow> (DaemonError, SinkState option) result" where
  "open_sink dn audit =
     (case Option.bind audit (\<lambda>a. map_option (Pair a) (au_jsonl_path a)) of
        None \<Rightarrow> Inr None
      | Some (a, path) \<Rightarrow>
          (case dn_split_path dn path of
             None \<Rightarrow> Inl (AdminConfig ''audit jsonl sink'')
           | Some (parent, stem) \<Rightarrow>
               (case sink_new (dn_sink_io dn) (dn_sink_mkdir dn) (dn_sink_stat dn) (dn_now dn)
                       \<lparr> jc_parent = parent, jc_stem = stem, jc_max_bytes = au_jsonl_max_bytes a,
                         jc_keep_files = au_jsonl_keep_files a \<rparr> (dn_sink_dir dn parent) of
                  None \<Rightarrow> Inl (AdminConfig ''audit jsonl sink'')
                | Some st \<Rightarrow> Inr (Some st))))"

definition load_sealing_key :: "DaemonEnv \<Rightarrow> (DaemonError, SealingKey option) result" where
  "load_sealing_key dn =
     (case key_from_env (dn_key_b64 dn) (dn_env dn) of
        Inr key \<Rightarrow> Inr (Some key)
      | Inl EnvVarUnset \<Rightarrow> Inr None
      | Inl _ \<Rightarrow> Inl (AdminConfig ''oauth sealing key''))"

definition admin_setup ::
  "AppConfig \<Rightarrow> Database \<Rightarrow> RegTable \<Rightarrow> OperatorRecord list \<Rightarrow> ResolvedCreds \<Rightarrow> SealingKey option
    \<Rightarrow> SinkState option \<Rightarrow> AdminSetup" where
  "admin_setup cfg db regs operators creds key sink =
     (let catalog = catalog_from_repo regs in
      \<lparr> st_uds =
          \<lparr> us_admin = service_with_audit_and_creds (db_agents db) (db_bootstrap db) cfg (Some (db_audit db)) creds,
            us_operators = operators, us_operator_mtls = None,
            us_registrations = Some \<lparr> ad_repo = regs, ad_catalog = Some catalog, ad_creds = Some creds \<rparr>,
            us_oauth = map_option (Pair (db_oauth db)) key, us_agent_creds = Some (db_overrides db) \<rparr>,
        st_registrations = regs, st_catalog = catalog, st_creds = creds,
        st_oauth = map_option (\<lambda>k. \<lparr> ort_sessions = db_oauth db, ort_key = k \<rparr>) key, st_sink = sink \<rparr>)"

text \<open>
  \<open>build_admin_substrate\<close> once the database is open: the seed catalog first, then
  the configured tools, then everything that can fail without touching the
  table.  The table is returned in every case, since its writes persist.
\<close>

definition build_admin_substrate ::
  "DaemonEnv \<Rightarrow> DaemonConfig \<Rightarrow> string \<Rightarrow> ResolvedCreds \<Rightarrow> Database \<Rightarrow> RegTable \<times> (DaemonError, AdminSetup) result" where
  "build_admin_substrate dn dc ops_path creds db =
     (case load_seed dn (db_registrations db) of
        (t, Inl e) \<Rightarrow> (t, Inl e)
      | (t, Inr _) \<Rightarrow>
     (case import_legacy dn (dc_app dc) t of
        (t', Inl e) \<Rightarrow> (t', Inl e)
      | (t', Inr _) \<Rightarrow>
     (t', case open_sink dn (dc_audit dc) of
        Inl e \<Rightarrow> Inl e
      | Inr sink \<Rightarrow>
     (case bearer_with_audit (dn_crypto dn) (dn_agent_salt dn) of
        Inl _ \<Rightarrow> Inl (AdminConfig ''agent auth'')
      | Inr _ \<Rightarrow>
     (case operators_load (dn_crypto dn) (dn_operator_salt dn) (dn_operators_yaml dn) (dn_read dn ops_path) of
        Inl _ \<Rightarrow> Inl OperatorCreds
      | Inr operators \<Rightarrow>
     (case load_sealing_key dn of
        Inl e \<Rightarrow> Inl e
      | Inr key \<Rightarrow>
          Inr (admin_setup (dc_app dc) db t' operators
            (merge_startup creds (resolve_registration_creds (dn_env dn) (catalog_from_repo t'))) key sink)))))))"

definition open_admin_substrate ::
  "DaemonEnv \<Rightarrow> DaemonConfig \<Rightarrow> string \<Rightarrow> string \<Rightarrow> ResolvedCreds \<Rightarrow> (DaemonError, AdminSetup) result" where
  "open_admin_substrate dn dc db_path ops_path creds =
     (if \<not> dn_parent_ok dn db_path then Inl IoError
      else (case dn_open_and_migrate dn db_path of
              None \<Rightarrow> Inl DatabaseError
            | Some db \<Rightarrow> snd (build_admin_substrate dn dc ops_path creds db)))"


subsection \<open>The listeners\<close>

definition socket_addr :: "DaemonEnv \<Rightarrow> string \<Rightarrow> nat \<Rightarrow> string \<times> nat" where
  "socket_addr dn host port = (case dn_parse_ip dn host of Some ip \<Rightarrow> ip | None \<Rightarrow> ''127.0.0.1'', port)"

text \<open>The certificate authenticator of the agent listener and the agents of the database it opens.\<close>

definition mtls_authenticator ::
  "DaemonEnv \<Rightarrow> DaemonConfig \<Rightarrow> (DaemonError, cert_authenticator option) result" where
  "mtls_authenticator dn dc =
     (if ac_auth_mode (dc_app dc) = Bearer then Inr None
      else (case li_mtls (dc_listen dc) of
              None \<Rightarrow> Inl (AdminConfig ''auth_mode mtls/both requires `listen.mtls` config block'')
            | Some m \<Rightarrow>
                (case dn_read dn (mc_ca_bundle_path m) of
                   None \<Rightarrow> Inl (AdminConfig ''read mtls.ca_bundle_path'')
                 | Some ca_pem \<Rightarrow>
                     (case validator_new (dn_pem dn) ca_pem of
                        Inl _ \<Rightarrow> Inl (AdminConfig ''mtls validator'')
                      | Inr v \<Rightarrow>
                          (case dc_database dc of
                             None \<Rightarrow> Inl (AdminConfig ''auth_mode mtls/both requires `database.path`'')
                           | Some path \<Rightarrow>
                               (case dn_open_and_migrate dn path of
                                  None \<Rightarrow> Inl DatabaseError
                                | Some db \<Rightarrow> Inr (Some (v, db_agents db))))))))"

text \<open>
  The state behind the agent router.  Without the substrate there is no audit
  log, no agent authenticator, no registrations and an empty catalog.
\<close>

definition agent_router ::
  "DaemonEnv \<Rightarrow> AppConfig \<Rightarrow> ResolvedCreds \<Rightarrow> AdminSetup option \<Rightarrow> cert_authenticator option \<Rightarrow> AppState" where
  "agent_router dn cfg creds sub mtls =
     (case sub of
        Some s \<Rightarrow>
          build_app_full_with_phase_g (dn_regex dn) (dn_now dn) cfg (sv_audit (us_admin (st_uds s))) (st_creds s) mtls
            (Some (sv_agents (us_admin (st_uds s)))) (Some (st_registrations s)) (st_catalog s) (st_oauth s)
            (us_agent_creds (st_uds s))
      | None \<Rightarrow> build_app_full_with_registrations (dn_regex dn) (dn_now dn) cfg None creds mtls None None)"

text \<open>The missing block is excluded by the authenticator, which is built first.\<close>

definition bind_agent :: "DaemonEnv \<Rightarrow> DaemonConfig \<Rightarrow> (DaemonError, unit) result" where
  "bind_agent dn dc =
     (let li = dc_listen dc in
      if ac_auth_mode (dc_app dc) = Bearer
      then (if dn_bind dn (socket_addr dn (li_host li) (li_port li)) then Inr () else Inl IoError)
      else (case li_mtls li of
              None \<Rightarrow> Inl (AdminConfig ''auth_mode mtls/both requires `listen.mtls` config block'')
            | Some m \<Rightarrow>
                if mc_server_cert_path m = None
                then Inl (AdminConfig ''auth_mode mtls/both requires `mtls.server_cert_path`'')
                else if mc_server_key_path m = None
                then Inl (AdminConfig ''auth_mode mtls/both requires `mtls.server_key_path`'')
                else if dn_read dn (mc_ca_bundle_path m) = None then Inl IoError
                else Inr ()))"

text \<open>The state of the administration HTTPS listener, which shares everything with the socket's.\<close>

definition admin_https ::
  "DaemonEnv \<Rightarrow> DaemonConfig \<Rightarrow> UdsState \<Rightarrow> (DaemonError, ((string \<times> nat) \<times> UdsState) option) result" where
  "admin_https dn dc uds =
     (case Option.bind (li_admin_https (dc_listen dc)) (\<lambda>c. if ah_enabled c then Some c else None) of
        None \<Rightarrow> Inr None
      | Some c \<Rightarrow>
          let addr = socket_addr dn (ah_host c) (ah_port c) in
          if ah_auth_mode c = Bearer then Inr (Some (addr, uds))
          else (case ah_ca_bundle_path c of
                  None \<Rightarrow> Inl (AdminConfig ''admin_https.auth_mode requires admin_https.mtls.ca_bundle_path'')
                | Some path \<Rightarrow>
                    (case dn_read dn path of
                       None \<Rightarrow> Inl IoError
                     | Some ca_pem \<Rightarrow>
                         (case validator_new (dn_pem dn) ca_pem of
                            Inl _ \<Rightarrow> Inl (AdminConfig ''admin_https.mtls.ca_bundle_path'')
                          | Inr v \<Rightarrow>
                              Inr (Some (addr, uds\<lparr> us_operator_mtls :=
                                Some \<lparr> om_auth_mode = ah_auth_mode c, om_validator = v \<rparr> \<rparr>))))))"

record Runtime =
  rn_addr :: "string \<times> nat"
  rn_app :: AppState
  rn_admin :: "(string \<times> UdsState) option"
  rn_https :: "((string \<times> nat) \<times> UdsState) option"
  rn_sweeper :: "AuditConfig option"

text \<open>The pairing of the administration socket with its database and operators.\<close>

definition check_admin :: "DaemonConfig \<Rightarrow> (DaemonError, (string \<times> string \<times> string) option) result" where
  "check_admin dc =
     (case li_admin_socket (dc_listen dc) of
        None \<Rightarrow> Inr None
      | Some sock \<Rightarrow>
          (case (dc_database dc, dc_operator_credentials_path dc) of
             (None, _) \<Rightarrow> Inl (AdminConfig ''listen.admin_socket is set but `database.path` is missing'')
           | (Some _, None) \<Rightarrow>
               Inl (AdminConfig ''listen.admin_socket is set but `operator_credentials_path` is missing'')
           | (Some db, Some ops) \<Rightarrow> Inr (Some (sock, db, ops))))"

definition admin_substrate ::
  "DaemonEnv \<Rightarrow> DaemonConfig \<Rightarrow> ResolvedCreds \<Rightarrow> (string \<times> string \<times> string) option
    \<Rightarrow> (DaemonError, (string \<times> AdminSetup) option) result" where
  "admin_substrate dn dc creds admin =
     (case admin of
        None \<Rightarrow> Inr None
      | Some (sock, db, ops) \<Rightarrow>
          (case open_admin_substrate dn dc db ops creds of
             Inl e \<Rightarrow> Inl e
           | Inr sub \<Rightarrow> Inr (Some (sock, sub))))"

text \<open>
  \<open>run\<close> up to the wait for shutdown; \<open>None\<close> when resolving a tool credential does
  not return.
\<close>

definition daemon_start :: "DaemonEnv \<Rightarrow> DaemonConfig \<Rightarrow> (DaemonError, Runtime) result option" where
  "daemon_start dn dc =
     (case check_admin dc of
        Inl e \<Rightarrow> Some (Inl e)
      | Inr admin \<Rightarrow>
     (case resolve_tool_creds (dn_env dn) (dn_sealed dn) (dn_utf8 dn) (ac_tools (dc_app dc))
             \<lparr> sr_file_sealed = Some \<lparr> fb_cache = Map.empty, fb_enforce_permissions = True \<rparr> \<rparr> Map.empty of
        None \<Rightarrow> None
      | Some creds \<Rightarrow>
     Some (case admin_substrate dn dc creds admin of
        Inl e \<Rightarrow> Inl e
      | Inr sub \<Rightarrow>
     (case mtls_authenticator dn dc of
        Inl e \<Rightarrow> Inl e
      | Inr mtls \<Rightarrow>
     (case bind_agent dn dc of
        Inl e \<Rightarrow> Inl e
      | Inr _ \<Rightarrow>
     (case (case sub of None \<Rightarrow> Inr None | Some (_, s) \<Rightarrow> admin_https dn dc (st_uds s)) of
        Inl e \<Rightarrow> Inl e
      | Inr https \<Rightarrow>
          Inr \<lparr> rn_addr = socket_addr dn (li_host (dc_listen dc)) (li_port (dc_listen dc)),
                rn_app = agent_router dn (dc_app dc) creds (map_option snd sub) mtls,
                rn_admin = map_option (\<lambda>(sock, s). (sock, st_uds s)) sub, rn_https = https,
                rn_sweeper = (if sub = None then None
                              else Some (case dc_audit dc of Some a \<Rightarrow> a | None \<Rightarrow> audit_config_default)) \<rparr>))))))"

subsection \<open>Retention\<close>

definition MS_PER_DAY :: int where
  "MS_PER_DAY = 24 * 60 * 60 * 1000"

definition sweep_cutoff :: "int \<Rightarrow> AuditConfig \<Rightarrow> int" where
  "sweep_cutoff now cfg = now - int (au_retention_days cfg) * MS_PER_DAY"

text \<open>
  One turn of the sweeper's \<open>select!\<close>: which of its two branches are ready and,
  when both are, which one the macro picks.  A sweep can fail, which leaves the
  rows; the result is \<open>None\<close> when the task ends.
\<close>

record SweepTurn =
  sw_shutdown :: bool
  sw_tick :: bool
  sw_picks_tick :: bool
  sw_now :: int
  sw_delete_ok :: bool

definition sweeper_turn :: "AuditConfig \<Rightarrow> SweepTurn \<Rightarrow> AuditEvent list \<Rightarrow> AuditEvent list option" where
  "sweeper_turn cfg turn rows =
     (if sw_shutdown turn \<and> \<not> (sw_tick turn \<and> sw_picks_tick turn) then None
      else if sw_tick turn \<and> sw_delete_ok turn
      then Some (filter (\<lambda>e. \<not> ev_ts_ms e < sweep_cutoff (sw_now turn) cfg) rows)
      else Some rows)"

fun audit_retention_sweeper :: "AuditConfig \<Rightarrow> SweepTurn list \<Rightarrow> AuditEvent list \<Rightarrow> AuditEvent list" where
  "audit_retention_sweeper cfg [] rows = rows"
| "audit_retention_sweeper cfg (turn # turns) rows =
     (case sweeper_turn cfg turn rows of
        None \<Rightarrow> rows
      | Some rows' \<Rightarrow> audit_retention_sweeper cfg turns rows')"

subsection \<open>Waiting for the end\<close>

text \<open>
  A listener task ends at some time, by itself or after the signal, with the
  result of its server; \<open>None\<close> inside stands for a task that panicked.
\<close>

type_synonym task_end = "nat \<times> (string, unit) result option"

type_synonym task = "task_end option"

text \<open>
  Joining the agent task, the optional administration tasks and the sweeper:
  done when all are, with the results of the listeners.
\<close>

definition join_tasks ::
  "task \<Rightarrow> task option \<Rightarrow> task option \<Rightarrow> nat option option
    \<Rightarrow> (nat \<times> (string, unit) result option \<times> (string, unit) result option option \<times> (string, unit) result option option) option" where
  "join_tasks agent uds https sweeper =
     (case (agent, uds, https, sweeper) of
        (None, _, _, _) \<Rightarrow> None
      | (_, Some None, _, _) \<Rightarrow> None
      | (_, _, Some None, _) \<Rightarrow> None
      | (_, _, _, Some None) \<Rightarrow> None
      | (Some (ta, ra), _, _, _) \<Rightarrow>
          let time = (\<lambda>t. case t of Some (Some (n, _)) \<Rightarrow> n | _ \<Rightarrow> 0);
              res = (\<lambda>t. Option.bind t (map_option snd))
          in Some (max ta (max (time uds) (max (time https) (case sweeper of Some (Some n) \<Rightarrow> n | _ \<Rightarrow> 0))),
                   ra, res uds, res https))"

definition listener_failure :: "string \<Rightarrow> (string, unit) result option \<Rightarrow> DaemonError option" where
  "listener_failure who r = (case r of Some (Inl e) \<Rightarrow> Some (ServerError (who @ '': '' @ e)) | _ \<Rightarrow> None)"

definition daemon_result ::
  "((string, unit) result option \<times> (string, unit) result option option \<times> (string, unit) result option option) option
    \<Rightarrow> (DaemonError, unit) result" where
  "daemon_result drained =
     (case drained of
        None \<Rightarrow> Inr ()
      | Some (agent, uds, https) \<Rightarrow>
          (case listener_failure ''agent listener'' agent of
             Some e \<Rightarrow> Inl e
           | None \<Rightarrow>
               (case Option.bind uds (listener_failure ''admin listener'') of
                  Some e \<Rightarrow> Inl e
                | None \<Rightarrow>
                    (case Option.bind https (listener_failure ''admin HTTPS listener'') of
                       Some e \<Rightarrow> Inl e
                     | None \<Rightarrow> Inr ()))))"

text \<open>\<open>None\<close>: the daemon is still running.  Otherwise the time of its return and its result.\<close>

definition daemon_wait ::
  "nat \<Rightarrow> nat option \<Rightarrow> task \<Rightarrow> task option \<Rightarrow> task option \<Rightarrow> nat option option
    \<Rightarrow> (nat \<times> (DaemonError, unit) result) option" where
  "daemon_wait window signal agent uds https sweeper =
     map_option (\<lambda>(t, r). (t, daemon_result r))
       (await_shutdown_then_drain window signal (join_tasks agent uds https sweeper))"

definition main_exit :: "(DaemonError, unit) result \<Rightarrow> nat" where
  "main_exit r = (case r of Inl _ \<Rightarrow> 1 | Inr _ \<Rightarrow> 0)"

definition daemon_main :: "('e, 'c) result \<Rightarrow> ('c \<Rightarrow> (DaemonError, unit) result) \<Rightarrow> nat" where
  "daemon_main loaded run = (case loaded of Inl _ \<Rightarrow> 1 | Inr cfg \<Rightarrow> main_exit (run cfg))"

section \<open>Lemmas\<close>

lemma agent_router_mtls [simp]: "ap_mtls (agent_router dn cfg creds sub mtls) = map_option fst mtls"
  by (simp add: agent_router_def build_app_defs split: option.splits)

lemma daemon_start_cases:
  assumes "daemon_start dn dc = Some (Inr rt)"
  obtains admin creds sub mtls where
    "check_admin dc = Inr admin" "admin_substrate dn dc creds admin = Inr sub"
    "mtls_authenticator dn dc = Inr mtls" "bind_agent dn dc = Inr ()"
    "rn_app rt = agent_router dn (dc_app dc) creds (map_option snd sub) mtls"
    "rn_admin rt = map_option (\<lambda>(sock, s). (sock, st_uds s)) sub"
    "(case sub of None \<Rightarrow> rn_https rt = None | Some (_, s) \<Rightarrow> admin_https dn dc (st_uds s) = Inr (rn_https rt))"
  using assms
  by (auto simp: daemon_start_def split: sum.splits option.splits prod.splits)
end
