(* ===== verification/Daemon_Props.thy ===== *)
theory Daemon_Props
  imports Daemon Listener_Props Admin_Uds_Props
begin

text \<open>
  What a daemon that starts has established, and how it ends: the listeners
  share one state that satisfies the invariants of the components, every
  request is authenticated, operator decisions survive a restart, retention
  deletes exactly the expired rows, and shutdown is bounded by the drain window.
\<close>

section \<open>Start-up\<close>

lemma build_admin_substrate_Inr:
  assumes "build_admin_substrate dn dc ops creds db = (t', Inr sub)"
  obtains t operators key sink where
    "load_seed dn (db_registrations db) = (t, Inr ())" "import_legacy dn (dc_app dc) t = (t', Inr ())"
    "operators_load (dn_crypto dn) (dn_operator_salt dn) (dn_operators_yaml dn) (dn_read dn ops) = Inr operators"
    "sub = admin_setup (dc_app dc) db t' operators
       (merge_startup creds (resolve_registration_creds (dn_env dn) (catalog_from_repo t'))) key sink"
  using assms
  by (auto simp: build_admin_substrate_def split: prod.splits sum.splits)

lemma load_seed_facts:
  "reg_get n t = Some r \<Longrightarrow> \<exists>r'. reg_get n (fst (load_seed dn t)) = Some r' \<and> row_kept r r'"
  "regs_inv t \<Longrightarrow> regs_inv (fst (load_seed dn t))"
proof -
  have st: "fst (load_seed dn t) = t \<or>
    (\<exists>file. fst (load_seed dn t) = fst (load_or_skip (dn_seed_yaml dn) (dn_now dn) file t))"
    by (auto simp: load_seed_def split: option.splits prod.splits sum.splits) (metis fst_conv)+
  show "\<exists>r'. reg_get n (fst (load_seed dn t)) = Some r' \<and> row_kept r r'" if "reg_get n t = Some r"
    using st load_or_skip_keeps [OF that] that row_kept_refl by metis
  show "regs_inv (fst (load_seed dn t))" if "regs_inv t"
    using st load_or_skip_inv [OF that] that by metis
qed

lemma import_legacy_facts:
  assumes "import_legacy dn cfg t = (t', res)"
  shows "reg_get n t = Some r \<Longrightarrow> reg_get n t' = Some r" "regs_inv t \<Longrightarrow> regs_inv t'"
    "res = Inr () \<Longrightarrow> tool \<in> set (ac_tools cfg) \<Longrightarrow> legacy_auth tool \<noteq> None \<Longrightarrow> reg_get (tc_name tool) t' \<noteq> None"
proof -
  have t': "t' = fst (bootstrap_from_config_tools (dn_now dn) (ac_tools cfg) (0, 0, 0) t)"
    using assms by (auto simp: import_legacy_def split: prod.splits sum.splits)
  show "reg_get n t = Some r \<Longrightarrow> reg_get n t' = Some r" "regs_inv t \<Longrightarrow> regs_inv t'"
    unfolding t' by (rule legacy_keeps, assumption) (rule legacy_inv, assumption)
  show "res = Inr () \<Longrightarrow> tool \<in> set (ac_tools cfg) \<Longrightarrow> legacy_auth tool \<noteq> None \<Longrightarrow> reg_get (tc_name tool) t' \<noteq> None"
    using assms by (auto simp: import_legacy_def split: prod.splits sum.splits dest: legacy_present)
qed

lemma started_with_socket:
  assumes "daemon_start dn dc = Some (Inr rt)" "li_admin_socket (dc_listen dc) = Some sock"
  obtains db ops path sub t' creds mtls where
    "dc_database dc = Some path" "dc_operator_credentials_path dc = Some ops"
    "dn_open_and_migrate dn path = Some db"
    "build_admin_substrate dn dc ops creds db = (t', Inr sub)"
    "rn_app rt = agent_router dn (dc_app dc) creds (Some sub) mtls" "rn_admin rt = Some (sock, st_uds sub)"
    "mtls_authenticator dn dc = Inr mtls" "admin_https dn dc (st_uds sub) = Inr (rn_https rt)"
proof -
  from daemon_start_cases [OF assms(1)] obtain admin creds s mtls where
    c: "check_admin dc = Inr admin" "admin_substrate dn dc creds admin = Inr s"
    "mtls_authenticator dn dc = Inr mtls"
    "rn_app rt = agent_router dn (dc_app dc) creds (map_option snd s) mtls"
    "rn_admin rt = map_option (\<lambda>(sock, s). (sock, st_uds s)) s"
    "(case s of None \<Rightarrow> rn_https rt = None | Some (_, s) \<Rightarrow> admin_https dn dc (st_uds s) = Inr (rn_https rt))"
    by metis
  from c(1) assms(2) obtain path ops where
    p: "dc_database dc = Some path" "dc_operator_credentials_path dc = Some ops" "admin = Some (sock, path, ops)"
    by (auto simp: check_admin_def split: option.splits)
  from c(2) p(3) obtain sub where s: "s = Some (sock, sub)" "open_admin_substrate dn dc path ops creds = Inr sub"
    by (auto simp: admin_substrate_def split: sum.splits)
  then obtain db t' where "dn_open_and_migrate dn path = Some db" "build_admin_substrate dn dc ops creds db = (t', Inr sub)"
    by (auto simp: open_admin_substrate_def split: if_splits option.splits) (metis surjective_pairing)
  with that p c s show ?thesis by simp
qed

lemma mtls_authenticator_Inr:
  assumes "mtls_authenticator dn dc = Inr mtls"
  shows "ac_auth_mode (dc_app dc) = Bearer \<and> mtls = None \<or>
    ac_auth_mode (dc_app dc) \<noteq> Bearer \<and>
    (\<exists>m pem v t. li_mtls (dc_listen dc) = Some m \<and> dn_read dn (mc_ca_bundle_path m) = Some pem \<and>
       validator_new (dn_pem dn) pem = Inr v \<and> dc_database dc \<noteq> None \<and> mtls = Some (v, t))"
  using assms by (auto simp: mtls_authenticator_def split: option.splits sum.splits if_splits)

lemma bind_agent_Inr:
  assumes "bind_agent dn dc = Inr ()"
  shows "(ac_auth_mode (dc_app dc) = Bearer \<longrightarrow>
      dn_bind dn (socket_addr dn (li_host (dc_listen dc)) (li_port (dc_listen dc)))) \<and>
    (ac_auth_mode (dc_app dc) \<noteq> Bearer \<longrightarrow>
      (\<exists>m. li_mtls (dc_listen dc) = Some m \<and> mc_server_cert_path m \<noteq> None \<and> mc_server_key_path m \<noteq> None))"
  using assms by (auto simp: bind_agent_def Let_def split: option.splits if_splits)

lemma validator_new_Inr:
  assumes "validator_new pem text = Inr v"
  shows "mv_roots v \<noteq> []" "mv_crl v = None" "mv_blocklist v = None"
  using assms by (auto simp: validator_new_def Let_def split: option.splits if_splits)

lemma started_listener:
  assumes "daemon_start dn dc = Some (Inr rt)"
  obtains mtls where "mtls_authenticator dn dc = Inr mtls" "bind_agent dn dc = Inr ()"
    "ap_mtls (rn_app rt) = map_option fst mtls"
proof (rule daemon_start_cases [OF assms])
  fix creds s mtls
  assume "mtls_authenticator dn dc = Inr mtls" "bind_agent dn dc = Inr ()"
    "rn_app rt = agent_router dn (dc_app dc) creds (map_option snd s) mtls"
  with that [of mtls] show thesis by simp
qed

text \<open>The tables a database holds when the components last left it.\<close>

definition database_inv :: "Database \<Rightarrow> bool" where
  "database_inv db \<longleftrightarrow> agents_inv (db_agents db) \<and> bt_inv (db_bootstrap db) \<and> regs_inv (db_registrations db)"

lemma started_state:
  assumes "daemon_start dn dc = Some (Inr rt)" "li_admin_socket (dc_listen dc) = Some sock"
    and "\<forall>path db. dn_open_and_migrate dn path = Some db \<longrightarrow> database_inv db"
  shows "\<exists>uds regs. rn_admin rt = Some (sock, uds) \<and> us_registrations uds = Some regs \<and>
           service_inv (us_admin uds) \<and> admin_inv regs \<and>
           sv_agents (us_admin uds) = ap_agents (rn_app rt) \<and> sv_resolved_creds (us_admin uds) = Some (ap_creds (rn_app rt)) \<and>
           ap_registrations (rn_app rt) = Some (ad_repo regs) \<and> ad_catalog regs = Some (ap_catalog (rn_app rt)) \<and>
           ap_agent_auth (rn_app rt)"
proof -
  from started_with_socket [OF assms(1,2)] obtain db ops path sub t' creds mtls where
    s: "dn_open_and_migrate dn path = Some db" "build_admin_substrate dn dc ops creds db = (t', Inr sub)"
    "rn_app rt = agent_router dn (dc_app dc) creds (Some sub) mtls" "rn_admin rt = Some (sock, st_uds sub)" by metis
  from build_admin_substrate_Inr [OF s(2)] obtain t operators key sink where
    b: "load_seed dn (db_registrations db) = (t, Inr ())" "import_legacy dn (dc_app dc) t = (t', Inr ())"
    "sub = admin_setup (dc_app dc) db t' operators
       (merge_startup creds (resolve_registration_creds (dn_env dn) (catalog_from_repo t'))) key sink" by metis
  have inv: "database_inv db" using assms(3) s(1) by blast
  then have "regs_inv t" using load_seed_facts(2) [of "db_registrations db" dn] b(1) by (simp add: database_inv_def)
  then have regs: "regs_inv t'" by (rule import_legacy_facts(2) [OF b(2)])
  have "service_inv (us_admin (st_uds sub))"
    using inv by (simp add: b(3) admin_setup_def service_with_audit_and_creds_def Let_def service_inv_def database_inv_def)
  with regs show ?thesis
    using lookup_any_from_repo [OF regs]
    by (simp add: s(3,4) b(3) admin_setup_def service_with_audit_and_creds_def Let_def agent_router_def build_app_defs admin_inv_def)
qed

text \<open>
  Property C11: a daemon that starts with an administration socket is secured.
  Per-agent authentication is on, so a request on an authenticated path is
  refused or served under an active account of the table the administration
  listener manages; both listeners share agents, credentials and a catalog that
  is in step with the registrations; and on a well-formed database the state
  satisfies the invariants the administration and registration components
  preserve.
\<close>

theorem started_daemon_is_secured:
  assumes "daemon_start dn dc = Some (Inr rt)" "li_admin_socket (dc_listen dc) = Some sock"
    and "\<forall>path db. dn_open_and_migrate dn path = Some db \<longrightarrow> database_inv db"
  shows "\<exists>uds regs. rn_admin rt = Some (sock, uds) \<and> us_registrations uds = Some regs \<and>
           service_inv (us_admin uds) \<and> admin_inv regs \<and>
           sv_agents (us_admin uds) = ap_agents (rn_app rt) \<and> sv_resolved_creds (us_admin uds) = Some (ap_creds (rn_app rt)) \<and>
           ap_registrations (rn_app rt) = Some (ad_repo regs) \<and> ad_catalog regs = Some (ap_catalog (rn_app rt)) \<and>
           (\<forall>pe nxt req. \<not> open_request req \<longrightarrow>
              authenticated_run nxt req (rn_app rt) (auth_middleware pe nxt req (rn_app rt)))"
proof -
  from started_state [OF assms] obtain uds regs where
    st: "rn_admin rt = Some (sock, uds)" "us_registrations uds = Some regs" "service_inv (us_admin uds)" "admin_inv regs"
      "sv_agents (us_admin uds) = ap_agents (rn_app rt)" "sv_resolved_creds (us_admin uds) = Some (ap_creds (rn_app rt))"
      "ap_registrations (rn_app rt) = Some (ad_repo regs)" "ad_catalog regs = Some (ap_catalog (rn_app rt))"
      "ap_agent_auth (rn_app rt)" by blast
  with auth_middleware_cases [OF st(9)] show ?thesis by blast
qed

text \<open>
  Property C13: operator decisions survive a restart.  Whatever seed catalog ships
  with the image and whatever tools the configuration lists, starting the daemon
  removes no registration, leaves those an operator wrote as they are, keeps
  which seed entries are disabled, and registers every configured tool whose
  credential can be described; the catalog the proxy reads shows all of it.
\<close>

theorem restart_keeps_operator_decisions:
  assumes "daemon_start dn dc = Some (Inr rt)" "li_admin_socket (dc_listen dc) = Some sock"
    and "dc_database dc = Some path" "dn_open_and_migrate dn path = Some db" "regs_inv (db_registrations db)"
  shows "(\<forall>n r. reg_get n (db_registrations db) = Some r \<longrightarrow>
            (\<exists>r'. lookup_any n (ap_catalog (rn_app rt)) = Some r' \<and> row_kept r r')) \<and>
         (\<forall>tool \<in> set (ac_tools (dc_app dc)). legacy_auth tool \<noteq> None \<longrightarrow>
            lookup_any (tc_name tool) (ap_catalog (rn_app rt)) \<noteq> None)"
proof -
  from started_with_socket [OF assms(1,2)] assms(3,4) obtain ops sub t' creds mtls where
    s: "build_admin_substrate dn dc ops creds db = (t', Inr sub)"
    "rn_app rt = agent_router dn (dc_app dc) creds (Some sub) mtls" by (metis option.inject)
  from build_admin_substrate_Inr [OF s(1)] obtain t operators key sink where
    b: "load_seed dn (db_registrations db) = (t, Inr ())" "import_legacy dn (dc_app dc) t = (t', Inr ())"
    "sub = admin_setup (dc_app dc) db t' operators
       (merge_startup creds (resolve_registration_creds (dn_env dn) (catalog_from_repo t'))) key sink" by metis
  have "regs_inv t'"
    using import_legacy_facts(2) [OF b(2)] load_seed_facts(2) [OF assms(5), of dn] b(1) by simp
  then have cat: "lookup_any n (ap_catalog (rn_app rt)) = reg_get n t'" for n
    by (simp add: s(2) b(3) agent_router_def build_app_defs admin_setup_def service_with_audit_and_creds_def Let_def lookup_any_from_repo)
  have "\<exists>r'. reg_get n t' = Some r' \<and> row_kept r r'" if "reg_get n (db_registrations db) = Some r" for n r
    using load_seed_facts(1) [OF that, of dn] b(1) import_legacy_facts(1) [OF b(2)] by fastforce
  with import_legacy_facts(3) [OF b(2)] show ?thesis unfolding cat by blast
qed


text \<open>
  Neither listener of a started daemon ever consults a revocation list or the
  block list, whatever the configuration names.
\<close>

lemma started_daemon_ignores_blocklist:
  assumes "daemon_start dn dc = Some (Inr rt)"
  shows "\<forall>v. ap_mtls (rn_app rt) = Some v \<longrightarrow> mv_crl v = None \<and> mv_blocklist v = None"
proof -
  from started_listener [OF assms] obtain mtls where
    c: "mtls_authenticator dn dc = Inr mtls" "ap_mtls (rn_app rt) = map_option fst mtls" .
  show ?thesis using mtls_authenticator_Inr [OF c(1)] validator_new_Inr(2,3) unfolding c(2) by fastforce
qed

text \<open>
  A configured tool whose name a seed entry also has: the row is the seed's, but
  the credential sent to its upstream is the configured tool's, not the one the
  row describes.
\<close>

lemma startup_prefers_configured_credential:
  "creds n = Some v \<Longrightarrow> merge_startup creds extra n = Some v"
  by (simp add: merge_startup_def)

section \<open>Retention\<close>

text \<open>The sweeps a run of the sweeper carries out before it ends.\<close>

fun sweeps :: "SweepTurn list \<Rightarrow> SweepTurn list" where
  "sweeps [] = []"
| "sweeps (turn # turns) =
     (if sw_shutdown turn \<and> \<not> (sw_tick turn \<and> sw_picks_tick turn) then []
      else (if sw_tick turn \<and> sw_delete_ok turn then [turn] else []) @ sweeps turns)"

text \<open>
  Property C28: retention deletes exactly the expired rows.  Whatever ticks,
  failures and shutdown the sweeper sees, what is left are the rows, in their
  order, that no sweep it carried out found older than the retention period
  before that sweep's time.
\<close>

theorem sweeper_deletes_exactly_expired:
  "audit_retention_sweeper cfg turns rows =
     filter (\<lambda>e. list_all (\<lambda>turn. sw_now turn - int (au_retention_days cfg) * 86400000 \<le> ev_ts_ms e) (sweeps turns)) rows"
proof (induction turns arbitrary: rows)
  case (Cons turn turns)
  then show ?case
    by (auto simp: sweeper_turn_def sweep_cutoff_def MS_PER_DAY_def not_less intro!: filter_cong)
qed simp

text \<open>
  The documentation says that no sweep starts after shutdown was signalled; the
  \<open>select!\<close> has no bias, so when both branches are ready it may still pick the tick.
\<close>

lemma sweep_after_shutdown:
  "\<exists>turn. sw_shutdown turn \<and>
     audit_retention_sweeper cfg [turn] [default_event] \<noteq> audit_retention_sweeper cfg [] [default_event]"
proof -
  let ?turn = "\<lparr> sw_shutdown = True, sw_tick = True, sw_picks_tick = True,
    sw_now = int (au_retention_days cfg) * MS_PER_DAY + ev_ts_ms default_event + 1,
    sw_delete_ok = True \<rparr>"
  show ?thesis by (rule exI [of _ ?turn]) (simp add: sweeper_turn_def sweep_cutoff_def)
qed

text \<open>The cutoff as the code computes it, in 64-bit arithmetic over a 32-bit number of days.\<close>

definition sweep_cutoff_i64 :: "64 word \<Rightarrow> 32 word \<Rightarrow> 64 word" where
  "sweep_cutoff_i64 now days = now - ucast days * 86400000"

text \<open>
  Property C29: the retention cutoff never overflows: for every clock value that
  is not negative and every configurable number of days, the 64-bit computation
  gives the mathematical difference.
\<close>

theorem sweep_cutoff_no_overflow:
  assumes "0 \<le> sint now" "au_retention_days cfg = unat days"
  shows "sint (sweep_cutoff_i64 now days) = sweep_cutoff (sint now) cfg"
proof -
  have d: "uint days < 4294967296" using uint_lt2p [of days] by simp
  have b: "0 \<le> uint days * 86400000" "uint days * 86400000 < 2 ^ 59"
    using d uint_ge_0 [of days] by (simp_all del: uint_ge_0)
  have p: "sint (ucast days * 86400000 :: 64 word) = uint days * 86400000"
  proof -
    have "uint (ucast days :: 64 word) = uint days" using d by (simp add: unsigned_ucast_eq take_bit_int_eq_self)
    then have "uint (ucast days * 86400000 :: 64 word) = uint days * 86400000"
      using d by (simp add: uint_word_ariths)
    moreover from signed_take_bit_int_eq_self [of 63 "uint days * 86400000"] b have "signed_take_bit 63 (uint days * 86400000) = uint days * 86400000" by simp
    ultimately show ?thesis by (simp add: sint_uint)
  qed
  have n: "sint now < 2 ^ 63" using sint_lt [of now] by simp
  define k where "k = uint days * 86400000"
  have k: "0 \<le> k" "k < 2 ^ 59" using b by (simp_all only: k_def)
  have "signed_take_bit 63 (sint now - k) = sint now - k"
    by (rule signed_take_bit_int_eq_self) (use k n assms(1) in simp_all)
  then have "sint (now - ucast days * 86400000) = sint now - uint days * 86400000"
    using sint_word_diff [of now "ucast days * 86400000"] by (simp add: k_def p del: sint_word_diff)
  then show ?thesis
    using assms(2) by (simp add: sweep_cutoff_i64_def sweep_cutoff_def MS_PER_DAY_def)
qed

theorem sweep_cutoff_no_overflow_witness:
  "sint (sweep_cutoff_i64 1700000000000 4294967295) =
     sweep_cutoff 1700000000000 (audit_config_default\<lparr> au_retention_days := 4294967295 \<rparr>)"
  using sweep_cutoff_no_overflow [of 1700000000000 "audit_config_default\<lparr> au_retention_days := 4294967295 \<rparr>" 4294967295]
  by simp

section \<open>The end\<close>

text \<open>
  The daemon ends within the drain window after the signal, never
  before the signal, and its exit status tells whether a listener failed: it is 1
  exactly when all tasks were finished in time and one of the listeners had
  returned an error.
\<close>

theorem daemon_ends_after_signal:
  "(daemon_wait window None agent uds https sweeper = None) \<and>
   (\<exists>t r. daemon_wait window (Some now) agent uds https sweeper = Some (t, r) \<and> now \<le> t \<and> t \<le> now + window \<and>
      (main_exit r = 1 \<longleftrightarrow>
        (\<exists>d a u h e. join_tasks agent uds https sweeper = Some (d, a, u, h) \<and> d \<le> now + window \<and>
           (a = Some (Inl e) \<or> u = Some (Some (Inl e)) \<or> h = Some (Some (Inl e))))))"
proof -
  have res: "main_exit (daemon_result (Some (a, u, h))) = 1 \<longleftrightarrow>
      (\<exists>e. a = Some (Inl e) \<or> u = Some (Some (Inl e)) \<or> h = Some (Some (Inl e)))" for a u h
    by (auto simp: main_exit_def daemon_result_def listener_failure_def split: option.splits sum.splits bind_splits)
  have none: "main_exit (daemon_result None) \<noteq> 1" by (simp add: main_exit_def daemon_result_def)
  show ?thesis
  proof (cases "join_tasks agent uds https sweeper")
    case None
    then show ?thesis using none by (simp add: daemon_wait_def await_shutdown_then_drain_def drain_or_timeout_def)
  next
    case (Some x)
    obtain d a u h where x: "x = (d, a, u, h)" by (cases x) auto
    show ?thesis
      using none res [of a u h]
      by (auto simp: daemon_wait_def await_shutdown_then_drain_def drain_or_timeout_def Some x)
  qed
qed

text \<open>
  A listener that fails at once, for instance because its socket cannot be bound,
  ends nothing: the daemon keeps running without it until a signal arrives.
\<close>

lemma failed_listener_is_not_noticed:
  "daemon_wait window None (Some (0, Some (Inl ''address in use''))) uds https sweeper = None"
  by (simp add: daemon_wait_def await_shutdown_then_drain_def)

section \<open>A daemon that starts\<close>

text \<open>An operator's registration in the database, a configured tool without credential, no seed file.\<close>

definition sample_operator_row :: Registration where
  "sample_operator_row =
     \<lparr> rg_name = ''wiki'', rg_kind = Tool, rg_description = [], rg_upstream = ''http://w'', rg_auth = NoAuth,
       rg_egress = Direct, rg_timeouts = default_timeouts, rg_body_limit_bytes = 10, rg_metadata = JObj [],
       rg_seed = False, rg_disabled = False, rg_created_at = 1, rg_updated_at = 1 \<rparr>"

definition sample_database :: Database where
  "sample_database =
     \<lparr> db_agents = empty_agents, db_bootstrap = empty_bootstrap,
       db_registrations = \<lparr> rt_rows = [sample_operator_row], rt_seed_version = None \<rparr>,
       db_overrides = [], db_oauth = [], db_audit = [] \<rparr>"

definition sample_dn :: DaemonEnv where
  "sample_dn =
     \<lparr> dn_env = (\<lambda>_. None), dn_now = 5, dn_crypto = sample_crypto, dn_agent_salt = [], dn_operator_salt = [],
       dn_read = Some, dn_seed_file = (\<lambda>_. None), dn_sealed = (\<lambda>_. None), dn_utf8 = (\<lambda>_. True), dn_parent_ok = (\<lambda>_. True),
       dn_open_and_migrate = (\<lambda>_. Some sample_database), dn_seed_yaml = (\<lambda>_. None), dn_operators_yaml = (\<lambda>_. Some []),
       dn_split_path = (\<lambda>_. None),
       dn_sink_io = \<lparr> io_open_ok = (\<lambda>_. True), io_write_short = None, io_read_dir_ok = True, io_remove_ok = (\<lambda>_. True) \<rparr>,
       dn_sink_dir = (\<lambda>_. []), dn_sink_mkdir = True, dn_sink_stat = True, dn_key_b64 = (\<lambda>_. None),
       dn_pem = (\<lambda>t. Some [(''CERTIFICATE'', t)]), dn_regex = pe_regex sample_pe, dn_parse_ip = Some, dn_bind = (\<lambda>_. True) \<rparr>"

definition sample_dc :: DaemonConfig where
  "sample_dc =
     \<lparr> dc_app = sample_config\<lparr> ac_auth_mode := Both, ac_tools :=
         [\<lparr> tc_name = ''docs'', tc_description = [], tc_upstream = ''http://d'', tc_egress = Direct,
            tc_credential_handles = [], tc_request_allowlist = None, tc_auth = None,
            tc_timeouts = default_timeouts, tc_body_limit_bytes = 10, tc_response = None \<rparr>] \<rparr>,
       dc_listen = \<lparr> li_host = ''127.0.0.1'', li_port = 9200, li_admin_socket = Some ''admin.sock'', li_admin_https = None,
         li_mtls = Some \<lparr> mc_ca_bundle_path = ''ca.pem'', mc_server_cert_path = Some ''c'', mc_server_key_path = Some ''k'',
           mc_crl_url = None, mc_crl_refresh_interval_seconds = 3600, mc_blocklist_path = Some ''block'',
           mc_blocklist_reload_interval_seconds = 30 \<rparr>, li_bootstrap_only = None \<rparr>,
       dc_drain_window_seconds = DEFAULT_DRAIN_WINDOW_SECS, dc_operator_credentials_path = Some ''ops.yaml'',
       dc_database = Some ''l.db'', dc_audit = None \<rparr>"

lemma sample_dc_fields:
  "li_admin_socket (dc_listen sample_dc) = Some ''admin.sock''" "dc_database sample_dc = Some ''l.db''"
  "dc_operator_credentials_path sample_dc = Some ''ops.yaml''" "dc_audit sample_dc = None"
  "ac_auth_mode (dc_app sample_dc) = Both" "li_admin_https (dc_listen sample_dc) = None"
  by (simp_all add: sample_dc_def)

lemma sample_substrate:
  "\<exists>sub. open_admin_substrate sample_dn sample_dc ''l.db'' ''ops.yaml'' creds = Inr sub"
proof -
  have seed: "load_seed sample_dn t = (t, Inr ())" for t
    by (simp add: load_seed_def seed_path_from_env_def load_or_skip_def sample_dn_def)
  obtain t' where legacy: "import_legacy sample_dn (dc_app sample_dc) (db_registrations sample_database) = (t', Inr ())"
    by (simp add: import_legacy_def sample_dc_def sample_database_def sample_operator_row_def reg_get_def legacy_auth_def
          reg_create_def legacy_registration_def)
  have hash: "\<exists>h. argon2_hash sample_crypto [] s = Inr h" for s
    using argon2_hash_ok [OF sample_crypto_argon2] by metis
  obtain h where auth: "bearer_with_audit (dn_crypto sample_dn) (dn_agent_salt sample_dn) = Inr h"
    using hash [of "''decoy-secret-for-constant-time-on-miss-do-not-use-in-production''"]
    by (auto simp: bearer_with_audit_def sample_dn_def)
  have ops: "operators_load (dn_crypto sample_dn) (dn_operator_salt sample_dn) (dn_operators_yaml sample_dn)
      (dn_read sample_dn ''ops.yaml'') = Inr []"
    using hash [of "''decoy-operator-secret-for-constant-time-on-miss''"] by (auto simp: operators_load_def sample_dn_def)
  have key: "load_sealing_key sample_dn = Inr None" "open_sink sample_dn None = Inr None"
    by (simp_all add: load_sealing_key_def key_from_env_def open_sink_def sample_dn_def)
  have db: "dn_parent_ok sample_dn ''l.db''" "dn_open_and_migrate sample_dn ''l.db'' = Some sample_database"
    by (simp_all add: sample_dn_def)
  show ?thesis
    by (simp add: open_admin_substrate_def build_admin_substrate_def db seed legacy sample_dc_fields key auth ops)
qed

lemma sample_mtls: "\<exists>m. mtls_authenticator sample_dn sample_dc = Inr m" "bind_agent sample_dn sample_dc = Inr ()"
  by (simp_all add: mtls_authenticator_def bind_agent_def validator_new_def sample_dn_def sample_dc_def)

lemma sample_daemon_starts: "\<exists>rt. daemon_start sample_dn sample_dc = Some (Inr rt)"
proof -
  have creds: "resolve_tool_creds (dn_env sample_dn) (dn_sealed sample_dn) (dn_utf8 sample_dn) (ac_tools (dc_app sample_dc)) rs out
      = Some out" for rs out
    by (simp add: sample_dc_def)
  have admin: "check_admin sample_dc = Inr (Some (''admin.sock'', ''l.db'', ''ops.yaml''))"
    by (simp add: check_admin_def sample_dc_fields)
  obtain sub where sub: "open_admin_substrate sample_dn sample_dc ''l.db'' ''ops.yaml'' Map.empty = Inr sub"
    using sample_substrate ..
  obtain m where m: "mtls_authenticator sample_dn sample_dc = Inr m" using sample_mtls(1) ..
  have https: "admin_https sample_dn sample_dc u = Inr None" for u by (simp add: admin_https_def sample_dc_fields)
  show ?thesis
    by (simp add: daemon_start_def admin creds admin_substrate_def sub m sample_mtls(2) https)
qed

lemma sample_database_sound: "\<forall>path db. dn_open_and_migrate sample_dn path = Some db \<longrightarrow> database_inv db"
  by (auto simp: sample_dn_def sample_database_def database_inv_def agents_inv_def empty_agents_def
      bt_inv_def empty_bootstrap_def regs_inv_def)

theorem started_daemon_is_secured_witness:
  "\<exists>rt uds regs. daemon_start sample_dn sample_dc = Some (Inr rt) \<and> rn_admin rt = Some (''admin.sock'', uds) \<and>
     us_registrations uds = Some regs \<and> service_inv (us_admin uds) \<and> admin_inv regs"
proof -
  obtain rt where rt: "daemon_start sample_dn sample_dc = Some (Inr rt)" using sample_daemon_starts ..
  from started_daemon_is_secured [OF rt sample_dc_fields(1) sample_database_sound] rt show ?thesis by blast
qed

theorem restart_keeps_operator_decisions_witness:
  "\<exists>rt. daemon_start sample_dn sample_dc = Some (Inr rt) \<and>
     lookup_any ''wiki'' (ap_catalog (rn_app rt)) = Some sample_operator_row \<and>
     lookup_any ''docs'' (ap_catalog (rn_app rt)) \<noteq> None"
proof -
  obtain rt where rt: "daemon_start sample_dn sample_dc = Some (Inr rt)" using sample_daemon_starts ..
  have db: "dn_open_and_migrate sample_dn ''l.db'' = Some sample_database" "regs_inv (db_registrations sample_database)"
    by (simp_all add: sample_dn_def sample_database_def regs_inv_def)
  have row: "reg_get ''wiki'' (db_registrations sample_database) = Some sample_operator_row"
    by (simp add: reg_get_def sample_database_def sample_operator_row_def row_to_registration_def stored_limit_def)
  have tool: "\<exists>tool \<in> set (ac_tools (dc_app sample_dc)). tc_name tool = ''docs'' \<and> legacy_auth tool \<noteq> None"
    by (simp add: sample_dc_def legacy_auth_def)
  have own: "row_kept sample_operator_row r \<Longrightarrow> r = sample_operator_row" for r
    by (simp add: row_kept_def sample_operator_row_def)
  from restart_keeps_operator_decisions [OF rt sample_dc_fields(1,2) db] row tool own
  have "lookup_any ''wiki'' (ap_catalog (rn_app rt)) = Some sample_operator_row \<and>
      lookup_any ''docs'' (ap_catalog (rn_app rt)) \<noteq> None" by metis
  with rt show ?thesis by blast
qed

end
