(* ===== verification/Row_Codec.thy ===== *)
theory Row_Codec
  imports Bootstrap_Repo Secrets
begin

text \<open>
  Stored and configured text.  The \<open>agents\<close> and \<open>bootstrap_tokens\<close> tables keep
  lists, metadata and scopes as JSON text (\<open>AgentRow\<close> of \<open>src/repo/agent.rs\<close>,
  \<open>BootstrapRow\<close> of \<open>src/repo/bootstrap.rs\<close>); the repositories are modelled over
  the decoded records, which is what is justified here: a row written for a
  record reads back as that record.  Further the decoding of a secret reference
  of the configuration, \<open>src/secret/mod.rs\<close>.  The JSON codec is a parameter.
\<close>

section \<open>Definitions\<close>

subsection \<open>JSON columns\<close>

fun strings_of_jsons :: "json list \<Rightarrow> string list option" where
  "strings_of_jsons [] = Some []"
| "strings_of_jsons (JStr s # js) = map_option (Cons s) (strings_of_jsons js)"
| "strings_of_jsons _ = None"

definition strings_of_json :: "json \<Rightarrow> string list option" where
  "strings_of_json j = (case j of JArr js \<Rightarrow> strings_of_jsons js | _ \<Rightarrow> None)"

definition json_of_strings :: "string list \<Rightarrow> json" where
  "json_of_strings xs = JArr (map JStr xs)"

definition json_column :: "(string \<Rightarrow> json option) \<Rightarrow> (json \<Rightarrow> 'a option) \<Rightarrow> string option \<Rightarrow> (RepoError, 'a option) result" where
  "json_column from_json dec c =
     (case c of
        None \<Rightarrow> Inr None
      | Some t \<Rightarrow> (case Option.bind (from_json t) dec of None \<Rightarrow> Inl Json | Some v \<Rightarrow> Inr (Some v)))"

subsection \<open>Agents\<close>

record AgentRow =
  gr_id :: int
  gr_public_id :: string
  gr_name :: string
  gr_description :: "string option"
  gr_secret_hash :: string
  gr_tool_allowlist :: "string option"
  gr_tool_denylist :: "string option"
  gr_metadata :: "string option"
  gr_cert_identity :: "string option"
  gr_registered_at :: int
  gr_last_used_at :: "int option"
  gr_expires_at :: "int option"
  gr_revoked_at :: "int option"

definition agent_row :: "(json \<Rightarrow> string) \<Rightarrow> AgentRecord \<Rightarrow> AgentRow" where
  "agent_row to_json r =
     \<lparr> gr_id = ag_id r, gr_public_id = ag_public_id r, gr_name = ag_name r, gr_description = ag_description r,
       gr_secret_hash = ag_secret_hash r,
       gr_tool_allowlist = map_option (to_json \<circ> json_of_strings) (ag_tool_allowlist r),
       gr_tool_denylist = map_option (to_json \<circ> json_of_strings) (ag_tool_denylist r),
       gr_metadata = map_option to_json (ag_metadata r), gr_cert_identity = ag_cert_identity r,
       gr_registered_at = ag_registered_at r, gr_last_used_at = ag_last_used_at r,
       gr_expires_at = ag_expires_at r, gr_revoked_at = ag_revoked_at r \<rparr>"

definition agent_into_record :: "(string \<Rightarrow> json option) \<Rightarrow> AgentRow \<Rightarrow> (RepoError, AgentRecord) result" where
  "agent_into_record from_json r =
     (case json_column from_json strings_of_json (gr_tool_allowlist r) of
        Inl e \<Rightarrow> Inl e
      | Inr allow \<Rightarrow>
     (case json_column from_json strings_of_json (gr_tool_denylist r) of
        Inl e \<Rightarrow> Inl e
      | Inr deny \<Rightarrow>
     (case json_column from_json Some (gr_metadata r) of
        Inl e \<Rightarrow> Inl e
      | Inr metadata \<Rightarrow>
          Inr \<lparr> ag_id = gr_id r, ag_public_id = gr_public_id r, ag_name = gr_name r,
                ag_description = gr_description r, ag_secret_hash = gr_secret_hash r,
                ag_tool_allowlist = allow, ag_tool_denylist = deny, ag_metadata = metadata,
                ag_cert_identity = gr_cert_identity r, ag_registered_at = gr_registered_at r,
                ag_last_used_at = gr_last_used_at r, ag_expires_at = gr_expires_at r,
                ag_revoked_at = gr_revoked_at r \<rparr>)))"

subsection \<open>Bootstrap tokens\<close>

definition i64_of_json :: "json \<Rightarrow> int option" where
  "i64_of_json j = (case j of JNum n \<Rightarrow> if - (2 ^ 63) \<le> n \<and> n < 2 ^ 63 then Some n else None | _ \<Rightarrow> None)"

text \<open>The derived codec of \<open>BootstrapScope\<close>: an absent option reads as none, unknown fields are ignored.\<close>

definition json_of_scope :: "BootstrapScope \<Rightarrow> json" where
  "json_of_scope sc =
     JObj [(''tool_allowlist'', case sc_tool_allowlist sc of Some xs \<Rightarrow> json_of_strings xs | None \<Rightarrow> JNull),
           (''expires_at'', case sc_expires_at sc of Some n \<Rightarrow> JNum n | None \<Rightarrow> JNull),
           (''single_use'', JBool (sc_single_use sc))]"

definition option_field :: "(json \<Rightarrow> 'a option) \<Rightarrow> json option \<Rightarrow> 'a option option" where
  "option_field dec f =
     (case f of None \<Rightarrow> Some None | Some JNull \<Rightarrow> Some None | Some j \<Rightarrow> map_option Some (dec j))"

definition scope_of_fields :: "json option \<Rightarrow> json option \<Rightarrow> json option \<Rightarrow> BootstrapScope option" where
  "scope_of_fields allow expires single =
     do {
       xs \<leftarrow> option_field strings_of_json allow;
       n \<leftarrow> option_field i64_of_json expires;
       b \<leftarrow> (case single of Some (JBool b) \<Rightarrow> Some b | _ \<Rightarrow> None);
       Some \<lparr> sc_tool_allowlist = xs, sc_expires_at = n, sc_single_use = b \<rparr>
     }"

definition scope_of_json :: "json \<Rightarrow> BootstrapScope option" where
  "scope_of_json j =
     (case j of
        JObj m \<Rightarrow>
          if distinct (filter (\<lambda>k. k \<in> {''tool_allowlist'', ''expires_at'', ''single_use''}) (map fst m))
          then scope_of_fields (obj_get ''tool_allowlist'' m) (obj_get ''expires_at'' m) (obj_get ''single_use'' m)
          else None
      | JArr [a, e, s] \<Rightarrow> scope_of_fields (Some a) (Some e) (Some s)
      | _ \<Rightarrow> None)"

record BootstrapRow =
  br_id :: int
  br_public_id :: string
  br_secret_hash :: string
  br_scope :: string
  br_created_by :: string
  br_created_at :: int
  br_expires_at :: "int option"
  br_used_at :: "int option"
  br_used_by_agent_id :: "int option"
  br_revoked_at :: "int option"

definition bootstrap_row :: "(json \<Rightarrow> string) \<Rightarrow> BootstrapTokenRecord \<Rightarrow> BootstrapRow" where
  "bootstrap_row to_json r =
     \<lparr> br_id = bt_id r, br_public_id = bt_public_id r, br_secret_hash = bt_secret_hash r,
       br_scope = to_json (json_of_scope (bt_scope r)), br_created_by = bt_created_by r,
       br_created_at = bt_created_at r, br_expires_at = bt_expires_at r, br_used_at = bt_used_at r,
       br_used_by_agent_id = bt_used_by_agent_id r, br_revoked_at = bt_revoked_at r \<rparr>"

text \<open>The record of the source has no hash; the model's keeps the column that \<open>consume\<close> selects.\<close>

definition bootstrap_into_record :: "(string \<Rightarrow> json option) \<Rightarrow> BootstrapRow \<Rightarrow> (RepoError, BootstrapTokenRecord) result" where
  "bootstrap_into_record from_json r =
     (case Option.bind (from_json (br_scope r)) scope_of_json of
        None \<Rightarrow> Inl Json
      | Some scope \<Rightarrow>
          Inr \<lparr> bt_id = br_id r, bt_public_id = br_public_id r, bt_secret_hash = br_secret_hash r, bt_scope = scope,
                bt_created_by = br_created_by r, bt_created_at = br_created_at r, bt_expires_at = br_expires_at r,
                bt_used_at = br_used_at r, bt_used_by_agent_id = br_used_by_agent_id r,
                bt_revoked_at = br_revoked_at r \<rparr>)"

subsection \<open>Secret references\<close>

text \<open>The forms of the tagged map, none of which admits a field of its own invention.\<close>

definition form_fields :: "string list \<Rightarrow> (string \<times> json) list \<Rightarrow> bool" where
  "form_fields allowed m \<longleftrightarrow> distinct (map fst m) \<and> list_all (\<lambda>k. k \<in> set allowed) (map fst m)"

definition string_of_json :: "json \<Rightarrow> string option" where
  "string_of_json j = (case j of JStr s \<Rightarrow> Some s | _ \<Rightarrow> None)"

definition required_field :: "string \<Rightarrow> (string \<times> json) list \<Rightarrow> string option" where
  "required_field k m = Option.bind (obj_get k m) string_of_json"

definition secret_form :: "string \<Rightarrow> (string \<times> json) list \<Rightarrow> SecretRef option" where
  "secret_form key m =
     (if key = ''from_env'' \<and> form_fields [''var'', ''prefix''] m then do {
        v \<leftarrow> required_field ''var'' m;
        p \<leftarrow> option_field string_of_json (obj_get ''prefix'' m);
        Some (FromEnv v p)
      }
      else if key = ''from_file_sealed'' \<and> form_fields [''path''] m then
        map_option FromFileSealed (required_field ''path'' m)
      else if key = ''from_vault'' \<and> form_fields [''mount'', ''path'', ''field''] m then do {
        mo \<leftarrow> required_field ''mount'' m;
        p \<leftarrow> required_field ''path'' m;
        f \<leftarrow> required_field ''field'' m;
        Some (FromVault mo p f)
      }
      else if key = ''from_aws_secrets_manager'' \<and> form_fields [''secret_id'', ''version_stage'', ''field''] m then do {
        i \<leftarrow> required_field ''secret_id'' m;
        v \<leftarrow> option_field string_of_json (obj_get ''version_stage'' m);
        f \<leftarrow> option_field string_of_json (obj_get ''field'' m);
        Some (FromAwsSecretsManager i v f)
      }
      else None)"

definition secret_ref_of_json :: "json \<Rightarrow> SecretRef option" where
  "secret_ref_of_json v =
     (case v of
        JStr s \<Rightarrow> Some (LegacyString s)
      | JObj [(key, JObj m)] \<Rightarrow> secret_form key m
      | _ \<Rightarrow> None)"

section \<open>Lemmas\<close>

lemma strings_roundtrip [simp]: "strings_of_json (json_of_strings xs) = Some xs"
proof -
  have "strings_of_jsons (map JStr xs) = Some xs" by (induction xs) simp_all
  then show ?thesis by (simp add: strings_of_json_def json_of_strings_def)
qed

lemma option_field_simps [simp]:
  "option_field dec None = Some None" "option_field dec (Some JNull) = Some None"
  "option_field dec (Some (JNum n)) = map_option Some (dec (JNum n))"
  "option_field dec (Some (JStr s)) = map_option Some (dec (JStr s))"
  "option_field strings_of_json (Some (json_of_strings xs)) = Some (Some xs)"
  using strings_roundtrip [of xs] by (simp_all add: option_field_def json_of_strings_def)

lemma scope_roundtrip:
  assumes "\<forall>n. sc_expires_at sc = Some n \<longrightarrow> - (2 ^ 63) \<le> n \<and> n < 2 ^ 63"
  shows "scope_of_json (json_of_scope sc) = Some sc"
  using assms
  by (cases sc) (auto simp: scope_of_json_def json_of_scope_def scope_of_fields_def obj_get_def
      i64_of_json_def split: option.splits)

text \<open>The JSON values a record stores, and a codec that reads them back.\<close>

definition agent_values :: "AgentRecord \<Rightarrow> json list" where
  "agent_values r =
     map json_of_strings (case ag_tool_allowlist r of Some xs \<Rightarrow> [xs] | None \<Rightarrow> []) @
     map json_of_strings (case ag_tool_denylist r of Some xs \<Rightarrow> [xs] | None \<Rightarrow> []) @
     (case ag_metadata r of Some j \<Rightarrow> [j] | None \<Rightarrow> [])"

lemma agent_row_reads_back:
  assumes "\<forall>j \<in> set (agent_values r). from_json (to_json j) = Some j"
  shows "agent_into_record from_json (agent_row to_json r) = Inr r"
  using assms
  by (cases r) (auto simp: agent_into_record_def agent_row_def json_column_def agent_values_def split: option.splits)

lemma bootstrap_row_reads_back:
  assumes "from_json (to_json (json_of_scope (bt_scope r))) = Some (json_of_scope (bt_scope r))"
    and "\<forall>n. sc_expires_at (bt_scope r) = Some n \<longrightarrow> - (2 ^ 63) \<le> n \<and> n < 2 ^ 63"
  shows "bootstrap_into_record from_json (bootstrap_row to_json r) = Inr r"
  using scope_roundtrip [OF assms(2)] assms(1)
  by (cases r) (simp add: bootstrap_into_record_def bootstrap_row_def)

text \<open>
  A corrupt column is an error, never an account without its lists: an account
  whose list is unreadable is not treated as unrestricted.
\<close>

lemma corrupt_list_is_error:
  assumes "gr_tool_allowlist r = Some t" "Option.bind (from_json t) strings_of_json = None"
  shows "agent_into_record from_json r = Inl Json"
  using assms by (simp add: agent_into_record_def json_column_def)

text \<open>Every form of a reference but the resolved one can be written, and no other text is one.\<close>

fun json_of_secret_ref :: "SecretRef \<Rightarrow> json option" where
  "json_of_secret_ref (Inline s) = None"
| "json_of_secret_ref (LegacyString s) = Some (JStr s)"
| "json_of_secret_ref (FromEnv v p) =
     Some (JObj [(''from_env'', JObj ((''var'', JStr v) # (case p of Some x \<Rightarrow> [(''prefix'', JStr x)] | None \<Rightarrow> [])))])"
| "json_of_secret_ref (FromFileSealed p) = Some (JObj [(''from_file_sealed'', JObj [(''path'', JStr p)])])"
| "json_of_secret_ref (FromVault m p f) =
     Some (JObj [(''from_vault'', JObj [(''mount'', JStr m), (''path'', JStr p), (''field'', JStr f)])])"
| "json_of_secret_ref (FromAwsSecretsManager i v f) =
     Some (JObj [(''from_aws_secrets_manager'',
       JObj ((''secret_id'', JStr i) # (case v of Some x \<Rightarrow> [(''version_stage'', JStr x)] | None \<Rightarrow> []) @
             (case f of Some x \<Rightarrow> [(''field'', JStr x)] | None \<Rightarrow> [])))])"

lemmas secret_form_defs = secret_form_def form_fields_def required_field_def
  string_of_json_def obj_get_def

lemma secret_ref_roundtrip:
  "json_of_secret_ref r = Some v \<Longrightarrow> secret_ref_of_json v = Some r"
  by (cases r) (auto simp: secret_ref_of_json_def secret_form_defs split: option.splits)

lemma never_inline: "secret_ref_of_json v \<noteq> Some (Inline s)"
  by (auto simp: secret_ref_of_json_def secret_form_def split: json.splits list.splits bind_splits if_splits)

end
