(* ===== verification/Spec2Isabelle.thy ===== *)
theory Spec2Isabelle
  imports Listener_Props Proxy_Audit Cli_Props Daemon_Props Row_Codec
begin

text \<open>
  Verification of Agent Locksmith, a credential proxy for agents.

  \<^bold>\<open>The program.\<close>  Agents call the agent listener (\<open>src/src/app.rs\<close>).  The middleware
  (\<open>auth.rs\<close>) authenticates them by bearer token (\<open>auth_v2\<close>, \<open>token.rs\<close>) or client
  certificate (\<open>mtls\<close>), and the proxy (\<open>proxy.rs\<close>) checks the ACL, resolves the tool in
  the catalog of registrations (\<open>registrations\<close>) or in the configuration
  (\<open>config.rs\<close>), applies the request allowlist, replaces the agent's credential by the
  tool's own (a configured secret, \<open>secret\<close>; an override of the agent,
  \<open>repo/agent_creds.rs\<close>; a refreshed OAuth token, \<open>oauth\<close>), sends the request on a
  pooled client (\<open>client_pool.rs\<close>), controls the response (\<open>response_controls.rs\<close>) and
  records one audit row (\<open>repo/audit.rs\<close>, \<open>audit_sink.rs\<close>).  A tool that is not
  registered may be one of the Kamiwaza provider (\<open>kamiwaza.rs\<close>).  Operators and agents
  manage accounts, bootstrap tokens, registrations and OAuth sessions through the
  administration router (\<open>admin\<close>), which works on the same tables, and through the
  command line (\<open>cli\<close>).  The daemon (\<open>daemon.rs\<close>) builds all of it over one database,
  serves it and drains it on shutdown (\<open>shutdown.rs\<close>, \<open>agent_listener.rs\<close>).

  \<^bold>\<open>The theories\<close>, bottom up; definitions bear the names of the code.

  \<^item> \<open>Prelude\<close>: results, the string operations of the standard library, JSON values,
    headers and table rows.  \<open>Interfaces\<close>: the contracts \<open>invariant_system\<close>,
    \<open>stable_fact\<close> and \<open>kv_store\<close>, interpreted by the agent, bootstrap-token,
    registration, override, session and service tables and by the shutdown
    coordinator; \<open>base64url\<close> (in \<open>Token\<close>) and \<open>agent_authenticator\<close> (in \<open>Agent_Auth\<close>)
    are interpreted by the RFC 4648 codec and by the two authenticators.
  \<^item> \<open>Token\<close>, \<open>Crypto\<close>: structured tokens and the primitives.  A generated token parses
    back, and the parser accepts exactly the wire formats.
  \<^item> \<open>Audit_Event\<close>, \<open>Audit_Sink\<close>, \<open>Audit_Repo\<close>: events, JSONL mirror with rotation, insertion,
    sweep and query; queries return what was recorded.
  \<^item> \<open>Agent_Repo\<close>, \<open>Bootstrap_Repo\<close>, \<open>Agent_Creds\<close>, \<open>Row_Codec\<close>: the tables of accounts,
    enrolment tokens and overrides.  Unique keys are invariant, revocation and use are
    final, concurrent rotations cannot both win, overrides refine a finite map, and
    stored rows read back as the records of the model.
  \<^item> \<open>Agent_Auth\<close>, \<open>Mtls\<close>, \<open>Request\<close>, \<open>Auth_Middleware\<close>: authentication.  An accepted header
    or certificate belongs to an active account; the middleware runs a handler only
    under such an identity.
  \<^item> \<open>Config\<close>, \<open>Secrets\<close>: configuration, validation, deprecations, secret resolution.
  \<^item> \<open>Registrations\<close>, \<open>Seed_Loader\<close>, \<open>Registrations_Api\<close>: the registrations table, its start-up
    sources and its handlers; the catalog stays in step with the table.
  \<^item> \<open>Oauth_Session\<close>, \<open>Oauth_Refresh\<close>: sealed sessions, refresh and their administration.
  \<^item> \<open>Http\<close>, \<open>Response_Controls\<close>, \<open>Codex_Body\<close>, \<open>Client_Pool\<close>, \<open>Kamiwaza\<close>, \<open>Skill\<close>: the parts of
    the request path, each with its own specification.
  \<^item> \<open>App_State\<close>, \<open>Proxy_Target\<close>, \<open>Proxy\<close>, \<open>App\<close>: the state and its constructors, the request
    path and the routes.  \<open>Proxy_Props\<close>, \<open>Proxy_Audit\<close>, \<open>Listener_Props\<close>: what leaves, with
    which credential, on whose behalf, and what is recorded.
  \<^item> \<open>Admin_Service\<close>, \<open>Admin_Props\<close>, \<open>Admin_Uds\<close>, \<open>Admin_Uds_Props\<close>: the administration
    operations as a step relation, and the router with its middlewares.  Operator
    routes need an operator, self-service reaches the own account only, and every
    request keeps the invariants of the tables.
  \<^item> \<open>Cli\<close>, \<open>Cli_Commands\<close>, \<open>Cli_Offline\<close>, \<open>Cli_Props\<close>: the command line.  Its requests are
    routes of the router, a revocation that is reported took effect, a minted operator
    credential is accepted by the daemon that loads it, tables are aligned.
  \<^item> \<open>Shutdown\<close>, \<open>Agent_Listener\<close>, \<open>Daemon\<close>, \<open>Daemon_Props\<close>: the coordinator as interleaved
    atomic steps, the TLS front, start-up, retention and the end of the process.
  \<^item> This theory: revocation across both listeners, and soundness from start-up on.

  \<^bold>\<open>Modelling.\<close>  State is a record passed through each operation; a result is
  \<open>(error, value) result\<close>.  A shared table appears in the state of every component that
  holds a handle on it, and theorems across components say that the two agree.  A
  \<open>String\<close> is its bytes; times and row ids are integers, words are used where the
  width matters (status codes of stored rows, the retention cutoff).  Clock,
  randomness, environment, file system and remote replies are arguments.  Libraries
  are parameters: base64, Argon2, AEAD, JSON and YAML text, X.509, TLS, regular
  expressions, URL parsing and the extractors of the web framework.  What is assumed of
  them is named: \<open>b64_ok\<close>, \<open>argon2_ok\<close> (in which distinct secrets do not collide, the
  usual idealisation), \<open>aead_ok\<close>, \<open>tls_handshake\<close> and the read-back of printed JSON;
  every theorem that uses one has an instance.

  \<^bold>\<open>Loops.\<close>  The expansion of variables restarts after each substitution and may not
  end; it is a partial function into \<open>option\<close>, and \<open>expansion_terminates\<close> gives the
  condition under which it returns.  All other loops are structural or come with a
  measure; background tasks and accept loops run over a list of turns of any length.
  No fuel is used.

  \<^bold>\<open>Departures.\<close>  Where modelling showed that the code does not do what it announces,
  a lemma proves it on the definitions, next to the component it concerns.

  \<^bold>\<open>Not modelled.\<close>  The HTTP and TLS servers below the routers (\<open>admin/https.rs\<close> and the
  \<open>bind_and_serve\<close> of \<open>admin/bootstrap_listener.rs\<close>), SQL migrations and the SQL engine
  (a statement is one atomic step on a table), log output (\<open>telemetry.rs\<close>), argument
  parsing of the command line, its HTTPS transport, the two secret backends that are
  stubs (\<open>secret/vault.rs\<close>, \<open>secret/aws.rs\<close>), in-file tests, and the decoding of whole
  configuration and request bodies, which is derived by a library.  Each of these
  either only calls a library or has no state of its own.
\<close>

section \<open>Administration and agent listener together\<close>

text \<open>
  Property C4: when an operator's request to revoke an agent is answered with
  204, then after any later requests to the administration listener the agent
  listener, which shares the agent table, never again runs a request under that
  agent: a request on an authenticated path is either refused or stamped, by
  bearer token or client certificate, with the identity of another, active
  account.
\<close>

theorem revoked_agent_is_locked_out:
  assumes "service_inv (us_admin s)"
    and "admin_route s (rq_path req) = ORevoke n" "rq_method req = ''POST''" "ue_percent_decode ue n = Some pid"
    and "admin_serve ue req s = (s1, resp)" "rs_status resp = 204"
    and "ap_agents st = sv_agents (us_admin (admin_run later s1))" "ap_agent_auth st" "\<not> open_request areq"
  shows "(\<exists>a e. auth_middleware pe nxt areq st = (auth_commit a st, auth_error_response e)) \<or>
         (\<exists>a how ident. active_account (auth_view st) ident \<and> ai_public_id ident \<noteq> pid \<and>
            auth_middleware pe nxt areq st =
              nxt (areq\<lparr> rq_auth := Some how, rq_identity := Some ident \<rparr>) (auth_commit a st))"
proof -
  have i1: "service_inv (us_admin s1)"
    using admin_serve_steps [of s ue req] assms(1,5) service.reach_inv by fastforce
  have "revoked pid (sv_agents (us_admin s1))" by (rule revoke_request_revokes [OF assms(2-5)]) (simp add: assms(6))
  with service_revocation.reach_fact [OF admin_run_steps i1] have rev: "revoked pid (as_agents (auth_view st))"
    by (simp add: auth_view_def assms(7))
  have inv: "agents_inv (as_agents (auth_view st))"
    using service.reach_inv [OF admin_run_steps i1, of later] by (simp add: service_inv_def auth_view_def assms(7))
  have "authenticated_run nxt areq st (auth_middleware pe nxt areq st)" by (rule auth_middleware_cases [OF assms(8,9)])
  then show ?thesis
  proof cases
    case (admit ident how a)
    with revoked_not_active [OF inv rev admit(2)] show ?thesis by blast
  qed blast
qed

definition sample_row :: AgentRecord where
  "sample_row =
     \<lparr> ag_id = 1, ag_public_id = ''x'', ag_name = ''bot'', ag_description = None, ag_secret_hash = ''h'',
       ag_tool_allowlist = None, ag_tool_denylist = None, ag_metadata = None, ag_cert_identity = None,
       ag_registered_at = 0, ag_last_used_at = None, ag_expires_at = None, ag_revoked_at = None \<rparr>"

definition revoke_ue :: UdsEnv where
  "revoke_ue = sample_ue\<lparr> ue_pki :=
     \<lparr> pk_parse = (\<lambda>_. Inr \<lparr> x_not_before = 0, x_not_after = 10, x_serial = [],
                               x_common_name = Some (Some ''alice''), x_san = None \<rparr>),
       pk_ee = (\<lambda>_. Inr ()), pk_anchor_ok = (\<lambda>_. True), pk_verify = (\<lambda>_ _ _. True) \<rparr> \<rparr>"

definition revoke_uds :: UdsState where
  "revoke_uds = sample_uds\<lparr>
     us_admin := sample_service\<lparr> sv_agents := \<lparr> at_rows = [sample_row], at_last_id = 1 \<rparr> \<rparr>,
     us_operators := [\<lparr> or_name = ''alice'', or_public_id = ''p'', or_token_hash = ''h'', or_scope = None,
                        or_cert_identity = Some ''alice'' \<rparr>],
     us_operator_mtls := Some \<lparr> om_auth_mode = Mtls,
       om_validator = \<lparr> mv_roots = [''root''], mv_crl = None, mv_blocklist = None \<rparr> \<rparr> \<rparr>"

definition revoke_req :: Request where
  "revoke_req = sample_admin_req\<lparr> rq_peer_cert := Some ''cert'' \<rparr>"

lemma revoke_route: "admin_route revoke_uds (rq_path revoke_req) = ORevoke ''x''"
  using sample_admin_route
  by (simp add: revoke_req_def revoke_uds_def admin_route_def operator_route_def sample_uds_def sample_admin_req_def)

lemma revoke_answered: "rs_status (snd (admin_serve revoke_ue revoke_req revoke_uds)) = 204"
proof -
  have v: "mtls_validate (ue_pki revoke_ue) (ae_now (ue_ae revoke_ue))
      \<lparr> mv_roots = [''root''], mv_crl = None, mv_blocklist = None \<rparr> ''cert'' =
      Inr \<lparr> mi_value = ''alice'', mi_kind = ''cn'', mi_serial_hex = hex_serial [] \<rparr>"
    by (simp add: mtls_validate_def revoke_ue_def sample_ue_def extract_identity_def Let_def)
  have m: "rq_method revoke_req = ''POST''" "rq_peer_cert revoke_req = Some ''cert''"
    "ue_percent_decode revoke_ue ''x'' = Some ''x''"
    by (simp_all add: revoke_req_def sample_admin_req_def revoke_ue_def sample_ue_def)
  have serve: "admin_serve revoke_ue revoke_req revoke_uds =
      operator_auth_middleware revoke_ue (operator_handler revoke_ue (ORevoke ''x'')) revoke_req revoke_uds"
    by (simp add: admin_serve_def revoke_route operator_routes_def)
  show ?thesis
    unfolding serve
    by (simp add: operator_auth_middleware_def revoke_uds_def m operator_cert_def v authenticate_cert_identity_def
          operator_handler_def operator_mount_def Let_def on_methods_def with_name_def op_revoke_agent_def answer_def with_admin_def
          revoke_agent_def agent_revoke_def agent_update_def rows_affected_def lift_repo_def sample_row_def no_content_def)
qed

theorem revoked_agent_is_locked_out_witness:
  "let s1 = fst (admin_serve revoke_ue revoke_req revoke_uds);
       st = sample_app\<lparr> ap_agents := sv_agents (us_admin s1) \<rparr>
   in (\<exists>a e. auth_middleware sample_pe (dispatch sample_pe) sample_request st = (auth_commit a st, auth_error_response e)) \<or>
      (\<exists>a how ident. active_account (auth_view st) ident \<and> ai_public_id ident \<noteq> ''x'' \<and>
         auth_middleware sample_pe (dispatch sample_pe) sample_request st =
           dispatch sample_pe (sample_request\<lparr> rq_auth := Some how, rq_identity := Some ident \<rparr>) (auth_commit a st))"
proof -
  let ?s1 = "fst (admin_serve revoke_ue revoke_req revoke_uds)"
  let ?st = "sample_app\<lparr> ap_agents := sv_agents (us_admin ?s1) \<rparr>"
  have inv: "service_inv (us_admin revoke_uds)"
    by (simp add: revoke_uds_def service_inv_def agents_inv_def sample_row_def)
  have m: "rq_method revoke_req = ''POST''" "ue_percent_decode revoke_ue ''x'' = Some ''x''"
    by (simp_all add: revoke_req_def sample_admin_req_def revoke_ue_def sample_ue_def)
  have st: "ap_agents ?st = sv_agents (us_admin (admin_run [] ?s1))" "ap_agent_auth ?st" by (simp_all add: sample_app_def)
  have "\<not> open_request sample_request"
    by (rule api_not_open) (simp add: sample_request_def starts_with_def)
  from revoked_agent_is_locked_out [OF inv revoke_route m surjective_pairing revoke_answered st this]
  show ?thesis by (simp add: Let_def)
qed

section \<open>From start-up on\<close>

text \<open>
  Property C12: what start-up establishes lasts.  From a well-formed database, after
  the daemon has started and any requests to the administration router have been
  served, agent and bootstrap tables are sound and the catalog is in step with
  the registrations: every name is answered as the table has it.
\<close>

theorem booted_daemon_stays_sound:
  assumes "daemon_start dn dc = Some (Inr rt)" "li_admin_socket (dc_listen dc) = Some sock"
    and "\<forall>path db. dn_open_and_migrate dn path = Some db \<longrightarrow> database_inv db"
    and "rn_admin rt = Some (sock, uds)"
  shows "service_inv (us_admin (admin_run reqs uds)) \<and>
         (\<exists>regs cat. us_registrations (admin_run reqs uds) = Some regs \<and> ad_catalog regs = Some cat \<and>
            (\<forall>n. lookup_any n cat = reg_get n (ad_repo regs)))"
proof -
  from started_state [OF assms(1-3)] assms(4) have uds: "service_inv (us_admin uds)" "regs_sound uds"
    by (auto simp: regs_sound_def live_regs_def)
  then show ?thesis
    using service.reach_inv [OF admin_run_steps uds(1), of reqs] admin_run_regs [OF uds(2), of reqs]
    by (auto simp: regs_sound_def live_regs_def admin_inv_def)
qed

theorem booted_daemon_stays_sound_witness:
  "\<exists>rt uds regs cat. daemon_start sample_dn sample_dc = Some (Inr rt) \<and> rn_admin rt = Some (''admin.sock'', uds) \<and>
     us_registrations (admin_run [(sample_ue, sample_admin_req)] uds) = Some regs \<and> ad_catalog regs = Some cat"
proof -
  obtain rt where rt: "daemon_start sample_dn sample_dc = Some (Inr rt)" using sample_daemon_starts ..
  from started_state [OF rt sample_dc_fields(1) sample_database_sound] obtain uds where
    uds: "rn_admin rt = Some (''admin.sock'', uds)" by blast
  from booted_daemon_stays_sound [OF rt sample_dc_fields(1) sample_database_sound uds, of "[(sample_ue, sample_admin_req)]"] rt uds
  show ?thesis by blast
qed

end
